(* ===== verification/Clock.thy ===== *)
theory Clock
  imports Prelude
begin

text \<open>
  Points in time and the two texts the lite (SQLite) mode writes for them.

  An instant is its number of nanoseconds since 1970-01-01T00:00:00Z. The Rust side formats
  with chrono and the pattern \<open>%Y-%m-%dT%H:%M:%fZ\<close>, where chrono's \<open>%f\<close> is the nanoseconds
  within the second as nine digits and no field prints the seconds; the SQL side uses SQLite's
  \<open>strftime\<close> with the same pattern, where \<open>%f\<close> is \<open>SS.SSS\<close>. The calendar part
  \<open>%Y-%m-%dT%H:%M:\<close> is the same text in both; it is computed by chrono and by SQLite and is
  the parameter \<open>mf\<close> here, a function of the minute. The code relies on its width being fixed
  and its byte order being chronological (\<open>minute_text\<close>, years 1970 to 9999).
\<close>

type_synonym instant = nat

definition nanos_per_sec :: nat where "nanos_per_sec = 10 ^ 9"

definition minute_of :: "instant \<Rightarrow> nat" where
  "minute_of t = t div (60 * nanos_per_sec)"

definition second_of :: "instant \<Rightarrow> nat" where
  "second_of t = t div nanos_per_sec mod 60"

definition milli_of :: "instant \<Rightarrow> nat" where
  "milli_of t = t div 10 ^ 6 mod 1000"

definition nano_of :: "instant \<Rightarrow> nat" where
  "nano_of t = t mod nanos_per_sec"

text \<open>\<open>timestamp()\<close> of an instant: whole seconds.\<close>

definition timestamp :: "instant \<Rightarrow> nat" where
  "timestamp t = t div nanos_per_sec"

definition secs :: "nat \<Rightarrow> nat" where "secs n = n * nanos_per_sec"

definition chrono_tail :: "instant \<Rightarrow> string" where
  "chrono_tail t = pad_nat 9 (nano_of t) @ ''Z''"

definition sqlite_tail :: "instant \<Rightarrow> string" where
  "sqlite_tail t = pad_nat 2 (second_of t) @ ''.'' @ pad_nat 3 (milli_of t) @ ''Z''"

definition chrono_text :: "(nat \<Rightarrow> string) \<Rightarrow> instant \<Rightarrow> string" where
  "chrono_text mf t = mf (minute_of t) @ chrono_tail t"

definition sqlite_text :: "(nat \<Rightarrow> string) \<Rightarrow> instant \<Rightarrow> string" where
  "sqlite_text mf t = mf (minute_of t) @ sqlite_tail t"

definition max_minute :: nat where "max_minute = 4223371680"

definition minute_text :: "(nat \<Rightarrow> string) \<Rightarrow> bool" where
  "minute_text mf \<longleftrightarrow>
     (\<forall>m. length (mf m) = 17) \<and>
     (\<forall>m n. m < n \<and> n < max_minute \<longrightarrow> str_less (mf m) (mf n))"

lemma minute_text_pad: "minute_text (pad_nat 17)"
  by (auto simp: minute_text_def max_minute_def intro!: pad_nat_less)

lemma minute_of_mono: "s \<le> t \<Longrightarrow> minute_of s \<le> minute_of t"
  by (simp add: minute_of_def div_le_mono)

text \<open>Across minutes the two texts compare as the instants do, whichever side printed them.\<close>

lemma text_less_across_minutes:
  assumes "minute_text mf" and "m < n" and "n < max_minute"
  shows "str_less (mf m @ x) (mf n @ y)"
  using assms by (auto simp: minute_text_def intro!: str_less_append)

lemma sqlite_less_chrono_later:
  assumes "minute_text mf" and "minute_of s < minute_of t" and "minute_of t < max_minute"
  shows "str_less (sqlite_text mf s) (chrono_text mf t)"
  using assms by (simp add: sqlite_text_def chrono_text_def text_less_across_minutes)

lemma chrono_less_sqlite_later:
  assumes "minute_text mf" and "minute_of s < minute_of t" and "minute_of t < max_minute"
  shows "str_less (chrono_text mf s) (sqlite_text mf t)"
  using assms by (simp add: sqlite_text_def chrono_text_def text_less_across_minutes)

text \<open>Within one minute the seconds are compared with the leading digits of the nanoseconds.\<close>

lemma same_minute_compares_tails:
  "minute_of s = minute_of t \<Longrightarrow>
   str_less (sqlite_text mf s) (chrono_text mf t) = str_less (sqlite_tail s) (chrono_tail t)"
  by (simp add: sqlite_text_def chrono_text_def)

lemma second_of_less: "second_of t < 60"
  by (simp add: second_of_def)

lemma nano_of_less: "nano_of t < 10 ^ 9"
  by (simp add: nano_of_def nanos_per_sec_def)

lemma pad_nat_split: "pad_nat (a + b) n = pad_nat a (n div 10 ^ b) @ pad_nat b (n mod 10 ^ b)"
proof (induction b arbitrary: n)
  case 0
  then show ?case by simp
next
  case (Suc b)
  have "n mod (10 * 10 ^ b) div 10 = n div 10 mod 10 ^ b"
    and "n mod (10 * 10 ^ b) mod 10 = n mod 10"
    by (simp_all add: mod_mult2_eq)
  with Suc [of "n div 10"] show ?case by (simp add: div_mult2_eq)
qed

text \<open>The first two digits of the nanoseconds, the hundredths of the second.\<close>

definition centi_of :: "instant \<Rightarrow> nat" where
  "centi_of t = nano_of t div 10 ^ 7"

lemma chrono_tail_split: "chrono_tail t = pad_nat 2 (centi_of t) @ pad_nat 7 (nano_of t mod 10 ^ 7) @ ''Z''"
  using pad_nat_split [of 2 7 "nano_of t"] by (simp add: chrono_tail_def centi_of_def)

lemma centi_of_less: "centi_of t < 100"
  using nano_of_less [of t] by (simp add: centi_of_def div_less_iff_less_mult)

lemma tail_less_iff:
  assumes "centi_of t \<noteq> second_of s"
  shows "str_less (sqlite_tail s) (chrono_tail t) \<longleftrightarrow> second_of s < centi_of t"
proof (cases "second_of s < centi_of t")
  case True
  then have "str_less (pad_nat 2 (second_of s)) (pad_nat 2 (centi_of t))"
    using centi_of_less [of t] by (intro pad_nat_less) simp_all
  with True show ?thesis
    unfolding sqlite_tail_def chrono_tail_split by (simp add: str_less_append del: pad_nat.simps)
next
  case False
  with assms have "centi_of t < second_of s" by simp
  then have "str_less (pad_nat 2 (centi_of t)) (pad_nat 2 (second_of s))"
    using second_of_less [of s] by (intro pad_nat_less) simp_all
  then have "str_less (chrono_tail t) (sqlite_tail s)"
    unfolding sqlite_tail_def chrono_tail_split by (simp add: str_less_append del: pad_nat.simps)
  with False show ?thesis by (simp add: str_less_asym)
qed

end
