(* ===== verification/State_Traits.thy ===== *)
theory State_Traits
  imports Clock
begin

text \<open>
  The state-layer traits of \<open>pichost-core/src/state/mod.rs\<close> with their data, and the queue
  payload of \<open>pichost-core/src/models.rs\<close>. A trait object is what a client sees: the contracts
  its clients rely on are the locales of this theory; the theories of the backends interpret
  them on the code's operations.
\<close>

section \<open>Data of the traits\<close>

datatype nack_action = Retry | DeadLetter

datatype queue_error = QOther string

datatype limiter_error = LOther string

datatype blacklist_error = BOther string

datatype invite_error = IOther string

datatype cache_error = COther string

record rate_limit_result =
  allowed :: bool
  retry_after :: nat

datatype invite_verify_status = Valid | Used | Expired | NotFoundCode

record invite_code_info =
  ic_code :: string
  ic_created_by :: "uuid option"
  ic_created_at :: nat
  ic_expires_at :: "nat option"
  ic_used_by :: "uuid option"

text \<open>Payload for image processing tasks; the counters are \<open>i32\<close>.\<close>

record task_payload =
  task_id :: uuid
  image_id :: uuid
  tp_user_id :: uuid
  tp_storage_backend :: string
  tp_storage_config_id :: "uuid option"
  storage_backend_name :: string
  source_key :: string
  source_mime :: string
  retry_count :: int
  max_retries :: int

section \<open>The traits\<close>

text \<open>
  A trait object is a record of its methods over a state \<open>'b\<close>, \<open>'i\<close> or \<open>'c\<close>; each method may fail.
\<close>

record 'b blacklist_ops =
  bo_check :: "'b \<Rightarrow> instant \<Rightarrow> string \<Rightarrow> blacklist_error + bool"
  bo_revoke :: "'b \<Rightarrow> instant \<Rightarrow> string \<Rightarrow> nat \<Rightarrow> (blacklist_error + unit) \<times> 'b"

record 'l limiter_ops =
  lo_check :: "'l \<Rightarrow> instant \<Rightarrow> string \<Rightarrow> string \<Rightarrow> nat \<Rightarrow> nat \<Rightarrow> (limiter_error + rate_limit_result) \<times> 'l"

record 'i invite_ops =
  io_create :: "'i \<Rightarrow> instant \<Rightarrow> string \<Rightarrow> uuid \<Rightarrow> nat \<Rightarrow> (invite_error + unit) \<times> 'i"
  io_verify :: "'i \<Rightarrow> instant \<Rightarrow> string \<Rightarrow> invite_error + bool"
  io_consume :: "'i \<Rightarrow> instant \<Rightarrow> string \<Rightarrow> uuid \<Rightarrow> (invite_error + unit) \<times> 'i"
  io_list :: "'i \<Rightarrow> instant \<Rightarrow> (invite_error + invite_code_info list) \<times> 'i"
  io_verify_detail :: "'i \<Rightarrow> instant \<Rightarrow> string \<Rightarrow> invite_error + invite_verify_status"

text \<open>The text a cache value is serialised to is a value of \<open>'v\<close>; blobs are bytes.\<close>

record ('c, 'v) cache_ops =
  co_get :: "'c \<Rightarrow> instant \<Rightarrow> string \<Rightarrow> cache_error + 'v option"
  co_set_ex :: "'c \<Rightarrow> instant \<Rightarrow> string \<Rightarrow> 'v \<Rightarrow> nat \<Rightarrow> (cache_error + unit) \<times> 'c"
  co_del :: "'c \<Rightarrow> instant \<Rightarrow> string \<Rightarrow> (cache_error + unit) \<times> 'c"
  co_incr :: "'c \<Rightarrow> instant \<Rightarrow> string \<Rightarrow> nat \<Rightarrow> (cache_error + nat) \<times> 'c"
  co_get_bytes :: "'c \<Rightarrow> instant \<Rightarrow> string \<Rightarrow> cache_error + string option"
  co_set_ex_bytes :: "'c \<Rightarrow> instant \<Rightarrow> string \<Rightarrow> string \<Rightarrow> nat \<Rightarrow> (cache_error + unit) \<times> 'c"

record 'q queue_ops =
  qo_enqueue :: "'q \<Rightarrow> instant \<Rightarrow> task_payload \<Rightarrow> (queue_error + unit) \<times> 'q"
  qo_dequeue :: "'q \<Rightarrow> instant \<Rightarrow> (queue_error + task_payload option) \<times> 'q"
  qo_ack :: "'q \<Rightarrow> instant \<Rightarrow> uuid \<Rightarrow> (queue_error + unit) \<times> 'q"
  qo_nack :: "'q \<Rightarrow> instant \<Rightarrow> uuid \<Rightarrow> int \<Rightarrow> int \<Rightarrow> (queue_error + nack_action) \<times> 'q"

text \<open>The code of the callers treats a failing check as a revoked token.\<close>

definition refused :: "'b blacklist_ops \<Rightarrow> 'b \<Rightarrow> instant \<Rightarrow> string \<Rightarrow> bool" where
  "refused bl s now jti = res_unwrap_or (bo_check bl s now jti) True"

definition revoked_in :: "'b blacklist_ops \<Rightarrow> 'b \<Rightarrow> instant \<Rightarrow> string \<Rightarrow> nat \<Rightarrow> 'b" where
  "revoked_in bl s now jti ttl = snd (bo_revoke bl s now jti ttl)"

section \<open>The no-op cache of the lite mode\<close>

text \<open>Every read misses, every write is dropped, the counter is always 1.\<close>

definition noop_get :: "string \<Rightarrow> cache_error + string option" where
  "noop_get key = Inr None"

definition noop_set_ex :: "string \<Rightarrow> string \<Rightarrow> nat \<Rightarrow> cache_error + unit" where
  "noop_set_ex key val ttl = Inr ()"

definition noop_exists :: "string \<Rightarrow> cache_error + bool" where
  "noop_exists key = Inr False"

definition noop_incr :: "string \<Rightarrow> nat \<Rightarrow> cache_error + nat" where
  "noop_incr key ttl = Inr 1"

section \<open>Contracts\<close>

text \<open>
  A token blacklist: \<open>revoke s now jti ttl\<close> and \<open>check s now jti\<close>. \<open>covers t ttl t'\<close> says that a
  revocation made at \<open>t\<close> for \<open>ttl\<close> seconds is in force at \<open>t'\<close>.
\<close>

locale token_blacklist =
  fixes revoke :: "'s \<Rightarrow> instant \<Rightarrow> string \<Rightarrow> nat \<Rightarrow> 's"
    and check :: "'s \<Rightarrow> instant \<Rightarrow> string \<Rightarrow> bool"
    and covers :: "instant \<Rightarrow> nat \<Rightarrow> instant \<Rightarrow> bool"
  assumes check_revoked: "covers t ttl t' \<Longrightarrow> check (revoke s t jti ttl) t' jti"
    and check_other: "jti \<noteq> jti' \<Longrightarrow> check (revoke s t jti ttl) t' jti' = check s t' jti'"
begin

lemma check_both:
  assumes "covers t ttl t'" and "covers t ttl2 t'"
  shows "check (revoke (revoke s t a ttl) t b ttl2) t' a \<and>
         check (revoke (revoke s t a ttl) t b ttl2) t' b"
  using assms by (cases "a = b") (auto simp: check_other check_revoked)

lemma check_fold_frame:
  "jti \<notin> fst ` set rs \<Longrightarrow>
   check (fold (\<lambda>(j, ttl) s. revoke s t j ttl) rs s) t' jti = check s t' jti"
  by (induction rs arbitrary: s) (auto simp: check_other)

end

text \<open>
  A rate limiter: one hit on a key at an instant, and the number of hits already counted for
  the key in the window of that instant.
\<close>

locale rate_limiter =
  fixes hit :: "'s \<Rightarrow> instant \<Rightarrow> 'k \<Rightarrow> nat \<Rightarrow> bool \<times> 's"
    and hits :: "'s \<Rightarrow> instant \<Rightarrow> 'k \<Rightarrow> nat"
  assumes hit_allowed: "fst (hit s now k limit) \<longleftrightarrow> hits s now k < limit"
    and hits_same: "hits (snd (hit s now k limit)) now k = Suc (hits s now k)"
    and hits_other: "k \<noteq> k' \<Longrightarrow> hits (snd (hit s now k limit)) t k' = hits s t k'"
begin

primrec burst :: "nat \<Rightarrow> 's \<Rightarrow> instant \<Rightarrow> 'k \<Rightarrow> nat \<Rightarrow> bool list \<times> 's" where
  "burst 0 s now k limit = ([], s)"
| "burst (Suc n) s now k limit =
     (let (ok, s') = hit s now k limit; (oks, s'') = burst n s' now k limit in (ok # oks, s''))"

lemma burst_hits: "hits (snd (burst n s now k limit)) now k = hits s now k + n"
  by (induction n arbitrary: s)
    (auto simp: Let_def split_beta hits_same)

lemma burst_allowed:
  "length (filter id (fst (burst n s now k limit))) = min n (limit - hits s now k)"
proof (induction n arbitrary: s)
  case 0
  then show ?case by simp
next
  case (Suc n)
  have IH: "length (filter id (fst (burst n (snd (hit s now k limit)) now k limit))) =
      min n (limit - Suc (hits s now k))"
    by (simp only: Suc hits_same)
  then show ?case
    by (cases "hits s now k < limit") (simp_all add: Let_def split_beta hit_allowed id_def)
qed

lemma burst_other:
  "k \<noteq> k' \<Longrightarrow> hits (snd (burst n s now k limit)) t k' = hits s t k'"
  by (induction n arbitrary: s) (auto simp: Let_def split_beta hits_other)

end

text \<open>
  An invite store whose codes are good for one registration: consuming succeeds once.
\<close>

locale invite_store =
  fixes create :: "'s \<Rightarrow> instant \<Rightarrow> string \<Rightarrow> uuid \<Rightarrow> nat \<Rightarrow> (invite_error + unit) \<times> 's"
    and consume :: "'s \<Rightarrow> string \<Rightarrow> uuid \<Rightarrow> (invite_error + unit) \<times> 's"
    and status :: "'s \<Rightarrow> instant \<Rightarrow> string \<Rightarrow> invite_verify_status"
    and wf :: "'s \<Rightarrow> bool"
  assumes wf_create: "wf s \<Longrightarrow> wf (snd (create s now c by ttl))"
    and wf_consume: "wf s \<Longrightarrow> wf (snd (consume s c u))"
    and consume_ok_iff: "wf s \<Longrightarrow>
      is_ok (fst (consume s c u)) \<longleftrightarrow> status s now c \<noteq> Used \<and> status s now c \<noteq> NotFoundCode"
    and consume_used: "wf s \<Longrightarrow> is_ok (fst (consume s c u)) \<Longrightarrow>
      status (snd (consume s c u)) now c = Used"
    and consume_fail: "wf s \<Longrightarrow> \<not> is_ok (fst (consume s c u)) \<Longrightarrow> snd (consume s c u) = s"
    and consume_other: "wf s \<Longrightarrow> c \<noteq> c' \<Longrightarrow> status (snd (consume s c u)) now c' = status s now c'"
begin

lemma consume_once:
  assumes "wf s" and "is_ok (fst (consume s c u))"
  shows "\<not> is_ok (fst (consume (snd (consume s c u)) c v))"
  using assms consume_ok_iff [of "snd (consume s c u)" c v] wf_consume consume_used by blast

primrec consume_all :: "'s \<Rightarrow> string \<Rightarrow> uuid list \<Rightarrow> bool list \<times> 's" where
  "consume_all s c [] = ([], s)"
| "consume_all s c (u # us) =
     (let (r, s') = consume s c u; (rs, s'') = consume_all s' c us in (is_ok r # rs, s''))"

lemma consume_all_used:
  "wf s \<Longrightarrow> status s now c = Used \<Longrightarrow> fst (consume_all s c us) = replicate (length us) False"
proof (induction us arbitrary: s)
  case Nil
  then show ?case by simp
next
  case (Cons u us)
  then have no: "\<not> is_ok (fst (consume s c u))" using consume_ok_iff by blast
  with Cons.prems have "snd (consume s c u) = s" by (simp add: consume_fail)
  with Cons no show ?case by (simp add: Let_def split_beta)
qed

lemma consume_all_at_most_once:
  "wf s \<Longrightarrow> length (filter id (fst (consume_all s c us))) \<le> 1"
proof (induction us arbitrary: s)
  case Nil
  then show ?case by simp
next
  case (Cons u us)
  show ?case
  proof (cases "is_ok (fst (consume s c u))")
    case True
    with Cons.prems have "fst (consume_all (snd (consume s c u)) c us) = replicate (length us) False"
      using consume_used wf_consume by (blast intro: consume_all_used)
    with True show ?thesis by (simp add: Let_def split_beta filter_replicate)
  next
    case False
    with Cons show ?thesis by (simp add: Let_def split_beta wf_consume)
  qed
qed

end

text \<open>
  A task queue: the tasks waiting, the tasks handed out and not yet settled, and the
  dead-lettered ones, as sets of task ids. Nothing but \<open>ack\<close> makes a task disappear.
\<close>

locale task_queue =
  fixes enqueue :: "'s \<Rightarrow> instant \<Rightarrow> task_payload \<Rightarrow> (queue_error + unit) \<times> 's"
    and dequeue :: "'s \<Rightarrow> instant \<Rightarrow> (queue_error + task_payload option) \<times> 's"
    and ack :: "'s \<Rightarrow> instant \<Rightarrow> uuid \<Rightarrow> (queue_error + unit) \<times> 's"
    and nack :: "'s \<Rightarrow> instant \<Rightarrow> uuid \<Rightarrow> int \<Rightarrow> int \<Rightarrow> (queue_error + nack_action) \<times> 's"
    and tasks :: "'s \<Rightarrow> uuid set"
    and wfq :: "'s \<Rightarrow> bool"
  assumes wfq_enqueue: "wfq s \<Longrightarrow> wfq (snd (enqueue s t p))"
    and wfq_dequeue: "wfq s \<Longrightarrow> wfq (snd (dequeue s t))"
    and wfq_ack: "wfq s \<Longrightarrow> wfq (snd (ack s t i))"
    and wfq_nack: "wfq s \<Longrightarrow> wfq (snd (nack s t i r m))"
    and tasks_enqueue: "wfq s \<Longrightarrow> is_ok (fst (enqueue s t p)) \<Longrightarrow>
      tasks (snd (enqueue s t p)) = insert (task_id p) (tasks s)"
    and tasks_enqueue_err: "wfq s \<Longrightarrow> \<not> is_ok (fst (enqueue s t p)) \<Longrightarrow>
      tasks (snd (enqueue s t p)) = tasks s"
    and tasks_dequeue: "wfq s \<Longrightarrow> tasks (snd (dequeue s t)) = tasks s"
    and tasks_ack: "wfq s \<Longrightarrow> tasks (snd (ack s t i)) = tasks s - {i}"
    and tasks_nack: "wfq s \<Longrightarrow> tasks (snd (nack s t i r m)) = tasks s"

datatype queue_op = OpEnqueue task_payload | OpDequeue | OpAck uuid | OpNack uuid int int

context task_queue
begin

definition step :: "'s \<Rightarrow> instant \<times> queue_op \<Rightarrow> 's" where
  "step s e = (case e of (t, x) \<Rightarrow>
     (case x of
        OpEnqueue p \<Rightarrow> snd (enqueue s t p)
      | OpDequeue \<Rightarrow> snd (dequeue s t)
      | OpAck i \<Rightarrow> snd (ack s t i)
      | OpNack i r m \<Rightarrow> snd (nack s t i r m)))"

definition run :: "'s \<Rightarrow> (instant \<times> queue_op) list \<Rightarrow> 's" where
  "run s es = foldl step s es"

lemma wfq_step: "wfq s \<Longrightarrow> wfq (step s e)"
  by (cases e; cases "snd e")
    (auto simp: step_def wfq_enqueue wfq_dequeue wfq_ack wfq_nack)

lemma wfq_run: "wfq s \<Longrightarrow> wfq (run s es)"
  unfolding run_def by (induction es arbitrary: s) (auto simp: wfq_step)

lemma step_keeps_task:
  assumes "wfq s" and "i \<in> tasks s" and "snd e \<noteq> OpAck i"
  shows "i \<in> tasks (step s e)"
proof (cases e)
  case (Pair t x)
  show ?thesis
  proof (cases x)
    case (OpEnqueue p)
    with Pair assms show ?thesis
      by (cases "is_ok (fst (enqueue s t p))")
        (auto simp: step_def tasks_enqueue tasks_enqueue_err)
  qed (use Pair assms in \<open>auto simp: step_def tasks_dequeue tasks_ack tasks_nack\<close>)
qed

lemma run_keeps_task:
  "wfq s \<Longrightarrow> i \<in> tasks s \<Longrightarrow> OpAck i \<notin> snd ` set es \<Longrightarrow> i \<in> tasks (run s es)"
  unfolding run_def
proof (induction es arbitrary: s)
  case Nil
  then show ?case by simp
next
  case (Cons e es)
  then have "i \<in> tasks (step s e)" by (intro step_keeps_task) auto
  with Cons show ?case by (simp add: wfq_step)
qed

end

end
