(* ===== verification/Lite_Queue.thy ===== *)
theory Lite_Queue
  imports State_Traits
begin

text \<open>
  The SQLite queue of the lite mode, \<open>pichost-core/src/state/sqlite_queue.rs\<close>, and the worker
  embedded in the API process that drains it (\<open>lite_worker_task\<close> and \<open>handle_task\<close> of
  \<open>pichost-api/src/app.rs\<close>).

  The table \<open>pending_tasks\<close> is the list of its rows in insertion order. The text serde writes for
  a payload is a value of the type \<open>'j\<close>, with \<open>enc\<close> and \<open>dec\<close> for \<open>to_string\<close> and \<open>from_str\<close>; the
  code relies on \<open>codec\<close>. \<open>us\<close> prints a \<open>Uuid\<close> and is injective. \<open>fail\<close> says that the statement
  fails in the driver.
\<close>

definition codec :: "(task_payload \<Rightarrow> 'j) \<Rightarrow> ('j \<Rightarrow> task_payload option) \<Rightarrow> bool" where
  "codec enc dec \<longleftrightarrow> (\<forall>p. dec (enc p) = Some p)"

lemma codec_id: "codec id Some"
  by (simp add: codec_def)

record 'j pending_row =
  pt_task_id :: string
  pt_payload :: 'j
  pt_status :: string
  pt_retry_count :: int
  pt_claimed_at :: "string option"
  pt_updated_at :: string
  pt_created_at :: string

type_synonym 'j pending_table = "'j pending_row list"

definition sqlite_driver_err :: queue_error where
  "sqlite_driver_err = QOther ''database error''"

section \<open>The queue operations\<close>

definition sq_enqueue ::
  "(nat \<Rightarrow> string) \<Rightarrow> (uuid \<Rightarrow> string) \<Rightarrow> (task_payload \<Rightarrow> 'j) \<Rightarrow> bool \<Rightarrow> 'j pending_table \<Rightarrow> instant \<Rightarrow>
   task_payload \<Rightarrow> (queue_error + unit) \<times> 'j pending_table" where
  "sq_enqueue mf us enc fail tbl now p =
     (if fail \<or> us (task_id p) \<in> set (map pt_task_id tbl) then (Inl sqlite_driver_err, tbl)
      else (Inr (), tbl @ [\<lparr>pt_task_id = us (task_id p), pt_payload = enc p, pt_status = ''pending'',
                           pt_retry_count = 0, pt_claimed_at = None,
                           pt_updated_at = sqlite_text mf now,
                           pt_created_at = sqlite_text mf now\<rparr>]))"

text \<open>\<open>ORDER BY created_at LIMIT 1\<close>; among equal times the row inserted first.\<close>

fun oldest_row :: "'j pending_table \<Rightarrow> 'j pending_row option" where
  "oldest_row [] = None"
| "oldest_row (r # rs) =
     (case oldest_row rs of
        None \<Rightarrow> Some r
      | Some x \<Rightarrow> if str_less (pt_created_at x) (pt_created_at r) then Some x else Some r)"

definition claimable :: "'j pending_row \<Rightarrow> bool" where
  "claimable r = (pt_status r = ''pending'' \<and> pt_claimed_at r = None)"

definition sq_dequeue ::
  "(nat \<Rightarrow> string) \<Rightarrow> ('j \<Rightarrow> task_payload option) \<Rightarrow> bool \<Rightarrow> 'j pending_table \<Rightarrow> instant \<Rightarrow>
   (queue_error + task_payload option) \<times> 'j pending_table" where
  "sq_dequeue mf dec fail tbl now =
     (if fail then (Inl sqlite_driver_err, tbl)
      else
        (case oldest_row (filter claimable tbl) of
           None \<Rightarrow> (Inr None, tbl)
         | Some x \<Rightarrow>
             (let tbl' = map (\<lambda>r. if pt_task_id r = pt_task_id x
                               then r\<lparr>pt_status := ''processing'',
                                      pt_claimed_at := Some (sqlite_text mf now),
                                      pt_updated_at := sqlite_text mf now\<rparr>
                               else r) tbl
              in case dec (pt_payload x) of
                   None \<Rightarrow> (Inl (QOther ''invalid payload''), tbl')
                 | Some p \<Rightarrow> (Inr (Some p), tbl'))))"

definition sq_ack ::
  "(uuid \<Rightarrow> string) \<Rightarrow> bool \<Rightarrow> 'j pending_table \<Rightarrow> uuid \<Rightarrow> (queue_error + unit) \<times> 'j pending_table" where
  "sq_ack us fail tbl tid =
     (if fail then (Inl sqlite_driver_err, tbl)
      else (Inr (), filter (\<lambda>r. pt_task_id r \<noteq> us tid) tbl))"

definition sq_nack ::
  "(nat \<Rightarrow> string) \<Rightarrow> (uuid \<Rightarrow> string) \<Rightarrow> bool \<Rightarrow> 'j pending_table \<Rightarrow> instant \<Rightarrow> uuid \<Rightarrow> int \<Rightarrow> int \<Rightarrow>
   (queue_error + nack_action) \<times> 'j pending_table" where
  "sq_nack mf us fail tbl now tid retries max_r =
     (if retries < max_r then
        (if fail then (Inl sqlite_driver_err, tbl)
         else (Inr Retry,
               map (\<lambda>r. if pt_task_id r = us tid
                        then r\<lparr>pt_status := ''pending'', pt_claimed_at := None,
                               pt_retry_count := retries + 1,
                               pt_updated_at := sqlite_text mf now\<rparr>
                        else r) tbl))
      else
        (if fail then (Inl sqlite_driver_err, tbl)
         else (Inr DeadLetter,
               map (\<lambda>r. if pt_task_id r = us tid
                        then r\<lparr>pt_status := ''dead'', pt_claimed_at := None,
                               pt_updated_at := sqlite_text mf now\<rparr>
                        else r) tbl)))"

definition sq_reclaim_stale ::
  "(nat \<Rightarrow> string) \<Rightarrow> bool \<Rightarrow> 'j pending_table \<Rightarrow> instant \<Rightarrow> (queue_error + unit) \<times> 'j pending_table" where
  "sq_reclaim_stale mf fail tbl now =
     (if fail then (Inl sqlite_driver_err, tbl)
      else (Inr (), map (\<lambda>r. if pt_status r = ''processing''
                             then r\<lparr>pt_status := ''pending'', pt_claimed_at := None,
                                    pt_updated_at := sqlite_text mf now\<rparr>
                             else r) tbl))"

section \<open>The embedded worker\<close>

text \<open>
  \<open>handle_task\<close>: the pipeline's outcome is the argument \<open>ok\<close> (the pipeline itself is another
  component); the result says whether the task was reported as dead-lettered. An error of \<open>ack\<close>
  is logged, an error of \<open>nack\<close> reads as \<open>DeadLetter\<close>.
\<close>

definition lite_handle_task ::
  "(nat \<Rightarrow> string) \<Rightarrow> (uuid \<Rightarrow> string) \<Rightarrow> bool \<Rightarrow> 'j pending_table \<Rightarrow> instant \<Rightarrow> bool \<Rightarrow> task_payload \<Rightarrow>
   bool \<times> 'j pending_table" where
  "lite_handle_task mf us fail tbl now ok payload =
     (if ok then (False, snd (sq_ack us fail tbl (task_id payload)))
      else
        (let (r, tbl') = sq_nack mf us fail tbl now (task_id payload) (retry_count payload)
                           (max_retries payload);
             action = res_unwrap_or r DeadLetter
         in (action = DeadLetter, tbl')))"

text \<open>One turn of the loop of \<open>lite_worker_task\<close>; \<open>outcome\<close> is what the pipeline returns.\<close>

definition lite_worker_turn ::
  "(nat \<Rightarrow> string) \<Rightarrow> (uuid \<Rightarrow> string) \<Rightarrow> ('j \<Rightarrow> task_payload option) \<Rightarrow> faults \<Rightarrow> (task_payload \<Rightarrow> bool) \<Rightarrow>
   'j pending_table \<Rightarrow> instant \<Rightarrow> bool \<times> 'j pending_table" where
  "lite_worker_turn mf us dec fails outcome tbl now =
     (case sq_dequeue mf dec (fails 0) tbl now of
        (Inr (Some p), tbl') \<Rightarrow> lite_handle_task mf us (fails 1) tbl' now (outcome p) p
      | (Inr None, tbl') \<Rightarrow> (False, tbl')
      | (Inl e, tbl') \<Rightarrow> (False, tbl'))"

section \<open>Facts\<close>

lemma oldest_row_None [simp]: "oldest_row rs = None \<longleftrightarrow> rs = []"
  by (cases rs) (auto split: option.splits)

lemma oldest_row_in: "oldest_row rs = Some r \<Longrightarrow> r \<in> set rs"
  by (induction rs arbitrary: r) (auto split: option.splits if_splits)

lemma str_less_trans: "str_less a b \<Longrightarrow> str_less b c \<Longrightarrow> str_less a c"
proof (induction a b arbitrary: c rule: str_less.induct)
  case (1 xs)
  then show ?case by simp
next
  case (2 y ys)
  then show ?case by (cases c) auto
next
  case (3 x xs y ys)
  then show ?case by (cases c) auto
qed

lemma str_less_linear: "\<not> str_less a b \<Longrightarrow> \<not> str_less b a \<Longrightarrow> a = b"
proof (induction a b rule: str_less.induct)
  case (1 xs)
  then show ?case by (cases xs) auto
next
  case (2 y ys)
  then show ?case by simp
next
  case (3 x xs y ys)
  have "x = y \<or> (of_char x :: nat) < of_char y \<or> (of_char y :: nat) < of_char x"
    by (metis linorder_neqE_nat of_char_eq_iff)
  with 3 show ?case by auto
qed

lemma oldest_row_least:
  "oldest_row rs = Some r \<Longrightarrow> x \<in> set rs \<Longrightarrow> \<not> str_less (pt_created_at x) (pt_created_at r)"
proof (induction rs arbitrary: r)
  case Nil
  then show ?case by simp
next
  case (Cons a as)
  show ?case
  proof (cases "oldest_row as")
    case None
    with Cons.prems show ?thesis by simp
  next
    case (Some y)
    have tr: "\<not> str_less (pt_created_at x) (pt_created_at a)"
      if "x \<in> set as" and "\<not> str_less (pt_created_at y) (pt_created_at a)"
    proof
      assume "str_less (pt_created_at x) (pt_created_at a)"
      moreover have "\<not> str_less (pt_created_at x) (pt_created_at y)"
        using Cons.IH [OF Some that(1)] .
      ultimately show False
        using that(2) str_less_trans str_less_linear by metis
    qed
    show ?thesis
      using Cons.prems Some tr Cons.IH [OF Some]
      by (auto split: if_splits dest: str_less_asym)
  qed
qed

definition pending_ids :: "(uuid \<Rightarrow> string) \<Rightarrow> 'j pending_table \<Rightarrow> uuid set" where
  "pending_ids us tbl = {i. us i \<in> set (map pt_task_id tbl)}"

definition task_ids_unique :: "'j pending_table \<Rightarrow> bool" where
  "task_ids_unique tbl \<longleftrightarrow> distinct (map pt_task_id tbl)"

lemma map_task_id [table_simps]:
  "(\<And>r. pt_task_id (f r) = pt_task_id r) \<Longrightarrow> map pt_task_id (map f tbl) = map pt_task_id tbl"
  by simp

lemma sq_dequeue_ids:
  "map pt_task_id (snd (sq_dequeue mf dec fail tbl now)) = map pt_task_id tbl"
  by (auto simp: sq_dequeue_def Let_def split: option.splits)

lemma sq_nack_ids:
  "map pt_task_id (snd (sq_nack mf us fail tbl now tid r m)) = map pt_task_id tbl"
  by (auto simp: sq_nack_def)

lemma sq_ack_ids:
  "map pt_task_id (snd (sq_ack us False tbl tid)) = filter (\<lambda>s. s \<noteq> us tid) (map pt_task_id tbl)"
  by (simp add: sq_ack_def filter_map comp_def)

lemma sq_queue_contract:
  assumes "inj us"
  shows "task_queue (sq_enqueue mf us enc False) (sq_dequeue mf dec False)
    (\<lambda>s t i. sq_ack us False s i) (\<lambda>s t i r m. sq_nack mf us False s t i r m)
    (pending_ids us) task_ids_unique"
proof unfold_locales
  fix s :: "'a pending_table" and t p
  assume "task_ids_unique s"
  then show "task_ids_unique (snd (sq_enqueue mf us enc False s t p))"
    by (auto simp: task_ids_unique_def sq_enqueue_def)
  show "pending_ids us (snd (sq_enqueue mf us enc False s t p)) = insert (task_id p) (pending_ids us s)"
    if "is_ok (fst (sq_enqueue mf us enc False s t p))"
    using that assms by (auto simp: pending_ids_def sq_enqueue_def inj_eq split: if_splits)
  show "pending_ids us (snd (sq_enqueue mf us enc False s t p)) = pending_ids us s"
    if "\<not> is_ok (fst (sq_enqueue mf us enc False s t p))"
    using that by (auto simp: pending_ids_def sq_enqueue_def split: if_splits)
next
  fix s :: "'a pending_table" and t i r m
  assume wf: "task_ids_unique s"
  then show "task_ids_unique (snd (sq_dequeue mf dec False s t))"
    and "task_ids_unique (snd (sq_nack mf us False s t i r m))"
    and "task_ids_unique (snd (sq_ack us False s i))"
    by (simp_all only: task_ids_unique_def sq_dequeue_ids sq_nack_ids sq_ack_ids distinct_filter)
  show "pending_ids us (snd (sq_dequeue mf dec False s t)) = pending_ids us s"
    and "pending_ids us (snd (sq_nack mf us False s t i r m)) = pending_ids us s"
    by (simp_all only: pending_ids_def sq_dequeue_ids sq_nack_ids)
  show "pending_ids us (snd (sq_ack us False s i)) = pending_ids us s - {i}"
    using assms unfolding pending_ids_def sq_ack_ids by (auto simp: inj_eq)
qed

interpretation lqs: task_queue
  "sq_enqueue (pad_nat 17) nat_str (id :: task_payload \<Rightarrow> task_payload) False"
  "sq_dequeue (pad_nat 17) Some False"
  "\<lambda>s t i. sq_ack nat_str False s i"
  "\<lambda>s t i r m. sq_nack (pad_nat 17) nat_str False s t i r m"
  "pending_ids nat_str" task_ids_unique
  by (rule sq_queue_contract [OF inj_nat_str])

section \<open>Properties\<close>

text \<open>A history of queue operations on the table.\<close>

definition sq_step ::
  "(nat \<Rightarrow> string) \<Rightarrow> (uuid \<Rightarrow> string) \<Rightarrow> (task_payload \<Rightarrow> 'j) \<Rightarrow> ('j \<Rightarrow> task_payload option) \<Rightarrow>
   'j pending_table \<Rightarrow> instant \<times> queue_op \<Rightarrow> 'j pending_table" where
  "sq_step mf us enc dec tbl e =
     (case e of (t, x) \<Rightarrow>
       (case x of
          OpEnqueue p \<Rightarrow> snd (sq_enqueue mf us enc False tbl t p)
        | OpDequeue \<Rightarrow> snd (sq_dequeue mf dec False tbl t)
        | OpAck i \<Rightarrow> snd (sq_ack us False tbl i)
        | OpNack i r m \<Rightarrow> snd (sq_nack mf us False tbl t i r m)))"

lemma run_sq_step:
  assumes "inj us"
  shows "task_queue.run (sq_enqueue mf us enc False) (sq_dequeue mf dec False)
    (\<lambda>s t i. sq_ack us False s i) (\<lambda>s t i r m. sq_nack mf us False s t i r m) tbl es =
    foldl (sq_step mf us enc dec) tbl es"
proof -
  have "task_queue.step (sq_enqueue mf us enc False) (sq_dequeue mf dec False)
    (\<lambda>s t i. sq_ack us False s i) (\<lambda>s t i r m. sq_nack mf us False s t i r m) = sq_step mf us enc dec"
    by (intro ext) (simp add: task_queue.step_def [OF sq_queue_contract [OF assms]] sq_step_def)
  then show ?thesis by (simp add: task_queue.run_def [OF sq_queue_contract [OF assms]])
qed


definition sample_task :: "uuid \<Rightarrow> task_payload" where
  "sample_task i =
     \<lparr>task_id = i, image_id = 40 + i, tp_user_id = 1, tp_storage_backend = ''local'',
      tp_storage_config_id = None, storage_backend_name = ''local'', source_key = ''k'',
      source_mime = ''image/png'', retry_count = 0, max_retries = 3\<rparr>"


text \<open>Every payload decodes and carries the id of its row; \<open>enqueue\<close> establishes it.\<close>

definition payloads_match ::
  "(uuid \<Rightarrow> string) \<Rightarrow> ('j \<Rightarrow> task_payload option) \<Rightarrow> 'j pending_table \<Rightarrow> bool" where
  "payloads_match us dec tbl \<longleftrightarrow>
     (\<forall>r \<in> set tbl. \<exists>p. dec (pt_payload r) = Some p \<and> us (task_id p) = pt_task_id r)"

lemma payloads_match_enqueue:
  "codec enc dec \<Longrightarrow> payloads_match us dec tbl \<Longrightarrow>
   payloads_match us dec (snd (sq_enqueue mf us enc fail tbl t p))"
  by (auto simp: payloads_match_def sq_enqueue_def codec_def)

lemma payloads_match_map:
  "(\<And>r. pt_task_id (f r) = pt_task_id r) \<Longrightarrow> (\<And>r. pt_payload (f r) = pt_payload r) \<Longrightarrow>
   payloads_match us dec (map f tbl) = payloads_match us dec tbl"
  by (simp add: payloads_match_def)

lemma payloads_match_dequeue:
  "payloads_match us dec tbl \<Longrightarrow> payloads_match us dec (snd (sq_dequeue mf dec fail tbl t))"
  by (auto simp: sq_dequeue_def Let_def payloads_match_map split: option.splits)

lemma payloads_match_nack:
  "payloads_match us dec tbl \<Longrightarrow> payloads_match us dec (snd (sq_nack mf us fail tbl t i r m))"
  by (auto simp: sq_nack_def payloads_match_map)

lemma payloads_match_ack:
  "payloads_match us dec tbl \<Longrightarrow> payloads_match us dec (snd (sq_ack us fail tbl i))"
  by (auto simp: sq_ack_def payloads_match_def)

text \<open>What a successful dequeue did.\<close>

lemma sq_dequeue_Some:
  assumes "payloads_match us dec tbl" and "sq_dequeue mf dec False tbl now = (Inr (Some p), tbl')"
  obtains x where "oldest_row (filter claimable tbl) = Some x" "dec (pt_payload x) = Some p"
    "us (task_id p) = pt_task_id x" "x \<in> set tbl" "claimable x"
    "tbl' = map (\<lambda>r. if pt_task_id r = pt_task_id x
                     then r\<lparr>pt_status := ''processing'', pt_claimed_at := Some (sqlite_text mf now),
                            pt_updated_at := sqlite_text mf now\<rparr> else r) tbl"
proof -
  from assms(2) obtain x where x: "oldest_row (filter claimable tbl) = Some x"
    and d: "dec (pt_payload x) = Some p"
    and t: "tbl' = map (\<lambda>r. if pt_task_id r = pt_task_id x
                     then r\<lparr>pt_status := ''processing'', pt_claimed_at := Some (sqlite_text mf now),
                            pt_updated_at := sqlite_text mf now\<rparr> else r) tbl"
    by (auto simp: sq_dequeue_def Let_def split: option.splits)
  from oldest_row_in [OF x] have "x \<in> set tbl" "claimable x" by auto
  with assms(1) d x t that show ?thesis by (auto simp: payloads_match_def)
qed

text \<open>
  Property C10. The lite queue hands out the oldest claimable task and hands it out once: the
  dequeued task is pending, unclaimed and no claimable task is older; a second worker that
  dequeues right after gets another task.
\<close>

theorem lite_dequeue_oldest_once:
  assumes "payloads_match us dec tbl"
    and "fst (sq_dequeue mf dec False tbl now) = Inr (Some p)"
  shows "(\<exists>r \<in> set tbl. claimable r \<and> pt_task_id r = us (task_id p) \<and>
      (\<forall>x \<in> set tbl. claimable x \<longrightarrow> \<not> str_less (pt_created_at x) (pt_created_at r))) \<and>
    (\<forall>q. fst (sq_dequeue mf dec False (snd (sq_dequeue mf dec False tbl now)) now') = Inr (Some q) \<longrightarrow>
         task_id q \<noteq> task_id p)"
proof -
  obtain tbl' where dq: "sq_dequeue mf dec False tbl now = (Inr (Some p), tbl')"
    using assms(2) by (metis prod.collapse)
  show ?thesis
  proof (rule sq_dequeue_Some [OF assms(1) dq])
    fix x
    assume x: "oldest_row (filter claimable tbl) = Some x" "us (task_id p) = pt_task_id x"
      "x \<in> set tbl" "claimable x"
      and t: "tbl' = map (\<lambda>r. if pt_task_id r = pt_task_id x
                     then r\<lparr>pt_status := ''processing'', pt_claimed_at := Some (sqlite_text mf now),
                            pt_updated_at := sqlite_text mf now\<rparr> else r) tbl"
    have least: "\<forall>y \<in> set tbl. claimable y \<longrightarrow> \<not> str_less (pt_created_at y) (pt_created_at x)"
      using oldest_row_least [OF x(1)] by simp
    have "task_id q \<noteq> task_id p"
      if q: "fst (sq_dequeue mf dec False tbl' now') = Inr (Some q)" for q
    proof -
      have pm: "payloads_match us dec tbl'"
        using payloads_match_dequeue [OF assms(1), of mf False now] dq by simp
      obtain tbl'' where dq': "sq_dequeue mf dec False tbl' now' = (Inr (Some q), tbl'')"
        using q by (metis prod.collapse)
      show ?thesis
      proof (rule sq_dequeue_Some [OF pm dq'])
        fix y
        assume "us (task_id q) = pt_task_id y" "y \<in> set tbl'" "claimable y"
        then show ?thesis using t x(2) by (auto simp: claimable_def split: if_splits)
      qed
    qed
    with least x dq show ?thesis by (metis snd_conv)
  qed
qed

definition sample_row :: "uuid \<Rightarrow> string \<Rightarrow> task_payload pending_row" where
  "sample_row i created =
     \<lparr>pt_task_id = nat_str i, pt_payload = sample_task i, pt_status = ''pending'', pt_retry_count = 0,
      pt_claimed_at = None, pt_updated_at = created, pt_created_at = created\<rparr>"

lemma sample_row_sel [simp]:
  "pt_task_id (sample_row i c) = nat_str i" "pt_payload (sample_row i c) = sample_task i"
  "pt_created_at (sample_row i c) = c" "claimable (sample_row i c)"
  "task_id (sample_task i) = i" "retry_count (sample_task i) = 0" "max_retries (sample_task i) = 3"
  by (simp_all add: sample_row_def sample_task_def claimable_def)

theorem lite_dequeue_oldest_once_witness:
  "fst (sq_dequeue (pad_nat 17) Some False [sample_row 7 ''9'', sample_row 8 ''5''] 0) =
     Inr (Some (sample_task 8)) \<and>
   (\<exists>r \<in> set [sample_row 7 ''9'', sample_row 8 ''5'']. claimable r \<and> pt_task_id r = nat_str 8)"
proof -
  have f: "fst (sq_dequeue (pad_nat 17) Some False [sample_row 7 ''9'', sample_row 8 ''5''] 0) =
     Inr (Some (sample_task 8))"
    by (simp add: sq_dequeue_def Let_def)
  have pm: "payloads_match nat_str Some [sample_row 7 ''9'', sample_row 8 ''5'']"
    by (simp add: payloads_match_def)
  show ?thesis using lite_dequeue_oldest_once [OF pm f, of 0] f by auto
qed

section \<open>The embedded worker never dead-letters\<close>

definition lite_worker_run ::
  "(nat \<Rightarrow> string) \<Rightarrow> (uuid \<Rightarrow> string) \<Rightarrow> ('j \<Rightarrow> task_payload option) \<Rightarrow> (task_payload \<Rightarrow> bool) \<Rightarrow>
   'j pending_table \<Rightarrow> instant list \<Rightarrow> 'j pending_table" where
  "lite_worker_run mf us dec outcome tbl nows =
     foldl (\<lambda>s now. snd (lite_worker_turn mf us dec no_faults outcome s now)) tbl nows"

text \<open>The task waits, with the payload it was enqueued with.\<close>

definition waits_with :: "string \<Rightarrow> 'j \<Rightarrow> 'j pending_table \<Rightarrow> bool" where
  "waits_with tid j tbl \<longleftrightarrow> (\<exists>r \<in> set tbl. pt_task_id r = tid \<and> pt_payload r = j \<and> claimable r)"

lemma lite_turn_keeps_waiting:
  assumes "task_ids_unique tbl" "payloads_match us dec tbl" "waits_with (us (task_id p)) j tbl"
    "dec j = Some p" "\<not> outcome p" "retry_count p < max_retries p"
  shows "waits_with (us (task_id p)) j (snd (lite_worker_turn mf us dec no_faults outcome tbl now)) \<and>
    task_ids_unique (snd (lite_worker_turn mf us dec no_faults outcome tbl now)) \<and>
    payloads_match us dec (snd (lite_worker_turn mf us dec no_faults outcome tbl now))"
proof -
  let ?tbl' = "snd (sq_dequeue mf dec False tbl now)"
  have uq: "task_ids_unique ?tbl'" and pm: "payloads_match us dec ?tbl'"
    using assms by (simp_all only: task_ids_unique_def sq_dequeue_ids payloads_match_dequeue)
  have wf: "task_ids_unique (snd (sq_ack us False ?tbl' i)) \<and> payloads_match us dec (snd (sq_ack us False ?tbl' i))"
    "task_ids_unique (snd (sq_nack mf us False ?tbl' now i a b)) \<and>
     payloads_match us dec (snd (sq_nack mf us False ?tbl' now i a b))" for i a b
    using uq pm
    by (simp_all add: task_ids_unique_def sq_nack_ids sq_ack_ids payloads_match_nack payloads_match_ack)
  have inv: "task_ids_unique (snd (lite_worker_turn mf us dec no_faults outcome tbl now)) \<and>
    payloads_match us dec (snd (lite_worker_turn mf us dec no_faults outcome tbl now))"
    using wf uq pm by (cases "sq_dequeue mf dec False tbl now")
      (auto simp: lite_worker_turn_def lite_handle_task_def Let_def split_beta
        split: sum.splits option.splits)
  obtain r where r: "r \<in> set tbl" "pt_task_id r = us (task_id p)" "pt_payload r = j" "claimable r"
    using assms(3) by (auto simp: waits_with_def)
  obtain x where x: "oldest_row (filter claimable tbl) = Some x"
    using r by (metis (mono_tags) filter_empty_conv not_None_eq oldest_row_None)
  have xin: "x \<in> set tbl" using oldest_row_in [OF x] by simp
  obtain q where q: "dec (pt_payload x) = Some q" "us (task_id q) = pt_task_id x"
    using assms(2) xin by (auto simp: payloads_match_def)
  define tbl1 where "tbl1 = map (\<lambda>r. if pt_task_id r = pt_task_id x
                 then r\<lparr>pt_status := ''processing'', pt_claimed_at := Some (sqlite_text mf now),
                        pt_updated_at := sqlite_text mf now\<rparr> else r) tbl"
  have dq: "sq_dequeue mf dec False tbl now = (Inr (Some q), tbl1)"
    using x q by (simp add: sq_dequeue_def Let_def tbl1_def)
  have turn: "snd (lite_worker_turn mf us dec no_faults outcome tbl now) =
      (if outcome q then snd (sq_ack us False tbl1 (task_id q))
       else snd (sq_nack mf us False tbl1 now (task_id q) (retry_count q) (max_retries q)))"
    by (simp add: lite_worker_turn_def dq lite_handle_task_def Let_def split_beta)
  have "waits_with (us (task_id p)) j (snd (lite_worker_turn mf us dec no_faults outcome tbl now))"
  proof (cases "pt_task_id x = us (task_id p)")
    case True
    have "x = r"
      using assms(1) xin r(1,2) True unfolding task_ids_unique_def by (metis distinct_map_eqD)
    with q r assms(4) have qp: "q = p" by simp
    obtain r1 where r1: "r1 \<in> set tbl1" "pt_task_id r1 = us (task_id p)" "pt_payload r1 = j"
    proof
      show "r\<lparr>pt_status := ''processing'', pt_claimed_at := Some (sqlite_text mf now),
              pt_updated_at := sqlite_text mf now\<rparr> \<in> set tbl1"
        using r(1,2) True by (auto simp: tbl1_def)
    qed (use r in simp_all)
    show ?thesis
      unfolding turn waits_with_def qp sq_nack_def using assms(5,6) r1
      by (auto simp: claimable_def
          intro!: bexI [of _ "r1\<lparr>pt_status := ''pending'', pt_claimed_at := None,
            pt_retry_count := retry_count p + 1, pt_updated_at := sqlite_text mf now\<rparr>"])
  next
    case False
    then have r1: "r \<in> set tbl1" using r(1,2) by (force simp: tbl1_def)
    show ?thesis
      unfolding turn waits_with_def sq_nack_def sq_ack_def
      using r r1 False q(2) by (auto intro!: bexI [of _ r] image_eqI [of _ _ r])
  qed
  with inv show ?thesis by blast
qed

text \<open>
  Property C11. In the lite mode a failing task is retried for ever: \<open>nack\<close> stores the new retry
  count in its own column, but \<open>dequeue\<close> returns the payload text of the enqueue, whose count
  never grows; so after any number of turns the task is still pending, never dead, whatever
  \<open>max_retries\<close> is.
\<close>

theorem lite_worker_never_dead_letters:
  assumes "task_ids_unique tbl" "payloads_match us dec tbl" "waits_with (us (task_id p)) j tbl"
    "dec j = Some p" "\<not> outcome p" "retry_count p < max_retries p"
  shows "\<exists>r \<in> set (lite_worker_run mf us dec outcome tbl nows).
    pt_task_id r = us (task_id p) \<and> pt_status r = ''pending'' \<and> pt_payload r = j"
proof -
  have "waits_with (us (task_id p)) j (lite_worker_run mf us dec outcome tbl nows)"
    using assms(1-3) unfolding lite_worker_run_def
  proof (induction nows arbitrary: tbl)
    case Nil
    then show ?case by simp
  next
    case (Cons t ts)
    then show ?case
      using lite_turn_keeps_waiting [of tbl us dec p j outcome mf t] assms(4-6) by simp
  qed
  then show ?thesis by (auto simp: waits_with_def claimable_def)
qed

theorem lite_worker_never_dead_letters_witness:
  "\<exists>r \<in> set (lite_worker_run (pad_nat 17) nat_str Some (\<lambda>_. False) [sample_row 7 ''9''] [1 ..< 100]).
     pt_task_id r = nat_str 7 \<and> pt_status r = ''pending'' \<and> pt_payload r = sample_task 7"
  using lite_worker_never_dead_letters
    [of "[sample_row 7 ''9'']" nat_str Some "sample_task 7" "sample_task 7" "\<lambda>_. False" "pad_nat 17" "[1 ..< 100]"]
  by (simp add: task_ids_unique_def payloads_match_def waits_with_def)

lemma reclaim_row:
  "snd (sq_reclaim_stale mf False tbl now) =
   map (\<lambda>r. if pt_status r = ''processing'' then r\<lparr>pt_status := ''pending'', pt_claimed_at := None,
                   pt_updated_at := sqlite_text mf now\<rparr> else r) tbl"
  by (simp add: sq_reclaim_stale_def)

lemma reclaim_none_processing:
  "\<forall>r \<in> set (snd (sq_reclaim_stale mf False tbl now)). pt_status r \<noteq> ''processing''"
  by (auto simp: reclaim_row)

lemma reclaim_claimable:
  "map pt_task_id (filter claimable (snd (sq_reclaim_stale mf False tbl now))) =
   map pt_task_id (filter (\<lambda>r. claimable r \<or> pt_status r = ''processing'') tbl)"
  unfolding reclaim_row by (induction tbl) (simp_all add: claimable_def)

lemma reclaim_dead:
  "filter (\<lambda>r. pt_status r = ''dead'') (snd (sq_reclaim_stale mf False tbl now)) =
   filter (\<lambda>r. pt_status r = ''dead'') tbl"
  unfolding reclaim_row by (induction tbl) simp_all

text \<open>
  Restarting the lite server puts exactly the tasks that were in flight back in the
  queue: afterwards nothing is processing, the claimable tasks are the ones that were pending
  unclaimed or processing, and dead-lettered tasks stay dead.
\<close>

theorem lite_reclaim_requeues_in_flight:
  "(\<forall>r \<in> set (snd (sq_reclaim_stale mf False tbl now)). pt_status r \<noteq> ''processing'') \<and>
   map pt_task_id (filter claimable (snd (sq_reclaim_stale mf False tbl now))) =
     map pt_task_id (filter (\<lambda>r. claimable r \<or> pt_status r = ''processing'') tbl) \<and>
   filter (\<lambda>r. pt_status r = ''dead'') (snd (sq_reclaim_stale mf False tbl now)) =
     filter (\<lambda>r. pt_status r = ''dead'') tbl"
  by (intro conjI reclaim_none_processing reclaim_claimable reclaim_dead)

theorem lite_reclaim_requeues_in_flight_witness:
  "claimable (hd (snd (sq_reclaim_stale (pad_nat 17) False [(sample_row 7 ''9'')\<lparr>pt_status := ''processing''\<rparr>] 0)))"
  using lite_reclaim_requeues_in_flight [of "pad_nat 17" "[(sample_row 7 ''9'')\<lparr>pt_status := ''processing''\<rparr>]" 0]
  by (simp add: sq_reclaim_stale_def claimable_def)

end
