(* ===== verification/Errors.thy ===== *)
theory Errors
  imports Prelude "HOL-Library.AList"
begin

text \<open>
  Error values of the core crate (\<open>pichost-core/src/error.rs\<close>), the classification of database
  errors (\<open>pichost-core/src/db.rs\<close>), and the JSON values that responses carry. A JSON object is
  an association list without duplicate keys, as \<open>serde_json\<close>'s map.
\<close>

section \<open>JSON\<close>

datatype json =
    JNull
  | JBool bool
  | JInt int
  | JStr string
  | JArr "json list"
  | JObj "(string \<times> json) list"

fun as_object :: "json \<Rightarrow> (string \<times> json) list option" where
  "as_object (JObj kvs) = Some kvs"
| "as_object _ = None"

fun as_str :: "json \<Rightarrow> string option" where
  "as_str (JStr s) = Some s"
| "as_str _ = None"

fun as_int :: "json \<Rightarrow> int option" where
  "as_int (JInt i) = Some i"
| "as_int _ = None"

fun as_bool :: "json \<Rightarrow> bool option" where
  "as_bool (JBool b) = Some b"
| "as_bool _ = None"

definition obj_get :: "json \<Rightarrow> string \<Rightarrow> json option" where
  "obj_get v k = (case as_object v of None \<Rightarrow> None | Some kvs \<Rightarrow> map_of kvs k)"

lemma obj_get_JObj [simp]: "obj_get (JObj kvs) k = map_of kvs k"
  by (simp add: obj_get_def)

definition obj_extend :: "(string \<times> json) list \<Rightarrow> (string \<times> json) list \<Rightarrow> (string \<times> json) list" where
  "obj_extend o1 o2 = fold (\<lambda>(k, v) acc. AList.update k v acc) o2 o1"

lemma obj_extend_Nil [simp]: "obj_extend o1 [] = o1"
  by (simp add: obj_extend_def)

lemma obj_extend_Cons [simp]:
  "obj_extend o1 ((k, v) # o2) = obj_extend (AList.update k v o1) o2"
  by (simp add: obj_extend_def)

lemma obj_extend_fresh:
  "k \<notin> fst ` set o2 \<Longrightarrow> map_of (obj_extend o1 o2) k = map_of o1 k"
  by (induction o2 arbitrary: o1) (auto simp: update_conv')

section \<open>Storage and application errors\<close>

datatype storage_error =
    SNotFound string
  | SWriteFailed string
  | SReadFailed string
  | SConnectionFailed string
  | SConfig string
  | SPayloadTooLarge string

fun storage_error_display :: "storage_error \<Rightarrow> string" where
  "storage_error_display (SNotFound m) = ''file not found: '' @ m"
| "storage_error_display (SWriteFailed m) = ''write failed: '' @ m"
| "storage_error_display (SReadFailed m) = ''read failed: '' @ m"
| "storage_error_display (SConnectionFailed m) = ''connection failed: '' @ m"
| "storage_error_display (SConfig m) = ''config error: '' @ m"
| "storage_error_display (SPayloadTooLarge m) = ''payload too large: '' @ m"

datatype app_error =
    Authentication string
  | Authorization string
  | NotFound string
  | Validation string
  | Upload string
  | RateLimited
  | Storage storage_error
  | Internal string

fun app_error_display :: "app_error \<Rightarrow> string" where
  "app_error_display (Authentication m) = ''authentication failed: '' @ m"
| "app_error_display (Authorization m) = ''not authorized: '' @ m"
| "app_error_display (NotFound m) = ''not found: '' @ m"
| "app_error_display (Validation m) = ''validation failed: '' @ m"
| "app_error_display (Upload m) = ''upload failed: '' @ m"
| "app_error_display RateLimited = ''rate limited''"
| "app_error_display (Storage e) = ''storage error: '' @ storage_error_display e"
| "app_error_display (Internal m) = ''internal error: '' @ m"

definition bad_request :: "string \<Rightarrow> app_error" where "bad_request m = Validation m"
definition not_found :: "string \<Rightarrow> app_error" where "not_found m = NotFound m"
definition internal :: "string \<Rightarrow> app_error" where "internal m = Internal m"

fun app_error_code :: "app_error \<Rightarrow> string" where
  "app_error_code (Authentication _) = ''auth_failed''"
| "app_error_code (Authorization _) = ''auth_insufficient_permissions''"
| "app_error_code (NotFound _) = ''not_found''"
| "app_error_code (Validation _) = ''validation_error''"
| "app_error_code (Upload _) = ''upload_failed''"
| "app_error_code RateLimited = ''rate_limited''"
| "app_error_code (Storage e) =
     (case e of SPayloadTooLarge _ \<Rightarrow> ''storage_payload_too_large'' | _ \<Rightarrow> ''internal_error'')"
| "app_error_code (Internal _) = ''internal_error''"

text \<open>The status and message of \<open>into_response\<close>, then the whole response.\<close>

fun app_error_parts :: "app_error \<Rightarrow> status_code \<times> string" where
  "app_error_parts (Authentication m) = (401, m)"
| "app_error_parts (Authorization m) = (403, m)"
| "app_error_parts (NotFound m) = (404, m)"
| "app_error_parts (Validation m) = (400, m)"
| "app_error_parts (Upload m) = (400, m)"
| "app_error_parts RateLimited = (429, app_error_display RateLimited)"
| "app_error_parts (Storage e) =
     (case e of SPayloadTooLarge m \<Rightarrow> (413, m) | _ \<Rightarrow> (500, app_error_display (Storage e)))"
| "app_error_parts (Internal m) = (500, app_error_display (Internal m))"

definition app_error_into_response :: "app_error \<Rightarrow> status_code \<times> json" where
  "app_error_into_response e =
     (let (status, msg) = app_error_parts e
      in (status, JObj [(''error'', JStr msg), (''code'', JStr (app_error_code e))]))"

section \<open>Database errors\<close>

text \<open>\<open>DbCode\<close> is an error the driver reports with its code, if it has one.\<close>

datatype db_error = DbCode "string option" | DbOtherError

datatype db_kind = UniqueViolation | OtherKind

fun db_error_kind :: "db_error \<Rightarrow> db_kind" where
  "db_error_kind (DbCode c) =
     (let code = opt_unwrap_or c ''''
      in if code = ''23505'' \<or> code = ''2067'' \<or> code = ''19'' \<or> code = ''1555''
         then UniqueViolation else OtherKind)"
| "db_error_kind DbOtherError = OtherKind"

text \<open>\<open>From<sqlx::Error>\<close> and \<open>From<CryptoError>\<close>.\<close>

datatype crypto_error = CEncrypt string | CDecrypt | CInvalidKey nat

fun crypto_error_display :: "crypto_error \<Rightarrow> string" where
  "crypto_error_display (CEncrypt m) = ''encryption failed: '' @ m"
| "crypto_error_display CDecrypt = ''decryption failed: invalid key or corrupted data''"
| "crypto_error_display (CInvalidKey n) =
     ''invalid key length: expected 32 bytes, got '' @ nat_str n"

definition app_error_from_db :: "db_error \<Rightarrow> app_error" where
  "app_error_from_db e = Internal ''database error''"

definition app_error_from_crypto :: "crypto_error \<Rightarrow> app_error" where
  "app_error_from_crypto e = Internal (''crypto error: '' @ crypto_error_display e)"

lemma app_error_status_range:
  "fst (app_error_into_response e) \<in> {400, 401, 403, 404, 413, 429, 500}"
  by (cases e) (auto simp: app_error_into_response_def split: storage_error.splits)

text \<open>
  An application error answers 500 exactly when its code is
  \<open>internal_error\<close>, and the code in the body is the error's code: a client that reads the
  code never mistakes a server failure for a rejected request, for any error and message.
\<close>

theorem app_error_response_consistent:
  "(fst (app_error_into_response e) = 500) = (app_error_code e = ''internal_error'') \<and>
   obj_get (snd (app_error_into_response e)) ''code'' = Some (JStr (app_error_code e)) \<and>
   fst (app_error_into_response e) \<in> {400, 401, 403, 404, 413, 429, 500}"
  using app_error_status_range [of e]
  by (cases e) (auto simp: app_error_into_response_def split: storage_error.splits)

end
