(* ===== verification/I18n.thy ===== *)
theory I18n
  imports Errors
begin

text \<open>
  Message catalogs and localized error bodies: \<open>pichost-core/src/i18n.rs\<close> (languages, lookup
  with fallback, placeholder substitution, loading with overrides, throttled reload) and
  \<open>pichost-api/src/i18n_ext.rs\<close> (\<open>Accept-Language\<close> negotiation, the error envelope).
  The TOML parser, the embedded catalogs and the file system are parameters of \<open>i18n_load\<close>.
  A header that is not visible ASCII reads as absent: every caller treats the two alike.
\<close>

section \<open>Languages and catalogs\<close>

datatype language = En | ZhCN

definition from_str_opt :: "string \<Rightarrow> language" where
  "from_str_opt s =
     (let l = to_ascii_lowercase s
      in if l = ''zh'' \<or> l = ''zh-cn'' then ZhCN else if l = ''en'' then En else En)"

fun language_as_str :: "language \<Rightarrow> string" where
  "language_as_str En = ''en''"
| "language_as_str ZhCN = ''zh-CN''"

type_synonym catalog = "string \<Rightarrow> string option"

record i18n =
  i_language :: language
  i_messages :: "language \<Rightarrow> catalog option"
  i_locales_dir :: "string option"
  i_last_check :: nat
  i_check_interval :: nat

definition i18n_from_maps :: "nat \<Rightarrow> language \<Rightarrow> (language \<Rightarrow> catalog option) \<Rightarrow> i18n" where
  "i18n_from_maps now lang msgs =
     \<lparr>i_language = lang, i_messages = msgs, i_locales_dir = None,
      i_last_check = now, i_check_interval = 5\<rparr>"

definition i18n_lookup :: "i18n \<Rightarrow> language \<Rightarrow> string \<Rightarrow> string option" where
  "i18n_lookup g loc key = (case i_messages g loc of None \<Rightarrow> None | Some m \<Rightarrow> m key)"

definition i18n_t :: "i18n \<Rightarrow> language \<Rightarrow> string \<Rightarrow> string" where
  "i18n_t g loc key =
     (case i18n_lookup g loc key of
        Some m \<Rightarrow> m
      | None \<Rightarrow> (case i18n_lookup g En key of Some m \<Rightarrow> m | None \<Rightarrow> key))"

fun subst_args :: "string \<Rightarrow> string list \<Rightarrow> string" where
  "subst_args msg [] = msg"
| "subst_args msg (a # as) = subst_args (replace_first ''{}'' a msg) as"

definition i18n_t_args :: "i18n \<Rightarrow> language \<Rightarrow> string \<Rightarrow> string list \<Rightarrow> string" where
  "i18n_t_args g loc key args = subst_args (i18n_t g loc key) args"

section \<open>Loading and reloading\<close>

text \<open>
  \<open>emb\<close> are the two embedded catalogs (already parsed), \<open>read_file\<close> reads a path, \<open>parse\<close> is
  the TOML parser with its fallback to the empty catalog. An external file overrides the
  embedded entries one by one.
\<close>

definition override_catalog :: "catalog \<Rightarrow> catalog \<Rightarrow> catalog" where
  "override_catalog base ext = (\<lambda>k. case ext k of Some v \<Rightarrow> Some v | None \<Rightarrow> base k)"

definition locale_path :: "string \<Rightarrow> language \<Rightarrow> string" where
  "locale_path dir lang = dir @ ''/'' @ language_as_str lang @ ''/messages.toml''"

definition load_messages ::
  "(language \<Rightarrow> catalog) \<Rightarrow> (string \<Rightarrow> string option) \<Rightarrow> (string \<Rightarrow> catalog) \<Rightarrow>
   string option \<Rightarrow> language \<Rightarrow> catalog option" where
  "load_messages emb read_file parse dir lang =
     (case dir of
        None \<Rightarrow> Some (emb lang)
      | Some d \<Rightarrow>
          (case read_file (locale_path d lang) of
             None \<Rightarrow> Some (emb lang)
           | Some content \<Rightarrow> Some (override_catalog (emb lang) (parse content))))"

definition i18n_load ::
  "(language \<Rightarrow> catalog) \<Rightarrow> (string \<Rightarrow> string option) \<Rightarrow> (string \<Rightarrow> catalog) \<Rightarrow>
   nat \<Rightarrow> language \<Rightarrow> string option \<Rightarrow> i18n" where
  "i18n_load emb read_file parse now lang dir =
     (i18n_from_maps now lang (load_messages emb read_file parse dir))\<lparr>i_locales_dir := dir\<rparr>"

definition maybe_reload ::
  "(language \<Rightarrow> catalog) \<Rightarrow> (string \<Rightarrow> string option) \<Rightarrow> (string \<Rightarrow> catalog) \<Rightarrow>
   nat \<Rightarrow> i18n \<Rightarrow> bool \<times> i18n" where
  "maybe_reload emb read_file parse now g =
     (case i_locales_dir g of
        None \<Rightarrow> (False, g)
      | Some d \<Rightarrow>
          (if now - i_last_check g < i_check_interval g then (False, g)
           else
             (let g1 = g\<lparr>i_last_check := now\<rparr>;
                  fresh = i18n_load emb read_file parse now (i_language g) (Some d);
                  changed = (i_messages fresh \<noteq> i_messages g1)
              in (changed, if changed then fresh else g1))))"

section \<open>Negotiation\<close>

definition accept_tag :: "string \<Rightarrow> language option" where
  "accept_tag tag =
     (let l = to_ascii_lowercase (trim tag)
      in if l = ''zh'' \<or> l = ''zh-cn'' then Some ZhCN
         else if l = ''en'' \<or> l = ''en-us'' then Some En
         else None)"

fun find_map :: "('a \<Rightarrow> 'b option) \<Rightarrow> 'a list \<Rightarrow> 'b option" where
  "find_map f [] = None"
| "find_map f (x # xs) = (case f x of Some y \<Rightarrow> Some y | None \<Rightarrow> find_map f xs)"

definition locale_from_header :: "string option \<Rightarrow> language \<Rightarrow> language" where
  "locale_from_header v fallback =
     (case v of
        None \<Rightarrow> fallback
      | Some s \<Rightarrow>
          opt_unwrap_or
            (find_map accept_tag
               (map (\<lambda>p. hd (split_on (CHR '';'') (trim p))) (split_on (CHR '','') s)))
            fallback)"

section \<open>Error bodies\<close>

type_synonym api_error = "status_code \<times> json"

definition envelope :: "i18n \<Rightarrow> language \<Rightarrow> string \<Rightarrow> string list \<Rightarrow> json \<Rightarrow> json" where
  "envelope g loc key args extra =
     (let msg = (if args = [] then i18n_t g loc key else i18n_t_args g loc key args);
          v = [(''error'', JStr msg), (''code'', JStr key)]
      in case as_object extra of None \<Rightarrow> JObj v | Some x \<Rightarrow> JObj (obj_extend v x))"

definition error_json :: "i18n \<Rightarrow> language \<Rightarrow> status_code \<Rightarrow> string \<Rightarrow> api_error" where
  "error_json g loc status key = (status, envelope g loc key [] (JObj []))"

definition error_json_args ::
  "i18n \<Rightarrow> language \<Rightarrow> status_code \<Rightarrow> string \<Rightarrow> string list \<Rightarrow> api_error" where
  "error_json_args g loc status key args = (status, envelope g loc key args (JObj []))"

definition error_json_extra ::
  "i18n \<Rightarrow> language \<Rightarrow> status_code \<Rightarrow> string \<Rightarrow> json \<Rightarrow> api_error" where
  "error_json_extra g loc status key extra = (status, envelope g loc key [] extra)"

text \<open>The code a client reads from a response body.\<close>

definition api_code :: "api_error \<Rightarrow> string option" where
  "api_code e = (case obj_get (snd e) ''code'' of None \<Rightarrow> None | Some v \<Rightarrow> as_str v)"

lemma fst_error_json [simp]:
  "fst (error_json g loc s k) = s"
  "fst (error_json_args g loc s k as) = s"
  "fst (error_json_extra g loc s k x) = s"
  by (simp_all add: error_json_def error_json_args_def error_json_extra_def)

lemma api_code_error_json [simp]:
  "api_code (error_json g loc s k) = Some k"
  "api_code (error_json_args g loc s k as) = Some k"
  by (simp_all add: error_json_def error_json_args_def api_code_def envelope_def Let_def)

lemma api_code_error_json_extra:
  "''code'' \<notin> fst ` set kvs \<Longrightarrow> api_code (error_json_extra g loc s k (JObj kvs)) = Some k"
  by (simp add: error_json_extra_def api_code_def envelope_def Let_def obj_extend_fresh)

lemma error_json_neq_code:
  "k \<noteq> k' \<Longrightarrow> error_json g loc s k \<noteq> error_json g' loc' s' k'"
  by (metis api_code_error_json(1) option.inject)

text \<open>A lookup never fails: the worst case is the key itself.\<close>

lemma i18n_t_cases:
  "i18n_t g loc key = key \<or> i18n_lookup g loc key = Some (i18n_t g loc key) \<or>
   i18n_lookup g En key = Some (i18n_t g loc key)"
  by (simp add: i18n_t_def split: option.splits)

lemma find_map_None: "find_map f xs = None \<longleftrightarrow> (\<forall>x \<in> set xs. f x = None)"
  by (induction xs) (auto split: option.splits)

lemma find_map_append:
  "find_map f (xs @ ys) = (case find_map f xs of Some y \<Rightarrow> Some y | None \<Rightarrow> find_map f ys)"
  by (induction xs) (auto split: option.splits)

text \<open>
  Reloading is throttled and stable: a call inside the check interval changes
  nothing; a call that does load reports a change exactly when the catalogs differ, keeps
  the language and the directory, and a second call at the same instant finds nothing to do.
\<close>

theorem maybe_reload_throttled_idempotent:
  "(now - i_last_check g < i_check_interval g \<longrightarrow>
      maybe_reload emb rd parse now g = (False, g)) \<and>
   i_language (snd (maybe_reload emb rd parse now g)) = i_language g \<and>
   i_locales_dir (snd (maybe_reload emb rd parse now g)) = i_locales_dir g \<and>
   (i_locales_dir g \<noteq> None \<and> i_check_interval g \<le> now - i_last_check g \<longrightarrow>
      i_messages (snd (maybe_reload emb rd parse now g)) = load_messages emb rd parse (i_locales_dir g) \<and>
      fst (maybe_reload emb rd parse now (snd (maybe_reload emb rd parse now g))) = False)"
  by (auto simp: maybe_reload_def i18n_load_def i18n_from_maps_def Let_def split: option.splits)

theorem maybe_reload_throttled_idempotent_witness:
  "maybe_reload (\<lambda>_ _. None) (\<lambda>_. Some []) (\<lambda>_. [''k'' \<mapsto> ''v'']) 3
     (i18n_load (\<lambda>_ _. None) (\<lambda>_. None) (\<lambda>_ _. None) 0 En (Some ''d'')) =
     (False, i18n_load (\<lambda>_ _. None) (\<lambda>_. None) (\<lambda>_ _. None) 0 En (Some ''d'')) \<and>
   i_messages (snd (maybe_reload (\<lambda>_ _. None) (\<lambda>_. Some []) (\<lambda>_. [''k'' \<mapsto> ''v'']) 9
     (i18n_load (\<lambda>_ _. None) (\<lambda>_. None) (\<lambda>_ _. None) 0 En (Some ''d'')))) =
     load_messages (\<lambda>_ _. None) (\<lambda>_. Some []) (\<lambda>_. [''k'' \<mapsto> ''v'']) (Some ''d'')"
proof -
  let ?g = "i18n_load (\<lambda>_ _. None) (\<lambda>_. None) (\<lambda>_ _. None) 0 En (Some ''d'')"
  have g: "i_last_check ?g = 0" "i_check_interval ?g = 5" "i_locales_dir ?g = Some ''d''"
    by (simp_all add: i18n_load_def i18n_from_maps_def)
  show ?thesis
    using maybe_reload_throttled_idempotent
        [of 3 ?g "\<lambda>_ _. None" "\<lambda>_. Some []" "\<lambda>_. [''k'' \<mapsto> ''v'']"]
      maybe_reload_throttled_idempotent
        [of 9 ?g "\<lambda>_ _. None" "\<lambda>_. Some []" "\<lambda>_. [''k'' \<mapsto> ''v'']"]
    unfolding g by simp
qed

end
