(* ===== verification/Tables.thy ===== *)
theory Tables
  imports App_Config Errors Clock
begin

text \<open>
  The data model, \<open>pichost-core/src/models.rs\<close> with the tables of \<open>migrations/\<close>: one record per
  row, a table is the list of its rows, the database is the record of its tables. A time
  column is an instant; the rotation and the scale of a watermark, \<open>f64\<close>, are exact values.
\<close>

section \<open>Models\<close>

datatype image_status = ImPending | ImActive | ImProcessing | ImReady | ImFailed

fun image_status_display :: "image_status \<Rightarrow> string" where
  "image_status_display ImPending = ''pending''"
| "image_status_display ImActive = ''active''"
| "image_status_display ImProcessing = ''processing''"
| "image_status_display ImReady = ''ready''"
| "image_status_display ImFailed = ''failed''"

datatype watermark_position = TopLeft | TopRight | BottomLeft | BottomRight | Center | Tile

record watermark_config =
  wm_enabled :: bool
  wm_text :: string
  wm_font :: string
  wm_font_size :: nat
  wm_color :: string
  wm_rotation :: rat
  wm_scale :: rat
  wm_position :: watermark_position
  wm_margin_x :: nat
  wm_margin_y :: nat

text \<open>The values serde fills in for the missing fields.\<close>

definition default_watermark :: watermark_config where
  "default_watermark =
     \<lparr>wm_enabled = False, wm_text = [], wm_font = ''NotoSansSC-Regular'', wm_font_size = 48,
      wm_color = ''rgba(255, 255, 255, 0.5)'', wm_rotation = - 30, wm_scale = 15 / 100,
      wm_position = BottomRight, wm_margin_x = 20, wm_margin_y = 20\<rparr>"

record user_row =
  u_id :: uuid
  u_username :: string
  u_email :: "string option"
  u_password_hash :: string
  u_storage_backend :: string
  u_storage_prefix :: string
  u_storage_quota :: "int option"
  u_is_admin :: bool
  u_created_at :: instant
  u_updated_at :: instant
  u_watermark :: "json option"

record image_row =
  im_id :: uuid
  im_user_id :: uuid
  im_public_key :: string
  im_original_name :: string
  im_storage_key :: string
  im_storage_backend :: string
  im_mime_type :: string
  im_file_size :: int
  im_width :: "int option"
  im_height :: "int option"
  im_sha256 :: string
  im_url :: string
  im_thumbnail_key :: "string option"
  im_thumbnail_url :: "string option"
  im_webp_key :: "string option"
  im_webp_url :: "string option"
  im_status :: string
  im_storage_config_id :: "uuid option"
  im_category_id :: "uuid option"
  im_created_at :: instant

record config_row =
  sc_id :: uuid
  sc_user_id :: uuid
  sc_name :: string
  sc_provider :: string
  sc_is_default :: bool
  sc_config :: json
  sc_created_at :: instant
  sc_updated_at :: instant

record git_config_detail =
  gd_token_encrypted :: string
  gd_repo :: string
  gd_branch :: string
  gd_path_prefix :: "string option"

record category_row =
  cat_id :: uuid
  cat_user_id :: uuid
  cat_name :: string
  cat_parent_id :: "uuid option"
  cat_created_at :: instant

record upload_task_row =
  ut_image_id :: uuid
  ut_task_type :: string
  ut_payload :: "json option"
  ut_status :: string
  ut_error :: "string option"
  ut_retry_count :: int
  ut_max_retries :: int
  ut_completed_at :: "instant option"

record oauth_row =
  oa_user_id :: uuid
  oa_provider :: string
  oa_provider_user_id :: string

record db =
  t_users :: "user_row list"
  t_images :: "image_row list"
  t_configs :: "config_row list"
  t_categories :: "category_row list"
  t_upload_tasks :: "upload_task_row list"
  t_oauth :: "oauth_row list"

definition empty_db :: db where
  "empty_db = \<lparr>t_users = [], t_images = [], t_configs = [], t_categories = [],
     t_upload_tasks = [], t_oauth = []\<rparr>"

section \<open>Uniqueness constraints\<close>

text \<open>
  The unique indexes: NULLs are distinct from each other. The index on (user, sha256) of
  \<open>0002_create_images.sql\<close> is never dropped.
\<close>

definition users_unique :: "user_row list \<Rightarrow> bool" where
  "users_unique us \<longleftrightarrow> distinct (map u_id us) \<and> distinct (map u_username us) \<and>
     distinct (List.map_filter u_email us)"

definition images_unique :: "image_row list \<Rightarrow> bool" where
  "images_unique ims \<longleftrightarrow> distinct (map im_id ims) \<and> distinct (map im_public_key ims) \<and>
     distinct (map (\<lambda>i. (im_user_id i, im_sha256 i)) ims)"

definition configs_unique :: "config_row list \<Rightarrow> bool" where
  "configs_unique cs \<longleftrightarrow> distinct (map sc_id cs) \<and>
     distinct (map (\<lambda>c. (sc_user_id c, sc_name c)) cs) \<and>
     distinct (map sc_user_id (filter sc_is_default cs))"

definition categories_unique :: "category_row list \<Rightarrow> bool" where
  "categories_unique cs \<longleftrightarrow> distinct (map cat_id cs) \<and>
     distinct (map (\<lambda>c. (cat_user_id c, cat_name c, cat_parent_id c))
       (filter (\<lambda>c. cat_parent_id c \<noteq> None) cs))"

section \<open>Row access\<close>

definition user_by_id :: "db \<Rightarrow> uuid \<Rightarrow> user_row option" where
  "user_by_id d i = find (\<lambda>u. u_id u = i) (t_users d)"

definition user_by_name :: "db \<Rightarrow> string \<Rightarrow> user_row option" where
  "user_by_name d n = find (\<lambda>u. u_username u = n) (t_users d)"

definition image_by_id :: "db \<Rightarrow> uuid \<Rightarrow> image_row option" where
  "image_by_id d i = find (\<lambda>x. im_id x = i) (t_images d)"

lemma find_append: "find P (xs @ ys) = (case find P xs of Some x \<Rightarrow> Some x | None \<Rightarrow> find P ys)"
  by (induction xs) auto

lemma find_map_key:
  "(\<And>x. P (f x) = P x) \<Longrightarrow> find P (map f xs) = map_option f (find P xs)"
  by (induction xs) auto

lemma find_filter: "find P (filter Q xs) = find (\<lambda>x. P x \<and> Q x) xs"
  by (induction xs) auto

lemma find_SomeD: "find P xs = Some x \<Longrightarrow> x \<in> set xs \<and> P x"
  by (auto simp: find_Some_iff in_set_conv_nth)

lemma find_key_unique:
  assumes "distinct (map k xs)" and "x \<in> set xs"
  shows "find (\<lambda>y. k y = k x) xs = Some x"
proof (cases "find (\<lambda>y. k y = k x) xs")
  case None
  with assms(2) show ?thesis by (auto simp: find_None_iff)
next
  case (Some y)
  with assms show ?thesis by (metis (mono_tags, lifting) distinct_map_eqD find_SomeD)
qed

end
