(* ===== verification/Lite_State.thy ===== *)
theory Lite_State
  imports State_Traits "HOL-Library.AList"
begin

text \<open>
  The SQLite backends of the blacklist, invite and rate-limit traits:
  \<open>pichost-core/src/state/sqlite_blacklist.rs\<close>, \<open>sqlite_invite.rs\<close>, \<open>sqlite_rate_limiter.rs\<close>,
  over the tables of \<open>migrations-sqlite\<close>. A table is the list of its rows; each SQL statement
  of the code is one table expression. \<open>fail\<close> says that the statement fails in the driver.
\<close>

text \<open>
  The text of a driver error, \<open>e.to_string()\<close>. No property depends on it.
\<close>

definition driver_text :: string where "driver_text = ''database error''"

section \<open>Token blacklist\<close>

text \<open>Rows of \<open>token_blacklist\<close>: the primary key \<open>jti\<close> and the text \<open>expires_at\<close>.\<close>

type_synonym blacklist_table = "(string \<times> string) list"

text \<open>\<open>SELECT count(*) ... WHERE jti = ? AND expires_at > strftime(...,'now')\<close>, then \<open>n > 0\<close>.\<close>

definition sqlite_blacklist_check ::
  "(nat \<Rightarrow> string) \<Rightarrow> bool \<Rightarrow> blacklist_table \<Rightarrow> instant \<Rightarrow> string \<Rightarrow> blacklist_error + bool" where
  "sqlite_blacklist_check mf fail tbl now jti =
     (if fail then Inl (BOther driver_text)
      else Inr (0 < length (filter (\<lambda>(j, e). j = jti \<and> str_less (sqlite_text mf now) e) tbl)))"

text \<open>\<open>INSERT ... ON CONFLICT(jti) DO UPDATE SET expires_at = excluded.expires_at\<close>.\<close>

definition sqlite_blacklist_revoke ::
  "(nat \<Rightarrow> string) \<Rightarrow> bool \<Rightarrow> blacklist_table \<Rightarrow> instant \<Rightarrow> string \<Rightarrow> nat \<Rightarrow>
   (blacklist_error + unit) \<times> blacklist_table" where
  "sqlite_blacklist_revoke mf fail tbl now jti ttl =
     (if fail then (Inl (BOther driver_text), tbl)
      else (Inr (), AList.update jti (chrono_text mf (now + secs ttl)) tbl))"

text \<open>The table without driver failures, as the blacklist contract sees it.\<close>

definition lite_revoke :: "(nat \<Rightarrow> string) \<Rightarrow> blacklist_table \<Rightarrow> instant \<Rightarrow> string \<Rightarrow> nat \<Rightarrow> blacklist_table" where
  "lite_revoke mf tbl t jti ttl = snd (sqlite_blacklist_revoke mf False tbl t jti ttl)"

definition lite_check :: "(nat \<Rightarrow> string) \<Rightarrow> blacklist_table \<Rightarrow> instant \<Rightarrow> string \<Rightarrow> bool" where
  "lite_check mf tbl t jti = res_unwrap_or (sqlite_blacklist_check mf False tbl t jti) True"

text \<open>
  The interval a lite-mode revocation really covers: up to the last whole minute before the
  expiry, and in the minute of the expiry as long as the seconds are below the first two digits
  of the expiry's nanoseconds.
\<close>

definition lite_covers :: "instant \<Rightarrow> nat \<Rightarrow> instant \<Rightarrow> bool" where
  "lite_covers t ttl t' =
     (minute_of (t + secs ttl) < max_minute \<and>
      (minute_of t' < minute_of (t + secs ttl) \<or>
       minute_of t' = minute_of (t + secs ttl) \<and> second_of t' < centi_of (t + secs ttl)))"

lemma lite_check_iff: "lite_check mf tbl t jti \<longleftrightarrow> (\<exists>e. (jti, e) \<in> set tbl \<and> str_less (sqlite_text mf t) e)"
  by (auto simp: lite_check_def sqlite_blacklist_check_def filter_empty_conv)

lemma update_set_key: "(k, v) \<in> set (AList.update k v tbl)"
  by (induction tbl) auto

lemma update_set_other: "k \<noteq> k' \<Longrightarrow> (k', e) \<in> set (AList.update k v tbl) \<longleftrightarrow> (k', e) \<in> set tbl"
  by (induction tbl) auto

lemma update_distinct_key:
  "distinct (map fst tbl) \<Longrightarrow> (k, e) \<in> set (AList.update k v tbl) \<longleftrightarrow> e = v"
proof (induction tbl)
  case Nil
  then show ?case by auto
next
  case (Cons x xs)
  obtain a b where x: "x = (a, b)" by (cases x)
  show ?case
  proof (cases "a = k")
    case True
    with Cons.prems x show ?thesis by force
  next
    case False
    with Cons x show ?thesis by simp
  qed
qed

lemma sqlite_less_chrono_covers:
  assumes "minute_text mf" and "lite_covers t ttl t'"
  shows "str_less (sqlite_text mf t') (chrono_text mf (t + secs ttl))"
proof (cases "minute_of t' < minute_of (t + secs ttl)")
  case True
  with assms show ?thesis by (simp add: sqlite_less_chrono_later lite_covers_def)
next
  case False
  with assms(2) have "minute_of t' = minute_of (t + secs ttl)"
    and "second_of t' < centi_of (t + secs ttl)" by (auto simp: lite_covers_def)
  then show ?thesis by (simp add: same_minute_compares_tails tail_less_iff)
qed

lemma lite_blacklist_contract:
  assumes "minute_text mf"
  shows "token_blacklist (lite_revoke mf) (lite_check mf) lite_covers"
proof
  fix t ttl t' s jti
  assume "lite_covers t ttl t'"
  with assms have "str_less (sqlite_text mf t') (chrono_text mf (t + secs ttl))"
    by (rule sqlite_less_chrono_covers)
  then show "lite_check mf (lite_revoke mf s t jti ttl) t' jti"
    unfolding lite_check_iff lite_revoke_def sqlite_blacklist_revoke_def
    by (auto intro: update_set_key)
next
  fix jti jti' :: string and s t ttl t'
  assume "jti \<noteq> jti'"
  then show "lite_check mf (lite_revoke mf s t jti ttl) t' jti' = lite_check mf s t' jti'"
    by (simp add: lite_check_iff lite_revoke_def sqlite_blacklist_revoke_def update_set_other)
qed

interpretation lbl: token_blacklist
  "lite_revoke (pad_nat 17)" "lite_check (pad_nat 17)" lite_covers
  by (rule lite_blacklist_contract [OF minute_text_pad])

lemma lite_check_after_revoke:
  assumes "distinct (map fst tbl)"
  shows "lite_check mf (lite_revoke mf tbl t jti ttl) t' jti \<longleftrightarrow>
         str_less (sqlite_text mf t') (chrono_text mf (t + secs ttl))"
  using assms
  by (auto simp: lite_check_iff lite_revoke_def sqlite_blacklist_revoke_def update_distinct_key)

text \<open>
  A token revoked in the lite mode is refused in every minute before the one in
  which the revocation expires, accepted again in every later minute, and other tokens keep
  their status.
\<close>

theorem lite_revocation_by_minute:
  assumes "minute_text mf" and "distinct (map fst tbl)"
    and "minute_of (t + secs ttl) < max_minute" and "minute_of t' < max_minute"
  shows "(minute_of t' < minute_of (t + secs ttl) \<longrightarrow>
            lite_check mf (lite_revoke mf tbl t jti ttl) t' jti) \<and>
         (minute_of (t + secs ttl) < minute_of t' \<longrightarrow>
            \<not> lite_check mf (lite_revoke mf tbl t jti ttl) t' jti) \<and>
         (jti' \<noteq> jti \<longrightarrow>
            lite_check mf (lite_revoke mf tbl t jti ttl) t' jti' = lite_check mf tbl t' jti')"
proof -
  have later: "\<not> str_less (sqlite_text mf t') (chrono_text mf (t + secs ttl))"
    if "minute_of (t + secs ttl) < minute_of t'"
    using assms that by (intro str_less_asym chrono_less_sqlite_later)
  show ?thesis
    using assms later
    by (auto simp: lite_check_after_revoke sqlite_less_chrono_later
        token_blacklist.check_other [OF lite_blacklist_contract])
qed

theorem lite_revocation_by_minute_witness:
  "lite_check (pad_nat 17) (lite_revoke (pad_nat 17) [] 0 ''a'' 900) (60 * nanos_per_sec) ''a'' \<and>
   \<not> lite_check (pad_nat 17) (lite_revoke (pad_nat 17) [] 0 ''a'' 900) (960 * nanos_per_sec) ''a''"
proof -
  have m: "minute_of (0 + secs 900) = 15" "minute_of (60 * nanos_per_sec) = 1"
    "minute_of (960 * nanos_per_sec) = 16"
    by (simp_all add: minute_of_def secs_def nanos_per_sec_def)
  show ?thesis
    using lite_revocation_by_minute [OF minute_text_pad, of "[]" 0 900 "60 * nanos_per_sec" "''a''" "''a''"]
      lite_revocation_by_minute [OF minute_text_pad, of "[]" 0 900 "960 * nanos_per_sec" "''a''" "''a''"]
    unfolding m by (simp add: max_minute_def)
qed

text \<open>
  In the minute of the expiry the lite-mode check compares seconds with the
  leading digits of the expiry's nanoseconds, so a revocation can be void from the moment it is
  made: whenever the seconds of the query are above those digits, the revoked token is
  accepted, although its time to live has not elapsed.
\<close>

theorem lite_revocation_void_in_last_minute:
  assumes "distinct (map fst tbl)"
    and "minute_of t' = minute_of (t + secs ttl)"
    and "centi_of (t + secs ttl) < second_of t'"
  shows "\<not> lite_check mf (lite_revoke mf tbl t jti ttl) t' jti"
  using assms by (simp add: lite_check_after_revoke same_minute_compares_tails tail_less_iff)

theorem lite_revocation_void_in_last_minute_witness:
  "30 * nanos_per_sec < 10 * nanos_per_sec + secs 40 \<and>
   \<not> lite_check (pad_nat 17) (lite_revoke (pad_nat 17) [] (10 * nanos_per_sec) ''a'' 40) (30 * nanos_per_sec) ''a''"
proof
  show "30 * nanos_per_sec < 10 * nanos_per_sec + secs 40"
    by (simp add: secs_def nanos_per_sec_def)
  show "\<not> lite_check (pad_nat 17) (lite_revoke (pad_nat 17) [] (10 * nanos_per_sec) ''a'' 40) (30 * nanos_per_sec) ''a''"
    by (rule lite_revocation_void_in_last_minute)
      (simp_all add: minute_of_def second_of_def centi_of_def nano_of_def secs_def nanos_per_sec_def)
qed

section \<open>Invite codes\<close>

text \<open>Rows of \<open>invite_codes\<close>; the ids and the times are texts.\<close>

record invite_row =
  li_code :: string
  li_created_by :: "string option"
  li_created_at :: string
  li_expires_at :: "string option"
  li_used_by :: "string option"

type_synonym invite_table = "invite_row list"

text \<open>\<open>us\<close> prints a \<open>Uuid\<close>. The primary key refuses a second row for a code.\<close>

definition sqlite_invite_create ::
  "(nat \<Rightarrow> string) \<Rightarrow> (uuid \<Rightarrow> string) \<Rightarrow> bool \<Rightarrow> invite_table \<Rightarrow> instant \<Rightarrow> string \<Rightarrow> uuid \<Rightarrow> nat \<Rightarrow>
   (invite_error + unit) \<times> invite_table" where
  "sqlite_invite_create mf us fail tbl now code created_by ttl =
     (if fail \<or> code \<in> set (map li_code tbl) then (Inl (IOther driver_text), tbl)
      else (Inr (), tbl @ [\<lparr>li_code = code, li_created_by = Some (us created_by),
                           li_created_at = sqlite_text mf now,
                           li_expires_at = Some (chrono_text mf (now + secs ttl)),
                           li_used_by = None\<rparr>]))"

definition sqlite_invite_verify ::
  "(nat \<Rightarrow> string) \<Rightarrow> bool \<Rightarrow> invite_table \<Rightarrow> instant \<Rightarrow> string \<Rightarrow> invite_error + bool" where
  "sqlite_invite_verify mf fail tbl now code =
     (if fail then Inl (IOther driver_text)
      else Inr (0 < length (filter (\<lambda>r. li_code r = code \<and> li_used_by r = None \<and>
              (case li_expires_at r of None \<Rightarrow> True | Some e \<Rightarrow> str_less (sqlite_text mf now) e)) tbl)))"

definition sqlite_invite_consume ::
  "(uuid \<Rightarrow> string) \<Rightarrow> bool \<Rightarrow> invite_table \<Rightarrow> string \<Rightarrow> uuid \<Rightarrow>
   (invite_error + unit) \<times> invite_table" where
  "sqlite_invite_consume us fail tbl code used_by =
     (if fail then (Inl (IOther driver_text), tbl)
      else
        (let hit = (\<lambda>r. li_code r = code \<and> li_used_by r = None);
             tbl' = map (\<lambda>r. if hit r then r\<lparr>li_used_by := Some (us used_by)\<rparr> else r) tbl
         in if length (filter hit tbl) = 0
            then (Inl (IOther (''invite code not found: '' @ code)), tbl')
            else (Inr (), tbl')))"

definition sqlite_invite_verify_detail ::
  "(nat \<Rightarrow> string) \<Rightarrow> bool \<Rightarrow> invite_table \<Rightarrow> instant \<Rightarrow> string \<Rightarrow>
   invite_error + invite_verify_status" where
  "sqlite_invite_verify_detail mf fail tbl now code =
     (if fail then Inl (IOther driver_text)
      else
        (case find (\<lambda>r. li_code r = code) tbl of
           None \<Rightarrow> Inr NotFoundCode
         | Some r \<Rightarrow>
             (if li_used_by r \<noteq> None then Inr Used
              else
                (case li_expires_at r of
                   None \<Rightarrow> Inr Valid
                 | Some e \<Rightarrow>
                     (if \<not> str_less (chrono_text mf now) e then Inr Expired else Inr Valid)))))"

text \<open>
  \<open>list\<close>: all rows, newest first. \<open>up\<close> parses a \<open>Uuid\<close>, \<open>dt\<close> decodes a time column; a row
  that does not decode makes the whole query fail.
\<close>

definition decode_invite_row ::
  "(string \<Rightarrow> uuid option) \<Rightarrow> (string \<Rightarrow> nat option) \<Rightarrow> invite_row \<Rightarrow> invite_code_info option" where
  "decode_invite_row up dt r =
     (case dt (li_created_at r) of
        None \<Rightarrow> None
      | Some ca \<Rightarrow>
          (let info = (\<lambda>ex. \<lparr>ic_code = li_code r,
                 ic_created_by = (case Option.bind (li_created_by r) up of
                                    None \<Rightarrow> None | Some u \<Rightarrow> if u = nil_uuid then None else Some u),
                 ic_created_at = ca, ic_expires_at = ex,
                 ic_used_by = Option.bind (li_used_by r) up\<rparr>)
           in case li_expires_at r of
                None \<Rightarrow> Some (info None)
              | Some e \<Rightarrow> (case dt e of None \<Rightarrow> None | Some x \<Rightarrow> Some (info (Some x)))))"

fun insert_desc :: "invite_row \<Rightarrow> invite_row list \<Rightarrow> invite_row list" where
  "insert_desc r [] = [r]"
| "insert_desc r (x # xs) =
     (if str_less (li_created_at x) (li_created_at r) then r # x # xs else x # insert_desc r xs)"

definition order_by_created_desc :: "invite_row list \<Rightarrow> invite_row list" where
  "order_by_created_desc rows = fold insert_desc rows []"

definition sqlite_invite_list ::
  "(string \<Rightarrow> uuid option) \<Rightarrow> (string \<Rightarrow> nat option) \<Rightarrow> bool \<Rightarrow> invite_table \<Rightarrow>
   invite_error + invite_code_info list" where
  "sqlite_invite_list up dt fail tbl =
     (if fail then Inl (IOther driver_text)
      else
        (let infos = map (decode_invite_row up dt) (order_by_created_desc tbl)
         in if None \<in> set infos then Inl (IOther driver_text) else Inr (map the infos)))"

definition codes_unique :: "invite_table \<Rightarrow> bool" where
  "codes_unique tbl \<longleftrightarrow> distinct (map li_code tbl)"

definition lite_invite_status ::
  "(nat \<Rightarrow> string) \<Rightarrow> invite_table \<Rightarrow> instant \<Rightarrow> string \<Rightarrow> invite_verify_status" where
  "lite_invite_status mf tbl now code =
     res_unwrap_or (sqlite_invite_verify_detail mf False tbl now code) NotFoundCode"

lemma find_code_unique:
  assumes "codes_unique tbl" and "r \<in> set tbl"
  shows "find (\<lambda>x. li_code x = li_code r) tbl = Some r"
proof (cases "find (\<lambda>x. li_code x = li_code r) tbl")
  case None
  with assms(2) show ?thesis by (auto simp: find_None_iff)
next
  case (Some r')
  then have "r' \<in> set tbl" and "li_code r' = li_code r" by (auto simp: find_Some_iff)
  with assms have "r' = r"
    unfolding codes_unique_def by (meson distinct_map inj_onD)
  with Some show ?thesis by simp
qed

lemma find_map_code:
  "(\<And>r. li_code (f r) = li_code r) \<Longrightarrow>
   find (\<lambda>x. li_code x = c) (map f tbl) = map_option f (find (\<lambda>x. li_code x = c) tbl)"
  by (induction tbl) auto

lemma codes_unique_map:
  "(\<And>r. li_code (f r) = li_code r) \<Longrightarrow> codes_unique (map f tbl) = codes_unique tbl"
  by (simp add: codes_unique_def comp_def)

lemma consume_hit_iff:
  assumes "codes_unique tbl"
  shows "filter (\<lambda>r. li_code r = c \<and> li_used_by r = None) tbl \<noteq> [] \<longleftrightarrow>
    (\<exists>r. find (\<lambda>x. li_code x = c) tbl = Some r \<and> li_used_by r = None)"
proof
  assume "filter (\<lambda>r. li_code r = c \<and> li_used_by r = None) tbl \<noteq> []"
  then obtain r where "r \<in> set tbl" "li_code r = c" "li_used_by r = None"
    by (auto simp: filter_empty_conv)
  with find_code_unique [OF assms] show
    "\<exists>r. find (\<lambda>x. li_code x = c) tbl = Some r \<and> li_used_by r = None" by blast
next
  assume "\<exists>r. find (\<lambda>x. li_code x = c) tbl = Some r \<and> li_used_by r = None"
  then show "filter (\<lambda>r. li_code r = c \<and> li_used_by r = None) tbl \<noteq> []"
    by (auto simp: filter_empty_conv find_Some_iff)
qed

lemma status_cases:
  "lite_invite_status mf tbl now c =
     (case find (\<lambda>r. li_code r = c) tbl of
        None \<Rightarrow> NotFoundCode
      | Some r \<Rightarrow> if li_used_by r \<noteq> None then Used
                  else (case li_expires_at r of None \<Rightarrow> Valid
                        | Some e \<Rightarrow> if str_less (chrono_text mf now) e then Valid else Expired))"
  by (auto simp: lite_invite_status_def sqlite_invite_verify_detail_def split: option.splits)

lemma consume_ok_find:
  assumes "codes_unique tbl"
  shows "is_ok (fst (sqlite_invite_consume us False tbl c u)) \<longleftrightarrow>
    (\<exists>r. find (\<lambda>x. li_code x = c) tbl = Some r \<and> li_used_by r = None)"
  using consume_hit_iff [OF assms, of c]
  by (auto simp: sqlite_invite_consume_def Let_def)

lemma consume_table:
  "snd (sqlite_invite_consume us False tbl c u) =
   map (\<lambda>r. if li_code r = c \<and> li_used_by r = None then r\<lparr>li_used_by := Some (us u)\<rparr> else r) tbl"
  by (simp add: sqlite_invite_consume_def Let_def)

lemma status_after_consume:
  "lite_invite_status mf (snd (sqlite_invite_consume us False tbl c u)) now c' =
   (case find (\<lambda>r. li_code r = c') tbl of
      None \<Rightarrow> NotFoundCode
    | Some r \<Rightarrow> if c' = c \<and> li_used_by r = None then Used else lite_invite_status mf tbl now c')"
proof (cases "find (\<lambda>r. li_code r = c') tbl")
  case None
  then show ?thesis by (simp add: status_cases consume_table find_map_code)
next
  case (Some r)
  then have "li_code r = c'" by (auto simp: find_Some_iff)
  with Some show ?thesis by (simp add: status_cases consume_table find_map_code)
qed

interpretation lis: invite_store
  "sqlite_invite_create (pad_nat 17) nat_str False" "sqlite_invite_consume nat_str False"
  "lite_invite_status (pad_nat 17)" codes_unique
proof
  fix s now c by' ttl
  assume "codes_unique s"
  then show "codes_unique (snd (sqlite_invite_create (pad_nat 17) nat_str False s now c by' ttl))"
    by (auto simp: sqlite_invite_create_def codes_unique_def)
next
  fix s :: invite_table and c :: string and u :: uuid
  assume wf: "codes_unique s"
  then show "codes_unique (snd (sqlite_invite_consume nat_str False s c u))"
    by (simp add: consume_table codes_unique_map)
  fix now
  show "is_ok (fst (sqlite_invite_consume nat_str False s c u)) =
    (lite_invite_status (pad_nat 17) s now c \<noteq> Used \<and>
     lite_invite_status (pad_nat 17) s now c \<noteq> NotFoundCode)"
    by (auto simp: consume_ok_find [OF wf] status_cases split: option.splits if_splits)
  show "lite_invite_status (pad_nat 17) (snd (sqlite_invite_consume nat_str False s c u)) now c = Used"
    if "is_ok (fst (sqlite_invite_consume nat_str False s c u))"
    using that by (auto simp: consume_ok_find [OF wf] status_after_consume)
  show "snd (sqlite_invite_consume nat_str False s c u) = s"
    if no: "\<not> is_ok (fst (sqlite_invite_consume nat_str False s c u))"
  proof -
    have "filter (\<lambda>r. li_code r = c \<and> li_used_by r = None) s = []"
      using no consume_ok_find [OF wf] consume_hit_iff [OF wf, of c] by blast
    then show ?thesis
      unfolding consume_table by (intro map_idI) (auto simp: filter_empty_conv)
  qed
next
  fix s :: invite_table and c c' :: string and u now
  assume "codes_unique s" and "c \<noteq> c'"
  then show "lite_invite_status (pad_nat 17) (snd (sqlite_invite_consume nat_str False s c u)) now c' =
      lite_invite_status (pad_nat 17) s now c'"
    unfolding status_after_consume by (simp add: status_cases split: option.split)
qed

text \<open>
  An invite code of the lite mode is good for one user: whatever users try to
  consume it, in whatever order, at most one attempt succeeds, and it leaves the code used.
\<close>

theorem lite_invite_single_use:
  assumes "codes_unique tbl"
  shows "length (filter id (fst (lis.consume_all tbl code users))) \<le> 1 \<and>
    (is_ok (fst (sqlite_invite_consume nat_str False tbl code u)) \<longrightarrow>
       lite_invite_status (pad_nat 17)
         (snd (sqlite_invite_consume nat_str False tbl code u)) now code = Used)"
  using lis.consume_all_at_most_once [OF assms] lis.consume_used [OF assms] by blast

theorem lite_invite_single_use_witness:
  "fst (lis.consume_all (snd (sqlite_invite_create (pad_nat 17) nat_str False [] 0 ''c'' 1 60)) ''c'' [7, 8])
     = [True, False] \<and>
   length (filter id (fst (lis.consume_all
     (snd (sqlite_invite_create (pad_nat 17) nat_str False [] 0 ''c'' 1 60)) ''c'' [7, 8]))) \<le> 1"
proof -
  have wf: "codes_unique (snd (sqlite_invite_create (pad_nat 17) nat_str False [] 0 ''c'' 1 60))"
    by (simp add: codes_unique_def sqlite_invite_create_def)
  show ?thesis
    using lite_invite_single_use [OF wf, of "''c''" "[7, 8]"]
    by (simp add: sqlite_invite_create_def sqlite_invite_consume_def Let_def)
qed

section \<open>Rate limiter\<close>

text \<open>Rows of \<open>rate_limits\<close>: (policy, key, window number) and the count.\<close>

type_synonym rate_table = "((string \<times> string \<times> nat) \<times> nat) list"

definition sqlite_rate_count :: "rate_table \<Rightarrow> string \<times> string \<times> nat \<Rightarrow> nat" where
  "sqlite_rate_count tbl k = opt_unwrap_or (map_of tbl k) 0"

text \<open>
  \<open>check\<close>: one upsert that returns the new count. A window of 0 seconds divides by zero and
  panics: the outcome \<open>None\<close>.
\<close>

definition sqlite_rate_check ::
  "bool \<Rightarrow> rate_table \<Rightarrow> instant \<Rightarrow> string \<Rightarrow> string \<Rightarrow> nat \<Rightarrow> nat \<Rightarrow>
   ((limiter_error + rate_limit_result) \<times> rate_table) option" where
  "sqlite_rate_check fail tbl now policy key limit window =
     (if window = 0 then None
      else
        (let window_start = timestamp now div window
         in if fail then Some (Inl (LOther driver_text), tbl)
            else
              (let k = (policy, key, window_start);
                   count = sqlite_rate_count tbl k + 1;
                   tbl' = AList.update k count tbl
               in if count \<le> limit
                  then Some (Inr \<lparr>allowed = True, retry_after = 0\<rparr>, tbl')
                  else Some (Inr \<lparr>allowed = False, retry_after = window\<rparr>, tbl'))))"

definition lite_hit ::
  "nat \<Rightarrow> rate_table \<Rightarrow> instant \<Rightarrow> string \<times> string \<Rightarrow> nat \<Rightarrow> bool \<times> rate_table" where
  "lite_hit window tbl now k limit =
     (case sqlite_rate_check False tbl now (fst k) (snd k) limit (Suc window) of
        Some (Inr r, tbl') \<Rightarrow> (allowed r, tbl')
      | _ \<Rightarrow> (True, tbl))"

definition lite_hits :: "nat \<Rightarrow> rate_table \<Rightarrow> instant \<Rightarrow> string \<times> string \<Rightarrow> nat" where
  "lite_hits window tbl now k = sqlite_rate_count tbl (fst k, snd k, timestamp now div Suc window)"

interpretation lrl: rate_limiter "lite_hit w" "lite_hits w" for w
  by unfold_locales
    (auto simp: lite_hit_def lite_hits_def sqlite_rate_check_def sqlite_rate_count_def Let_def
      update_conv' prod_eq_iff)

text \<open>
  The lite-mode limiter counts in fixed windows: of \<open>n\<close> requests on a key in one
  window exactly the first \<open>limit - used\<close> are allowed, each request is counted, other keys are
  untouched, and a request in the next window finds a count of zero.
\<close>

theorem lite_rate_limit_exact:
  "length (filter id (fst (lrl.burst w n tbl now k limit))) = min n (limit - lite_hits w tbl now k) \<and>
   lite_hits w (snd (lrl.burst w n tbl now k limit)) now k = lite_hits w tbl now k + n \<and>
   (k' \<noteq> k \<longrightarrow> lite_hits w (snd (lrl.burst w n tbl now k limit)) t k' = lite_hits w tbl t k')"
  by (metis lrl.burst_allowed lrl.burst_hits lrl.burst_other)

theorem lite_rate_limit_exact_witness:
  "length (filter id (fst (lrl.burst 59 7 [] 0 (''auth'', ''1.2.3.4'') 5))) = 5 \<and>
   lite_hits 59 (snd (lrl.burst 59 7 [] 0 (''auth'', ''1.2.3.4'') 5)) 0 (''auth'', ''5.6.7.8'') = 0"
  using lite_rate_limit_exact [of 59 7 "[]" 0 "(''auth'', ''1.2.3.4'')" 5 "(''auth'', ''5.6.7.8'')" 0]
  by (simp add: lite_hits_def sqlite_rate_count_def)

section \<open>The trait objects of the lite mode\<close>

text \<open>\<open>build_lite_state_components\<close>, without driver failures.\<close>

definition lite_blacklist_ops :: "(nat \<Rightarrow> string) \<Rightarrow> blacklist_table blacklist_ops" where
  "lite_blacklist_ops mf =
     \<lparr>bo_check = sqlite_blacklist_check mf False, bo_revoke = sqlite_blacklist_revoke mf False\<rparr>"

definition lite_invite_ops ::
  "(nat \<Rightarrow> string) \<Rightarrow> (uuid \<Rightarrow> string) \<Rightarrow> (string \<Rightarrow> uuid option) \<Rightarrow> (string \<Rightarrow> nat option) \<Rightarrow>
   invite_table invite_ops" where
  "lite_invite_ops mf us up dt =
     \<lparr>io_create = sqlite_invite_create mf us False, io_verify = sqlite_invite_verify mf False,
      io_consume = (\<lambda>s now. sqlite_invite_consume us False s),
      io_list = (\<lambda>s now. (sqlite_invite_list up dt False s, s)),
      io_verify_detail = sqlite_invite_verify_detail mf False\<rparr>"

lemma refused_lite [simp]: "refused (lite_blacklist_ops mf) = lite_check mf"
  by (intro ext) (simp add: refused_def lite_check_def lite_blacklist_ops_def)

lemma revoked_in_lite [simp]: "revoked_in (lite_blacklist_ops mf) = lite_revoke mf"
  by (intro ext) (simp add: revoked_in_def lite_revoke_def lite_blacklist_ops_def)

end
