(* ===== verification/Auth.thy ===== *)
theory Auth
  imports I18n Tables State_Traits Lite_State
begin

text \<open>
  Authentication: \<open>pichost-api/src/routes/auth.rs\<close> (register, login, refresh, logout),
  \<open>pichost-api/src/middleware/auth.rs\<close> (\<open>require_auth\<close>, \<open>require_admin\<close>) and
  \<open>pichost-api/src/services/user_ops.rs\<close>.

  jsonwebtoken, argon2 and the UUID text form are parameters (\<open>jwt_lib\<close>, \<open>auth_env\<close>); what the
  code relies on is \<open>jwt_laws\<close> and \<open>env_laws\<close>. One handler call happens at one instant \<open>now\<close>;
  the ids it draws, the token ids and the salt are arguments. \<open>fails n\<close> says that the n-th
  database statement of the call fails. \<open>secret\<close> and the times to live come from the
  configuration.
\<close>

section \<open>Claims and tokens\<close>

record access_claims =
  acl_sub :: string
  acl_jti :: string
  acl_exp :: nat
  acl_iat :: nat
  acl_is_admin :: bool
  acl_typ :: string

record refresh_claims =
  rcl_sub :: string
  rcl_jti :: string
  rcl_exp :: nat
  rcl_iat :: nat
  rcl_is_admin :: bool
  rcl_typ :: string
  rcl_access_jti :: string
  rcl_access_exp :: nat

text \<open>\<open>encode\<close> and \<open>decode\<close> with HS256: secret, then whether \<open>validate_exp\<close> is set.\<close>

record jwt_lib =
  jw_encode_access :: "string \<Rightarrow> access_claims \<Rightarrow> string option"
  jw_encode_refresh :: "string \<Rightarrow> refresh_claims \<Rightarrow> string option"
  jw_decode_access :: "string \<Rightarrow> bool \<Rightarrow> instant \<Rightarrow> string \<Rightarrow> access_claims option"
  jw_decode_refresh :: "string \<Rightarrow> bool \<Rightarrow> instant \<Rightarrow> string \<Rightarrow> refresh_claims option"

record auth_env =
  ae_jwt :: jwt_lib
  ae_hash :: "nat \<Rightarrow> string \<Rightarrow> string option"
  ae_parse_hash :: "string \<Rightarrow> bool"
  ae_verify :: "string \<Rightarrow> string \<Rightarrow> bool"
  ae_uuid_str :: "uuid \<Rightarrow> string"
  ae_uuid_parse :: "string \<Rightarrow> uuid option"
  ae_wm_of_json :: "json \<Rightarrow> watermark_config option"

text \<open>\<open>Validation::new\<close> keeps the default leeway of 60 seconds.\<close>

definition token_expired :: "nat \<Rightarrow> instant \<Rightarrow> bool" where
  "token_expired e now = (e + 60 < timestamp now)"

definition access_part :: "refresh_claims \<Rightarrow> access_claims" where
  "access_part c = \<lparr>acl_sub = rcl_sub c, acl_jti = rcl_jti c, acl_exp = rcl_exp c,
     acl_iat = rcl_iat c, acl_is_admin = rcl_is_admin c, acl_typ = rcl_typ c\<rparr>"

text \<open>
  A token decodes to the claims it was made of, under its secret and until its expiry; a claim
  that a type does not have is ignored, a claim that is missing is an error.
\<close>

definition jwt_laws :: "jwt_lib \<Rightarrow> bool" where
  "jwt_laws jw \<longleftrightarrow>
     (\<forall>k c tok v now. jw_encode_access jw k c = Some tok \<longrightarrow>
        jw_decode_access jw k v now tok =
          (if v \<and> token_expired (acl_exp c) now then None else Some c) \<and>
        jw_decode_refresh jw k v now tok = None) \<and>
     (\<forall>k c tok v now. jw_encode_refresh jw k c = Some tok \<longrightarrow>
        jw_decode_refresh jw k v now tok =
          (if v \<and> token_expired (rcl_exp c) now then None else Some c) \<and>
        jw_decode_access jw k v now tok =
          (if v \<and> token_expired (rcl_exp c) now then None else Some (access_part c)))"

definition env_laws :: "auth_env \<Rightarrow> bool" where
  "env_laws env \<longleftrightarrow> jwt_laws (ae_jwt env) \<and>
     (\<forall>u. ae_uuid_parse env (ae_uuid_str env u) = Some u) \<and>
     (\<forall>salt pw h. ae_hash env salt pw = Some h \<longrightarrow> ae_parse_hash env h \<and> ae_verify env h pw)"

text \<open>\<open>generate_tokens\<close>: \<open>None\<close> is an error of the encoder. \<open>aj\<close> and \<open>rj\<close> are the fresh token ids.\<close>

definition make_claims ::
  "auth_env \<Rightarrow> auth_config \<Rightarrow> instant \<Rightarrow> uuid \<Rightarrow> uuid \<Rightarrow> uuid \<Rightarrow> bool \<Rightarrow> access_claims \<times> refresh_claims" where
  "make_claims env cfg now aj rj user_id adm =
     (let n = timestamp now;
          access_exp = n + ac_access_token_ttl cfg;
          refresh_exp = n + ac_refresh_token_ttl cfg;
          access_jti = ae_uuid_str env aj
      in (\<lparr>acl_sub = ae_uuid_str env user_id, acl_jti = access_jti, acl_exp = access_exp,
           acl_iat = n, acl_is_admin = adm, acl_typ = ''access''\<rparr>,
          \<lparr>rcl_sub = ae_uuid_str env user_id, rcl_jti = ae_uuid_str env rj, rcl_exp = refresh_exp,
           rcl_iat = n, rcl_is_admin = adm, rcl_typ = ''refresh'',
           rcl_access_jti = access_jti, rcl_access_exp = access_exp\<rparr>))"

definition generate_tokens ::
  "auth_env \<Rightarrow> auth_config \<Rightarrow> instant \<Rightarrow> uuid \<Rightarrow> uuid \<Rightarrow> uuid \<Rightarrow> bool \<Rightarrow>
   (string \<times> string \<times> access_claims \<times> refresh_claims) option" where
  "generate_tokens env cfg now aj rj user_id adm =
     (let (ac, rc) = make_claims env cfg now aj rj user_id adm
      in case jw_encode_access (ae_jwt env) (ac_jwt_secret cfg) ac of
           None \<Rightarrow> None
         | Some acc_t \<Rightarrow>
             (case jw_encode_refresh (ae_jwt env) (ac_jwt_secret cfg) rc of
                None \<Rightarrow> None
              | Some ref_t \<Rightarrow> Some (acc_t, ref_t, ac, rc)))"

section \<open>The middleware\<close>

record auth_user =
  au_id :: uuid
  au_is_admin :: bool
  au_storage_quota :: "int option"
  au_watermark :: "watermark_config option"

definition extract_bearer_token :: "i18n \<Rightarrow> language \<Rightarrow> string option \<Rightarrow> api_error + string" where
  "extract_bearer_token g loc header =
     rbind (ok_or header (error_json g loc 401 ''auth.missing_header''))
       (\<lambda>h. ok_or (strip_prefix h ''Bearer '') (error_json g loc 401 ''auth.invalid_header_format''))"

definition decode_and_validate_jwt ::
  "auth_env \<Rightarrow> i18n \<Rightarrow> language \<Rightarrow> instant \<Rightarrow> string \<Rightarrow> string \<Rightarrow> api_error + access_claims" where
  "decode_and_validate_jwt env g loc now token secret =
     ok_or (jw_decode_access (ae_jwt env) secret True now token)
       (error_json g loc 401 ''auth.invalid_or_expired_token'')"

definition check_blacklist_and_quota ::
  "auth_env \<Rightarrow> 'b blacklist_ops \<Rightarrow> i18n \<Rightarrow> language \<Rightarrow> bool \<Rightarrow> instant \<Rightarrow> db \<Rightarrow> 'b \<Rightarrow> access_claims \<Rightarrow>
   api_error + auth_user" where
  "check_blacklist_and_quota env bl g loc fail now d b claims =
     (if res_unwrap_or (bo_check bl b now (acl_jti claims)) True
      then Inl (error_json g loc 401 ''auth.token_revoked'')
      else
        rbind (ok_or (ae_uuid_parse env (acl_sub claims)) (error_json g loc 401 ''auth.invalid_subject''))
          (\<lambda>user_id.
             if fail then Inl (error_json g loc 500 ''common.internal_error'')
             else
               (let (quota, wm_raw) =
                      (case user_by_id d user_id of
                         None \<Rightarrow> (None, None)
                       | Some u \<Rightarrow> (u_storage_quota u, u_watermark u))
                in Inr \<lparr>au_id = user_id, au_is_admin = acl_is_admin claims, au_storage_quota = quota,
                        au_watermark = Option.bind wm_raw (ae_wm_of_json env)\<rparr>)))"

definition require_auth ::
  "auth_env \<Rightarrow> 'b blacklist_ops \<Rightarrow> auth_config \<Rightarrow> i18n \<Rightarrow> bool \<Rightarrow> instant \<Rightarrow> db \<Rightarrow> 'b \<Rightarrow>
   string option \<Rightarrow> string option \<Rightarrow> api_error + auth_user" where
  "require_auth env bl cfg g fail now d b accept_language authorization =
     (let loc = locale_from_header accept_language (i_language g)
      in rbind (extract_bearer_token g loc authorization)
           (\<lambda>token. rbind (decode_and_validate_jwt env g loc now token (ac_jwt_secret cfg))
             (\<lambda>claims. check_blacklist_and_quota env bl g loc fail now d b claims)))"

definition require_admin :: "i18n \<Rightarrow> string option \<Rightarrow> auth_user option \<Rightarrow> api_error + auth_user" where
  "require_admin g accept_language extension =
     (let loc = locale_from_header accept_language (i_language g)
      in rbind (ok_or extension (error_json g loc 401 ''auth.authentication_required''))
           (\<lambda>u. if \<not> au_is_admin u then Inl (error_json g loc 403 ''auth.admin_required'') else Inr u))"

section \<open>User rows\<close>

definition count_users :: "bool \<Rightarrow> user_row list \<Rightarrow> db_error + int" where
  "count_users fail us = (if fail then Inl DbOtherError else Inr (int (length us)))"

definition insert_user ::
  "bool \<Rightarrow> uuid \<Rightarrow> instant \<Rightarrow> string \<Rightarrow> string option \<Rightarrow> string \<Rightarrow> bool \<Rightarrow> int option \<Rightarrow>
   user_row list \<Rightarrow> (db_error + uuid) \<times> user_row list" where
  "insert_user fail uid now username email hash adm quota us =
     (if fail then (Inl DbOtherError, us)
      else if uid \<in> set (map u_id us) \<or> username \<in> set (map u_username us) \<or>
              (email \<noteq> None \<and> email \<in> set (map u_email us))
      then (Inl (DbCode (Some ''23505'')), us)
      else (Inr uid,
            us @ [\<lparr>u_id = uid, u_username = username, u_email = email, u_password_hash = hash,
                   u_storage_backend = ''local'', u_storage_prefix = [], u_storage_quota = quota,
                   u_is_admin = adm, u_created_at = now, u_updated_at = now, u_watermark = None\<rparr>]))"

section \<open>Handlers\<close>

record register_request =
  rg_username :: string
  rg_password :: string
  rg_email :: "string option"
  rg_invite_code :: "string option"

record login_request =
  lg_username :: string
  lg_password :: string

record user_info =
  ui_id :: uuid
  ui_username :: string
  ui_email :: "string option"
  ui_is_admin :: bool
  ui_storage_quota :: "int option"

record auth_response =
  ar_access_token :: string
  ar_refresh_token :: string
  ar_user :: user_info

definition validate_register_payload ::
  "i18n \<Rightarrow> language \<Rightarrow> register_request \<Rightarrow> api_error + unit" where
  "validate_register_payload g loc p =
     (if length (rg_password p) < 6
      then Inl (error_json g loc 400 ''validation.password_min_length'') else Inr ())"

definition check_invite_code ::
  "'i invite_ops \<Rightarrow> i18n \<Rightarrow> language \<Rightarrow> instant \<Rightarrow> 'i \<Rightarrow> string option \<Rightarrow> bool \<Rightarrow> api_error + unit" where
  "check_invite_code io g loc now ivs invite_code is_first_user =
     (if \<not> is_first_user then
        rbind (ok_or invite_code (error_json g loc 400 ''invite.required''))
          (\<lambda>code.
             case io_verify_detail io ivs now code of
               Inl e \<Rightarrow> Inl (error_json g loc 500 ''common.internal_error'')
             | Inr Valid \<Rightarrow> Inr ()
             | Inr Used \<Rightarrow> Inl (error_json g loc 400 ''invite.used'')
             | Inr Expired \<Rightarrow> Inl (error_json g loc 400 ''invite.expired'')
             | Inr NotFoundCode \<Rightarrow> Inl (error_json g loc 400 ''invite.invalid''))
      else Inr ())"

definition count_existing_users ::
  "i18n \<Rightarrow> language \<Rightarrow> bool \<Rightarrow> db \<Rightarrow> api_error + int" where
  "count_existing_users g loc fail d =
     (case count_users fail (t_users d) of
        Inl e \<Rightarrow> Inl (error_json g loc 500 ''common.internal_error'') | Inr n \<Rightarrow> Inr n)"

definition insert_user_row ::
  "i18n \<Rightarrow> language \<Rightarrow> bool \<Rightarrow> uuid \<Rightarrow> instant \<Rightarrow> string \<Rightarrow> string option \<Rightarrow> string \<Rightarrow> bool \<Rightarrow>
   int option \<Rightarrow> db \<Rightarrow> (api_error + uuid) \<times> db" where
  "insert_user_row g loc fail uid now username email hash adm quota d =
     (case insert_user fail uid now username email hash adm quota (t_users d) of
        (Inl e, us) \<Rightarrow>
          (if db_error_kind e = UniqueViolation
           then (Inl (error_json g loc 409 ''auth.username_exists''), d)
           else (Inl (error_json g loc 500 ''common.internal_error''), d))
      | (Inr i, us) \<Rightarrow> (Inr i, d\<lparr>t_users := us\<rparr>))"

definition set_storage_prefix :: "uuid \<Rightarrow> string \<Rightarrow> db \<Rightarrow> db" where
  "set_storage_prefix uid prefix d =
     d\<lparr>t_users := map (\<lambda>u. if u_id u = uid then u\<lparr>u_storage_prefix := prefix\<rparr> else u) (t_users d)\<rparr>"

text \<open>The fresh ids of one call: the user's, the two token ids, and the salt.\<close>

record draws =
  dr_user :: uuid
  dr_access :: uuid
  dr_refresh :: uuid
  dr_salt :: nat

definition create_user_and_tokens ::
  "auth_env \<Rightarrow> 'i invite_ops \<Rightarrow> app_config \<Rightarrow> i18n \<Rightarrow> language \<Rightarrow> faults \<Rightarrow> instant \<Rightarrow> draws \<Rightarrow>
   register_request \<Rightarrow> bool \<Rightarrow> db \<Rightarrow> 'i \<Rightarrow>
   (api_error + uuid \<times> string \<times> string \<times> int option) \<times> db \<times> 'i" where
  "create_user_and_tokens env io cfg g loc fails now dr p is_first_user d ivs =
     (case ae_hash env (dr_salt dr) (rg_password p) of
        None \<Rightarrow> (Inl (error_json g loc 500 ''common.internal_error''), d, ivs)
      | Some hash \<Rightarrow>
          (let quota_default = up_storage_quota_default (cf_upload cfg);
               storage_quota = (if 0 < quota_default then Some (as_i64 (int quota_default)) else None)
           in case insert_user_row g loc (fails 1) (dr_user dr) now (rg_username p) (rg_email p) hash
                     is_first_user storage_quota d of
                (Inl e, d1) \<Rightarrow> (Inl e, d1, ivs)
              | (Inr user_id, d1) \<Rightarrow>
                  (let ivs1 = (if is_first_user then ivs
                               else (case rg_invite_code p of
                                       None \<Rightarrow> ivs
                                     | Some code \<Rightarrow> snd (io_consume io ivs now code user_id)));
                       d2 = (if fails 2 then d1
                             else set_storage_prefix user_id (''users/'' @ ae_uuid_str env user_id) d1)
                   in case generate_tokens env (cf_auth cfg) now (dr_access dr) (dr_refresh dr)
                             user_id is_first_user of
                        None \<Rightarrow> (Inl (error_json g loc 500 ''common.internal_error''), d2, ivs1)
                      | Some (acc_t, ref_t, ac, rc) \<Rightarrow> (Inr (user_id, acc_t, ref_t, storage_quota), d2, ivs1))))"

definition register ::
  "auth_env \<Rightarrow> 'i invite_ops \<Rightarrow> app_config \<Rightarrow> i18n \<Rightarrow> language \<Rightarrow> faults \<Rightarrow> instant \<Rightarrow> draws \<Rightarrow>
   register_request \<Rightarrow> db \<Rightarrow> 'i \<Rightarrow> (api_error + status_code \<times> auth_response) \<times> db \<times> 'i" where
  "register env io cfg g loc fails now dr p d ivs =
     (case validate_register_payload g loc p of
        Inl e \<Rightarrow> (Inl e, d, ivs)
      | Inr _ \<Rightarrow>
     (case count_existing_users g loc (fails 0) d of
        Inl e \<Rightarrow> (Inl e, d, ivs)
      | Inr user_count \<Rightarrow>
          (let is_first_user = (user_count = 0) in
     (case check_invite_code io g loc now ivs (rg_invite_code p) is_first_user of
        Inl e \<Rightarrow> (Inl e, d, ivs)
      | Inr _ \<Rightarrow>
     (case create_user_and_tokens env io cfg g loc fails now dr p is_first_user d ivs of
        (Inl e, d1, ivs1) \<Rightarrow> (Inl e, d1, ivs1)
      | (Inr (user_id, acc_t, ref_t, quota), d1, ivs1) \<Rightarrow>
          (Inr (201, \<lparr>ar_access_token = acc_t, ar_refresh_token = ref_t,
             ar_user = \<lparr>ui_id = user_id, ui_username = rg_username p, ui_email = rg_email p,
                        ui_is_admin = is_first_user, ui_storage_quota = quota\<rparr>\<rparr>), d1, ivs1))))))"

definition login ::
  "auth_env \<Rightarrow> app_config \<Rightarrow> i18n \<Rightarrow> language \<Rightarrow> bool \<Rightarrow> instant \<Rightarrow> draws \<Rightarrow> login_request \<Rightarrow> db \<Rightarrow>
   api_error + status_code \<times> auth_response" where
  "login env cfg g loc fail now dr p d =
     (if fail then Inl (error_json g loc 500 ''common.internal_error'')
      else
        rbind (ok_or (user_by_name d (lg_username p)) (error_json g loc 401 ''auth.invalid_credentials''))
          (\<lambda>u.
             if \<not> ae_parse_hash env (u_password_hash u)
             then Inl (error_json g loc 500 ''common.internal_error'')
             else if \<not> ae_verify env (u_password_hash u) (lg_password p)
             then Inl (error_json g loc 401 ''auth.invalid_credentials'')
             else
               (case generate_tokens env (cf_auth cfg) now (dr_access dr) (dr_refresh dr) (u_id u)
                       (u_is_admin u) of
                  None \<Rightarrow> Inl (error_json g loc 500 ''common.internal_error'')
                | Some (acc_t, ref_t, ac, rc) \<Rightarrow>
                    Inr (200, \<lparr>ar_access_token = acc_t, ar_refresh_token = ref_t,
                      ar_user = \<lparr>ui_id = u_id u, ui_username = u_username u, ui_email = u_email u,
                                 ui_is_admin = u_is_admin u, ui_storage_quota = u_storage_quota u\<rparr>\<rparr>))))"

definition lookup_user_for_refresh ::
  "auth_env \<Rightarrow> i18n \<Rightarrow> language \<Rightarrow> bool \<Rightarrow> db \<Rightarrow> string \<Rightarrow> api_error + user_row" where
  "lookup_user_for_refresh env g loc fail d sub =
     rbind (ok_or (ae_uuid_parse env sub) (error_json g loc 401 ''auth.invalid_subject''))
       (\<lambda>user_id.
          if fail then Inl (error_json g loc 500 ''auth.internal_error'')
          else ok_or (user_by_id d user_id) (error_json g loc 401 ''auth.user_not_found''))"

definition revoke_old_tokens ::
  "'b blacklist_ops \<Rightarrow> refresh_claims \<Rightarrow> instant \<Rightarrow> 'b \<Rightarrow> 'b" where
  "revoke_old_tokens bl claims now b =
     (let b1 = snd (bo_revoke bl b now (rcl_jti claims) (rcl_exp claims - timestamp now));
          access_ttl = rcl_access_exp claims - timestamp now
      in if 0 < access_ttl then snd (bo_revoke bl b1 now (rcl_access_jti claims) access_ttl) else b1)"

definition refresh ::
  "auth_env \<Rightarrow> 'b blacklist_ops \<Rightarrow> app_config \<Rightarrow> i18n \<Rightarrow> language \<Rightarrow> bool \<Rightarrow> instant \<Rightarrow> draws \<Rightarrow>
   string \<Rightarrow> db \<Rightarrow> 'b \<Rightarrow> (api_error + status_code \<times> auth_response) \<times> 'b" where
  "refresh env bl cfg g loc fail now dr token d b =
     (case jw_decode_refresh (ae_jwt env) (ac_jwt_secret (cf_auth cfg)) True now token of
        None \<Rightarrow> (Inl (error_json g loc 401 ''auth.invalid_refresh_token''), b)
      | Some claims \<Rightarrow>
          (if rcl_typ claims \<noteq> ''refresh''
           then (Inl (error_json g loc 401 ''auth.invalid_token_type''), b)
           else if res_unwrap_or (bo_check bl b now (rcl_jti claims)) True
           then (Inl (error_json g loc 401 ''auth.refresh_token_revoked''), b)
           else
             (case lookup_user_for_refresh env g loc fail d (rcl_sub claims) of
                Inl e \<Rightarrow> (Inl e, b)
              | Inr u \<Rightarrow>
                  (case generate_tokens env (cf_auth cfg) now (dr_access dr) (dr_refresh dr) (u_id u)
                          (u_is_admin u) of
                     None \<Rightarrow> (Inl (error_json g loc 500 ''auth.token_generation_failed''), b)
                   | Some (acc_t, ref_t, ac, rc) \<Rightarrow>
                       (Inr (200, \<lparr>ar_access_token = acc_t, ar_refresh_token = ref_t,
                          ar_user = \<lparr>ui_id = u_id u, ui_username = u_username u, ui_email = u_email u,
                                     ui_is_admin = u_is_admin u, ui_storage_quota = u_storage_quota u\<rparr>\<rparr>),
                        revoke_old_tokens bl claims now b)))))"

definition logout ::
  "auth_env \<Rightarrow> 'b blacklist_ops \<Rightarrow> app_config \<Rightarrow> i18n \<Rightarrow> language \<Rightarrow> instant \<Rightarrow> string option \<Rightarrow> 'b \<Rightarrow>
   (api_error + status_code \<times> json) \<times> 'b" where
  "logout env bl cfg g loc now authorization b =
     (case Option.bind authorization (\<lambda>h. strip_prefix h ''Bearer '') of
        None \<Rightarrow> (Inl (error_json g loc 401 ''auth.missing_header''), b)
      | Some token \<Rightarrow>
          (case jw_decode_access (ae_jwt env) (ac_jwt_secret (cf_auth cfg)) False now token of
             None \<Rightarrow> (Inl (error_json g loc 401 ''auth.invalid_token''), b)
           | Some claims \<Rightarrow>
               (if acl_typ claims \<noteq> ''access''
                then (Inl (error_json g loc 400 ''auth.logout_access_only''), b)
                else
                  (let ttl = acl_exp claims - timestamp now;
                       b1 = (if 0 < ttl then snd (bo_revoke bl b now (acl_jti claims) ttl) else b)
                   in (Inr (200, JObj [(''message'', JStr ''logged out successfully'')]), b1)))))"

end
