(* ===== verification/Token_Codec.thy ===== *)
theory Token_Codec
  imports Auth
begin

text \<open>
  A concrete instance of the parameters of \<open>Auth\<close>: an encoding of claims as text that satisfies
  \<open>jwt_laws\<close>, and an environment over it. It serves the witnesses; the code uses jsonwebtoken,
  argon2 and uuid. A field is written with its length in unary.
\<close>

definition enc_field :: "string \<Rightarrow> string" where
  "enc_field s = replicate (length s) (CHR ''#'') @ ''.'' @ s"

definition dec_field :: "string \<Rightarrow> (string \<times> string) option" where
  "dec_field t =
     (let n = length (takeWhile (\<lambda>c. c = CHR ''#'') t); r = drop (Suc n) t
      in if n < length t then Some (take n r, drop n r) else None)"

definition enc_fields :: "string list \<Rightarrow> string" where
  "enc_fields fs = concat (map enc_field fs)"

fun dec_fields :: "nat \<Rightarrow> string \<Rightarrow> string list option" where
  "dec_fields 0 t = Some []"
| "dec_fields (Suc n) t =
     (case dec_field t of
        None \<Rightarrow> None
      | Some (s, r) \<Rightarrow> map_option (Cons s) (dec_fields n r))"

lemma dec_field_enc [simp]: "dec_field (enc_field s @ r) = Some (s, r)"
proof -
  have "takeWhile (\<lambda>c. c = CHR ''#'') (replicate n (CHR ''#'') @ CHR ''.'' # t) =
      replicate n (CHR ''#'')" for n t
    by (induction n) auto
  then show ?thesis by (simp add: dec_field_def enc_field_def Let_def)
qed

lemma dec_field_enc' [simp]: "dec_field (enc_field s) = Some (s, [])"
  using dec_field_enc [of s "[]"] by simp

lemma enc_fields_simps [simp]:
  "enc_fields [] = []" "enc_fields (f # fs) = enc_field f @ enc_fields fs"
  by (simp_all add: enc_fields_def)

lemma dec_field_Nil [simp]: "dec_field [] = None"
  by (simp add: dec_field_def)

lemma dec_fields_numeral [simp]:
  "dec_fields (numeral k) t =
     (case dec_field t of
        None \<Rightarrow> None
      | Some (s, r) \<Rightarrow> map_option (Cons s) (dec_fields (pred_numeral k) r))"
  by (simp add: numeral_eq_Suc)

definition flag_text :: "bool \<Rightarrow> string" where
  "flag_text b = (if b then ''1'' else ''0'')"

lemma flag_text_eq [simp]: "(flag_text b = ''1'') = b"
  by (simp add: flag_text_def)

definition demo_encode_access :: "string \<Rightarrow> access_claims \<Rightarrow> string option" where
  "demo_encode_access k c =
     Some (enc_fields [k, acl_sub c, acl_jti c, nat_str (acl_exp c), nat_str (acl_iat c),
                       flag_text (acl_is_admin c), acl_typ c])"

definition demo_encode_refresh :: "string \<Rightarrow> refresh_claims \<Rightarrow> string option" where
  "demo_encode_refresh k c =
     Some (enc_fields [k, rcl_sub c, rcl_jti c, nat_str (rcl_exp c), nat_str (rcl_iat c),
                       flag_text (rcl_is_admin c), rcl_typ c, rcl_access_jti c,
                       nat_str (rcl_access_exp c)])"

definition demo_decode_access :: "string \<Rightarrow> bool \<Rightarrow> instant \<Rightarrow> string \<Rightarrow> access_claims option" where
  "demo_decode_access k v now tok =
     (case dec_fields 7 tok of
        None \<Rightarrow> None
      | Some fs \<Rightarrow>
          (if fs ! 0 = k \<and> \<not> (v \<and> token_expired (digits_val (fs ! 3)) now)
           then Some \<lparr>acl_sub = fs ! 1, acl_jti = fs ! 2, acl_exp = digits_val (fs ! 3),
                      acl_iat = digits_val (fs ! 4), acl_is_admin = (fs ! 5 = ''1''), acl_typ = fs ! 6\<rparr>
           else None))"

definition demo_decode_refresh :: "string \<Rightarrow> bool \<Rightarrow> instant \<Rightarrow> string \<Rightarrow> refresh_claims option" where
  "demo_decode_refresh k v now tok =
     (case dec_fields 9 tok of
        None \<Rightarrow> None
      | Some fs \<Rightarrow>
          (if fs ! 0 = k \<and> \<not> (v \<and> token_expired (digits_val (fs ! 3)) now)
           then Some \<lparr>rcl_sub = fs ! 1, rcl_jti = fs ! 2, rcl_exp = digits_val (fs ! 3),
                      rcl_iat = digits_val (fs ! 4), rcl_is_admin = (fs ! 5 = ''1''), rcl_typ = fs ! 6,
                      rcl_access_jti = fs ! 7, rcl_access_exp = digits_val (fs ! 8)\<rparr>
           else None))"

definition demo_jwt :: jwt_lib where
  "demo_jwt = \<lparr>jw_encode_access = demo_encode_access, jw_encode_refresh = demo_encode_refresh,
     jw_decode_access = demo_decode_access, jw_decode_refresh = demo_decode_refresh\<rparr>"

lemma demo_jwt_laws: "jwt_laws demo_jwt"
  by (auto simp: jwt_laws_def demo_jwt_def demo_encode_access_def demo_encode_refresh_def
      demo_decode_access_def demo_decode_refresh_def access_part_def)

definition digits_only :: "string \<Rightarrow> bool" where
  "digits_only s \<longleftrightarrow> s \<noteq> [] \<and> list_all (\<lambda>c. 48 \<le> (of_char c :: nat) \<and> (of_char c :: nat) \<le> 57) s"

lemma digits_only_nat_str [simp]: "digits_only (nat_str n)"
proof (induction n rule: nat_str.induct)
  case (1 n)
  then show ?case
    by (cases "n < 10") (simp_all add: nat_str.simps [of n] digits_only_def)
qed

definition demo_env :: auth_env where
  "demo_env = \<lparr>ae_jwt = demo_jwt, ae_hash = (\<lambda>salt pw. Some (''$'' @ pw)),
     ae_parse_hash = (\<lambda>h. starts_with h ''$''), ae_verify = (\<lambda>h pw. h = ''$'' @ pw),
     ae_uuid_str = nat_str, ae_uuid_parse = (\<lambda>s. if digits_only s then Some (digits_val s) else None),
     ae_wm_of_json = (\<lambda>_. None)\<rparr>"

lemma demo_env_laws: "env_laws demo_env"
  by (auto simp: env_laws_def demo_env_def demo_jwt_laws starts_with_def)

end
