(* ===== verification/Auth_Props.thy ===== *)
theory Auth_Props
  imports Token_Codec
begin

text \<open>
  What authentication guarantees: tokens that login issues pass the middleware, the middleware
  fails closed, a refresh retires the tokens it replaces, registration is gated by an invite,
  and the places where the code allows more than that.
\<close>

section \<open>Library\<close>

lemma generate_tokens_Some:
  "generate_tokens env cfg now aj rj u adm = Some (a, r, ac, rc) \<longleftrightarrow>
   (ac, rc) = make_claims env cfg now aj rj u adm \<and>
   jw_encode_access (ae_jwt env) (ac_jwt_secret cfg) ac = Some a \<and>
   jw_encode_refresh (ae_jwt env) (ac_jwt_secret cfg) rc = Some r"
  by (auto simp: generate_tokens_def split: prod.splits option.splits)

lemma make_claims_sel:
  assumes "(ac, rc) = make_claims env cfg now aj rj u adm"
  shows "acl_sub ac = ae_uuid_str env u" "acl_jti ac = ae_uuid_str env aj"
    "acl_exp ac = timestamp now + ac_access_token_ttl cfg" "acl_is_admin ac = adm"
    "acl_typ ac = ''access''"
    "rcl_sub rc = ae_uuid_str env u" "rcl_jti rc = ae_uuid_str env rj"
    "rcl_exp rc = timestamp now + ac_refresh_token_ttl cfg" "rcl_is_admin rc = adm"
    "rcl_typ rc = ''refresh''" "rcl_access_jti rc = ae_uuid_str env aj"
    "rcl_access_exp rc = timestamp now + ac_access_token_ttl cfg"
  using assms by (simp_all add: make_claims_def Let_def)

lemma access_token_decodes:
  assumes "env_laws env" and "jw_encode_access (ae_jwt env) k c = Some tok"
  shows "jw_decode_access (ae_jwt env) k v now tok =
    (if v \<and> token_expired (acl_exp c) now then None else Some c)"
  using assms by (simp add: env_laws_def jwt_laws_def)

lemma refresh_token_decodes:
  assumes "env_laws env" and "jw_encode_refresh (ae_jwt env) k c = Some tok"
  shows "jw_decode_refresh (ae_jwt env) k v now tok =
      (if v \<and> token_expired (rcl_exp c) now then None else Some c)"
    and "jw_decode_access (ae_jwt env) k v now tok =
      (if v \<and> token_expired (rcl_exp c) now then None else Some (access_part c))"
  using assms by (simp_all add: env_laws_def jwt_laws_def)

text \<open>What the tokens of one call of \<open>generate_tokens\<close> decode to.\<close>

lemma issued_tokens:
  assumes env: "env_laws env" and gt: "generate_tokens env cfg now aj rj u adm = Some (a, r, ac, rc)"
  shows "jw_decode_access (ae_jwt env) (ac_jwt_secret cfg) v t a =
      (if v \<and> token_expired (timestamp now + ac_access_token_ttl cfg) t then None else Some ac)"
    and "jw_decode_refresh (ae_jwt env) (ac_jwt_secret cfg) v t r =
      (if v \<and> token_expired (timestamp now + ac_refresh_token_ttl cfg) t then None else Some rc)"
    and "jw_decode_access (ae_jwt env) (ac_jwt_secret cfg) v t r =
      (if v \<and> token_expired (timestamp now + ac_refresh_token_ttl cfg) t then None
       else Some (access_part rc))"
    and "acl_jti ac = ae_uuid_str env aj" "rcl_jti rc = ae_uuid_str env rj"
    and "acl_is_admin ac = adm" "rcl_is_admin rc = adm"
    and "ae_uuid_parse env (acl_sub ac) = Some u" "ae_uuid_parse env (rcl_sub rc) = Some u"
proof -
  have mk: "(ac, rc) = make_claims env cfg now aj rj u adm"
    and ea: "jw_encode_access (ae_jwt env) (ac_jwt_secret cfg) ac = Some a"
    and er: "jw_encode_refresh (ae_jwt env) (ac_jwt_secret cfg) rc = Some r"
    using gt unfolding generate_tokens_Some by blast+
  note sel = make_claims_sel [OF mk]
  show "jw_decode_access (ae_jwt env) (ac_jwt_secret cfg) v t a =
      (if v \<and> token_expired (timestamp now + ac_access_token_ttl cfg) t then None else Some ac)"
    unfolding access_token_decodes [OF env ea] sel(3) ..
  show "jw_decode_refresh (ae_jwt env) (ac_jwt_secret cfg) v t r =
      (if v \<and> token_expired (timestamp now + ac_refresh_token_ttl cfg) t then None else Some rc)"
    and "jw_decode_access (ae_jwt env) (ac_jwt_secret cfg) v t r =
      (if v \<and> token_expired (timestamp now + ac_refresh_token_ttl cfg) t then None
       else Some (access_part rc))"
    unfolding refresh_token_decodes [OF env er] sel(8) by (rule refl)+
  show "ae_uuid_parse env (acl_sub ac) = Some u" "ae_uuid_parse env (rcl_sub rc) = Some u"
    using env unfolding sel by (simp_all add: env_laws_def)
qed (use make_claims_sel generate_tokens_Some gt in metis)+

text \<open>The header a client sends with a token.\<close>

definition bearer :: "string \<Rightarrow> string" where "bearer tok = ''Bearer '' @ tok"

lemma strip_bearer [simp]: "strip_prefix (bearer tok) ''Bearer '' = Some tok"
  unfolding bearer_def by (rule strip_prefix_append)

text \<open>The middleware, given what the token decodes to.\<close>

lemma require_auth_decoded:
  assumes "jw_decode_access (ae_jwt env) (ac_jwt_secret cfg) True now tok = Some c"
  shows "require_auth env bl cfg g fail now d b al (Some (bearer tok)) =
    check_blacklist_and_quota env bl g (locale_from_header al (i_language g)) fail now d b c"
  using assms
  by (simp add: require_auth_def extract_bearer_token_def decode_and_validate_jwt_def Let_def)

lemma check_blacklist_passes:
  assumes "\<not> refused bl b now (acl_jti c)" and "ae_uuid_parse env (acl_sub c) = Some uid"
  shows "check_blacklist_and_quota env bl g loc False now d b c =
    Inr \<lparr>au_id = uid, au_is_admin = acl_is_admin c,
      au_storage_quota = Option.bind (user_by_id d uid) u_storage_quota,
      au_watermark = Option.bind (Option.bind (user_by_id d uid) u_watermark) (ae_wm_of_json env)\<rparr>"
  using assms by (auto simp: check_blacklist_and_quota_def refused_def split: option.splits)

lemma require_auth_refused:
  assumes "jw_decode_access (ae_jwt env) (ac_jwt_secret cfg) True now tok = Some c"
    and "refused bl b now (acl_jti c)"
  shows "require_auth env bl cfg g fail now d b al (Some (bearer tok)) =
    Inl (error_json g (locale_from_header al (i_language g)) 401 ''auth.token_revoked'')"
  using assms(2) unfolding require_auth_decoded [OF assms(1)]
  by (simp add: check_blacklist_and_quota_def refused_def)

lemma user_by_id_name:
  assumes "users_unique (t_users d)" and "user_by_name d n = Some u"
  shows "user_by_id d (u_id u) = Some u"
  using assms find_key_unique [of u_id "t_users d" u]
  by (auto simp: user_by_id_def user_by_name_def users_unique_def dest: find_SomeD)

lemma login_Inr:
  assumes "login env cfg g loc fail now dr p d = Inr (s, r)"
  obtains u ac rc where "user_by_name d (lg_username p) = Some u"
    "ae_verify env (u_password_hash u) (lg_password p)" "\<not> fail" "s = 200"
    "generate_tokens env (cf_auth cfg) now (dr_access dr) (dr_refresh dr) (u_id u) (u_is_admin u) =
       Some (ar_access_token r, ar_refresh_token r, ac, rc)"
    "ui_id (ar_user r) = u_id u" "ui_is_admin (ar_user r) = u_is_admin u"
    "ui_storage_quota (ar_user r) = u_storage_quota u" "ui_username (ar_user r) = u_username u"
  using assms
  by (auto simp: login_def rbind_eq_Inr split: if_splits option.splits)
    (auto simp: ok_or_def split: option.splits)

section \<open>Login\<close>

text \<open>
  The access token a successful login returns is the user's: it is issued only for
  the right password, and until it expires or is revoked the middleware accepts it and hands
  the handlers this user's id, admin flag and quota.
\<close>

theorem login_token_authenticates:
  assumes "env_laws env" and "users_unique (t_users d)"
    and "login env cfg g loc fail now dr p d = Inr (s, r)"
    and "\<not> token_expired (timestamp now + ac_access_token_ttl (cf_auth cfg)) now'"
    and "\<not> refused bl b now' (ae_uuid_str env (dr_access dr))"
  shows "(\<exists>u. user_by_name d (lg_username p) = Some u \<and>
            ae_verify env (u_password_hash u) (lg_password p) \<and> ui_id (ar_user r) = u_id u \<and>
          require_auth env bl (cf_auth cfg) g False now' d b al
            (Some (bearer (ar_access_token r))) =
          Inr \<lparr>au_id = u_id u, au_is_admin = u_is_admin u, au_storage_quota = u_storage_quota u,
               au_watermark = Option.bind (u_watermark u) (ae_wm_of_json env)\<rparr>)"
proof (rule login_Inr [OF assms(3)])
  fix u ac rc
  assume u: "user_by_name d (lg_username p) = Some u" "ae_verify env (u_password_hash u) (lg_password p)"
    "ui_id (ar_user r) = u_id u"
    and gt: "generate_tokens env (cf_auth cfg) now (dr_access dr) (dr_refresh dr) (u_id u) (u_is_admin u) =
       Some (ar_access_token r, ar_refresh_token r, ac, rc)"
  note tk = issued_tokens [OF assms(1) gt]
  have dec: "jw_decode_access (ae_jwt env) (ac_jwt_secret (cf_auth cfg)) True now' (ar_access_token r) = Some ac"
    unfolding tk(1) using assms(4) by simp
  have bid: "user_by_id d (u_id u) = Some u" using assms(2) u(1) by (rule user_by_id_name)
  show ?thesis
    using u check_blacklist_passes [OF _ tk(8), of bl b now'] assms(5) tk(4,6)
    by (simp add: require_auth_decoded [OF dec] bid)
qed

definition demo_user :: user_row where
  "demo_user = \<lparr>u_id = 7, u_username = ''bob'', u_email = None, u_password_hash = ''$secret1'',
     u_storage_backend = ''local'', u_storage_prefix = ''users/7'', u_storage_quota = Some 100,
     u_is_admin = False, u_created_at = 0, u_updated_at = 0, u_watermark = None\<rparr>"

definition demo_db :: db where "demo_db = empty_db\<lparr>t_users := [demo_user]\<rparr>"

definition demo_i18n :: i18n where "demo_i18n = i18n_from_maps 0 En (\<lambda>_. None)"

definition demo_draws :: draws where
  "demo_draws = \<lparr>dr_user = 8, dr_access = 21, dr_refresh = 22, dr_salt = 0\<rparr>"

lemma demo_sel [simp]:
  "u_id demo_user = 7" "u_username demo_user = ''bob''" "u_is_admin demo_user = False"
  "u_password_hash demo_user = ''$secret1''" "u_storage_quota demo_user = Some 100"
  "u_watermark demo_user = None" "u_email demo_user = None" "t_users demo_db = [demo_user]"
  "dr_user demo_draws = 8" "dr_access demo_draws = 21" "dr_refresh demo_draws = 22"
  "ae_uuid_str demo_env = nat_str" "ae_jwt demo_env = demo_jwt"
  "jw_encode_access demo_jwt = demo_encode_access" "jw_encode_refresh demo_jwt = demo_encode_refresh"
  "jw_decode_access demo_jwt = demo_decode_access" "jw_decode_refresh demo_jwt = demo_decode_refresh"
  "ae_parse_hash demo_env h = starts_with h ''$''" "ae_verify demo_env h pw = (h = ''$'' @ pw)"
  "ae_hash demo_env n pw = Some (''$'' @ pw)"
  by (simp_all add: demo_user_def demo_db_def demo_draws_def empty_db_def demo_env_def demo_jwt_def)

lemma demo_default_sel [simp]:
  "ac_access_token_ttl (cf_auth default_app_config) = 900"
  "ac_refresh_token_ttl (cf_auth default_app_config) = 2592000"
  "ac_jwt_secret (cf_auth default_app_config) = []"
  "up_storage_quota_default (cf_upload default_app_config) = 1073741824"
  by (simp_all add: default_app_config_def)

lemma demo_generate_is_Some:
  "\<exists>a r ac rc. generate_tokens demo_env cfg now aj rj u adm = Some (a, r, ac, rc)"
  by (simp add: generate_tokens_def make_claims_def Let_def demo_encode_access_def
      demo_encode_refresh_def)

lemma demo_login:
  obtains r where "login demo_env default_app_config demo_i18n En False 0 demo_draws
    \<lparr>lg_username = ''bob'', lg_password = ''secret1''\<rparr> demo_db = Inr (200, r)"
  using demo_generate_is_Some [of "cf_auth default_app_config" 0 21 22 7 False]
  by (auto simp: login_def user_by_name_def starts_with_def)

theorem login_token_authenticates_witness:
  "\<exists>r. login demo_env default_app_config demo_i18n En False 0 demo_draws
    \<lparr>lg_username = ''bob'', lg_password = ''secret1''\<rparr> demo_db = Inr (200, r) \<and>
   require_auth demo_env (lite_blacklist_ops (pad_nat 17)) (cf_auth default_app_config) demo_i18n False
     (secs 100) demo_db [] None (Some (bearer (ar_access_token r))) =
   Inr \<lparr>au_id = 7, au_is_admin = False, au_storage_quota = Some 100, au_watermark = None\<rparr>"
proof (rule demo_login)
  fix r
  assume r: "login demo_env default_app_config demo_i18n En False 0 demo_draws
    \<lparr>lg_username = ''bob'', lg_password = ''secret1''\<rparr> demo_db = Inr (200, r)"
  have "users_unique (t_users demo_db)" by (simp add: users_unique_def List.map_filter_def)
  from login_token_authenticates [OF demo_env_laws this r, of "secs 100" "lite_blacklist_ops (pad_nat 17)" "[]" None]
  show ?thesis
    using r by (auto simp: token_expired_def timestamp_def secs_def nanos_per_sec_def user_by_name_def
        lite_check_iff)
qed

text \<open>
  A login attempt tells an unknown user from a wrong password neither by the status
  nor by the body, and it never succeeds with a password that does not verify.
\<close>

theorem login_failures_alike:
  assumes "\<forall>u. user_by_name d (lg_username p) = Some u \<longrightarrow>
      ae_parse_hash env (u_password_hash u) \<and> \<not> ae_verify env (u_password_hash u) (lg_password p)"
  shows "login env cfg g loc False now dr p d = Inl (error_json g loc 401 ''auth.invalid_credentials'')"
  using assms by (auto simp: login_def ok_or_def split: option.splits)

theorem login_failures_alike_witness:
  "login demo_env default_app_config demo_i18n En False 0 demo_draws
     \<lparr>lg_username = ''bob'', lg_password = ''wrong''\<rparr> demo_db =
   login demo_env default_app_config demo_i18n En False 0 demo_draws
     \<lparr>lg_username = ''eve'', lg_password = ''secret1''\<rparr> demo_db"
  using login_failures_alike [of demo_db "\<lparr>lg_username = ''bob'', lg_password = ''wrong''\<rparr>" demo_env
      default_app_config demo_i18n En 0 demo_draws]
    login_failures_alike [of demo_db "\<lparr>lg_username = ''eve'', lg_password = ''secret1''\<rparr>" demo_env
      default_app_config demo_i18n En 0 demo_draws]
  by (simp add: user_by_name_def starts_with_def)

section \<open>The middleware fails closed\<close>

text \<open>
  Property C7. Nothing reaches a protected handler without a bearer token that decodes under the
  secret, is not expired, is positively known not to be revoked and names a user id: an error of
  the blacklist or of the database is a refusal; and an admin route is reached only with a token
  that carries the admin claim.
\<close>

theorem require_auth_fails_closed:
  assumes "require_auth env bl cfg g fail now d b al authorization = Inr u"
  shows "\<exists>tok c. authorization = Some (bearer tok) \<and>
      jw_decode_access (ae_jwt env) (ac_jwt_secret cfg) True now tok = Some c \<and>
      bo_check bl b now (acl_jti c) = Inr False \<and>
      ae_uuid_parse env (acl_sub c) = Some (au_id u) \<and> au_is_admin u = acl_is_admin c \<and> \<not> fail \<and>
      (is_ok (require_admin g al (Some u)) \<longleftrightarrow> acl_is_admin c)"
proof -
  obtain tok c where tok: "authorization = Some (bearer tok)"
    and dec: "jw_decode_access (ae_jwt env) (ac_jwt_secret cfg) True now tok = Some c"
    and chk: "check_blacklist_and_quota env bl g (locale_from_header al (i_language g)) fail now d b c = Inr u"
    using assms
    by (auto simp: require_auth_def extract_bearer_token_def decode_and_validate_jwt_def Let_def
        rbind_eq_Inr ok_or_def bearer_def strip_prefix_Some_iff split: option.splits)
  from chk have "bo_check bl b now (acl_jti c) = Inr False"
    by (cases "bo_check bl b now (acl_jti c)") (auto simp: check_blacklist_and_quota_def split: if_splits)
  moreover from chk have "ae_uuid_parse env (acl_sub c) = Some (au_id u)"
    "au_is_admin u = acl_is_admin c" "\<not> fail"
    by (auto simp: check_blacklist_and_quota_def rbind_eq_Inr ok_or_def split: if_splits option.splits)
  ultimately show ?thesis using tok dec by (auto simp: require_admin_def Let_def)
qed

theorem require_auth_fails_closed_witness:
  "\<exists>r tok. login demo_env default_app_config demo_i18n En False 0 demo_draws
    \<lparr>lg_username = ''bob'', lg_password = ''secret1''\<rparr> demo_db = Inr (200, r) \<and>
    Some (bearer (ar_access_token r)) = Some (bearer tok) \<and>
    sqlite_blacklist_check (pad_nat 17) False [] 0 (nat_str 21) = Inr False"
proof (rule demo_login)
  fix r
  assume r: "login demo_env default_app_config demo_i18n En False 0 demo_draws
    \<lparr>lg_username = ''bob'', lg_password = ''secret1''\<rparr> demo_db = Inr (200, r)"
  show ?thesis
  proof (rule login_Inr [OF r])
    fix u ac rc
    assume gt: "generate_tokens demo_env (cf_auth default_app_config) 0 (dr_access demo_draws)
      (dr_refresh demo_draws) (u_id u) (u_is_admin u) =
       Some (ar_access_token r, ar_refresh_token r, ac, rc)"
    note tk = issued_tokens [OF demo_env_laws gt]
    have dec: "jw_decode_access (ae_jwt demo_env) (ac_jwt_secret (cf_auth default_app_config)) True 0
        (ar_access_token r) = Some ac"
      unfolding tk(1) by (simp add: token_expired_def)
    have "require_auth demo_env (lite_blacklist_ops (pad_nat 17)) (cf_auth default_app_config) demo_i18n
      False 0 demo_db [] None (Some (bearer (ar_access_token r))) =
      Inr \<lparr>au_id = u_id u, au_is_admin = acl_is_admin ac,
        au_storage_quota = Option.bind (user_by_id demo_db (u_id u)) u_storage_quota,
        au_watermark = Option.bind (Option.bind (user_by_id demo_db (u_id u)) u_watermark) (ae_wm_of_json demo_env)\<rparr>"
      unfolding require_auth_decoded [OF dec]
      by (rule check_blacklist_passes [OF _ tk(8)]) (simp add: lite_check_iff)
    from require_auth_fails_closed [OF this] show ?thesis
      using r by (auto simp: sqlite_blacklist_check_def)
  qed
qed

text \<open>
  The middleware does not ask whether the user still exists: the access token of a
  deleted user stays good until it expires, with the admin flag it was issued with and no quota.
\<close>

theorem deleted_user_keeps_access:
  assumes "jw_decode_access (ae_jwt env) (ac_jwt_secret cfg) True now tok = Some c"
    and "bo_check bl b now (acl_jti c) = Inr False"
    and "ae_uuid_parse env (acl_sub c) = Some uid" and "user_by_id d uid = None"
  shows "require_auth env bl cfg g False now d b al (Some (bearer tok)) =
    Inr \<lparr>au_id = uid, au_is_admin = acl_is_admin c, au_storage_quota = None, au_watermark = None\<rparr>"
  unfolding require_auth_decoded [OF assms(1)]
  using assms(2-4) by (simp add: check_blacklist_and_quota_def)

definition demo_claims :: access_claims where
  "demo_claims = \<lparr>acl_sub = nat_str 9, acl_jti = ''j'', acl_exp = 900, acl_iat = 0, acl_is_admin = True,
     acl_typ = ''access''\<rparr>"

lemma demo_claims_sel [simp]:
  "acl_sub demo_claims = nat_str 9" "acl_jti demo_claims = ''j''" "acl_exp demo_claims = 900"
  "acl_is_admin demo_claims" "acl_typ demo_claims = ''access''"
  by (simp_all add: demo_claims_def)

lemma demo_uuid_parse [simp]: "ae_uuid_parse demo_env (nat_str n) = Some n"
  by (simp add: demo_env_def)

lemma demo_claims_token:
  "jw_encode_access (ae_jwt demo_env) k demo_claims = Some (the (demo_encode_access k demo_claims))"
  by (simp add: demo_encode_access_def)

theorem deleted_user_keeps_access_witness:
  "require_auth demo_env (lite_blacklist_ops (pad_nat 17)) (cf_auth default_app_config) demo_i18n False 0
     demo_db [] None (Some (bearer (the (demo_encode_access [] demo_claims)))) =
   Inr \<lparr>au_id = 9, au_is_admin = True, au_storage_quota = None, au_watermark = None\<rparr>"
proof -
  have dec: "jw_decode_access (ae_jwt demo_env) (ac_jwt_secret (cf_auth default_app_config)) True 0
      (the (demo_encode_access [] demo_claims)) = Some demo_claims"
    unfolding demo_default_sel access_token_decodes [OF demo_env_laws demo_claims_token]
    by (simp add: token_expired_def timestamp_def)
  from deleted_user_keeps_access [OF dec, of "lite_blacklist_ops (pad_nat 17)" "[]" 9 demo_db demo_i18n None]
  show ?thesis
    by (simp add: lite_blacklist_ops_def sqlite_blacklist_check_def user_by_id_def)
qed

text \<open>
  \<open>require_auth\<close> does not look at the type of the token: the refresh token of a login is
  accepted as an access token for its whole life, far beyond the life of the access token.
\<close>

theorem refresh_token_accepted_as_access:
  assumes "env_laws env" and "login env cfg g loc fail now dr p d = Inr (s, r)"
    and "\<not> token_expired (timestamp now + ac_refresh_token_ttl (cf_auth cfg)) now'"
    and "bo_check bl b now' (ae_uuid_str env (dr_refresh dr)) = Inr False"
  shows "\<exists>u. require_auth env bl (cf_auth cfg) g False now' d b al
      (Some (bearer (ar_refresh_token r))) = Inr u \<and>
    au_id u = ui_id (ar_user r) \<and> au_is_admin u = ui_is_admin (ar_user r)"
proof (rule login_Inr [OF assms(2)])
  fix u ac rc
  assume u: "ui_id (ar_user r) = u_id u" "ui_is_admin (ar_user r) = u_is_admin u"
    and gt: "generate_tokens env (cf_auth cfg) now (dr_access dr) (dr_refresh dr) (u_id u) (u_is_admin u) =
       Some (ar_access_token r, ar_refresh_token r, ac, rc)"
  note tk = issued_tokens [OF assms(1) gt]
  have dec: "jw_decode_access (ae_jwt env) (ac_jwt_secret (cf_auth cfg)) True now' (ar_refresh_token r) =
      Some (access_part rc)"
    unfolding tk(3) using assms(3) by simp
  have par: "ae_uuid_parse env (acl_sub (access_part rc)) = Some (u_id u)"
    using tk(9) by (simp add: access_part_def)
  have "\<not> refused bl b now' (acl_jti (access_part rc))"
    using assms(4) tk(5) by (simp add: access_part_def refused_def)
  from check_blacklist_passes [OF this par] show ?thesis
    using u tk(7) by (simp add: require_auth_decoded [OF dec] access_part_def)
qed

theorem refresh_token_accepted_as_access_witness:
  "\<exists>r u. login demo_env default_app_config demo_i18n En False 0 demo_draws
    \<lparr>lg_username = ''bob'', lg_password = ''secret1''\<rparr> demo_db = Inr (200, r) \<and>
   require_auth demo_env (lite_blacklist_ops (pad_nat 17)) (cf_auth default_app_config) demo_i18n False
     (secs 2000000) demo_db [] None (Some (bearer (ar_refresh_token r))) = Inr u \<and> 900 < (2000000 :: nat)"
proof (rule demo_login)
  fix r
  assume r: "login demo_env default_app_config demo_i18n En False 0 demo_draws
    \<lparr>lg_username = ''bob'', lg_password = ''secret1''\<rparr> demo_db = Inr (200, r)"
  from refresh_token_accepted_as_access
    [OF demo_env_laws r, of "secs 2000000" "lite_blacklist_ops (pad_nat 17)" "[]" None]
  show ?thesis
    using r by (auto simp: token_expired_def timestamp_def secs_def nanos_per_sec_def
        lite_blacklist_ops_def sqlite_blacklist_check_def)
qed

section \<open>Refresh and logout\<close>

lemma refresh_Inr:
  assumes "refresh env bl cfg g loc fail now dr tok d b = (Inr (s, r), b')"
  obtains c u ac rc where
    "jw_decode_refresh (ae_jwt env) (ac_jwt_secret (cf_auth cfg)) True now tok = Some c"
    "rcl_typ c = ''refresh''" "\<not> refused bl b now (rcl_jti c)"
    "lookup_user_for_refresh env g loc fail d (rcl_sub c) = Inr u"
    "generate_tokens env (cf_auth cfg) now (dr_access dr) (dr_refresh dr) (u_id u) (u_is_admin u) =
       Some (ar_access_token r, ar_refresh_token r, ac, rc)"
    "b' = revoke_old_tokens bl c now b"
  using assms
  by (auto simp: refresh_def refused_def split: option.splits if_splits sum.splits)

lemma revoke_old_tokens_alt:
  "revoke_old_tokens bl c now b =
     (let b1 = revoked_in bl b now (rcl_jti c) (rcl_exp c - timestamp now)
      in if timestamp now < rcl_access_exp c
         then revoked_in bl b1 now (rcl_access_jti c) (rcl_access_exp c - timestamp now) else b1)"
  by (simp add: revoke_old_tokens_def revoked_in_def Let_def)

lemma revoke_old_tokens_refused:
  assumes "token_blacklist (revoked_in bl) (refused bl) covers" and "rcl_jti c \<noteq> rcl_access_jti c"
  shows "covers now (rcl_exp c - timestamp now) t \<Longrightarrow> refused bl (revoke_old_tokens bl c now b) t (rcl_jti c)"
    and "covers now (rcl_access_exp c - timestamp now) t \<Longrightarrow> timestamp now < rcl_access_exp c \<Longrightarrow>
      refused bl (revoke_old_tokens bl c now b) t (rcl_access_jti c)"
    and "jti \<noteq> rcl_jti c \<Longrightarrow> jti \<noteq> rcl_access_jti c \<Longrightarrow>
      refused bl (revoke_old_tokens bl c now b) t jti = refused bl b t jti"
  using assms(2) token_blacklist.check_revoked [OF assms(1)] token_blacklist.check_other [OF assms(1)]
  by (auto simp: revoke_old_tokens_alt Let_def)

lemma refresh_refused:
  assumes "env_laws env" and "jw_encode_refresh (ae_jwt env) (ac_jwt_secret (cf_auth cfg)) c = Some tok"
    and "refused bl b t (rcl_jti c)"
  shows "\<exists>k. fst (refresh env bl cfg g loc fail t dr tok d b) = Inl (error_json g loc 401 k)"
  using assms(3)
  by (auto simp: refresh_def refresh_token_decodes [OF assms(1,2)] refused_def)


definition demo_rclaims :: refresh_claims where
  "demo_rclaims = \<lparr>rcl_sub = nat_str 7, rcl_jti = ''r'', rcl_exp = 2592000, rcl_iat = 0,
     rcl_is_admin = False, rcl_typ = ''refresh'', rcl_access_jti = ''a'', rcl_access_exp = 900\<rparr>"

lemma demo_rclaims_sel [simp]:
  "rcl_sub demo_rclaims = nat_str 7" "rcl_jti demo_rclaims = ''r''" "rcl_exp demo_rclaims = 2592000"
  "rcl_typ demo_rclaims = ''refresh''" "rcl_access_jti demo_rclaims = ''a''" "rcl_access_exp demo_rclaims = 900"
  by (simp_all add: demo_rclaims_def)

lemma demo_rclaims_token:
  "jw_encode_refresh (ae_jwt demo_env) k demo_rclaims = Some (the (demo_encode_refresh k demo_rclaims))"
  by (simp add: demo_encode_refresh_def)

lemma lite_contract: "token_blacklist (revoked_in (lite_blacklist_ops (pad_nat 17)))
    (refused (lite_blacklist_ops (pad_nat 17))) lite_covers"
  by (simp add: lite_blacklist_contract minute_text_pad)

lemma demo_refresh:
  obtains r b' where "refresh demo_env (lite_blacklist_ops (pad_nat 17)) default_app_config demo_i18n En False 0
    demo_draws (the (demo_encode_refresh [] demo_rclaims)) demo_db [] = (Inr r, b')"
proof -
  let ?tok = "the (demo_encode_refresh [] demo_rclaims)"
  have enc: "jw_encode_refresh (ae_jwt demo_env) (ac_jwt_secret (cf_auth default_app_config)) demo_rclaims = Some ?tok"
    unfolding demo_default_sel by (rule demo_rclaims_token)
  have dec: "demo_decode_refresh [] True 0 ?tok = Some demo_rclaims"
    using refresh_token_decodes(1) [OF demo_env_laws enc, of True 0]
    by (simp add: token_expired_def timestamp_def)
  show ?thesis
    using demo_generate_is_Some [of "cf_auth default_app_config" 0 21 22 7 False] dec that
    by (auto simp: refresh_def lite_blacklist_ops_def sqlite_blacklist_check_def
        lookup_user_for_refresh_def user_by_id_def)
qed


text \<open>
  A logout can be undone by waiting: the revocation lives until the expiry the token
  carries, but the decoder grants a leeway of 60 seconds after that expiry. In the lite mode a
  logged-out access token authenticates again from the minute after its expiry to the end of the
  leeway.
\<close>

theorem logged_out_token_valid_in_leeway:
  assumes "env_laws env" and "jw_encode_access (ae_jwt env) (ac_jwt_secret (cf_auth cfg)) c = Some tok"
    and "acl_typ c = ''access''" and "ae_uuid_parse env (acl_sub c) = Some uid"
    and "timestamp now < acl_exp c" and "distinct (map fst b)" and "minute_text mf"
    and "minute_of (now + secs (acl_exp c - timestamp now)) < minute_of t" and "minute_of t < max_minute"
    and "timestamp t \<le> acl_exp c + 60"
  shows "\<exists>b'. snd (logout env (lite_blacklist_ops mf) cfg g loc now (Some (bearer tok)) b) = b' \<and>
    is_ok (fst (logout env (lite_blacklist_ops mf) cfg g loc now (Some (bearer tok)) b)) \<and>
    is_ok (require_auth env (lite_blacklist_ops mf) (cf_auth cfg) g False t d b' al (Some (bearer tok)))"
proof -
  let ?ttl = "acl_exp c - timestamp now"
  have lo: "logout env (lite_blacklist_ops mf) cfg g loc now (Some (bearer tok)) b =
      (Inr (200, JObj [(''message'', JStr ''logged out successfully'')]),
       lite_revoke mf b now (acl_jti c) ?ttl)"
    using assms(3,5) revoked_in_lite [of mf, unfolded revoked_in_def [abs_def]]
    by (simp add: logout_def access_token_decodes [OF assms(1,2)] Let_def lite_revoke_def
        lite_blacklist_ops_def)
  have "\<not> lite_check mf (lite_revoke mf b now (acl_jti c) ?ttl) t (acl_jti c)"
    using assms(6-9) by (simp add: lite_check_after_revoke chrono_less_sqlite_later str_less_asym)
  then have nr: "\<not> refused (lite_blacklist_ops mf) (lite_revoke mf b now (acl_jti c) ?ttl) t (acl_jti c)"
    by simp
  have dec: "jw_decode_access (ae_jwt env) (ac_jwt_secret (cf_auth cfg)) True t tok = Some c"
    using assms(10) by (simp add: access_token_decodes [OF assms(1,2)] token_expired_def)
  show ?thesis
    by (simp add: lo require_auth_decoded [OF dec] check_blacklist_passes [OF nr assms(4)])
qed

theorem logged_out_token_valid_in_leeway_witness:
  "is_ok (require_auth demo_env (lite_blacklist_ops (pad_nat 17)) (cf_auth default_app_config) demo_i18n False
     (secs 960) demo_db
     (snd (logout demo_env (lite_blacklist_ops (pad_nat 17)) default_app_config demo_i18n En 0
        (Some (bearer (the (demo_encode_access [] demo_claims)))) [])) None
     (Some (bearer (the (demo_encode_access [] demo_claims)))))"
proof -
  have enc: "jw_encode_access (ae_jwt demo_env) (ac_jwt_secret (cf_auth default_app_config)) demo_claims =
      Some (the (demo_encode_access [] demo_claims))"
    unfolding demo_default_sel by (rule demo_claims_token)
  have m: "minute_of (0 + secs (acl_exp demo_claims - timestamp 0)) < minute_of (secs 960)"
    "minute_of (secs 960) < max_minute" "timestamp 0 < acl_exp demo_claims"
    "timestamp (secs 960) \<le> acl_exp demo_claims + 60"
    by (simp_all add: minute_of_def secs_def nanos_per_sec_def max_minute_def timestamp_def)
  show ?thesis
    using logged_out_token_valid_in_leeway [OF demo_env_laws enc _ _ m(3) _ minute_text_pad m(1,2,4), of 9 "[]" demo_i18n En demo_db None]
    by simp
qed

section \<open>Registration\<close>

lemma insert_user_row_Inr:
  assumes "insert_user_row g loc fail uid now name email hash adm quota d = (Inr i, d')"
  shows "i = uid \<and> name \<notin> set (map u_username (t_users d)) \<and> uid \<notin> set (map u_id (t_users d)) \<and>
    (email = None \<or> email \<notin> set (map u_email (t_users d))) \<and>
    d' = d\<lparr>t_users := t_users d @ [\<lparr>u_id = uid, u_username = name, u_email = email, u_password_hash = hash,
           u_storage_backend = ''local'', u_storage_prefix = [], u_storage_quota = quota,
           u_is_admin = adm, u_created_at = now, u_updated_at = now, u_watermark = None\<rparr>]\<rparr>"
  using assms
  by (auto simp: insert_user_row_def insert_user_def split: if_splits prod.splits sum.splits)

lemma insert_user_row_Inl:
  "insert_user_row g loc fail uid now name email hash adm quota d = (Inl e, d') \<Longrightarrow> d' = d"
  by (auto simp: insert_user_row_def split: prod.splits sum.splits if_splits)

text \<open>The users after a registration that got as far as its row; the prefix write may fail.\<close>

definition registered_row :: "auth_env \<Rightarrow> app_config \<Rightarrow> faults \<Rightarrow> instant \<Rightarrow> draws \<Rightarrow> register_request \<Rightarrow> string \<Rightarrow>
    bool \<Rightarrow> user_row" where
  "registered_row env cfg fails now dr p hash adm =
     \<lparr>u_id = dr_user dr, u_username = rg_username p, u_email = rg_email p, u_password_hash = hash,
      u_storage_backend = ''local'',
      u_storage_prefix = (if fails 2 then [] else ''users/'' @ ae_uuid_str env (dr_user dr)),
      u_storage_quota = (if 0 < up_storage_quota_default (cf_upload cfg)
         then Some (as_i64 (int (up_storage_quota_default (cf_upload cfg)))) else None),
      u_is_admin = adm, u_created_at = now, u_updated_at = now, u_watermark = None\<rparr>"

lemma set_prefix_others:
  "uid \<notin> set (map u_id us) \<Longrightarrow>
   map (\<lambda>u. if u_id u = uid then u\<lparr>u_storage_prefix := pf\<rparr> else u) us = us"
  by (intro map_idI) auto

lemma create_user_Inr:
  assumes "create_user_and_tokens env io cfg g loc fails now dr p adm d ivs = (Inr (i, acc, ref, q), d', ivs')"
  obtains hash where "ae_hash env (dr_salt dr) (rg_password p) = Some hash" "i = dr_user dr"
    "rg_username p \<notin> set (map u_username (t_users d))" "dr_user dr \<notin> set (map u_id (t_users d))"
    "rg_email p = None \<or> rg_email p \<notin> set (map u_email (t_users d))"
    "t_users d' = t_users d @ [registered_row env cfg fails now dr p hash adm]"
    "ivs' = (if adm then ivs else (case rg_invite_code p of None \<Rightarrow> ivs
        | Some code \<Rightarrow> snd (io_consume io ivs now code (dr_user dr))))"
proof -
  from assms obtain hash d1 where h: "ae_hash env (dr_salt dr) (rg_password p) = Some hash"
    and ins: "insert_user_row g loc (fails 1) (dr_user dr) now (rg_username p) (rg_email p) hash adm
       (if 0 < up_storage_quota_default (cf_upload cfg)
        then Some (as_i64 (int (up_storage_quota_default (cf_upload cfg)))) else None) d = (Inr i, d1)"
    and d': "d' = (if fails 2 then d1 else set_storage_prefix i (''users/'' @ ae_uuid_str env i) d1)"
    and ivs': "ivs' = (if adm then ivs else (case rg_invite_code p of None \<Rightarrow> ivs
        | Some code \<Rightarrow> snd (io_consume io ivs now code i)))"
    by (cases "rg_invite_code p")
      (auto simp: create_user_and_tokens_def Let_def split: option.splits prod.splits sum.splits)
  note row = insert_user_row_Inr [OF ins]
  have "t_users d' = t_users d @ [registered_row env cfg fails now dr p hash adm]"
    using row d' unfolding set_storage_prefix_def
    by (cases "fails 2") (simp_all add: registered_row_def set_prefix_others)
  moreover have "i = dr_user dr" using row by blast
  ultimately show ?thesis using that [OF h] row ivs' by blast
qed

lemma create_user_is_ok:
  assumes "ae_hash env (dr_salt dr) (rg_password p) = Some hash"
    and "rg_username p \<notin> set (map u_username (t_users d))" "dr_user dr \<notin> set (map u_id (t_users d))"
    and "rg_email p = None \<or> rg_email p \<notin> set (map u_email (t_users d))" "\<not> fails 1"
    and "generate_tokens env (cf_auth cfg) now (dr_access dr) (dr_refresh dr) (dr_user dr) adm \<noteq> None"
  shows "is_ok (fst (create_user_and_tokens env io cfg g loc fails now dr p adm d ivs))"
  using assms
  by (auto simp: create_user_and_tokens_def insert_user_row_def insert_user_def Let_def)

lemma check_invite_Inr:
  "check_invite_code io g loc now ivs code adm = Inr () \<longleftrightarrow>
   adm \<or> (\<exists>c. code = Some c \<and> io_verify_detail io ivs now c = Inr Valid)"
proof (cases code)
  case (Some c)
  show ?thesis
  proof (cases "io_verify_detail io ivs now c")
    case (Inr st)
    with Some show ?thesis by (cases st) (simp_all add: check_invite_code_def)
  qed (simp add: check_invite_code_def Some)
qed (simp add: check_invite_code_def)

lemma register_Inr:
  assumes "register env io cfg g loc fails now dr p d ivs = (Inr (s, r), d', ivs')"
  obtains acc ref q where "6 \<le> length (rg_password p)" "\<not> fails 0"
    "check_invite_code io g loc now ivs (rg_invite_code p) (t_users d = []) = Inr ()"
    "create_user_and_tokens env io cfg g loc fails now dr p (t_users d = []) d ivs =
       (Inr (ui_id (ar_user r), acc, ref, q), d', ivs')"
    "s = 201" "ui_is_admin (ar_user r) = (t_users d = [])"
proof -
  have cnt: "count_existing_users g loc False d = Inr (int (length (t_users d)))"
    by (simp add: count_existing_users_def count_users_def)
  have nf: "\<not> fails 0"
    using assms by (auto simp: register_def count_existing_users_def count_users_def split: sum.splits)
  then have fr: "fails 0 = False" by simp
  show ?thesis
    using assms that nf unfolding register_def fr cnt
    by (auto simp: validate_register_payload_def Let_def split: sum.splits prod.splits if_splits)
qed

text \<open>
  Property C8. Registration is gated: it succeeds only with a long enough password and a new user
  name; the first user becomes the administrator, and every later one needs an invite that was
  valid at the time, is never an administrator, and has the code consumed in his name. The table
  gains exactly his row and keeps its uniqueness.
\<close>

theorem register_gated:
  assumes "register env io cfg g loc fails now dr p d ivs = (Inr (s, r), d', ivs')"
    and "users_unique (t_users d)"
  shows "s = 201 \<and> 6 \<le> length (rg_password p) \<and> rg_username p \<notin> set (map u_username (t_users d)) \<and>
    (t_users d \<noteq> [] \<longrightarrow>
       (\<exists>code. rg_invite_code p = Some code \<and> io_verify_detail io ivs now code = Inr Valid \<and>
          ivs' = snd (io_consume io ivs now code (ui_id (ar_user r))))) \<and>
    (\<exists>row. t_users d' = t_users d @ [row] \<and> u_username row = rg_username p \<and>
        u_is_admin row = (t_users d = []) \<and> u_id row = ui_id (ar_user r)) \<and>
    users_unique (t_users d')"
proof (rule register_Inr [OF assms(1)])
  fix acc ref q
  assume a: "6 \<le> length (rg_password p)" "s = 201"
    "check_invite_code io g loc now ivs (rg_invite_code p) (t_users d = []) = Inr ()"
    and c: "create_user_and_tokens env io cfg g loc fails now dr p (t_users d = []) d ivs =
       (Inr (ui_id (ar_user r), acc, ref, q), d', ivs')"
  show ?thesis
  proof (rule create_user_Inr [OF c])
    fix hash
    assume b: "ui_id (ar_user r) = dr_user dr"
      "rg_username p \<notin> set (map u_username (t_users d))" "dr_user dr \<notin> set (map u_id (t_users d))"
      "rg_email p = None \<or> rg_email p \<notin> set (map u_email (t_users d))"
      "t_users d' = t_users d @ [registered_row env cfg fails now dr p hash (t_users d = [])]"
      "ivs' = (if t_users d = [] then ivs else (case rg_invite_code p of None \<Rightarrow> ivs
        | Some code \<Rightarrow> snd (io_consume io ivs now code (dr_user dr))))"
    have row: "u_username (registered_row env cfg fails now dr p hash adm) = rg_username p"
      "u_id (registered_row env cfg fails now dr p hash adm) = dr_user dr"
      "u_email (registered_row env cfg fails now dr p hash adm) = rg_email p"
      "u_is_admin (registered_row env cfg fails now dr p hash adm) = adm" for adm
      by (simp_all add: registered_row_def)
    have "users_unique (t_users d')"
      using assms(2) b row
      by (auto simp: users_unique_def List.map_filter_def image_iff split: option.splits)
    with a b row show ?thesis by (auto simp: check_invite_Inr)
  qed
qed

definition demo_request :: register_request where
  "demo_request = \<lparr>rg_username = ''ann'', rg_password = ''secret2'', rg_email = None, rg_invite_code = Some ''c''\<rparr>"

lemma demo_request_sel [simp]:
  "rg_username demo_request = ''ann''" "rg_password demo_request = ''secret2''"
  "rg_email demo_request = None" "rg_invite_code demo_request = Some ''c''"
  by (simp_all add: demo_request_def)

definition demo_invites :: invite_table where
  "demo_invites = [\<lparr>li_code = ''c'', li_created_by = None, li_created_at = ''0'', li_expires_at = None,
     li_used_by = None\<rparr>]"

abbreviation (input) demo_invite_ops :: "invite_table invite_ops" where
  "demo_invite_ops \<equiv> lite_invite_ops (pad_nat 17) nat_str (\<lambda>_. None) (\<lambda>_. None)"

lemma demo_invite_valid: "io_verify_detail demo_invite_ops demo_invites now ''c'' = Inr Valid"
  by (simp add: lite_invite_ops_def sqlite_invite_verify_detail_def demo_invites_def)

theorem register_gated_witness:
  "\<exists>s r d' ivs'. register demo_env demo_invite_ops default_app_config demo_i18n En no_faults 0 demo_draws
     demo_request demo_db demo_invites = (Inr (s, r), d', ivs') \<and> s = 201 \<and> users_unique (t_users d')"
proof -
  let ?cr = "create_user_and_tokens demo_env demo_invite_ops default_app_config demo_i18n En no_faults 0
    demo_draws demo_request False demo_db demo_invites"
  have "is_ok (fst ?cr)"
    using demo_generate_is_Some by (intro create_user_is_ok) auto
  then obtain i acc ref q d1 ivs1 where cr: "?cr = (Inr (i, acc, ref, q), d1, ivs1)"
    by (cases ?cr) (auto simp: is_ok_def split: sum.splits)
  have cnt: "count_existing_users demo_i18n En False demo_db = Inr 1"
    by (simp add: count_existing_users_def count_users_def)
  have chk: "check_invite_code demo_invite_ops demo_i18n En 0 demo_invites (rg_invite_code demo_request) False = Inr ()"
    unfolding check_invite_Inr using demo_invite_valid [of 0] by simp
  obtain s r d' ivs' where rg: "register demo_env demo_invite_ops default_app_config demo_i18n En no_faults 0 demo_draws
     demo_request demo_db demo_invites = (Inr (s, r), d', ivs')"
    using cr chk by (simp add: register_def cnt validate_register_payload_def)
  have "users_unique (t_users demo_db)" by (simp add: users_unique_def List.map_filter_def)
  from register_gated [OF rg this] rg show ?thesis by blast
qed

text \<open>
  One invite can admit two users: the code is checked before the row is written and
  the outcome of consuming it is discarded, so two requests that both pass the check before
  either consumes the code both succeed, whatever the invite store answers to the second.
\<close>

theorem invite_race_admits_two:
  assumes "io_verify_detail io ivs now code = Inr Valid"
    and "rg_invite_code p1 = Some code" "rg_invite_code p2 = Some code"
    and "\<forall>n aj rj u. generate_tokens env (cf_auth cfg) n aj rj u False \<noteq> None"
    and "\<forall>salt pw. ae_hash env salt pw \<noteq> None"
    and "distinct (map u_username (t_users d) @ [rg_username p1, rg_username p2])"
    and "distinct (map u_id (t_users d) @ [dr_user dr1, dr_user dr2])"
    and "rg_email p1 = None" "rg_email p2 = None"
    and "create_user_and_tokens env io cfg g loc no_faults now dr1 p1 False d ivs = (res1, d1, ivs1)"
    and "create_user_and_tokens env io cfg g loc no_faults now2 dr2 p2 False d1 ivs1 = (res2, d2, ivs2)"
  shows "check_invite_code io g loc now ivs (rg_invite_code p1) False = Inr () \<and>
    check_invite_code io g loc now ivs (rg_invite_code p2) False = Inr () \<and>
    is_ok res1 \<and> is_ok res2 \<and> length (t_users d2) = length (t_users d) + 2"
proof -
  have ok1: "is_ok res1"
    using create_user_is_ok [of env dr1 p1 _ d no_faults cfg now False io g loc ivs] assms
    by (metis append_Cons distinct.simps(2) distinct_append fst_conv not_None_eq not_distinct_conv_prefix)
  then obtain i acc ref q where r1: "res1 = Inr (i, acc, ref, q)"
    by (metis is_ok_simps(1) old.sum.exhaust prod_cases4)
  show ?thesis
  proof (rule create_user_Inr [OF assms(10) [unfolded r1]])
    fix hash
    assume t1: "t_users d1 = t_users d @ [registered_row env cfg no_faults now dr1 p1 hash False]"
    have row: "u_username (registered_row env cfg no_faults now dr1 p1 hash False) = rg_username p1"
      "u_id (registered_row env cfg no_faults now dr1 p1 hash False) = dr_user dr1"
      by (simp_all add: registered_row_def)
    obtain hash2 where h2: "ae_hash env (dr_salt dr2) (rg_password p2) = Some hash2"
      using assms(5) by blast
    have ok2: "is_ok res2"
      using create_user_is_ok [OF h2, of d1 no_faults cfg now2 False io g loc ivs1] assms t1 row by auto
    then obtain i2 acc2 ref2 q2 where r2: "res2 = Inr (i2, acc2, ref2, q2)"
      by (metis is_ok_simps(1) old.sum.exhaust prod_cases4)
    show ?thesis
    proof (rule create_user_Inr [OF assms(11) [unfolded r2]])
      fix hash'
      assume "t_users d2 = t_users d1 @ [registered_row env cfg no_faults now2 dr2 p2 hash' False]"
      with t1 ok1 ok2 assms(1-3) show ?thesis by (simp add: check_invite_Inr)
    qed
  qed
qed

theorem invite_race_admits_two_witness:
  "\<exists>res1 d1 ivs1 res2 d2 ivs2.
     create_user_and_tokens demo_env demo_invite_ops default_app_config demo_i18n En no_faults 0 demo_draws
       demo_request False demo_db demo_invites = (res1, d1, ivs1) \<and>
     create_user_and_tokens demo_env demo_invite_ops default_app_config demo_i18n En no_faults 1
       (demo_draws\<lparr>dr_user := 9\<rparr>) (demo_request\<lparr>rg_username := ''ben''\<rparr>) False d1 ivs1 = (res2, d2, ivs2) \<and>
     is_ok res1 \<and> is_ok res2 \<and> length (t_users d2) = 3"
proof -
  obtain res1 d1 ivs1 where c1: "create_user_and_tokens demo_env demo_invite_ops default_app_config demo_i18n
    En no_faults 0 demo_draws demo_request False demo_db demo_invites = (res1, d1, ivs1)"
    by (metis prod_cases3)
  obtain res2 d2 ivs2 where c2: "create_user_and_tokens demo_env demo_invite_ops default_app_config demo_i18n
    En no_faults 1 (demo_draws\<lparr>dr_user := 9\<rparr>) (demo_request\<lparr>rg_username := ''ben''\<rparr>) False d1 ivs1 = (res2, d2, ivs2)"
    by (metis prod_cases3)
  have "\<forall>n aj rj u. generate_tokens demo_env (cf_auth default_app_config) n aj rj u False \<noteq> None"
    using demo_generate_is_Some by (metis option.distinct(1))
  from invite_race_admits_two [OF demo_invite_valid _ _ this _ _ _ _ _ c1 c2] c1 c2 show ?thesis
    by simp
qed

end
