(* ===== verification/Crypto.thy ===== *)
theory Crypto
  imports Errors
begin

text \<open>
  Token encryption, \<open>pichost-core/src/crypto.rs\<close>. AES-256-GCM, base64 and the UTF-8 check are
  parameters with the laws \<open>crypto_laws\<close>; the framing (nonce, length checks) is the code's.
  A string is its bytes.
\<close>

record crypto_lib =
  cl_encrypt :: "string \<Rightarrow> string \<Rightarrow> string \<Rightarrow> string option"
  cl_decrypt :: "string \<Rightarrow> string \<Rightarrow> string \<Rightarrow> string option"
  cl_b64_encode :: "string \<Rightarrow> string"
  cl_b64_decode :: "string \<Rightarrow> string option"
  cl_utf8 :: "string \<Rightarrow> bool"

definition b64_laws :: "crypto_lib \<Rightarrow> bool" where
  "b64_laws cl \<longleftrightarrow> (\<forall>x. cl_b64_decode cl (cl_b64_encode cl x) = Some x)"

text \<open>Decrypting under the same key and nonce gives the plaintext; the tag is 16 bytes.\<close>

definition crypto_laws :: "crypto_lib \<Rightarrow> bool" where
  "crypto_laws cl \<longleftrightarrow> b64_laws cl \<and>
     (\<forall>k n p c. length k = 32 \<and> length n = 12 \<and> cl_encrypt cl k n p = Some c \<longrightarrow>
        cl_decrypt cl k n c = Some p \<and> length c = length p + 16)"

definition nonce_size :: nat where "nonce_size = 12"

text \<open>\<open>nonce\<close> is what the random generator fills in.\<close>

definition encrypt_token :: "crypto_lib \<Rightarrow> string \<Rightarrow> string \<Rightarrow> string \<Rightarrow> crypto_error + string" where
  "encrypt_token cl nonce plaintext key =
     (if length key \<noteq> 32 then Inl (CInvalidKey (length key))
      else
        (case cl_encrypt cl key nonce plaintext of
           None \<Rightarrow> Inl (CEncrypt ''aead::Error'')
         | Some ciphertext \<Rightarrow> Inr (cl_b64_encode cl (nonce @ ciphertext))))"

definition decrypt_token :: "crypto_lib \<Rightarrow> string \<Rightarrow> string \<Rightarrow> crypto_error + string" where
  "decrypt_token cl encoded key =
     (if length key \<noteq> 32 then Inl (CInvalidKey (length key))
      else
        rbind (ok_or (cl_b64_decode cl encoded) CDecrypt)
          (\<lambda>combined.
             if length combined < nonce_size + 16 then Inl CDecrypt
             else
               rbind (ok_or (cl_decrypt cl key (take nonce_size combined) (drop nonce_size combined)) CDecrypt)
                 (\<lambda>plaintext. if cl_utf8 cl plaintext then Inr plaintext else Inl CDecrypt)))"

definition decode_key :: "crypto_lib \<Rightarrow> string \<Rightarrow> crypto_error + string" where
  "decode_key cl encoded =
     rbind (ok_or (cl_b64_decode cl encoded) (CInvalidKey 0))
       (\<lambda>bytes. if length bytes \<noteq> 32 then Inl (CInvalidKey (length bytes)) else Inr bytes)"

text \<open>
  Slicing a \<open>str\<close> panics off a character boundary: \<open>None\<close>. A byte 10xxxxxx continues a character.
\<close>

definition char_boundary :: "string \<Rightarrow> nat \<Rightarrow> bool" where
  "char_boundary s i =
     (i = 0 \<or> i = length s \<or> (i < length s \<and> (of_char (s ! i) :: nat) div 64 \<noteq> 2))"

definition mask_token :: "string \<Rightarrow> string option" where
  "mask_token token =
     (if length token \<le> 8 then Some ''****''
      else if char_boundary token 4 \<and> char_boundary token (length token - 4)
      then Some (take 4 token @ ''****'' @ drop (length token - 4) token)
      else None)"

lemma decode_key_length: "decode_key cl e = Inr k \<Longrightarrow> length k = 32"
  by (auto simp: decode_key_def rbind_eq_Inr split: if_splits)

lemma decrypt_encrypted:
  assumes "crypto_laws cl" and "decode_key cl e = Inr key" and "length nonce = 12"
    and "cl_utf8 cl token" and "encrypt_token cl nonce token key = Inr enc"
  shows "decrypt_token cl enc key = Inr token"
proof -
  have k: "length key = 32" using assms(2) by (rule decode_key_length)
  from assms(5) k obtain c where c: "cl_encrypt cl key nonce token = Some c"
    and e: "enc = cl_b64_encode cl (nonce @ c)"
    by (auto simp: encrypt_token_def split: option.splits)
  have "cl_decrypt cl key nonce c = Some token \<and> length c = length token + 16"
    using assms(1,3) k c unfolding crypto_laws_def by blast
  moreover have "cl_b64_decode cl enc = Some (nonce @ c)"
    using assms(1) unfolding e crypto_laws_def b64_laws_def by blast
  ultimately show ?thesis
    using k assms(3,4) by (simp add: decrypt_token_def nonce_size_def)
qed

text \<open>
  Property C5. What \<open>encrypt_token\<close> writes \<open>decrypt_token\<close> reads: with a key that \<open>decode_key\<close>
  accepts and a 12-byte nonce, an encrypted token decrypts under the same key to the token.
\<close>

theorem token_roundtrip:
  assumes "crypto_laws cl" and "decode_key cl e = Inr key" and "length nonce = 12"
    and "cl_utf8 cl token" and "encrypt_token cl nonce token key = Inr enc"
  shows "decrypt_token cl enc key = Inr token"
  using assms by (rule decrypt_encrypted)

text \<open>A concrete library: the identity with a tag of 16 bytes.\<close>

definition demo_tag :: string where "demo_tag = replicate 16 (CHR ''t'')"

lemma length_demo_tag [simp]: "length demo_tag = 16"
  by (simp add: demo_tag_def)

definition demo_crypto :: crypto_lib where
  "demo_crypto = \<lparr>cl_encrypt = (\<lambda>k n p. Some (p @ demo_tag)),
     cl_decrypt = (\<lambda>k n c. if 16 \<le> length c then Some (take (length c - 16) c) else None),
     cl_b64_encode = id, cl_b64_decode = Some, cl_utf8 = (\<lambda>_. True)\<rparr>"

lemma demo_crypto_laws: "crypto_laws demo_crypto"
  by (auto simp: crypto_laws_def b64_laws_def demo_crypto_def)

definition demo_key :: string where "demo_key = replicate 32 (CHR ''k'')"
definition demo_nonce :: string where "demo_nonce = replicate 12 (CHR ''n'')"

lemma length_demo_key [simp]: "length demo_key = 32" "length demo_nonce = 12"
  by (simp_all add: demo_key_def demo_nonce_def)

theorem token_roundtrip_witness:
  "encrypt_token demo_crypto demo_nonce ''ghp'' demo_key = Inr (demo_nonce @ ''ghp'' @ demo_tag) \<and>
   decrypt_token demo_crypto (demo_nonce @ ''ghp'' @ demo_tag) demo_key = Inr ''ghp''"
proof -
  have k: "decode_key demo_crypto demo_key = Inr demo_key"
    by (simp add: decode_key_def demo_crypto_def)
  have e: "encrypt_token demo_crypto demo_nonce ''ghp'' demo_key = Inr (demo_nonce @ ''ghp'' @ demo_tag)"
    by (simp add: encrypt_token_def demo_crypto_def)
  show ?thesis
    using token_roundtrip [OF demo_crypto_laws k _ _ e] e by (simp add: demo_crypto_def)
qed

text \<open>
  Masking shows at most the first and the last four bytes of a token and hides every
  token of at most eight; on ASCII tokens it never panics.
\<close>

theorem mask_token_hides:
  assumes "\<forall>c \<in> set token. (of_char c :: nat) < 128"
  shows "\<exists>m. mask_token token = Some m \<and> length m \<le> 12 \<and>
    (length token \<le> 8 \<longrightarrow> m = ''****'') \<and>
    (8 < length token \<longrightarrow> m = take 4 token @ ''****'' @ drop (length token - 4) token)"
proof -
  have "(of_char (token ! i) :: nat) div 64 \<noteq> 2" if "i < length token" for i
  proof -
    have "(of_char (token ! i) :: nat) < 128" using assms that by simp
    then have "(of_char (token ! i) :: nat) div 64 < 2" by (simp add: div_less_iff_less_mult)
    then show ?thesis by simp
  qed
  then show ?thesis by (auto simp: mask_token_def char_boundary_def)
qed

theorem mask_token_hides_witness:
  "mask_token ''ghp_0123456789'' = Some ''ghp_****6789''"
  using mask_token_hides [of "''ghp_0123456789''"] by simp

end
