(* ===== verification/Storage.thy ===== *)
theory Storage
  imports Tables Crypto "HOL-Library.AList"
begin

text \<open>
  The storage backends and their router: \<open>pichost-core/src/storage/local.rs\<close>, \<open>git.rs\<close>, \<open>s3.rs\<close>,
  \<open>router.rs\<close>. The HTTP client, the S3 client and the date text are parameters
  (\<open>storage_env\<close>); the local file system is a map from paths to contents. A backend trait object
  is a value of \<open>backend\<close>, and the operations of the trait dispatch on it. The texts of some
  errors are Chinese in the code and paraphrased here; nothing depends on them.
\<close>

section \<open>Git backends\<close>

datatype git_provider = GitHub | GitCode

record git_storage =
  gs_provider :: git_provider
  gs_owner :: string
  gs_repo :: string
  gs_branch :: string
  gs_path_prefix :: "string option"
  gs_token :: string
  gs_raw_base_url :: string
  gs_api_base_url :: string

definition git_storage_new ::
  "git_provider \<Rightarrow> string \<Rightarrow> string \<Rightarrow> string \<Rightarrow> string option \<Rightarrow> string \<Rightarrow> git_storage" where
  "git_storage_new provider owner repo branch path_prefix token =
     (let (raw, api) =
        (case provider of
           GitHub \<Rightarrow> (''raw.githubusercontent.com'', ''https://api.github.com'')
         | GitCode \<Rightarrow> (''raw.gitcode.com'', ''https://api.gitcode.com/api/v5''))
      in \<lparr>gs_provider = provider, gs_owner = owner, gs_repo = repo, gs_branch = branch,
          gs_path_prefix = path_prefix, gs_token = token, gs_raw_base_url = raw,
          gs_api_base_url = api\<rparr>)"

record http_request =
  hq_method :: string
  hq_url :: string
  hq_authorization :: string
  hq_query :: "(string \<times> string) list"
  hq_body :: "json option"

text \<open>A response: its status, \<open>retry-after\<close>, its body (\<open>None\<close> when reading it fails) and the JSON of it.\<close>

record http_response =
  hs_status :: nat
  hs_retry_after :: "string option"
  hs_body :: "string option"
  hs_json :: "json option"

definition is_success :: "http_response \<Rightarrow> bool" where
  "is_success r = (200 \<le> hs_status r \<and> hs_status r < 300)"

type_synonym 'h http_client = "'h \<Rightarrow> http_request \<Rightarrow> http_response option \<times> 'h"

definition gitcode_max_contents_bytes :: nat where "gitcode_max_contents_bytes = 20 * 1024 * 1024"

text \<open>\<open>ymd\<close> prints the date of an instant as \<open>%Y/%m/%d\<close>.\<close>

definition build_path :: "(instant \<Rightarrow> string) \<Rightarrow> git_storage \<Rightarrow> instant \<Rightarrow> string \<Rightarrow> string \<Rightarrow> string" where
  "build_path ymd gs now key ext =
     opt_unwrap_or (gs_path_prefix gs) ''pichost'' @ ''/'' @ ymd now @ ''/'' @ key @ ''.'' @ ext"

definition contents_url :: "git_storage \<Rightarrow> string \<Rightarrow> string" where
  "contents_url gs path =
     gs_api_base_url gs @ ''/repos/'' @ gs_owner gs @ ''/'' @ gs_repo gs @ ''/contents/'' @ path"

definition raw_url :: "git_storage \<Rightarrow> string \<Rightarrow> string" where
  "raw_url gs path =
     ''https://'' @ gs_raw_base_url gs @ ''/'' @ gs_owner gs @ ''/'' @ gs_repo gs @ ''/'' @
     gs_branch gs @ ''/'' @ path"

definition mime_to_ext :: "string \<Rightarrow> string" where
  "mime_to_ext m =
     (if m = ''image/png'' then ''png'' else if m = ''image/jpeg'' then ''jpg''
      else if m = ''image/gif'' then ''gif'' else if m = ''image/webp'' then ''webp''
      else if m = ''image/svg+xml'' then ''svg'' else if m = ''image/avif'' then ''avif''
      else if m = ''image/bmp'' then ''bmp'' else ''bin'')"

definition build_commit_message :: "string \<Rightarrow> string" where
  "build_commit_message key = ''Upload '' @ key"

definition check_gitcode_size_limit :: "git_storage \<Rightarrow> string \<Rightarrow> storage_error + unit" where
  "check_gitcode_size_limit gs data =
     (if gs_provider gs = GitCode \<and> gitcode_max_contents_bytes < length data
      then Inl (SPayloadTooLarge ''file exceeds the 20MB limit of GitCode'')
      else Inr ())"

definition build_contents_body :: "(string \<Rightarrow> string) \<Rightarrow> git_storage \<Rightarrow> string \<Rightarrow> string \<Rightarrow> json" where
  "build_contents_body b64 gs key data =
     JObj [(''message'', JStr (build_commit_message key)), (''content'', JStr (b64 data)),
           (''branch'', JStr (gs_branch gs))]"

definition send_contents_request ::
  "'h http_client \<Rightarrow> git_storage \<Rightarrow> 'h \<Rightarrow> string \<Rightarrow> json \<Rightarrow> (storage_error + http_response) \<times> 'h" where
  "send_contents_request http gs h path body =
     (let method = (case gs_provider gs of GitHub \<Rightarrow> ''PUT'' | GitCode \<Rightarrow> ''POST'');
          (r, h') = http h \<lparr>hq_method = method, hq_url = contents_url gs path,
                           hq_authorization = ''Bearer '' @ gs_token gs, hq_query = [],
                           hq_body = Some body\<rparr>
      in (ok_or r (SWriteFailed ''request failed''), h'))"

definition map_put_response :: "http_response \<Rightarrow> string \<Rightarrow> storage_error + string" where
  "map_put_response resp path =
     (if is_success resp \<or> hs_status resp = 201 then Inr path
      else if hs_status resp = 429
      then Inl (SWriteFailed (''rate limited, retry after '' @ opt_unwrap_or (hs_retry_after resp) ''60''))
      else Inl (SWriteFailed (''Git API error ('' @ nat_str (hs_status resp) @ ''): '' @
             opt_unwrap_or (hs_body resp) [])))"

definition git_put ::
  "'h http_client \<Rightarrow> (string \<Rightarrow> string) \<Rightarrow> (instant \<Rightarrow> string) \<Rightarrow> git_storage \<Rightarrow> instant \<Rightarrow> 'h \<Rightarrow>
   string \<Rightarrow> string \<Rightarrow> string \<Rightarrow> (storage_error + string) \<times> 'h" where
  "git_put http b64 ymd gs now h key data content_type =
     (let path = build_path ymd gs now key (mime_to_ext content_type)
      in case check_gitcode_size_limit gs data of
           Inl e \<Rightarrow> (Inl e, h)
         | Inr _ \<Rightarrow>
             (case send_contents_request http gs h path (build_contents_body b64 gs key data) of
                (Inl e, h') \<Rightarrow> (Inl e, h')
              | (Inr resp, h') \<Rightarrow> (map_put_response resp path, h')))"

definition git_get :: "'h http_client \<Rightarrow> git_storage \<Rightarrow> 'h \<Rightarrow> string \<Rightarrow> (storage_error + string) \<times> 'h" where
  "git_get http gs h key =
     (case http h \<lparr>hq_method = ''GET'', hq_url = raw_url gs key,
                   hq_authorization = ''Bearer '' @ gs_token gs, hq_query = [], hq_body = None\<rparr> of
        (None, h') \<Rightarrow> (Inl (SReadFailed ''request failed''), h')
      | (Some resp, h') \<Rightarrow>
          (if is_success resp then (ok_or (hs_body resp) (SReadFailed ''body''), h')
           else if hs_status resp = 404 then (Inl (SNotFound key), h')
           else (Inl (SReadFailed (''Git API error ('' @ nat_str (hs_status resp) @ '')'')), h')))"

definition git_delete :: "'h http_client \<Rightarrow> git_storage \<Rightarrow> 'h \<Rightarrow> string \<Rightarrow> (storage_error + unit) \<times> 'h" where
  "git_delete http gs h key =
     (let url = contents_url gs key; auth = ''Bearer '' @ gs_token gs
      in case http h \<lparr>hq_method = ''GET'', hq_url = url, hq_authorization = auth,
                      hq_query = [(''ref'', gs_branch gs)], hq_body = None\<rparr> of
           (None, h') \<Rightarrow> (Inl (SWriteFailed ''request failed''), h')
         | (Some resp, h') \<Rightarrow>
             (if hs_status resp = 404 then (Inr (), h')
              else
                (case hs_json resp of
                   None \<Rightarrow> (Inl (SWriteFailed ''invalid json''), h')
                 | Some v \<Rightarrow>
                     (case Option.bind (obj_get v ''sha'') as_str of
                        None \<Rightarrow> (Inl (SWriteFailed ''no file sha''), h')
                      | Some sha \<Rightarrow>
                          (case http h' \<lparr>hq_method = ''DELETE'', hq_url = url, hq_authorization = auth,
                                         hq_query = [],
                                         hq_body = Some (JObj [(''message'', JStr (''Delete '' @ key)),
                                           (''sha'', JStr sha), (''branch'', JStr (gs_branch gs))])\<rparr> of
                             (None, h'') \<Rightarrow> (Inl (SWriteFailed ''request failed''), h'')
                           | (Some resp', h'') \<Rightarrow>
                               (if is_success resp' \<or> hs_status resp' = 404 then (Inr (), h'')
                                else (Inl (SWriteFailed (''delete failed ('' @ nat_str (hs_status resp') @ '')'')), h'')))))))"

definition git_exists :: "'h http_client \<Rightarrow> git_storage \<Rightarrow> 'h \<Rightarrow> string \<Rightarrow> (storage_error + bool) \<times> 'h" where
  "git_exists http gs h key =
     (case http h \<lparr>hq_method = ''GET'', hq_url = contents_url gs key,
                   hq_authorization = ''Bearer '' @ gs_token gs,
                   hq_query = [(''ref'', gs_branch gs)], hq_body = None\<rparr> of
        (None, h') \<Rightarrow> (Inl (SReadFailed ''request failed''), h')
      | (Some resp, h') \<Rightarrow> (Inr (is_success resp), h'))"

definition git_backend_name :: "git_storage \<Rightarrow> string" where
  "git_backend_name gs = (case gs_provider gs of GitHub \<Rightarrow> ''github'' | GitCode \<Rightarrow> ''gitcode'')"

section \<open>The local backend\<close>

record local_storage =
  ls_base_path :: string
  ls_base_url :: string

type_synonym files = "string \<Rightarrow> string option"

text \<open>\<open>PathBuf::join\<close>: an absolute path replaces the base.\<close>

definition path_join :: "string \<Rightarrow> string \<Rightarrow> string" where
  "path_join base key =
     (if starts_with key ''/'' then key
      else if base = [] \<or> last base = CHR ''/'' then base @ key else base @ ''/'' @ key)"

definition full_path :: "local_storage \<Rightarrow> string \<Rightarrow> string" where
  "full_path ls key = path_join (ls_base_path ls) key"

definition local_put ::
  "bool \<Rightarrow> local_storage \<Rightarrow> files \<Rightarrow> string \<Rightarrow> string \<Rightarrow> (storage_error + string) \<times> files" where
  "local_put fail ls fs key data =
     (if fail then (Inl (SWriteFailed ''io error''), fs)
      else (Inr key, fs(full_path ls key := Some data)))"

definition local_get :: "bool \<Rightarrow> local_storage \<Rightarrow> files \<Rightarrow> string \<Rightarrow> storage_error + string" where
  "local_get fail ls fs key =
     (if fail then Inl (SReadFailed ''io error'')
      else ok_or (fs (full_path ls key)) (SReadFailed ''No such file or directory''))"

definition local_delete ::
  "bool \<Rightarrow> local_storage \<Rightarrow> files \<Rightarrow> string \<Rightarrow> (storage_error + unit) \<times> files" where
  "local_delete fail ls fs key =
     (if fail \<or> fs (full_path ls key) = None then (Inl (SWriteFailed ''io error''), fs)
      else (Inr (), fs(full_path ls key := None)))"

definition local_exists :: "bool \<Rightarrow> local_storage \<Rightarrow> files \<Rightarrow> string \<Rightarrow> storage_error + bool" where
  "local_exists fail ls fs key =
     (if fail then Inl (SReadFailed ''io error'') else Inr (fs (full_path ls key) \<noteq> None))"

definition local_public_url :: "local_storage \<Rightarrow> string \<Rightarrow> string" where
  "local_public_url ls key = trim_end_matches (CHR ''/'') (ls_base_url ls) @ ''/'' @ key"

section \<open>The S3 backend\<close>

record rustfs_storage =
  rs_bucket :: string
  rs_endpoint :: string

datatype s3_error = S3NotFound | S3Failure string

record 's s3_client =
  s3_put :: "'s \<Rightarrow> string \<Rightarrow> string \<Rightarrow> string \<Rightarrow> string \<Rightarrow> (s3_error + unit) \<times> 's"
  s3_get :: "'s \<Rightarrow> string \<Rightarrow> string \<Rightarrow> s3_error + string"
  s3_delete :: "'s \<Rightarrow> string \<Rightarrow> string \<Rightarrow> (s3_error + unit) \<times> 's"
  s3_head :: "'s \<Rightarrow> string \<Rightarrow> string \<Rightarrow> s3_error + unit"

definition rustfs_new :: "rustfs_config \<Rightarrow> rustfs_storage" where
  "rustfs_new c = \<lparr>rs_bucket = rf_bucket c, rs_endpoint = trim_end_matches (CHR ''/'') (rf_endpoint c)\<rparr>"

definition rustfs_put ::
  "'s s3_client \<Rightarrow> rustfs_storage \<Rightarrow> 's \<Rightarrow> string \<Rightarrow> string \<Rightarrow> string \<Rightarrow> (storage_error + string) \<times> 's" where
  "rustfs_put cl rs s key data content_type =
     (case s3_put cl s (rs_bucket rs) key content_type data of
        (Inl e, s') \<Rightarrow> (Inl (SWriteFailed ''s3 error''), s')
      | (Inr _, s') \<Rightarrow> (Inr key, s'))"

definition rustfs_get :: "'s s3_client \<Rightarrow> rustfs_storage \<Rightarrow> 's \<Rightarrow> string \<Rightarrow> storage_error + string" where
  "rustfs_get cl rs s key =
     (case s3_get cl s (rs_bucket rs) key of
        Inl S3NotFound \<Rightarrow> Inl (SNotFound key)
      | Inl (S3Failure m) \<Rightarrow>
          (if contains_sub m ''NoSuchKey'' \<or> contains_sub m ''NotFound'' then Inl (SNotFound key)
           else Inl (SReadFailed m))
      | Inr body \<Rightarrow> Inr body)"

definition rustfs_delete ::
  "'s s3_client \<Rightarrow> rustfs_storage \<Rightarrow> 's \<Rightarrow> string \<Rightarrow> (storage_error + unit) \<times> 's" where
  "rustfs_delete cl rs s key =
     (case s3_delete cl s (rs_bucket rs) key of
        (Inl e, s') \<Rightarrow> (Inl (SWriteFailed ''s3 error''), s')
      | (Inr _, s') \<Rightarrow> (Inr (), s'))"

definition rustfs_exists :: "'s s3_client \<Rightarrow> rustfs_storage \<Rightarrow> 's \<Rightarrow> string \<Rightarrow> storage_error + bool" where
  "rustfs_exists cl rs s key =
     (case s3_head cl s (rs_bucket rs) key of
        Inr _ \<Rightarrow> Inr True
      | Inl S3NotFound \<Rightarrow> Inr False
      | Inl (S3Failure m) \<Rightarrow> Inl (SReadFailed m))"

definition rustfs_public_url :: "rustfs_storage \<Rightarrow> string \<Rightarrow> string" where
  "rustfs_public_url rs key = rs_endpoint rs @ ''/'' @ rs_bucket rs @ ''/'' @ key"

section \<open>The trait\<close>

datatype backend = LocalB local_storage | GitB git_storage | RustfsB rustfs_storage

record ('h, 's) world =
  wd_files :: files
  wd_http :: 'h
  wd_s3 :: 's

record ('h, 's) storage_env =
  se_http :: "'h http_client"
  se_s3 :: "'s s3_client"
  se_ymd :: "instant \<Rightarrow> string"
  se_crypto :: crypto_lib

definition backend_put ::
  "('h, 's) storage_env \<Rightarrow> bool \<Rightarrow> backend \<Rightarrow> instant \<Rightarrow> ('h, 's) world \<Rightarrow> string \<Rightarrow> string \<Rightarrow> string \<Rightarrow>
   (storage_error + string) \<times> ('h, 's) world" where
  "backend_put env fail b now w key data content_type =
     (case b of
        LocalB ls \<Rightarrow> (let (r, fs) = local_put fail ls (wd_files w) key data in (r, w\<lparr>wd_files := fs\<rparr>))
      | GitB gs \<Rightarrow>
          (let (r, h) = git_put (se_http env) (cl_b64_encode (se_crypto env)) (se_ymd env) gs now
                          (wd_http w) key data content_type in (r, w\<lparr>wd_http := h\<rparr>))
      | RustfsB rs \<Rightarrow>
          (let (r, s) = rustfs_put (se_s3 env) rs (wd_s3 w) key data content_type
           in (r, w\<lparr>wd_s3 := s\<rparr>)))"

definition backend_get ::
  "('h, 's) storage_env \<Rightarrow> bool \<Rightarrow> backend \<Rightarrow> ('h, 's) world \<Rightarrow> string \<Rightarrow>
   (storage_error + string) \<times> ('h, 's) world" where
  "backend_get env fail b w key =
     (case b of
        LocalB ls \<Rightarrow> (local_get fail ls (wd_files w) key, w)
      | GitB gs \<Rightarrow> (let (r, h) = git_get (se_http env) gs (wd_http w) key in (r, w\<lparr>wd_http := h\<rparr>))
      | RustfsB rs \<Rightarrow> (rustfs_get (se_s3 env) rs (wd_s3 w) key, w))"

definition backend_delete ::
  "('h, 's) storage_env \<Rightarrow> bool \<Rightarrow> backend \<Rightarrow> ('h, 's) world \<Rightarrow> string \<Rightarrow>
   (storage_error + unit) \<times> ('h, 's) world" where
  "backend_delete env fail b w key =
     (case b of
        LocalB ls \<Rightarrow> (let (r, fs) = local_delete fail ls (wd_files w) key in (r, w\<lparr>wd_files := fs\<rparr>))
      | GitB gs \<Rightarrow> (let (r, h) = git_delete (se_http env) gs (wd_http w) key in (r, w\<lparr>wd_http := h\<rparr>))
      | RustfsB rs \<Rightarrow> (let (r, s) = rustfs_delete (se_s3 env) rs (wd_s3 w) key in (r, w\<lparr>wd_s3 := s\<rparr>)))"

fun backend_public_url :: "backend \<Rightarrow> string \<Rightarrow> string" where
  "backend_public_url (LocalB ls) key = local_public_url ls key"
| "backend_public_url (GitB gs) key = raw_url gs key"
| "backend_public_url (RustfsB rs) key = rustfs_public_url rs key"

fun backend_name :: "backend \<Rightarrow> string" where
  "backend_name (LocalB ls) = ''local''"
| "backend_name (GitB gs) = git_backend_name gs"
| "backend_name (RustfsB rs) = ''rustfs''"

section \<open>The router\<close>

record router =
  ro_backends :: "(string \<times> backend) list"
  ro_default :: string

text \<open>\<open>None\<close> is the panic of a router without backends; \<open>values().next()\<close> is the first one.\<close>

definition default_backend :: "router \<Rightarrow> backend option" where
  "default_backend ro =
     (case map_of (ro_backends ro) (ro_default ro) of
        Some b \<Rightarrow> Some b
      | None \<Rightarrow> (case ro_backends ro of [] \<Rightarrow> None | (k, b) # _ \<Rightarrow> Some b))"

definition for_backend :: "router \<Rightarrow> string \<Rightarrow> backend option" where
  "for_backend ro name =
     (case map_of (ro_backends ro) name of Some b \<Rightarrow> Some b | None \<Rightarrow> default_backend ro)"

definition router_get :: "router \<Rightarrow> string \<Rightarrow> backend option" where
  "router_get ro name = map_of (ro_backends ro) name"

definition git_config_of_json :: "json \<Rightarrow> git_config_detail option" where
  "git_config_of_json v =
     (case (Option.bind (obj_get v ''token_encrypted'') as_str, Option.bind (obj_get v ''repo'') as_str,
            Option.bind (obj_get v ''branch'') as_str, obj_get v ''path_prefix'') of
        (Some t, Some r, Some b, None) \<Rightarrow>
          Some \<lparr>gd_token_encrypted = t, gd_repo = r, gd_branch = b, gd_path_prefix = None\<rparr>
      | (Some t, Some r, Some b, Some JNull) \<Rightarrow>
          Some \<lparr>gd_token_encrypted = t, gd_repo = r, gd_branch = b, gd_path_prefix = None\<rparr>
      | (Some t, Some r, Some b, Some (JStr p)) \<Rightarrow>
          Some \<lparr>gd_token_encrypted = t, gd_repo = r, gd_branch = b, gd_path_prefix = Some p\<rparr>
      | _ \<Rightarrow> None)"

text \<open>\<open>us\<close> prints a \<open>Uuid\<close>.\<close>

definition get_or_create_git ::
  "crypto_lib \<Rightarrow> (uuid \<Rightarrow> string) \<Rightarrow> router \<Rightarrow> config_row \<Rightarrow> string \<Rightarrow> (storage_error + backend) \<times> router" where
  "get_or_create_git cl us ro config key =
     (case git_config_of_json (sc_config config) of
        None \<Rightarrow> (Inl (SConfig ''config parse failed''), ro)
      | Some detail \<Rightarrow>
          (case decrypt_token cl (gd_token_encrypted detail) key of
             Inl e \<Rightarrow> (Inl (SConfig (''token decrypt failed: '' @ crypto_error_display e)), ro)
           | Inr token \<Rightarrow>
               (let build = (\<lambda>provider.
                      (case split_once (CHR ''/'') (gd_repo detail) of
                         None \<Rightarrow> (Inl (SConfig ''repo format error, expected owner/repo''), ro)
                       | Some (owner, repo) \<Rightarrow>
                           (let git = GitB (git_storage_new provider owner repo (gd_branch detail)
                                              (gd_path_prefix detail) token)
                            in (Inr git, ro\<lparr>ro_backends := AList.update (us (sc_id config)) git (ro_backends ro)\<rparr>))))
                in if sc_provider config = ''github'' then build GitHub
                   else if sc_provider config = ''gitcode'' then build GitCode
                   else (Inl (SConfig (''unknown provider: '' @ sc_provider config)), ro))))"

definition for_config ::
  "crypto_lib \<Rightarrow> (uuid \<Rightarrow> string) \<Rightarrow> router \<Rightarrow> config_row \<Rightarrow> string \<Rightarrow>
   ((storage_error + backend) \<times> router) option" where
  "for_config cl us ro config key =
     (if sc_provider config = ''local''
      then map_option (\<lambda>b. (Inr b, ro)) (default_backend ro)
      else
        (case map_of (ro_backends ro) (us (sc_id config)) of
           Some b \<Rightarrow> Some (Inr b, ro)
         | None \<Rightarrow> Some (get_or_create_git cl us ro config key)))"

definition router_evict :: "router \<Rightarrow> string \<Rightarrow> router" where
  "router_evict ro config_id = ro\<lparr>ro_backends := AList.delete config_id (ro_backends ro)\<rparr>"

end
