(* ===== verification/Upload.thy ===== *)
theory Upload
  imports Auth Storage
begin

text \<open>
  The upload service, \<open>pichost-api/src/services/upload.rs\<close>, with \<open>html_escape\<close> of
  \<open>services/mod.rs\<close>: quotas, deduplication, public keys, the choice and validation of storage
  configurations, the write to a backend, the row, the processing task, and the gallery queries.

  The image sniffing (infer, image), SHA-256 and the queue are parameters (\<open>upload_env\<close>); the ids
  and the random numbers a call draws are arguments. \<open>None\<close> as the result of an upload means that
  the call does not return: every number drawn so far names an existing image, or the router has
  no backend and panics. Foreign keys are enforced by both databases.
\<close>

section \<open>Types\<close>

record storage_config_info =
  si_id :: uuid
  si_name :: string
  si_provider :: string

record upload_result =
  ur_id :: uuid
  ur_public_key :: string
  ur_original_name :: string
  ur_url :: string
  ur_markdown :: string
  ur_html :: string
  ur_bbcode :: string
  ur_sha256 :: string
  ur_file_size :: int
  ur_mime_type :: string
  ur_width :: "int option"
  ur_height :: "int option"
  ur_status :: string
  ur_thumbnail_url :: "string option"
  ur_webp_url :: "string option"
  ur_category_id :: "uuid option"
  ur_created_at :: instant
  ur_storage_config :: "storage_config_info option"

text \<open>\<open>ImageRow\<close>: columns of an image and, from the join, of its configuration.\<close>

record joined_row =
  jr_image :: image_row
  jr_name :: "string option"
  jr_provider :: "string option"

definition html_escape_char :: "char \<Rightarrow> string" where
  "html_escape_char c =
     (if c = CHR ''&'' then ''&amp;'' else if c = CHR ''<'' then ''&lt;''
      else if c = CHR ''>'' then ''&gt;'' else if c = CHR 0x22 then ''&quot;'' else [c])"

definition html_escape :: "string \<Rightarrow> string" where
  "html_escape s = concat (map html_escape_char s)"

definition quote :: string where "quote = [CHR 0x22]"

definition markdown_link :: "string \<Rightarrow> string \<Rightarrow> string" where
  "markdown_link name url = ''!['' @ name @ '']('' @ url @ '')''"

definition html_link :: "string \<Rightarrow> string \<Rightarrow> string" where
  "html_link name url =
     ''<img src='' @ quote @ url @ quote @ '' alt='' @ quote @ html_escape name @ quote @ '' />''"

definition bbcode_link :: "string \<Rightarrow> string" where
  "bbcode_link url = ''[img]'' @ url @ ''[/img]''"

definition result_from_row :: "joined_row \<Rightarrow> upload_result" where
  "result_from_row row =
     (let im = jr_image row;
          sc = (case (im_storage_config_id im, jr_name row, jr_provider row) of
                  (Some i, Some n, Some p) \<Rightarrow> Some \<lparr>si_id = i, si_name = n, si_provider = p\<rparr>
                | _ \<Rightarrow> None)
      in \<lparr>ur_id = im_id im, ur_public_key = im_public_key im, ur_original_name = im_original_name im,
          ur_url = im_url im, ur_markdown = markdown_link (im_original_name im) (im_url im),
          ur_html = html_link (im_original_name im) (im_url im), ur_bbcode = bbcode_link (im_url im),
          ur_sha256 = im_sha256 im, ur_file_size = im_file_size im, ur_mime_type = im_mime_type im,
          ur_width = im_width im, ur_height = im_height im, ur_status = im_status im,
          ur_thumbnail_url = im_thumbnail_url im, ur_webp_url = im_webp_url im,
          ur_category_id = im_category_id im, ur_created_at = im_created_at im,
          ur_storage_config = sc\<rparr>)"

section \<open>State and environment\<close>

record ('q, 'h, 's) app =
  ap_db :: db
  ap_queue :: 'q
  ap_router :: router
  ap_world :: "('h, 's) world"

record ('q, 'h, 's) upload_env =
  ue_is_image :: "string \<Rightarrow> bool"
  ue_mime :: "string \<Rightarrow> string option"
  ue_dimensions :: "string \<Rightarrow> (nat \<times> nat) option"
  ue_sha256 :: "string \<Rightarrow> string"
  ue_uuid_str :: "uuid \<Rightarrow> string"
  ue_storage :: "('h, 's) storage_env"
  ue_queue :: "'q queue_ops"

text \<open>What one upload to one backend draws: random numbers for the key, the ids of image and task.\<close>

record upload_draws =
  ud_numbers :: "nat list"
  ud_image_id :: uuid
  ud_task_id :: uuid

text \<open>Faults of one upload to one backend: statements, storage, all by position.\<close>

section \<open>Helpers\<close>

definition enqueue_processing_task ::
  "'q queue_ops \<Rightarrow> 'q \<Rightarrow> instant \<Rightarrow> uuid \<Rightarrow> uuid \<Rightarrow> uuid \<Rightarrow> string \<Rightarrow> string \<Rightarrow> string \<Rightarrow> uuid option \<Rightarrow>
   string \<Rightarrow> 'q" where
  "enqueue_processing_task qo q now tid img user key mime backend config_id backend_name' =
     snd (qo_enqueue qo q now
       \<lparr>task_id = tid, image_id = img, tp_user_id = user, tp_storage_backend = backend,
        tp_storage_config_id = config_id, storage_backend_name = backend_name', source_key = key,
        source_mime = mime, retry_count = 0, max_retries = 3\<rparr>)"

text \<open>A multipart field: its name, its file name, its bytes (\<open>None\<close>: reading fails).\<close>

type_synonym field = "string option \<times> string option \<times> string option"

fun extract_file :: "i18n \<Rightarrow> field list \<Rightarrow> api_error + string \<times> string" where
  "extract_file g [] = Inl (error_json g (i_language g) 400 ''upload.file_missing'')"
| "extract_file g ((n, fname, data) # fs) =
     (if n = Some ''file'' then
        (case data of
           None \<Rightarrow> Inl (error_json_args g (i_language g) 400 ''upload.field_read_failed'' [''read error''])
         | Some d \<Rightarrow> Inr (d, opt_unwrap_or fname ''file''))
      else extract_file g fs)"

definition usage_of :: "db \<Rightarrow> uuid \<Rightarrow> int" where
  "usage_of d u = sum_list (map im_file_size (filter (\<lambda>i. im_user_id i = u) (t_images d)))"

definition check_upload_quotas ::
  "upload_config \<Rightarrow> i18n \<Rightarrow> language \<Rightarrow> bool \<Rightarrow> db \<Rightarrow> auth_user \<Rightarrow> nat \<Rightarrow> api_error + unit" where
  "check_upload_quotas cfg g loc fail d user file_size =
     (let max_size = (if au_is_admin user then up_max_file_size_admin cfg else up_max_file_size_user cfg)
      in if max_size < file_size then Inl (error_json g loc 413 ''upload.file_too_large'')
         else
           (case au_storage_quota user of
              None \<Rightarrow> Inr ()
            | Some quota \<Rightarrow>
                (if fail then Inl (error_json g loc 500 ''common.internal_error'')
                 else
                   (let current_usage = usage_of d (au_id user);
                        new_file_size = as_i64 (int file_size)
                    in if quota < as_i64 (current_usage + new_file_size)
                       then Inl (error_json_extra g loc 413 ''upload.quota_exceeded''
                              (JObj [(''quota_bytes'', JInt quota), (''used_bytes'', JInt current_usage),
                                     (''file_bytes'', JInt new_file_size)]))
                       else Inr ()))))"

definition is_duplicate :: "uuid \<Rightarrow> string \<Rightarrow> uuid option \<Rightarrow> image_row \<Rightarrow> bool" where
  "is_duplicate user sha cid i =
     (im_user_id i = user \<and> im_sha256 i = sha \<and> im_storage_config_id i = cid)"

definition dedup_exists ::
  "i18n \<Rightarrow> language \<Rightarrow> bool \<Rightarrow> db \<Rightarrow> uuid \<Rightarrow> string \<Rightarrow> uuid option \<Rightarrow> api_error + bool" where
  "dedup_exists g loc fail d user sha cid =
     (if fail then Inl (error_json g loc 500 ''common.internal_error'')
      else Inr (list_ex (is_duplicate user sha cid) (t_images d)))"

definition join_config :: "db \<Rightarrow> image_row \<Rightarrow> joined_row" where
  "join_config d i =
     (case Option.bind (im_storage_config_id i) (\<lambda>c. find (\<lambda>r. sc_id r = c) (t_configs d)) of
        None \<Rightarrow> \<lparr>jr_image = i, jr_name = None, jr_provider = None\<rparr>
      | Some r \<Rightarrow> \<lparr>jr_image = i, jr_name = Some (sc_name r), jr_provider = Some (sc_provider r)\<rparr>)"

definition fetch_dedup_row ::
  "i18n \<Rightarrow> language \<Rightarrow> bool \<Rightarrow> db \<Rightarrow> uuid \<Rightarrow> string \<Rightarrow> uuid option \<Rightarrow> api_error + joined_row" where
  "fetch_dedup_row g loc fail d user sha cid =
     (case (if fail then None else find (is_duplicate user sha cid) (t_images d)) of
        None \<Rightarrow> Inl (error_json g loc 500 ''common.internal_error'')
      | Some i \<Rightarrow> Inr (join_config d i))"

definition try_dedup ::
  "i18n \<Rightarrow> language \<Rightarrow> faults \<Rightarrow> db \<Rightarrow> uuid \<Rightarrow> string \<Rightarrow> uuid option \<Rightarrow> api_error + upload_result option" where
  "try_dedup g loc fails d user sha cid =
     rbind (dedup_exists g loc (fails 0) d user sha cid)
       (\<lambda>e. if \<not> e then Inr None
            else rbind (fetch_dedup_row g loc (fails 1) d user sha cid)
                   (\<lambda>row. Inr (Some (result_from_row row))))"

text \<open>\<open>{:06x}\<close> of the low 24 bits.\<close>

definition hex_char :: "nat \<Rightarrow> char" where
  "hex_char n = (if n < 10 then char_of (48 + n) else char_of (87 + n))"

fun pad_hex :: "nat \<Rightarrow> nat \<Rightarrow> string" where
  "pad_hex 0 n = []"
| "pad_hex (Suc w) n = pad_hex w (n div 16) @ [hex_char (n mod 16)]"

definition public_key_of :: "nat \<Rightarrow> string" where
  "public_key_of n = pad_hex 6 (n mod 2 ^ 24)"

text \<open>The loop: one number per turn; \<open>None\<close> when the numbers run out before a key is free.\<close>

fun generate_public_key ::
  "i18n \<Rightarrow> language \<Rightarrow> faults \<Rightarrow> db \<Rightarrow> nat list \<Rightarrow> (api_error + string) option" where
  "generate_public_key g loc fails d [] = None"
| "generate_public_key g loc fails d (n # ns) =
     (if fails (length ns) then Some (Inl (error_json g loc 500 ''common.internal_error''))
      else
        (let key = public_key_of n
         in if key \<in> set (map im_public_key (t_images d)) then generate_public_key g loc fails d ns
            else Some (Inr key)))"

definition detect_mime :: "('q, 'h, 's) upload_env \<Rightarrow> string \<Rightarrow> string" where
  "detect_mime env bytes = opt_unwrap_or (ue_mime env bytes) ''application/octet-stream''"

definition image_dimensions :: "('q, 'h, 's) upload_env \<Rightarrow> string \<Rightarrow> int option \<times> int option" where
  "image_dimensions env bytes =
     (case ue_dimensions env bytes of
        None \<Rightarrow> (None, None)
      | Some (w, h) \<Rightarrow> (Some (as_i32 (int w)), Some (as_i32 (int h))))"

section \<open>Which configurations\<close>

definition zero_key :: string where "zero_key = replicate 32 (CHR 0x00)"

definition resolve_encryption_key ::
  "crypto_lib \<Rightarrow> i18n \<Rightarrow> language \<Rightarrow> app_config \<Rightarrow> api_error + string" where
  "resolve_encryption_key cl g loc cfg =
     (case cf_token_encryption_key cfg of
        None \<Rightarrow> Inr zero_key
      | Some encoded \<Rightarrow>
          (case decode_key cl encoded of
             Inl e \<Rightarrow> Inl (error_json g loc 500 ''upload.encryption_key_invalid'')
           | Inr k \<Rightarrow> Inr k))"

definition fetch_configs_by_ids ::
  "i18n \<Rightarrow> language \<Rightarrow> bool \<Rightarrow> db \<Rightarrow> uuid \<Rightarrow> uuid list \<Rightarrow> api_error + config_row list" where
  "fetch_configs_by_ids g loc fail d user ids =
     (if fail then Inl (error_json g loc 500 ''common.internal_error'')
      else
        (let configs = sort_key sc_created_at
               (filter (\<lambda>c. sc_id c \<in> set ids \<and> sc_user_id c = user) (t_configs d))
         in if configs = [] then Inl (error_json g loc 400 ''upload.configs_none_match'')
            else Inr configs))"

definition fetch_default_config ::
  "i18n \<Rightarrow> language \<Rightarrow> bool \<Rightarrow> db \<Rightarrow> uuid \<Rightarrow> api_error + config_row option" where
  "fetch_default_config g loc fail d user =
     (if fail then Inl (error_json g loc 500 ''common.internal_error'')
      else Inr (find (\<lambda>c. sc_user_id c = user \<and> sc_is_default c) (t_configs d)))"

definition local_fallback_config :: "instant \<Rightarrow> uuid \<Rightarrow> config_row" where
  "local_fallback_config now user =
     \<lparr>sc_id = nil_uuid, sc_user_id = user, sc_name = ''Local Storage'', sc_provider = ''local'',
      sc_is_default = False, sc_config = JObj [], sc_created_at = now, sc_updated_at = now\<rparr>"

definition resolve_upload_configs ::
  "i18n \<Rightarrow> language \<Rightarrow> bool \<Rightarrow> instant \<Rightarrow> db \<Rightarrow> uuid \<Rightarrow> uuid list option \<Rightarrow> api_error + config_row list" where
  "resolve_upload_configs g loc fail now d user ids =
     (case ids of
        Some xs \<Rightarrow> if xs = [] then Inr [] else fetch_configs_by_ids g loc fail d user xs
      | None \<Rightarrow>
          rbind (fetch_default_config g loc fail d user)
            (\<lambda>c. case c of
                   Some config \<Rightarrow> Inr [config]
                 | None \<Rightarrow> Inr [local_fallback_config now user]))"

definition validate_upload_configs :: "i18n \<Rightarrow> language \<Rightarrow> config_row list \<Rightarrow> api_error + unit" where
  "validate_upload_configs g loc configs =
     (if 2 < length configs then Inl (error_json g loc 400 ''upload.configs_too_many'')
      else if \<not> list_ex (\<lambda>c. sc_provider c = ''local'') configs
      then Inl (error_json g loc 400 ''upload.configs_need_local'')
      else Inr ())"

section \<open>Writing\<close>

definition storage_error_response :: "i18n \<Rightarrow> language \<Rightarrow> storage_error \<Rightarrow> api_error" where
  "storage_error_response g loc e =
     (case e of
        SPayloadTooLarge m \<Rightarrow> error_json_args g loc 413 ''storage_payload_too_large'' [m]
      | _ \<Rightarrow> error_json_args g loc 500 ''common.internal_error_detail'' [storage_error_display e])"

definition write_to_storage ::
  "('h, 's) storage_env \<Rightarrow> (uuid \<Rightarrow> string) \<Rightarrow> i18n \<Rightarrow> language \<Rightarrow> bool \<Rightarrow> instant \<Rightarrow> ('h, 's) world \<Rightarrow>
   backend \<Rightarrow> string \<Rightarrow> uuid \<Rightarrow> string \<Rightarrow> string \<Rightarrow> string \<Rightarrow>
   (api_error + string \<times> string \<times> string) \<times> ('h, 's) world" where
  "write_to_storage env us g loc fail now w b public_url user key bytes mime =
     (case backend_put env fail b now w (us user @ ''/'' @ key) bytes mime of
        (Inl e, w') \<Rightarrow> (Inl (storage_error_response g loc e), w')
      | (Inr storage_key, w') \<Rightarrow>
          (let name = backend_name b;
               url = (if name = ''local''
                      then trim_end_matches (CHR ''/'') public_url @ ''/u/'' @ key
                      else backend_public_url b storage_key)
           in (Inr (storage_key, url, name), w')))"

text \<open>
  The insert: refused by a fault, a value too long for its column (PostgreSQL), a duplicate id,
  public key or (user, sha256), or a missing user or configuration.
\<close>

definition char_count :: "string \<Rightarrow> nat" where
  "char_count s = length (filter (\<lambda>c. (of_char c :: nat) div 64 \<noteq> 2) s)"

text \<open>The widths of the \<open>VARCHAR\<close> columns, in characters; SQLite has none.\<close>

definition pg_row_fits :: "image_row \<Rightarrow> bool" where
  "pg_row_fits r =
     (char_count (im_public_key r) \<le> 16 \<and> char_count (im_original_name r) \<le> 255 \<and>
      char_count (im_storage_key r) \<le> 512 \<and> char_count (im_storage_backend r) \<le> 32 \<and>
      char_count (im_mime_type r) \<le> 128 \<and> char_count (im_sha256 r) \<le> 64 \<and>
      char_count (im_url r) \<le> 1024 \<and> char_count (im_status r) \<le> 16)"

definition images_accept :: "database_mode \<Rightarrow> db \<Rightarrow> image_row \<Rightarrow> bool" where
  "images_accept mode d r =
     ((mode = PostgresMode \<longrightarrow> pg_row_fits r) \<and>
      im_id r \<notin> set (map im_id (t_images d)) \<and> im_public_key r \<notin> set (map im_public_key (t_images d)) \<and>
      (im_user_id r, im_sha256 r) \<notin> set (map (\<lambda>i. (im_user_id i, im_sha256 i)) (t_images d)) \<and>
      im_user_id r \<in> set (map u_id (t_users d)) \<and>
      (case im_storage_config_id r of None \<Rightarrow> True | Some c \<Rightarrow> c \<in> set (map sc_id (t_configs d))))"

definition new_image_row ::
  "instant \<Rightarrow> uuid \<Rightarrow> uuid \<Rightarrow> string \<Rightarrow> string \<Rightarrow> string \<Rightarrow> string \<Rightarrow> string \<Rightarrow> int \<Rightarrow> int option \<Rightarrow>
   int option \<Rightarrow> string \<Rightarrow> string \<Rightarrow> uuid option \<Rightarrow> image_row" where
  "new_image_row now iid user key name skey sbackend mime fsize w h sha url cid =
     \<lparr>im_id = iid, im_user_id = user, im_public_key = key, im_original_name = name,
      im_storage_key = skey, im_storage_backend = sbackend, im_mime_type = mime,
      im_file_size = fsize, im_width = w, im_height = h, im_sha256 = sha, im_url = url,
      im_thumbnail_key = None, im_thumbnail_url = None, im_webp_key = None,
      im_webp_url = None, im_status = ''active'', im_storage_config_id = cid,
      im_category_id = None, im_created_at = now\<rparr>"

definition insert_image_record ::
  "database_mode \<Rightarrow> i18n \<Rightarrow> language \<Rightarrow> bool \<Rightarrow> instant \<Rightarrow> uuid \<Rightarrow> uuid \<Rightarrow> string \<Rightarrow> string \<Rightarrow> string \<Rightarrow>
   string \<Rightarrow> string \<Rightarrow> int \<Rightarrow> int option \<Rightarrow> int option \<Rightarrow> string \<Rightarrow> string \<Rightarrow> uuid option \<Rightarrow> db \<Rightarrow>
   (api_error + uuid) \<times> db" where
  "insert_image_record mode g loc fail now iid user key name skey sbackend mime fsize w h sha url cid d =
     (let r = new_image_row now iid user key name skey sbackend mime fsize w h sha url cid
      in if fail \<or> \<not> images_accept mode d r then (Inl (error_json g loc 500 ''upload.save_failed''), d)
         else (Inr iid, d\<lparr>t_images := t_images d @ [r]\<rparr>))"

lemma new_image_row_sel [simp]:
  "im_id (new_image_row now iid user key name skey sb mime fsize w h sha url cid) = iid"
  "im_user_id (new_image_row now iid user key name skey sb mime fsize w h sha url cid) = user"
  "im_public_key (new_image_row now iid user key name skey sb mime fsize w h sha url cid) = key"
  "im_file_size (new_image_row now iid user key name skey sb mime fsize w h sha url cid) = fsize"
  "im_sha256 (new_image_row now iid user key name skey sb mime fsize w h sha url cid) = sha"
  "im_storage_config_id (new_image_row now iid user key name skey sb mime fsize w h sha url cid) = cid"
  "im_storage_key (new_image_row now iid user key name skey sb mime fsize w h sha url cid) = skey"
  "im_storage_backend (new_image_row now iid user key name skey sb mime fsize w h sha url cid) = sb"
  "im_category_id (new_image_row now iid user key name skey sb mime fsize w h sha url cid) = None"
  by (simp_all add: new_image_row_def)

definition config_id_of :: "config_row \<Rightarrow> uuid option" where
  "config_id_of c = (if sc_id c = nil_uuid then None else Some (sc_id c))"

definition persist_image_for_config ::
  "('q, 'h, 's) upload_env \<Rightarrow> app_config \<Rightarrow> i18n \<Rightarrow> language \<Rightarrow> faults \<Rightarrow> instant \<Rightarrow> upload_draws \<Rightarrow>
   auth_user \<Rightarrow> config_row \<Rightarrow> string \<Rightarrow> string \<Rightarrow> string \<Rightarrow> string \<Rightarrow> int option \<Rightarrow> int option \<Rightarrow> string \<Rightarrow>
   ('q, 'h, 's) app \<Rightarrow>
   ((api_error + uuid \<times> string \<times> string \<times> string \<times> string) \<times> ('q, 'h, 's) app) option" where
  "persist_image_for_config env cfg g loc fails now dr user config key name bytes mime w h sha app =
     (case for_config (se_crypto (ue_storage env)) (ue_uuid_str env) (ap_router app) config key of
        None \<Rightarrow> None
      | Some (Inl e, ro) \<Rightarrow> Some (Inl (error_json g loc 500 ''upload.backend_resolve_failed''), app\<lparr>ap_router := ro\<rparr>)
      | Some (Inr b, ro) \<Rightarrow>
          (let app1 = app\<lparr>ap_router := ro\<rparr>
           in case generate_public_key g loc (\<lambda>n. fails (4 + n)) (ap_db app1) (ud_numbers dr) of
                None \<Rightarrow> None
              | Some (Inl e) \<Rightarrow> Some (Inl e, app1)
              | Some (Inr public_key) \<Rightarrow>
                  (case write_to_storage (ue_storage env) (ue_uuid_str env) g loc (fails 2) now
                          (ap_world app1) b (sv_public_url (cf_server cfg)) (au_id user) public_key bytes mime of
                     (Inl e, wd) \<Rightarrow> Some (Inl e, app1\<lparr>ap_world := wd\<rparr>)
                   | (Inr (storage_key, url, bname), wd) \<Rightarrow>
                       (let app2 = app1\<lparr>ap_world := wd\<rparr>;
                            db_backend = (if sc_provider config = ''local'' then ''local''
                                          else ue_uuid_str env (sc_id config));
                            (r, d) = insert_image_record (dc_mode (cf_database cfg)) g loc (fails 3) now (ud_image_id dr) (au_id user)
                              public_key name storage_key db_backend mime (as_i64 (int (length bytes)))
                              w h sha url (config_id_of config) (ap_db app2)
                        in case r of
                             Inl e \<Rightarrow> Some (Inl e, app2\<lparr>ap_db := d\<rparr>)
                           | Inr iid \<Rightarrow> Some (Inr (iid, storage_key, bname, public_key, url), app2\<lparr>ap_db := d\<rparr>)))))"

definition config_info :: "config_row \<Rightarrow> storage_config_info" where
  "config_info c = \<lparr>si_id = sc_id c, si_name = sc_name c, si_provider = sc_provider c\<rparr>"

definition build_result ::
  "instant \<Rightarrow> uuid \<Rightarrow> string \<Rightarrow> string \<Rightarrow> string \<Rightarrow> string \<Rightarrow> string \<Rightarrow> int option \<Rightarrow> int option \<Rightarrow> string \<Rightarrow>
   storage_config_info option \<Rightarrow> upload_result" where
  "build_result now iid key name url bytes mime w h sha sc =
     \<lparr>ur_id = iid, ur_public_key = key, ur_original_name = name, ur_url = url,
      ur_markdown = markdown_link name url, ur_html = html_link name url, ur_bbcode = bbcode_link url,
      ur_sha256 = sha, ur_file_size = as_i64 (int (length bytes)), ur_mime_type = mime, ur_width = w,
      ur_height = h, ur_status = ''active'', ur_thumbnail_url = None, ur_webp_url = None,
      ur_category_id = None, ur_created_at = now, ur_storage_config = sc\<rparr>"

section \<open>The upload\<close>

definition upload_to_single_backend ::
  "('q, 'h, 's) upload_env \<Rightarrow> app_config \<Rightarrow> i18n \<Rightarrow> language \<Rightarrow> faults \<Rightarrow> instant \<Rightarrow> upload_draws \<Rightarrow>
   auth_user \<Rightarrow> config_row \<Rightarrow> string \<Rightarrow> string \<Rightarrow> string \<Rightarrow> string \<Rightarrow> string \<Rightarrow> int option \<Rightarrow> int option \<Rightarrow>
   ('q, 'h, 's) app \<Rightarrow> ((api_error + upload_result) \<times> ('q, 'h, 's) app) option" where
  "upload_to_single_backend env cfg g loc fails now dr user config key bytes name sha mime w h app =
     (case try_dedup g loc fails (ap_db app) (au_id user) sha (config_id_of config) of
        Inl e \<Rightarrow> Some (Inl e, app)
      | Inr (Some existing) \<Rightarrow> Some (Inr existing, app)
      | Inr None \<Rightarrow>
          (case persist_image_for_config env cfg g loc fails now dr user config key name bytes mime w h
                  sha app of
             None \<Rightarrow> None
           | Some (Inl e, app1) \<Rightarrow> Some (Inl e, app1)
           | Some (Inr (iid, storage_key, bname, public_key, url), app1) \<Rightarrow>
               (let q = enqueue_processing_task (ue_queue env) (ap_queue app1) now (ud_task_id dr) iid
                          (au_id user) storage_key mime bname (config_id_of config) bname
                in Some (Inr (build_result now iid public_key name url bytes mime w h sha
                               (Some (config_info config))),
                         app1\<lparr>ap_queue := q\<rparr>))))"

text \<open>
  With two configurations the code joins the two uploads; here they run one after the other, in
  the order \<open>swap\<close> says, and the first error in the order of the configurations is returned.
\<close>

definition run_backend_uploads ::
  "('q, 'h, 's) upload_env \<Rightarrow> app_config \<Rightarrow> i18n \<Rightarrow> language \<Rightarrow> (nat \<Rightarrow> faults) \<Rightarrow> bool \<Rightarrow> instant \<Rightarrow>
   (nat \<Rightarrow> upload_draws) \<Rightarrow> auth_user \<Rightarrow> config_row list \<Rightarrow> string \<Rightarrow> string \<Rightarrow> string \<Rightarrow> string \<Rightarrow> string \<Rightarrow>
   int option \<Rightarrow> int option \<Rightarrow> ('q, 'h, 's) app \<Rightarrow>
   ((api_error + upload_result list) \<times> ('q, 'h, 's) app) option" where
  "run_backend_uploads env cfg g loc fails swap now drs user configs key bytes name sha mime w h app =
     (let one = (\<lambda>k app. upload_to_single_backend env cfg g loc (fails k) now (drs k) user (configs ! k)
                           key bytes name sha mime w h app)
      in if length configs = 1 then
           (case one 0 app of
              None \<Rightarrow> None
            | Some (r, app1) \<Rightarrow> Some (rbind r (\<lambda>x. Inr [x]), app1))
         else
           (let (k1, k2) = (if swap then (1, 0) else (0, 1))
            in case one k1 app of
                 None \<Rightarrow> None
               | Some (ra, app1) \<Rightarrow>
                   (case one k2 app1 of
                      None \<Rightarrow> None
                    | Some (rb, app2) \<Rightarrow>
                        (let (r0, r1) = (if swap then (rb, ra) else (ra, rb))
                         in Some (rbind r0 (\<lambda>x. rbind r1 (\<lambda>y. Inr [x, y])), app2)))))"

definition process_upload ::
  "('q, 'h, 's) upload_env \<Rightarrow> app_config \<Rightarrow> i18n \<Rightarrow> language \<Rightarrow> faults \<Rightarrow> (nat \<Rightarrow> faults) \<Rightarrow> bool \<Rightarrow>
   instant \<Rightarrow> (nat \<Rightarrow> upload_draws) \<Rightarrow> auth_user \<Rightarrow> string \<Rightarrow> string \<Rightarrow> uuid list option \<Rightarrow>
   ('q, 'h, 's) app \<Rightarrow> ((api_error + upload_result list) \<times> ('q, 'h, 's) app) option" where
  "process_upload env cfg g loc fails bfails swap now drs user bytes name ids app =
     (if \<not> ue_is_image env bytes
      then Some (Inl (error_json g loc 400 ''upload.not_an_image''), app)
      else
        (case check_upload_quotas (cf_upload cfg) g loc (fails 0) (ap_db app) user (length bytes) of
           Inl e \<Rightarrow> Some (Inl e, app)
         | Inr _ \<Rightarrow>
        (case resolve_upload_configs g loc (fails 1) now (ap_db app) (au_id user) ids of
           Inl e \<Rightarrow> Some (Inl e, app)
         | Inr configs \<Rightarrow>
        (case validate_upload_configs g loc configs of
           Inl e \<Rightarrow> Some (Inl e, app)
         | Inr _ \<Rightarrow>
        (case resolve_encryption_key (se_crypto (ue_storage env)) g loc cfg of
           Inl e \<Rightarrow> Some (Inl e, app)
         | Inr key \<Rightarrow>
             (let (w, h) = image_dimensions env bytes
              in run_backend_uploads env cfg g loc bfails swap now drs user configs key bytes name
                   (ue_sha256 env bytes) (detect_mime env bytes) w h app))))))"

section \<open>Gallery queries\<close>

definition normalize_sort :: "string \<Rightarrow> string" where
  "normalize_sort s =
     (if s = ''created_at'' \<or> s = ''file_size'' \<or> s = ''original_name'' then s else ''created_at'')"

definition normalize_order :: "string \<Rightarrow> string" where
  "normalize_order s = (if s = ''asc'' \<or> s = ''ASC'' then ''ASC'' else ''DESC'')"

text \<open>
  \<open>ceil\<close> of the quotient; the code divides doubles, which is exact for the totals below 2^46 that
  a page size of at most 100 allows.
\<close>

definition calc_total_pages :: "int \<Rightarrow> nat \<Rightarrow> nat" where
  "calc_total_pages cnt per_page =
     (if cnt = 0 then 1 else nat ((cnt + int per_page - 1) div int per_page))"

text \<open>The filters of both queries, numbered from \<open>$2\<close>; the number of the last one used.\<close>

definition filter_sql :: "string \<Rightarrow> uuid option \<Rightarrow> uuid option \<Rightarrow> string \<times> nat" where
  "filter_sql search config_id category_id =
     (let (s1, n1) = (if search \<noteq> [] then ('' AND LOWER(original_name) LIKE LOWER($'' @ nat_str 2 @ '')'', 2)
                      else ([], 1));
          (s2, n2) = (if config_id \<noteq> None then (s1 @ '' AND storage_config_id = $'' @ nat_str (n1 + 1), n1 + 1)
                      else (s1, n1));
          (s3, n3) = (if category_id \<noteq> None then (s2 @ '' AND category_id = $'' @ nat_str (n2 + 1), n2 + 1)
                      else (s2, n2))
      in (s3, n3))"

definition build_count_sql :: "string \<Rightarrow> uuid option \<Rightarrow> uuid option \<Rightarrow> string" where
  "build_count_sql search config_id category_id =
     ''SELECT COUNT(*) FROM images WHERE user_id = $1'' @ fst (filter_sql search config_id category_id)"

definition list_columns :: string where
  "list_columns = ''id,public_key,original_name,url,mime_type,file_size,sha256,width,height,status,thumbnail_url,webp_url,created_at,category_id,storage_config_id''"

definition build_list_sql :: "string \<Rightarrow> uuid option \<Rightarrow> uuid option \<Rightarrow> string \<Rightarrow> string \<Rightarrow> string" where
  "build_list_sql search config_id category_id sort_col order_dir =
     (let (s, n) = filter_sql search config_id category_id
      in ''SELECT '' @ list_columns @ '' FROM images WHERE user_id = $1'' @ s @ '' ORDER BY '' @
         sort_col @ '' '' @ order_dir @ '' LIMIT $'' @ nat_str (n + 1) @ '' OFFSET $'' @ nat_str (n + 2))"

end
