(* ===== verification/Images.thy ===== *)
theory Images
  imports Upload State_Traits "HOL-Library.List_Lexorder" "HOL-Library.Char_ord"
begin

text \<open>
  The image routes, \<open>pichost-api/src/routes/images.rs\<close>, with the two read-through caches of
  \<open>pichost-api/src/cache/mod.rs\<close>: the gallery list, one image, rename, the public routes, delete,
  move and their batch forms, the share links and the parts of an upload request.

  Three things are the database's and are the fields of \<open>sql_text\<close>: \<open>LOWER\<close>, the sort key of the
  collation of text columns, and whether \<open>LIKE\<close> has the backslash as its escape (PostgreSQL) or
  none (SQLite). Rows that compare equal come in insertion order; neither database promises an
  order for them. \<open>serde_json\<close> of an upload result is the pair \<open>(enc, dec)\<close>. \<open>None\<close> as the result
  of a handler is the panic of a router without backends.
\<close>

section \<open>State\<close>

record ('q, 'h, 's, 'c) site =
  st_app :: "('q, 'h, 's) app"
  st_cache :: 'c

definition site_db :: "('q, 'h, 's, 'c) site \<Rightarrow> db" where
  "site_db s = ap_db (st_app s)"

definition with_db :: "('q, 'h, 's, 'c) site \<Rightarrow> db \<Rightarrow> ('q, 'h, 's, 'c) site" where
  "with_db s d = s\<lparr>st_app := (st_app s)\<lparr>ap_db := d\<rparr>\<rparr>"

definition site_world :: "('q, 'h, 's, 'c) site \<Rightarrow> ('h, 's) world" where
  "site_world s = ap_world (st_app s)"

definition with_world :: "('q, 'h, 's, 'c) site \<Rightarrow> ('h, 's) world \<Rightarrow> ('q, 'h, 's, 'c) site" where
  "with_world s w = s\<lparr>st_app := (st_app s)\<lparr>ap_world := w\<rparr>\<rparr>"

lemma site_simps [simp]:
  "site_db (with_db s d) = d" "site_world (with_db s d) = site_world s"
  "site_world (with_world s w) = w" "site_db (with_world s w) = site_db s"
  "st_cache (with_db s d) = st_cache s" "st_cache (with_world s w) = st_cache s"
  "site_db (s\<lparr>st_cache := c\<rparr>) = site_db s" "site_world (s\<lparr>st_cache := c\<rparr>) = site_world s"
  "ap_router (st_app (with_db s d)) = ap_router (st_app s)"
  "ap_router (st_app (with_world s w)) = ap_router (st_app s)"
  by (simp_all add: site_db_def site_world_def with_db_def with_world_def)

record sql_text =
  sx_lower :: "string \<Rightarrow> string"
  sx_collate :: "string \<Rightarrow> string"
  sx_escape :: bool

section \<open>Validation\<close>

definition check_image_status :: "string \<Rightarrow> bool" where
  "check_image_status s = (s = ''active'' \<or> s = ''ready'')"

definition validate_batch_ids :: "i18n \<Rightarrow> language \<Rightarrow> uuid list \<Rightarrow> api_error + unit" where
  "validate_batch_ids g loc ids =
     (if ids = [] then Inl (error_json g loc 400 ''image.batch_empty'')
      else if 100 < length ids then Inl (error_json g loc 400 ''image.batch_limit'')
      else Inr ())"

definition validate_batch_move :: "i18n \<Rightarrow> language \<Rightarrow> uuid list \<Rightarrow> api_error + unit" where
  "validate_batch_move g loc ids =
     (if ids = [] then Inl (error_json g loc 400 ''image.batch_move_empty'')
      else if 100 < length ids then Inl (error_json g loc 400 ''image.batch_move_limit'')
      else Inr ())"

definition backslash :: char where "backslash = CHR 0x5C"

definition validate_original_name :: "i18n \<Rightarrow> language \<Rightarrow> string \<Rightarrow> api_error + unit" where
  "validate_original_name g loc name =
     (if name = [] then Inl (error_json g loc 400 ''image.rename_empty'')
      else if 255 < length name then Inl (error_json g loc 400 ''image.rename_too_long'')
      else if CHR ''/'' \<in> set name \<or> backslash \<in> set name \<or> CHR 0x00 \<in> set name
      then Inl (error_json g loc 400 ''image.rename_invalid'')
      else Inr ())"

definition validate_url_not_empty :: "i18n \<Rightarrow> language \<Rightarrow> string \<Rightarrow> api_error + unit" where
  "validate_url_not_empty g loc url =
     (if trim url = [] then Inl (error_json g loc 400 ''url.field_required'') else Inr ())"

section \<open>The parts of an upload request\<close>

text \<open>\<open>pu\<close> parses a \<open>Uuid\<close>. The state is the file, its name, and the configuration ids so far.\<close>

fun collect_opt :: "'a option list \<Rightarrow> 'a list option" where
  "collect_opt [] = Some []"
| "collect_opt (None # xs) = None"
| "collect_opt (Some x # xs) = map_option ((#) x) (collect_opt xs)"

type_synonym upload_parts = "string option \<times> string \<times> uuid list option"

fun parse_upload_field ::
  "(string \<Rightarrow> uuid option) \<Rightarrow> i18n \<Rightarrow> language \<Rightarrow> field \<Rightarrow> upload_parts \<Rightarrow> api_error + upload_parts" where
  "parse_upload_field pu g loc (n, fname, data) (file, name, ids) =
     (if n = Some ''file'' then
        (case data of
           None \<Rightarrow> Inl (error_json_args g loc 400 ''upload.field_read_failed'' [''read error''])
         | Some d \<Rightarrow> Inr (Some d, opt_unwrap_or fname ''file'', ids))
      else if n = Some ''storage_config_ids'' then
        (case data of
           None \<Rightarrow> Inl (error_json_args g loc 400 ''upload.config_ids_read_failed'' [''read error''])
         | Some t \<Rightarrow>
             (case collect_opt (map (\<lambda>p. pu (trim p)) (split_on (CHR '','') t)) of
                None \<Rightarrow> Inl (error_json g loc 400 ''upload.invalid_config_uuid'')
              | Some xs \<Rightarrow> Inr (file, name, Some xs)))
      else Inr (file, name, ids))"

fun parse_fields ::
  "(string \<Rightarrow> uuid option) \<Rightarrow> i18n \<Rightarrow> language \<Rightarrow> field list \<Rightarrow> upload_parts \<Rightarrow> api_error + upload_parts" where
  "parse_fields pu g loc [] p = Inr p"
| "parse_fields pu g loc (f # fs) p =
     rbind (parse_upload_field pu g loc f p) (\<lambda>p'. parse_fields pu g loc fs p')"

definition extract_upload_parts ::
  "(string \<Rightarrow> uuid option) \<Rightarrow> i18n \<Rightarrow> language \<Rightarrow> field list \<Rightarrow>
   api_error + string \<times> string \<times> uuid list option" where
  "extract_upload_parts pu g loc parts =
     rbind (parse_fields pu g loc parts (None, ''file'', None))
       (\<lambda>(file, name, ids).
          rbind (ok_or file (error_json g loc 400 ''upload.file_missing'')) (\<lambda>b. Inr (b, name, ids)))"

text \<open>
  The handler: the answer is 201 with the results, and one of the two counters goes up, the first
  for a success, the second for a failure of the upload itself.
\<close>

definition upload_handler ::
  "(string \<Rightarrow> uuid option) \<Rightarrow> ('q, 'h, 's) upload_env \<Rightarrow> app_config \<Rightarrow> i18n \<Rightarrow> language \<Rightarrow> faults \<Rightarrow>
   (nat \<Rightarrow> faults) \<Rightarrow> bool \<Rightarrow> instant \<Rightarrow> (nat \<Rightarrow> upload_draws) \<Rightarrow> auth_user \<Rightarrow> field list \<Rightarrow>
   ('q, 'h, 's) app \<Rightarrow> nat \<times> nat \<Rightarrow>
   ((api_error + status_code \<times> upload_result list) \<times> ('q, 'h, 's) app \<times> nat \<times> nat) option" where
  "upload_handler pu env cfg g loc fails bfails swap now drs user parts app counters =
     (case extract_upload_parts pu g loc parts of
        Inl e \<Rightarrow> Some (Inl e, app, counters)
      | Inr (bytes, name, ids) \<Rightarrow>
          (case process_upload env cfg g loc fails bfails swap now drs user bytes name ids app of
             None \<Rightarrow> None
           | Some (Inr results, app') \<Rightarrow> Some (Inr (201, results), app', fst counters + 1, snd counters)
           | Some (Inl e, app') \<Rightarrow> Some (Inl e, app', fst counters, snd counters + 1)))"

definition url_upload_handler ::
  "(string \<Rightarrow> api_error + string \<times> string) \<Rightarrow> ('q, 'h, 's) upload_env \<Rightarrow> app_config \<Rightarrow> i18n \<Rightarrow>
   language \<Rightarrow> faults \<Rightarrow> (nat \<Rightarrow> faults) \<Rightarrow> bool \<Rightarrow> instant \<Rightarrow> (nat \<Rightarrow> upload_draws) \<Rightarrow> auth_user \<Rightarrow>
   string \<Rightarrow> uuid list option \<Rightarrow> ('q, 'h, 's) app \<Rightarrow> nat \<times> nat \<Rightarrow>
   ((api_error + status_code \<times> upload_result list) \<times> ('q, 'h, 's) app \<times> nat \<times> nat) option" where
  "url_upload_handler fetch env cfg g loc fails bfails swap now drs user url ids app counters =
     (case rbind (validate_url_not_empty g loc url) (\<lambda>_. fetch url) of
        Inl e \<Rightarrow> Some (Inl e, app, counters)
      | Inr (bytes, name) \<Rightarrow>
          (case process_upload env cfg g loc fails bfails swap now drs user bytes name ids app of
             None \<Rightarrow> None
           | Some (Inr results, app') \<Rightarrow> Some (Inr (201, results), app', fst counters + 1, snd counters)
           | Some (Inl e, app') \<Rightarrow> Some (Inl e, app', fst counters, snd counters + 1)))"

section \<open>The caches\<close>

text \<open>
  \<open>cached_meta\<close>: a hit that does not decode is a miss; the value fetched is stored and a failing
  store is ignored. \<open>fetch\<close> is what the source answers.
\<close>

definition cached_meta ::
  "('c, 'v) cache_ops \<Rightarrow> ('a \<Rightarrow> 'v) \<Rightarrow> ('v \<Rightarrow> 'a option) \<Rightarrow> (uuid \<Rightarrow> string) \<Rightarrow> instant \<Rightarrow> 'c \<Rightarrow> uuid \<Rightarrow>
   nat \<Rightarrow> 'e + 'a \<Rightarrow> ('e + 'a) \<times> 'c" where
  "cached_meta co enc dec us now c i ttl fetch =
     (let key = ''pichost:meta:'' @ us i;
          hit = (case co_get co c now key of Inr (Some v) \<Rightarrow> dec v | _ \<Rightarrow> None)
      in case hit of
           Some val \<Rightarrow> (Inr val, c)
         | None \<Rightarrow>
             (case fetch of
                Inl e \<Rightarrow> (Inl e, c)
              | Inr val \<Rightarrow> (Inr val, snd (co_set_ex co c now key (enc val) ttl))))"

text \<open>\<open>cached_thumb\<close>: the source is read only on a miss, and may change the world.\<close>

definition cached_thumb ::
  "('c, 'v) cache_ops \<Rightarrow> instant \<Rightarrow> 'c \<Rightarrow> string \<Rightarrow> nat \<Rightarrow> ('w \<Rightarrow> ('e + string) \<times> 'w) \<Rightarrow> 'w \<Rightarrow>
   ('e + string) \<times> 'c \<times> 'w" where
  "cached_thumb co now c cache_key ttl fetch w =
     (let key = ''pichost:thumb:'' @ cache_key
      in case co_get_bytes co c now key of
           Inr (Some bytes) \<Rightarrow> (Inr bytes, c, w)
         | _ \<Rightarrow>
             (case fetch w of
                (Inl e, w') \<Rightarrow> (Inl e, c, w')
              | (Inr bytes, w') \<Rightarrow> (Inr bytes, snd (co_set_ex_bytes co c now key bytes ttl), w')))"

definition drop_meta ::
  "('c, 'v) cache_ops \<Rightarrow> (uuid \<Rightarrow> string) \<Rightarrow> instant \<Rightarrow> uuid \<Rightarrow> ('q, 'h, 's, 'c) site \<Rightarrow>
   ('q, 'h, 's, 'c) site" where
  "drop_meta co us now i s = s\<lparr>st_cache := snd (co_del co (st_cache s) now (''pichost:meta:'' @ us i))\<rparr>"

lemma drop_meta_simps [simp]:
  "site_db (drop_meta co us now i s) = site_db s"
  "site_world (drop_meta co us now i s) = site_world s"
  by (simp_all add: drop_meta_def)

lemma fold_drop_meta [simp]:
  "site_db (fold (drop_meta co us now) ids s) = site_db s"
  "site_world (fold (drop_meta co us now) ids s) = site_world s"
  by (induction ids arbitrary: s) simp_all

section \<open>The gallery list\<close>

text \<open>A continuation byte of UTF-8; \<open>_\<close> of a pattern matches one character.\<close>

definition is_cont :: "char \<Rightarrow> bool" where
  "is_cont c = ((of_char c :: nat) div 64 = 2)"

fun like_match :: "bool \<Rightarrow> string \<Rightarrow> string \<Rightarrow> bool" where
  "like_match esc [] s = (s = [])"
| "like_match esc (p # ps) s =
     (if p = CHR ''%'' then
        like_match esc ps s \<or> (case s of [] \<Rightarrow> False | c # cs \<Rightarrow> like_match esc (p # ps) cs)
      else if p = CHR ''_'' then
        (case s of [] \<Rightarrow> False | c # cs \<Rightarrow> like_match esc ps (dropWhile is_cont cs))
      else if esc \<and> p = backslash then
        (case ps of
           [] \<Rightarrow> False
         | q # qs \<Rightarrow> (case s of [] \<Rightarrow> False | c # cs \<Rightarrow> c = q \<and> like_match esc qs cs))
      else (case s of [] \<Rightarrow> False | c # cs \<Rightarrow> c = p \<and> like_match esc ps cs))"

record image_list_query =
  lq_page :: nat
  lq_per_page :: nat
  lq_sort :: string
  lq_order :: string
  lq_search :: string
  lq_storage_config_id :: "uuid option"
  lq_category_id :: "uuid option"

record image_list_response =
  lr_items :: "upload_result list"
  lr_total :: int
  lr_page :: nat
  lr_per_page :: nat
  lr_total_pages :: nat

definition default_list_query :: image_list_query where
  "default_list_query =
     \<lparr>lq_page = 1, lq_per_page = 20, lq_sort = ''created_at'', lq_order = ''desc'', lq_search = [],
      lq_storage_config_id = None, lq_category_id = None\<rparr>"

text \<open>What the WHERE clause that \<open>build_list_sql\<close> builds selects.\<close>

definition list_filter ::
  "sql_text \<Rightarrow> uuid \<Rightarrow> string \<Rightarrow> uuid option \<Rightarrow> uuid option \<Rightarrow> image_row \<Rightarrow> bool" where
  "list_filter sx user search config_id category_id i =
     (im_user_id i = user \<and>
      (search \<noteq> [] \<longrightarrow> like_match (sx_escape sx) (sx_lower sx (''%'' @ search @ ''%''))
                          (sx_lower sx (im_original_name i))) \<and>
      (config_id \<noteq> None \<longrightarrow> im_storage_config_id i = config_id) \<and>
      (category_id \<noteq> None \<longrightarrow> im_category_id i = category_id))"

definition order_rows :: "sql_text \<Rightarrow> string \<Rightarrow> string \<Rightarrow> image_row list \<Rightarrow> image_row list" where
  "order_rows sx col dir rows =
     (let asc = (\<lambda>xs. if col = ''file_size'' then sort_key im_file_size xs
                      else if col = ''original_name''
                      then sort_key (\<lambda>i. sx_collate sx (im_original_name i)) xs
                      else sort_key im_created_at xs)
      in if dir = ''ASC'' then asc rows else rev (asc (rev rows)))"

definition resolve_sort :: "image_list_query \<Rightarrow> string \<times> string" where
  "resolve_sort q = (normalize_sort (lq_sort q), normalize_order (lq_order q))"

definition count_user_images ::
  "sql_text \<Rightarrow> i18n \<Rightarrow> language \<Rightarrow> bool \<Rightarrow> db \<Rightarrow> uuid \<Rightarrow> string \<Rightarrow> uuid option \<Rightarrow> uuid option \<Rightarrow>
   api_error + int" where
  "count_user_images sx g loc fail d user search config_id category_id =
     (if fail then Inl (error_json g loc 500 ''common.internal_error'')
      else Inr (int (length (filter (list_filter sx user search config_id category_id) (t_images d)))))"

definition fetch_user_images ::
  "sql_text \<Rightarrow> i18n \<Rightarrow> language \<Rightarrow> bool \<Rightarrow> db \<Rightarrow> uuid \<Rightarrow> string \<Rightarrow> string \<Rightarrow> string \<Rightarrow> nat \<Rightarrow> nat \<Rightarrow>
   uuid option \<Rightarrow> uuid option \<Rightarrow> api_error + joined_row list" where
  "fetch_user_images sx g loc fail d user col dir search limit offset config_id category_id =
     (if fail then Inl (error_json g loc 500 ''common.internal_error'')
      else Inr (map (join_config d) (take limit (drop offset
             (order_rows sx col dir (filter (list_filter sx user search config_id category_id) (t_images d)))))))"

definition map_rows_to_results :: "joined_row list \<Rightarrow> upload_result list" where
  "map_rows_to_results rows = map result_from_row rows"

text \<open>\<open>(page - 1) * per_page\<close> is a \<open>u32\<close>: a release build wraps.\<close>

definition list_images ::
  "sql_text \<Rightarrow> i18n \<Rightarrow> language \<Rightarrow> faults \<Rightarrow> db \<Rightarrow> uuid \<Rightarrow> image_list_query \<Rightarrow>
   api_error + image_list_response" where
  "list_images sx g loc fails d user q =
     (let page = max (lq_page q) 1;
          per_page = min (max (lq_per_page q) 1) 100;
          offset = (page - 1) * per_page mod 2 ^ 32;
          (col, dir) = resolve_sort q;
          search = trim (lq_search q)
      in rbind (count_user_images sx g loc (fails 0) d user search (lq_storage_config_id q) (lq_category_id q))
           (\<lambda>cnt. rbind (fetch_user_images sx g loc (fails 1) d user col dir search per_page offset
                            (lq_storage_config_id q) (lq_category_id q))
              (\<lambda>rows. Inr \<lparr>lr_items = map_rows_to_results rows, lr_total = cnt, lr_page = page,
                           lr_per_page = per_page, lr_total_pages = calc_total_pages cnt per_page\<rparr>)))"

text \<open>The two SQL texts of this module; the list joins the configurations.\<close>

definition build_images_count_sql :: "string \<Rightarrow> uuid option \<Rightarrow> uuid option \<Rightarrow> string" where
  "build_images_count_sql search config_id category_id =
     ''SELECT COUNT(*) FROM images WHERE user_id = $1'' @ fst (filter_sql search config_id category_id)"

definition joined_filter_sql :: "string \<Rightarrow> uuid option \<Rightarrow> uuid option \<Rightarrow> string \<times> nat" where
  "joined_filter_sql search config_id category_id =
     (let (s1, n1) = (if search \<noteq> [] then ('' AND LOWER(i.original_name) LIKE LOWER($'' @ nat_str 2 @ '')'', 2)
                      else ([], 1));
          (s2, n2) = (if config_id \<noteq> None then (s1 @ '' AND i.storage_config_id = $'' @ nat_str (n1 + 1), n1 + 1)
                      else (s1, n1));
          (s3, n3) = (if category_id \<noteq> None then (s2 @ '' AND i.category_id = $'' @ nat_str (n2 + 1), n2 + 1)
                      else (s2, n2))
      in (s3, n3))"

definition joined_columns :: string where
  "joined_columns = ''i.id,i.public_key,i.original_name,i.url,i.mime_type,i.file_size,i.sha256,i.width,i.height,i.status,i.thumbnail_url,i.webp_url,i.created_at,i.category_id,i.storage_config_id,c.name,c.provider''"

definition build_images_list_sql ::
  "string \<Rightarrow> uuid option \<Rightarrow> uuid option \<Rightarrow> string \<Rightarrow> string \<Rightarrow> string" where
  "build_images_list_sql search config_id category_id col dir =
     (let (s, n) = joined_filter_sql search config_id category_id
      in ''SELECT '' @ joined_columns @
         '' FROM images i LEFT JOIN user_storage_configs c ON i.storage_config_id = c.id WHERE i.user_id = $1'' @ s @
         '' ORDER BY i.'' @ col @ '' '' @ dir @ '' LIMIT $'' @ nat_str (n + 1) @ '' OFFSET $'' @ nat_str (n + 2))"

section \<open>One image\<close>

definition own_image :: "db \<Rightarrow> uuid \<Rightarrow> uuid \<Rightarrow> image_row option" where
  "own_image d user i = find (\<lambda>x. im_id x = i \<and> im_user_id x = user) (t_images d)"

definition refetch_image_row ::
  "i18n \<Rightarrow> language \<Rightarrow> bool \<Rightarrow> db \<Rightarrow> uuid \<Rightarrow> uuid \<Rightarrow> api_error + joined_row" where
  "refetch_image_row g loc fail d user i =
     (if fail then Inl (error_json g loc 500 ''common.internal_error'')
      else ok_or (map_option (join_config d) (own_image d user i)) (error_json g loc 404 ''image.not_found''))"

definition get_image ::
  "('c, 'v) cache_ops \<Rightarrow> (upload_result \<Rightarrow> 'v) \<Rightarrow> ('v \<Rightarrow> upload_result option) \<Rightarrow> (uuid \<Rightarrow> string) \<Rightarrow>
   i18n \<Rightarrow> language \<Rightarrow> bool \<Rightarrow> instant \<Rightarrow> uuid \<Rightarrow> uuid \<Rightarrow> ('q, 'h, 's, 'c) site \<Rightarrow>
   (api_error + upload_result) \<times> ('q, 'h, 's, 'c) site" where
  "get_image co enc dec us g loc fail now user i s =
     (let fetch = (if fail then Inl (error_json g loc 500 ''image.internal_error'')
                   else rbind (ok_or (own_image (site_db s) user i) (error_json g loc 404 ''image.not_found''))
                          (\<lambda>x. Inr (result_from_row (join_config (site_db s) x))));
          (r, c) = cached_meta co enc dec us now (st_cache s) i 600 fetch
      in (r, s\<lparr>st_cache := c\<rparr>))"

definition rename_image_in_db ::
  "i18n \<Rightarrow> language \<Rightarrow> bool \<Rightarrow> db \<Rightarrow> uuid \<Rightarrow> uuid \<Rightarrow> string \<Rightarrow> (api_error + unit) \<times> db" where
  "rename_image_in_db g loc fail d user i name =
     (if fail then (Inl (error_json g loc 500 ''common.internal_error''), d)
      else if own_image d user i = None then (Inl (error_json g loc 404 ''image.not_found''), d)
      else (Inr (), d\<lparr>t_images := map (\<lambda>x. if im_id x = i \<and> im_user_id x = user
                                          then x\<lparr>im_original_name := name\<rparr> else x) (t_images d)\<rparr>))"

text \<open>The column holds 255 characters on PostgreSQL; \<open>validate_original_name\<close> bounds the bytes.\<close>

definition rename_image ::
  "('c, 'v) cache_ops \<Rightarrow> (uuid \<Rightarrow> string) \<Rightarrow> i18n \<Rightarrow> language \<Rightarrow> faults \<Rightarrow> instant \<Rightarrow> uuid \<Rightarrow> uuid \<Rightarrow> string \<Rightarrow>
   ('q, 'h, 's, 'c) site \<Rightarrow> (api_error + upload_result) \<times> ('q, 'h, 's, 'c) site" where
  "rename_image co us g loc fails now user i name s =
     (case validate_original_name g loc name of
        Inl e \<Rightarrow> (Inl e, s)
      | Inr _ \<Rightarrow>
          (case rename_image_in_db g loc (fails 0) (site_db s) user i name of
             (Inl e, d) \<Rightarrow> (Inl e, with_db s d)
           | (Inr _, d) \<Rightarrow>
               (case refetch_image_row g loc (fails 1) d user i of
                  Inl e \<Rightarrow> (Inl e, with_db s d)
                | Inr row \<Rightarrow> (Inr (result_from_row row), drop_meta co us now i (with_db s d)))))"

record image_links =
  il_url :: string
  il_markdown :: string
  il_html :: string
  il_bbcode :: string

definition get_image_links ::
  "i18n \<Rightarrow> language \<Rightarrow> bool \<Rightarrow> db \<Rightarrow> uuid \<Rightarrow> uuid \<Rightarrow> api_error + image_links" where
  "get_image_links g loc fail d user i =
     (if fail then Inl (error_json g loc 500 ''common.internal_error'')
      else rbind (ok_or (own_image d user i) (error_json g loc 404 ''image.not_found''))
             (\<lambda>x. Inr \<lparr>il_url = im_url x, il_markdown = markdown_link (im_original_name x) (im_url x),
                       il_html = html_link (im_original_name x) (im_url x),
                       il_bbcode = bbcode_link (im_url x)\<rparr>))"

section \<open>The public routes\<close>

record served =
  sv_status :: status_code
  sv_content_type :: string
  sv_cache_control :: string
  sv_body :: string

definition served_ok :: "string \<Rightarrow> string \<Rightarrow> served" where
  "served_ok mime bytes =
     \<lparr>sv_status = 200, sv_content_type = mime,
      sv_cache_control = ''public, max-age=31536000, immutable'', sv_body = bytes\<rparr>"

definition public_get ::
  "('h, 's) storage_env \<Rightarrow> i18n \<Rightarrow> language \<Rightarrow> faults \<Rightarrow> string \<Rightarrow> ('q, 'h, 's, 'c) site \<Rightarrow>
   ((api_error + served) \<times> ('q, 'h, 's, 'c) site) option" where
  "public_get env g loc fails public_key s =
     (if fails 0 then Some (Inl (error_json g loc 500 ''common.internal_error''), s)
      else
        (case find (\<lambda>x. im_public_key x = public_key) (t_images (site_db s)) of
           None \<Rightarrow> Some (Inl (error_json g loc 404 ''image.not_found''), s)
         | Some x \<Rightarrow>
             (if \<not> check_image_status (im_status x)
              then Some (Inl (error_json g loc 404 ''image.not_found''), s)
              else
                (case for_backend (ap_router (st_app s)) (im_storage_backend x) of
                   None \<Rightarrow> None
                 | Some b \<Rightarrow>
                     (case backend_get env (fails 1) b (site_world s) (im_storage_key x) of
                        (Inl e, w) \<Rightarrow> Some (Inl (error_json g loc 404 ''image.not_found''), with_world s w)
                      | (Inr bytes, w) \<Rightarrow> Some (Inr (served_ok (im_mime_type x) bytes), with_world s w))))))"

text \<open>\<open>infer\<close> is \<open>sniff\<close>.\<close>

definition mime_for_thumb_bytes :: "(string \<Rightarrow> string option) \<Rightarrow> string \<Rightarrow> string" where
  "mime_for_thumb_bytes sniff bytes = opt_unwrap_or (sniff bytes) ''application/octet-stream''"

definition visible_image :: "db \<Rightarrow> uuid \<Rightarrow> image_row option" where
  "visible_image d i = find (\<lambda>x. im_id x = i \<and> check_image_status (im_status x)) (t_images d)"

text \<open>The read of a derived file through the blob cache, shared by the three routes.\<close>

definition serve_derived ::
  "('h, 's) storage_env \<Rightarrow> ('c, 'v) cache_ops \<Rightarrow> bool \<Rightarrow> instant \<Rightarrow> string \<Rightarrow> backend \<Rightarrow> string \<Rightarrow> api_error \<Rightarrow>
   (string \<Rightarrow> string) \<Rightarrow> ('q, 'h, 's, 'c) site \<Rightarrow> (api_error + served) \<times> ('q, 'h, 's, 'c) site" where
  "serve_derived env co fail now cache_key b key err mime s =
     (case cached_thumb co now (st_cache s) cache_key 3600
             (\<lambda>w. case backend_get env fail b w key of
                    (Inl e, w') \<Rightarrow> (Inl err, w') | (Inr bytes, w') \<Rightarrow> (Inr bytes, w'))
             (site_world s) of
        (Inl e, c, w) \<Rightarrow> (Inl e, (with_world s w)\<lparr>st_cache := c\<rparr>)
      | (Inr bytes, c, w) \<Rightarrow> (Inr (served_ok (mime bytes) bytes), (with_world s w)\<lparr>st_cache := c\<rparr>))"

text \<open>
  The backend is looked up inside the fetch for a thumbnail or a WebP by id, so on a hit a router
  without backends does not panic; by key it is looked up before.
\<close>

definition cache_hits :: "('c, 'v) cache_ops \<Rightarrow> instant \<Rightarrow> 'c \<Rightarrow> string \<Rightarrow> bool" where
  "cache_hits co now c cache_key =
     (case co_get_bytes co c now (''pichost:thumb:'' @ cache_key) of Inr (Some _) \<Rightarrow> True | _ \<Rightarrow> False)"

definition serve_by_id ::
  "('h, 's) storage_env \<Rightarrow> ('c, 'v) cache_ops \<Rightarrow> bool \<Rightarrow> instant \<Rightarrow> string \<Rightarrow> string \<Rightarrow> string \<Rightarrow> api_error \<Rightarrow>
   (string \<Rightarrow> string) \<Rightarrow> ('q, 'h, 's, 'c) site \<Rightarrow>
   ((api_error + served) \<times> ('q, 'h, 's, 'c) site) option" where
  "serve_by_id env co fail now cache_key backend key err mime s =
     (case for_backend (ap_router (st_app s)) backend of
        None \<Rightarrow>
          (if cache_hits co now (st_cache s) cache_key
           then Some (serve_derived env co fail now cache_key
                        (LocalB \<lparr>ls_base_path = [], ls_base_url = []\<rparr>) key err mime s)
           else None)
      | Some b \<Rightarrow> Some (serve_derived env co fail now cache_key b key err mime s))"

definition public_get_thumb ::
  "(string \<Rightarrow> string option) \<Rightarrow> ('h, 's) storage_env \<Rightarrow> ('c, 'v) cache_ops \<Rightarrow> (uuid \<Rightarrow> string) \<Rightarrow> i18n \<Rightarrow>
   language \<Rightarrow> faults \<Rightarrow> instant \<Rightarrow> uuid \<Rightarrow> ('q, 'h, 's, 'c) site \<Rightarrow>
   ((api_error + served) \<times> ('q, 'h, 's, 'c) site) option" where
  "public_get_thumb sniff env co us g loc fails now i s =
     (if fails 0 then Some (Inl (error_json g loc 500 ''image.internal_error''), s)
      else
        (case visible_image (site_db s) i of
           None \<Rightarrow> Some (Inl (error_json g loc 404 ''image.not_found''), s)
         | Some x \<Rightarrow>
             (case im_thumbnail_key x of
                None \<Rightarrow> Some (Inl (error_json g loc 404 ''image.thumbnail_not_ready''), s)
              | Some k \<Rightarrow>
                  serve_by_id env co (fails 1) now (''thumb:'' @ us i) (im_storage_backend x) k
                    (error_json g loc 404 ''image.thumbnail_not_found'') (mime_for_thumb_bytes sniff) s)))"

definition public_get_webp ::
  "('h, 's) storage_env \<Rightarrow> ('c, 'v) cache_ops \<Rightarrow> (uuid \<Rightarrow> string) \<Rightarrow> i18n \<Rightarrow> language \<Rightarrow> faults \<Rightarrow>
   instant \<Rightarrow> uuid \<Rightarrow> ('q, 'h, 's, 'c) site \<Rightarrow>
   ((api_error + served) \<times> ('q, 'h, 's, 'c) site) option" where
  "public_get_webp env co us g loc fails now i s =
     (if fails 0 then Some (Inl (error_json g loc 500 ''image.internal_error''), s)
      else
        (case visible_image (site_db s) i of
           None \<Rightarrow> Some (Inl (error_json g loc 404 ''image.not_found''), s)
         | Some x \<Rightarrow>
             (case im_webp_key x of
                None \<Rightarrow> Some (Inl (error_json g loc 404 ''image.webp_not_ready''), s)
              | Some k \<Rightarrow>
                  serve_by_id env co (fails 1) now (''webp:'' @ us i) (im_storage_backend x) k
                    (error_json g loc 404 ''image.webp_not_found'') (\<lambda>_. ''image/webp'') s)))"

definition resolve_thumb_key_by_public_key ::
  "i18n \<Rightarrow> language \<Rightarrow> bool \<Rightarrow> db \<Rightarrow> string \<Rightarrow> api_error + string \<times> string" where
  "resolve_thumb_key_by_public_key g loc fail d public_key =
     (if fail then Inl (error_json g loc 500 ''common.internal_error'')
      else rbind (ok_or (find (\<lambda>x. im_public_key x = public_key \<and> check_image_status (im_status x)) (t_images d))
                    (error_json g loc 404 ''image.not_found''))
             (\<lambda>x. rbind (ok_or (im_thumbnail_key x) (error_json g loc 404 ''image.thumbnail_not_ready''))
                    (\<lambda>k. Inr (k, im_storage_backend x))))"

definition public_get_thumb_by_key ::
  "(string \<Rightarrow> string option) \<Rightarrow> ('h, 's) storage_env \<Rightarrow> ('c, 'v) cache_ops \<Rightarrow> i18n \<Rightarrow> language \<Rightarrow> faults \<Rightarrow>
   instant \<Rightarrow> string \<Rightarrow> ('q, 'h, 's, 'c) site \<Rightarrow>
   ((api_error + served) \<times> ('q, 'h, 's, 'c) site) option" where
  "public_get_thumb_by_key sniff env co g loc fails now public_key s =
     (case resolve_thumb_key_by_public_key g loc (fails 0) (site_db s) public_key of
        Inl e \<Rightarrow> Some (Inl e, s)
      | Inr (k, backend) \<Rightarrow>
          (case for_backend (ap_router (st_app s)) backend of
             None \<Rightarrow> None
           | Some b \<Rightarrow>
               Some (serve_derived env co (fails 1) now (''thumb:pk:'' @ public_key) b k
                       (error_json g loc 500 ''image.thumbnail_not_found'') (mime_for_thumb_bytes sniff) s)))"

section \<open>Delete\<close>

text \<open>The three deletes of a row's files; their errors are ignored.\<close>

definition delete_file ::
  "('h, 's) storage_env \<Rightarrow> faults \<Rightarrow> backend \<Rightarrow> nat \<times> string option \<Rightarrow> ('h, 's) world \<Rightarrow> ('h, 's) world" where
  "delete_file env fails b nk w =
     (case snd nk of None \<Rightarrow> w | Some k \<Rightarrow> snd (backend_delete env (fails (fst nk)) b w k))"

definition cleanup_storage_files ::
  "('h, 's) storage_env \<Rightarrow> faults \<Rightarrow> router \<Rightarrow> string \<Rightarrow> string \<Rightarrow> string option \<Rightarrow> string option \<Rightarrow>
   ('h, 's) world \<Rightarrow> ('h, 's) world option" where
  "cleanup_storage_files env fails ro backend storage_key thumb_key webp_key w =
     (case for_backend ro backend of
        None \<Rightarrow> None
      | Some b \<Rightarrow>
          Some (fold (delete_file env fails b) [(0, Some storage_key), (1, thumb_key), (2, webp_key)] w))"

definition may_delete :: "auth_user \<Rightarrow> image_row \<Rightarrow> bool" where
  "may_delete user x = (im_user_id x = au_id user \<or> au_is_admin user)"

definition fetch_delete_target ::
  "i18n \<Rightarrow> language \<Rightarrow> bool \<Rightarrow> db \<Rightarrow> uuid \<Rightarrow> auth_user \<Rightarrow> api_error + image_row" where
  "fetch_delete_target g loc fail d i user =
     (if fail then Inl (error_json g loc 500 ''common.internal_error'')
      else ok_or (find (\<lambda>x. im_id x = i \<and> may_delete user x) (t_images d))
             (error_json g loc 404 ''image.not_found''))"

text \<open>\<open>DELETE FROM images WHERE id IN ids\<close>; the processing tasks of the rows go with them.\<close>

definition delete_rows :: "uuid list \<Rightarrow> db \<Rightarrow> db" where
  "delete_rows ids d =
     d\<lparr>t_images := filter (\<lambda>x. im_id x \<notin> set ids) (t_images d),
       t_upload_tasks := filter (\<lambda>t. ut_image_id t \<notin>
         set (map im_id (filter (\<lambda>x. im_id x \<in> set ids) (t_images d)))) (t_upload_tasks d)\<rparr>"

definition delete_image ::
  "('h, 's) storage_env \<Rightarrow> ('c, 'v) cache_ops \<Rightarrow> (uuid \<Rightarrow> string) \<Rightarrow> i18n \<Rightarrow> language \<Rightarrow> faults \<Rightarrow>
   instant \<Rightarrow> auth_user \<Rightarrow> uuid \<Rightarrow> ('q, 'h, 's, 'c) site \<Rightarrow>
   ((api_error + json) \<times> ('q, 'h, 's, 'c) site) option" where
  "delete_image env co us g loc fails now user i s =
     (case fetch_delete_target g loc (fails 0) (site_db s) i user of
        Inl e \<Rightarrow> Some (Inl e, s)
      | Inr x \<Rightarrow>
          (case cleanup_storage_files env (\<lambda>n. fails (2 + n)) (ap_router (st_app s)) (im_storage_backend x)
                  (im_storage_key x) (im_thumbnail_key x) (im_webp_key x) (site_world s) of
             None \<Rightarrow> None
           | Some w \<Rightarrow>
               (if fails 1
                then Some (Inl (error_json g loc 500 ''image.delete_failed''), with_world s w)
                else Some (Inr (JObj [(''message'', JStr ''image deleted''), (''id'', JStr (us i))]),
                       drop_meta co us now i (with_db (with_world s w) (delete_rows [i] (site_db s)))))))"

definition fetch_batch_delete_targets ::
  "i18n \<Rightarrow> language \<Rightarrow> bool \<Rightarrow> db \<Rightarrow> uuid list \<Rightarrow> auth_user \<Rightarrow> api_error + image_row list" where
  "fetch_batch_delete_targets g loc fail d ids user =
     (if fail then Inl (error_json g loc 500 ''common.internal_error'')
      else Inr (filter (\<lambda>x. im_id x \<in> set ids \<and> may_delete user x) (t_images d)))"

fun cleanup_rows ::
  "('h, 's) storage_env \<Rightarrow> faults \<Rightarrow> router \<Rightarrow> image_row list \<Rightarrow> ('h, 's) world \<Rightarrow> ('h, 's) world option" where
  "cleanup_rows env fails ro [] w = Some w"
| "cleanup_rows env fails ro (x # xs) w =
     (case cleanup_storage_files env (\<lambda>n. fails (3 * length xs + n)) ro (im_storage_backend x)
             (im_storage_key x) (im_thumbnail_key x) (im_webp_key x) w of
        None \<Rightarrow> None
      | Some w' \<Rightarrow> cleanup_rows env fails ro xs w')"

definition batch_delete ::
  "('h, 's) storage_env \<Rightarrow> ('c, 'v) cache_ops \<Rightarrow> (uuid \<Rightarrow> string) \<Rightarrow> i18n \<Rightarrow> language \<Rightarrow> faults \<Rightarrow>
   instant \<Rightarrow> auth_user \<Rightarrow> uuid list \<Rightarrow> ('q, 'h, 's, 'c) site \<Rightarrow>
   ((api_error + json) \<times> ('q, 'h, 's, 'c) site) option" where
  "batch_delete env co us g loc fails now user ids s =
     (case rbind (validate_batch_ids g loc ids)
             (\<lambda>_. fetch_batch_delete_targets g loc (fails 0) (site_db s) ids user) of
        Inl e \<Rightarrow> Some (Inl e, s)
      | Inr rows \<Rightarrow>
          (case cleanup_rows env (\<lambda>n. fails (2 + n)) (ap_router (st_app s)) rows (site_world s) of
             None \<Rightarrow> None
           | Some w \<Rightarrow>
               (if fails 1
                then Some (Inl (error_json g loc 500 ''image.batch_delete_failed''), with_world s w)
                else
                  (let d' = delete_rows ids (site_db s);
                       deleted = length (t_images (site_db s)) - length (t_images d');
                       failed = length ids - deleted
                   in Some (Inr (JObj [(''message'', JStr ''batch delete completed''),
                             (''deleted'', JInt (int deleted)), (''failed'', JInt (int failed))]),
                         fold (drop_meta co us now) ids (with_db (with_world s w) d'))))))"

section \<open>Move\<close>

definition ensure_category_owned ::
  "i18n \<Rightarrow> language \<Rightarrow> bool \<Rightarrow> db \<Rightarrow> uuid \<Rightarrow> uuid \<Rightarrow> api_error + unit" where
  "ensure_category_owned g loc fail d cid user =
     (if fail then Inl (error_json_args g loc 500 ''common.db_error'' [''db error''])
      else rbind (ok_or (find (\<lambda>c. cat_id c = cid \<and> cat_user_id c = user) (t_categories d))
                    (error_json g loc 404 ''category.not_found''))
             (\<lambda>_. Inr ()))"

definition set_category :: "uuid option \<Rightarrow> uuid \<Rightarrow> uuid list \<Rightarrow> db \<Rightarrow> db" where
  "set_category cid user ids d =
     d\<lparr>t_images := map (\<lambda>x. if im_user_id x = user \<and> im_id x \<in> set ids
                          then x\<lparr>im_category_id := cid\<rparr> else x) (t_images d)\<rparr>"

definition affected_by :: "uuid \<Rightarrow> uuid list \<Rightarrow> db \<Rightarrow> nat" where
  "affected_by user ids d = length (filter (\<lambda>x. im_user_id x = user \<and> im_id x \<in> set ids) (t_images d))"

definition move_image ::
  "('c, 'v) cache_ops \<Rightarrow> (uuid \<Rightarrow> string) \<Rightarrow> i18n \<Rightarrow> language \<Rightarrow> faults \<Rightarrow> instant \<Rightarrow> uuid \<Rightarrow> uuid \<Rightarrow>
   uuid option \<Rightarrow> ('q, 'h, 's, 'c) site \<Rightarrow> (api_error + json) \<times> ('q, 'h, 's, 'c) site" where
  "move_image co us g loc fails now user i cid s =
     (case (case cid of None \<Rightarrow> Inr () | Some c \<Rightarrow> ensure_category_owned g loc (fails 0) (site_db s) c user) of
        Inl e \<Rightarrow> (Inl e, s)
      | Inr _ \<Rightarrow>
          (if fails 1 then (Inl (error_json_args g loc 500 ''common.db_error'' [''db error'']), s)
           else if affected_by user [i] (site_db s) = 0
           then (Inl (error_json g loc 404 ''image.move_not_found''), s)
           else (Inr (JObj [(''message'', JStr ''Image moved to category'')]),
                 drop_meta co us now i (with_db s (set_category cid user [i] (site_db s))))))"

definition batch_move_images ::
  "('c, 'v) cache_ops \<Rightarrow> (uuid \<Rightarrow> string) \<Rightarrow> i18n \<Rightarrow> language \<Rightarrow> faults \<Rightarrow> instant \<Rightarrow> uuid \<Rightarrow> uuid list \<Rightarrow>
   uuid \<Rightarrow> ('q, 'h, 's, 'c) site \<Rightarrow> (api_error + json) \<times> ('q, 'h, 's, 'c) site" where
  "batch_move_images co us g loc fails now user ids cid s =
     (case rbind (validate_batch_move g loc ids)
             (\<lambda>_. ensure_category_owned g loc (fails 0) (site_db s) cid user) of
        Inl e \<Rightarrow> (Inl e, s)
      | Inr _ \<Rightarrow>
          (if fails 1 then (Inl (error_json_args g loc 500 ''common.db_error'' [''db error'']), s)
           else (Inr (JObj [(''message'', JStr ''Images moved to category''),
                      (''moved'', JInt (int (affected_by user ids (site_db s))))]),
                 fold (drop_meta co us now) ids (with_db s (set_category (Some cid) user ids (site_db s))))))"

end
