(* ===== verification/Redis.thy ===== *)
theory Redis
  imports Clock
begin

text \<open>
  The Redis server as the code uses it. The server is a parameter: a function \<open>exec\<close> that runs one
  command at an instant and answers, or answers nothing when the connection fails. What the code
  relies on is the documented behaviour of the commands it sends, written down by \<open>documented\<close> on
  a key space of values with expiry times; \<open>redis_up\<close> is the hypothesis that a server answers and
  behaves as documented, seen through a reading \<open>ks\<close> of its state. \<open>redis_server\<close>, the documented
  behaviour taken as a server, shows that the hypothesis can hold.
\<close>

section \<open>Commands and replies\<close>

datatype redis_cmd =
    CGet string
  | CSet string string
  | CSetEx string nat string
  | CDel string
  | CExists string
  | CIncr string
  | CExpire string nat
  | CTtl string
  | CHSet string string string
  | CHGet string string
  | CHGetAll string
  | CHIncrBy string string int
  | CSAdd string string
  | CSRem string string
  | CSMembers string
  | CLPush string string
  | CLRem string string
  | CLRange string
  | CRPopLPush string string

datatype redis_reply =
    RNil
  | ROk
  | RInt int
  | RBulk string
  | RArr "string list"
  | RErr string

datatype redis_value =
    VStr string
  | VHash "(string \<times> string) list"
  | VSet "string list"
  | VList "string list"

type_synonym key_space = "string \<Rightarrow> (redis_value \<times> instant option) option"

type_synonym 'r redis_exec = "'r \<Rightarrow> instant \<Rightarrow> redis_cmd \<Rightarrow> redis_reply option \<times> 'r"

section \<open>Documented behaviour\<close>

text \<open>An expired key is absent.\<close>

definition live :: "key_space \<Rightarrow> instant \<Rightarrow> string \<Rightarrow> redis_value option" where
  "live ks t k =
     (case ks k of
        None \<Rightarrow> None
      | Some (v, None) \<Rightarrow> Some v
      | Some (v, Some e) \<Rightarrow> if t < e then Some v else None)"

definition deadline :: "key_space \<Rightarrow> instant \<Rightarrow> string \<Rightarrow> instant option" where
  "deadline ks t k = (if live ks t k = None then None else Option.bind (ks k) snd)"

text \<open>Write a value and keep the key's expiry time.\<close>

definition store_keep :: "key_space \<Rightarrow> instant \<Rightarrow> string \<Rightarrow> redis_value \<Rightarrow> key_space" where
  "store_keep ks t k v = ks(k \<mapsto> (v, deadline ks t k))"

definition drop_key :: "key_space \<Rightarrow> string \<Rightarrow> key_space" where
  "drop_key ks k = ks(k := None)"

definition wrong_type :: redis_reply where
  "wrong_type = RErr ''WRONGTYPE Operation against a key holding the wrong kind of value''"

text \<open>Decimal text of a 64-bit integer.\<close>

definition is_digit :: "char \<Rightarrow> bool" where
  "is_digit c = (48 \<le> (of_char c :: nat) \<and> (of_char c :: nat) \<le> 57)"

definition parse_nat :: "string \<Rightarrow> nat option" where
  "parse_nat s = (if s \<noteq> [] \<and> list_all is_digit s then Some (digits_val s) else None)"

definition parse_int :: "string \<Rightarrow> int option" where
  "parse_int s =
     (case s of
        [] \<Rightarrow> None
      | c # cs \<Rightarrow>
          (let r = (if c = CHR ''-'' then map_option (\<lambda>n. - int n) (parse_nat cs)
                    else map_option int (parse_nat s))
           in case r of
                None \<Rightarrow> None
              | Some i \<Rightarrow> if - (2 ^ 63) \<le> i \<and> i < 2 ^ 63 then Some i else None))"

definition hash_of :: "redis_value option \<Rightarrow> (string \<times> string) list option" where
  "hash_of v = (case v of None \<Rightarrow> Some [] | Some (VHash h) \<Rightarrow> Some h | _ \<Rightarrow> None)"

definition set_of :: "redis_value option \<Rightarrow> string list option" where
  "set_of v = (case v of None \<Rightarrow> Some [] | Some (VSet h) \<Rightarrow> Some h | _ \<Rightarrow> None)"

definition list_of :: "redis_value option \<Rightarrow> string list option" where
  "list_of v = (case v of None \<Rightarrow> Some [] | Some (VList h) \<Rightarrow> Some h | _ \<Rightarrow> None)"

definition str_of :: "redis_value option \<Rightarrow> string option option" where
  "str_of v = (case v of None \<Rightarrow> Some None | Some (VStr s) \<Rightarrow> Some (Some s) | _ \<Rightarrow> None)"

text \<open>A collection that becomes empty is removed.\<close>

definition store_list :: "key_space \<Rightarrow> instant \<Rightarrow> string \<Rightarrow> string list \<Rightarrow> key_space" where
  "store_list ks t k xs = (if xs = [] then drop_key ks k else store_keep ks t k (VList xs))"

definition store_set :: "key_space \<Rightarrow> instant \<Rightarrow> string \<Rightarrow> string list \<Rightarrow> key_space" where
  "store_set ks t k xs = (if xs = [] then drop_key ks k else store_keep ks t k (VSet xs))"

definition add_int :: "string option \<Rightarrow> int \<Rightarrow> int option" where
  "add_int old delta =
     (case (case old of None \<Rightarrow> Some 0 | Some s \<Rightarrow> parse_int s) of
        None \<Rightarrow> None
      | Some i \<Rightarrow> if - (2 ^ 63) \<le> i + delta \<and> i + delta < 2 ^ 63 then Some (i + delta) else None)"

text \<open>\<open>LREM key 1 x\<close> removes the first occurrence from the head; \<open>LPUSH\<close> adds at the head and
  \<open>RPOPLPUSH\<close> takes from the tail.\<close>

fun documented :: "redis_cmd \<Rightarrow> instant \<Rightarrow> key_space \<Rightarrow> redis_reply \<times> key_space" where
  "documented (CGet k) t ks =
     (case str_of (live ks t k) of
        None \<Rightarrow> (wrong_type, ks) | Some None \<Rightarrow> (RNil, ks) | Some (Some s) \<Rightarrow> (RBulk s, ks))"
| "documented (CSet k v) t ks = (ROk, ks(k \<mapsto> (VStr v, None)))"
| "documented (CSetEx k ttl v) t ks =
     (if ttl = 0 then (RErr ''ERR invalid expire time in 'setex' command'', ks)
      else (ROk, ks(k \<mapsto> (VStr v, Some (t + secs ttl)))))"
| "documented (CDel k) t ks = (RInt (if live ks t k = None then 0 else 1), drop_key ks k)"
| "documented (CExists k) t ks = (RInt (if live ks t k = None then 0 else 1), ks)"
| "documented (CIncr k) t ks =
     (case str_of (live ks t k) of
        None \<Rightarrow> (wrong_type, ks)
      | Some old \<Rightarrow>
          (case add_int old 1 of
             None \<Rightarrow> (RErr ''ERR value is not an integer or out of range'', ks)
           | Some i \<Rightarrow> (RInt i, store_keep ks t k (VStr (int_str i)))))"
| "documented (CExpire k ttl) t ks =
     (case live ks t k of
        None \<Rightarrow> (RInt 0, ks)
      | Some v \<Rightarrow> (RInt 1, if ttl = 0 then drop_key ks k else ks(k \<mapsto> (v, Some (t + secs ttl)))))"
| "documented (CTtl k) t ks =
     (if live ks t k = None then (RInt (- 2), ks)
      else (case deadline ks t k of
              None \<Rightarrow> (RInt (- 1), ks)
            | Some e \<Rightarrow> (RInt (int ((e - t + nanos_per_sec div 2) div nanos_per_sec)), ks)))"
| "documented (CHSet k f v) t ks =
     (case hash_of (live ks t k) of
        None \<Rightarrow> (wrong_type, ks)
      | Some h \<Rightarrow> (RInt (if map_of h f = None then 1 else 0),
                    store_keep ks t k (VHash ((f, v) # filter (\<lambda>p. fst p \<noteq> f) h))))"
| "documented (CHGet k f) t ks =
     (case hash_of (live ks t k) of
        None \<Rightarrow> (wrong_type, ks)
      | Some h \<Rightarrow> (case map_of h f of None \<Rightarrow> (RNil, ks) | Some v \<Rightarrow> (RBulk v, ks)))"
| "documented (CHGetAll k) t ks =
     (case hash_of (live ks t k) of
        None \<Rightarrow> (wrong_type, ks)
      | Some h \<Rightarrow> (RArr (concat (map (\<lambda>(f, v). [f, v]) h)), ks))"
| "documented (CHIncrBy k f delta) t ks =
     (case hash_of (live ks t k) of
        None \<Rightarrow> (wrong_type, ks)
      | Some h \<Rightarrow>
          (case add_int (map_of h f) delta of
             None \<Rightarrow> (RErr ''ERR hash value is not an integer'', ks)
           | Some i \<Rightarrow> (RInt i, store_keep ks t k (VHash ((f, int_str i) # filter (\<lambda>p. fst p \<noteq> f) h)))))"
| "documented (CSAdd k m) t ks =
     (case set_of (live ks t k) of
        None \<Rightarrow> (wrong_type, ks)
      | Some xs \<Rightarrow> (if m \<in> set xs then (RInt 0, ks) else (RInt 1, store_set ks t k (m # xs))))"
| "documented (CSRem k m) t ks =
     (case set_of (live ks t k) of
        None \<Rightarrow> (wrong_type, ks)
      | Some xs \<Rightarrow> (if m \<in> set xs then (RInt 1, store_set ks t k (removeAll m xs)) else (RInt 0, ks)))"
| "documented (CSMembers k) t ks =
     (case set_of (live ks t k) of None \<Rightarrow> (wrong_type, ks) | Some xs \<Rightarrow> (RArr xs, ks))"
| "documented (CLPush k x) t ks =
     (case list_of (live ks t k) of
        None \<Rightarrow> (wrong_type, ks)
      | Some xs \<Rightarrow> (RInt (int (length xs) + 1), store_list ks t k (x # xs)))"
| "documented (CLRem k x) t ks =
     (case list_of (live ks t k) of
        None \<Rightarrow> (wrong_type, ks)
      | Some xs \<Rightarrow> (if x \<in> set xs then (RInt 1, store_list ks t k (remove1 x xs)) else (RInt 0, ks)))"
| "documented (CLRange k) t ks =
     (case list_of (live ks t k) of None \<Rightarrow> (wrong_type, ks) | Some xs \<Rightarrow> (RArr xs, ks))"
| "documented (CRPopLPush k k') t ks =
     (case (list_of (live ks t k), list_of (live ks t k')) of
        (Some [], _) \<Rightarrow> (RNil, ks)
      | (Some xs, Some ys) \<Rightarrow>
          (let ks1 = store_list ks t k (butlast xs)
           in case list_of (live ks1 t k') of
                None \<Rightarrow> (wrong_type, ks)
              | Some zs \<Rightarrow> (RBulk (last xs), store_list ks1 t k' (last xs # zs)))
      | _ \<Rightarrow> (wrong_type, ks))"

section \<open>The hypothesis on a server\<close>

definition redis_up :: "'r redis_exec \<Rightarrow> ('r \<Rightarrow> key_space) \<Rightarrow> bool" where
  "redis_up exec ks \<longleftrightarrow>
     (\<forall>s t c. fst (exec s t c) = Some (fst (documented c t (ks s))) \<and>
              ks (snd (exec s t c)) = snd (documented c t (ks s)))"

definition redis_server :: "key_space redis_exec" where
  "redis_server s t c = (Some (fst (documented c t s)), snd (documented c t s))"

lemma redis_server_up: "redis_up redis_server (\<lambda>s. s)"
  by (simp add: redis_up_def redis_server_def)

lemma redis_upD:
  assumes "redis_up exec ks"
  shows "exec s t c = (Some (fst (documented c t (ks s))), snd (exec s t c))"
    and "ks (snd (exec s t c)) = snd (documented c t (ks s))"
  using assms by (simp_all add: redis_up_def prod_eq_iff)

section \<open>Facts about the key space\<close>

lemma live_upd [simp]:
  "live (ks(k \<mapsto> (v, None))) t k = Some v"
  "live (ks(k \<mapsto> (v, Some e))) t k = (if t < e then Some v else None)"
  "k \<noteq> k' \<Longrightarrow> live (ks(k := x)) t k' = live ks t k'"
  "live (ks(k := None)) t k = None"
  by (simp_all add: live_def)

lemma live_store_keep_same [simp]: "live (store_keep ks t k v) t k = Some v"
  by (auto simp: store_keep_def deadline_def live_def split: option.splits prod.splits)

lemma live_store_keep_other [simp]: "k \<noteq> k' \<Longrightarrow> live (store_keep ks t k v) t' k' = live ks t' k'"
  by (simp add: store_keep_def)

lemma live_drop_key [simp]:
  "live (drop_key ks k) t k = None" "k \<noteq> k' \<Longrightarrow> live (drop_key ks k) t k' = live ks t k'"
  by (simp_all add: drop_key_def)

lemma list_of_store_list [simp]: "list_of (live (store_list ks t k xs) t k) = Some xs"
  by (simp add: store_list_def list_of_def)

lemma live_store_list_other [simp]: "k \<noteq> k' \<Longrightarrow> live (store_list ks t k xs) t' k' = live ks t' k'"
  by (simp add: store_list_def)

lemma set_of_store_set [simp]: "set_of (live (store_set ks t k xs) t k) = Some xs"
  by (simp add: store_set_def set_of_def)

lemma live_store_set_other [simp]: "k \<noteq> k' \<Longrightarrow> live (store_set ks t k xs) t' k' = live ks t' k'"
  by (simp add: store_set_def)

text \<open>A key without an expiry time stays as it is.\<close>

definition unexpiring :: "key_space \<Rightarrow> string \<Rightarrow> bool" where
  "unexpiring ks k = (case ks k of None \<Rightarrow> True | Some (v, e) \<Rightarrow> e = None)"

lemma unexpiring_live: "unexpiring ks k \<Longrightarrow> live ks t k = live ks t' k"
  by (auto simp: unexpiring_def live_def split: option.splits)

lemma unexpiring_store [simp]:
  "unexpiring ks k \<Longrightarrow> unexpiring (store_keep ks t k v) k"
  "unexpiring ks k \<Longrightarrow> unexpiring (store_list ks t k xs) k"
  "k \<noteq> k' \<Longrightarrow> unexpiring (store_keep ks t k v) k' = unexpiring ks k'"
  "k \<noteq> k' \<Longrightarrow> unexpiring (store_list ks t k xs) k' = unexpiring ks k'"
  by (auto simp: unexpiring_def store_keep_def store_list_def drop_key_def deadline_def
      split: option.splits prod.splits)

end
