(* ===== verification/Redis_State.thy ===== *)
theory Redis_State
  imports Redis State_Traits App_Config Errors I18n
begin

text \<open>
  The state layer over Redis: the cache and the invite store of \<open>pichost-api/src/cache/mod.rs\<close>, the
  blacklist of \<open>middleware/auth.rs\<close>, the rate limiter and the rate-limit middleware of
  \<open>middleware/rate_limit.rs\<close>. The server is the parameter \<open>exec\<close> of \<open>Redis\<close>; \<open>us\<close> prints and \<open>pu\<close>
  parses a \<open>Uuid\<close>, \<open>u64_of\<close> is the client library's reading of an integer reply as a \<open>u64\<close>.
\<close>

section \<open>Queries and pipelines\<close>

definition query :: "'r redis_exec \<Rightarrow> 'r \<Rightarrow> instant \<Rightarrow> redis_cmd \<Rightarrow> (string + redis_reply) \<times> 'r" where
  "query exec s t c =
     (case exec s t c of
        (None, s') \<Rightarrow> (Inl ''connection error'', s')
      | (Some (RErr m), s') \<Rightarrow> (Inl m, s')
      | (Some r, s') \<Rightarrow> (Inr r, s'))"

text \<open>All commands are sent; the first error reply is the error of the pipeline.\<close>

fun pipe :: "'r redis_exec \<Rightarrow> 'r \<Rightarrow> instant \<Rightarrow> redis_cmd list \<Rightarrow> (string + unit) \<times> 'r" where
  "pipe exec s t [] = (Inr (), s)"
| "pipe exec s t (c # cs) =
     (case exec s t c of
        (None, s') \<Rightarrow> (Inl ''connection error'', s')
      | (Some r, s') \<Rightarrow>
          (let (res, s'') = pipe exec s' t cs
           in (case r of RErr m \<Rightarrow> (Inl m, s'') | _ \<Rightarrow> (res, s''))))"

section \<open>The cache\<close>

definition redis_get :: "'r redis_exec \<Rightarrow> 'r \<Rightarrow> instant \<Rightarrow> string \<Rightarrow> string + string option" where
  "redis_get exec s t key =
     rbind (fst (query exec s t (CGet key)))
       (\<lambda>r. case r of RNil \<Rightarrow> Inr None | RBulk v \<Rightarrow> Inr (Some v) | _ \<Rightarrow> Inl ''unexpected reply'')"

definition redis_set :: "'r redis_exec \<Rightarrow> 'r \<Rightarrow> instant \<Rightarrow> string \<Rightarrow> string \<Rightarrow> (string + unit) \<times> 'r" where
  "redis_set exec s t key v = pipe exec s t [CSet key v]"

definition redis_set_ex ::
  "'r redis_exec \<Rightarrow> 'r \<Rightarrow> instant \<Rightarrow> string \<Rightarrow> string \<Rightarrow> nat \<Rightarrow> (string + unit) \<times> 'r" where
  "redis_set_ex exec s t key v ttl = pipe exec s t [CSetEx key ttl v]"

definition redis_del :: "'r redis_exec \<Rightarrow> 'r \<Rightarrow> instant \<Rightarrow> string \<Rightarrow> (string + unit) \<times> 'r" where
  "redis_del exec s t key = pipe exec s t [CDel key]"

definition redis_exists :: "'r redis_exec \<Rightarrow> 'r \<Rightarrow> instant \<Rightarrow> string \<Rightarrow> string + bool" where
  "redis_exists exec s t key =
     rbind (fst (query exec s t (CExists key)))
       (\<lambda>r. case r of RInt i \<Rightarrow> Inr (i \<noteq> 0) | _ \<Rightarrow> Inl ''unexpected reply'')"

text \<open>\<open>INCR\<close> and \<open>EXPIRE\<close> in one pipeline, then a \<open>GET\<close> read as a \<open>u64\<close>.\<close>

definition redis_incr ::
  "'r redis_exec \<Rightarrow> 'r \<Rightarrow> instant \<Rightarrow> string \<Rightarrow> nat \<Rightarrow> (string + nat) \<times> 'r" where
  "redis_incr exec s t key ttl =
     (case pipe exec s t [CIncr key, CExpire key ttl] of
        (Inl e, s') \<Rightarrow> (Inl e, s')
      | (Inr _, s') \<Rightarrow>
          (case query exec s' t (CGet key) of
             (Inr (RBulk v), s'') \<Rightarrow> (ok_or (parse_nat v) ''not an integer'', s'')
           | (Inl e, s'') \<Rightarrow> (Inl e, s'')
           | (_, s'') \<Rightarrow> (Inl ''unexpected reply'', s'')))"

definition stats_key :: "(uuid \<Rightarrow> string) \<Rightarrow> uuid \<Rightarrow> string" where
  "stats_key us u = ''pichost:stats:'' @ us u"

definition incr_user_stat ::
  "'r redis_exec \<Rightarrow> (uuid \<Rightarrow> string) \<Rightarrow> 'r \<Rightarrow> instant \<Rightarrow> uuid \<Rightarrow> string \<Rightarrow> int \<Rightarrow> (string + unit) \<times> 'r" where
  "incr_user_stat exec us s t u f delta =
     pipe exec s t [CHIncrBy (stats_key us u) f delta, CExpire (stats_key us u) 300]"

definition set_user_stats ::
  "'r redis_exec \<Rightarrow> (uuid \<Rightarrow> string) \<Rightarrow> 'r \<Rightarrow> instant \<Rightarrow> uuid \<Rightarrow> (string \<times> int option) list \<Rightarrow>
   (string + unit) \<times> 'r" where
  "set_user_stats exec us s t u fs =
     pipe exec s t (map (\<lambda>(f, v). CHSet (stats_key us u) f (case v of None \<Rightarrow> [] | Some i \<Rightarrow> int_str i)) fs @
                    [CExpire (stats_key us u) 300])"

fun pairs :: "string list \<Rightarrow> (string \<times> string) list" where
  "pairs (f # v # xs) = (f, v) # pairs xs"
| "pairs _ = []"

definition get_user_stats ::
  "'r redis_exec \<Rightarrow> (uuid \<Rightarrow> string) \<Rightarrow> 'r \<Rightarrow> instant \<Rightarrow> uuid \<Rightarrow> string + (string \<times> string) list option" where
  "get_user_stats exec us s t u =
     rbind (fst (query exec s t (CHGetAll (stats_key us u))))
       (\<lambda>r. case r of RArr xs \<Rightarrow> Inr (Some (pairs xs)) | RNil \<Rightarrow> Inr None | _ \<Rightarrow> Inl ''unexpected reply'')"

text \<open>The trait object.\<close>

definition redis_cache_ops :: "'r redis_exec \<Rightarrow> ('r, string) cache_ops" where
  "redis_cache_ops exec =
     \<lparr>co_get = (\<lambda>s t k. map_err COther (redis_get exec s t k)),
      co_set_ex = (\<lambda>s t k v ttl. apfst (map_err COther) (redis_set_ex exec s t k v ttl)),
      co_del = (\<lambda>s t k. apfst (map_err COther) (redis_del exec s t k)),
      co_incr = (\<lambda>s t k ttl. apfst (map_err COther) (redis_incr exec s t k ttl)),
      co_get_bytes = (\<lambda>s t k. map_err COther (redis_get exec s t k)),
      co_set_ex_bytes = (\<lambda>s t k v ttl. apfst (map_err COther) (redis_set_ex exec s t k v ttl))\<rparr>"

section \<open>The blacklist\<close>

definition bl_key :: "string \<Rightarrow> string" where "bl_key jti = ''bl:'' @ jti"

definition redis_blacklist_check :: "'r redis_exec \<Rightarrow> 'r \<Rightarrow> instant \<Rightarrow> string \<Rightarrow> blacklist_error + bool" where
  "redis_blacklist_check exec s t jti = map_err BOther (redis_exists exec s t (bl_key jti))"

definition redis_blacklist_revoke ::
  "'r redis_exec \<Rightarrow> 'r \<Rightarrow> instant \<Rightarrow> string \<Rightarrow> nat \<Rightarrow> (blacklist_error + unit) \<times> 'r" where
  "redis_blacklist_revoke exec s t jti ttl =
     apfst (map_err BOther) (redis_set_ex exec s t (bl_key jti) ''revoked'' ttl)"

definition redis_blacklist_ops :: "'r redis_exec \<Rightarrow> 'r blacklist_ops" where
  "redis_blacklist_ops exec =
     \<lparr>bo_check = redis_blacklist_check exec, bo_revoke = redis_blacklist_revoke exec\<rparr>"

section \<open>Invite codes\<close>

definition invite_key :: "string \<Rightarrow> string" where "invite_key code = ''pichost:invite:'' @ code"

definition invites_set :: string where "invites_set = ''pichost:invites''"

record redis_invite_info =
  ri_code :: string
  ri_created_by :: uuid
  ri_expires_at :: int
  ri_used_by :: "uuid option"
  ri_created_at :: int

definition write_invite_code ::
  "'r redis_exec \<Rightarrow> (uuid \<Rightarrow> string) \<Rightarrow> 'r \<Rightarrow> instant \<Rightarrow> string \<Rightarrow> uuid \<Rightarrow> nat \<Rightarrow> (string + unit) \<times> 'r" where
  "write_invite_code exec us s t code admin ttl =
     (let key = invite_key code; now = int (timestamp t); expires_at = now + as_i64 (int ttl)
      in pipe exec s t
           [CHSet key ''created_by'' (us admin), CHSet key ''created_at'' (int_str now),
            CHSet key ''expires_at'' (int_str expires_at), CHSet key ''used_by'' [],
            CExpire key ttl, CSAdd invites_set code])"

text \<open>\<open>fresh\<close> is the UUID text without its hyphens.\<close>

definition create_invite_code ::
  "'r redis_exec \<Rightarrow> (uuid \<Rightarrow> string) \<Rightarrow> string \<Rightarrow> 'r \<Rightarrow> instant \<Rightarrow> uuid \<Rightarrow> nat \<Rightarrow> (string + string) \<times> 'r" where
  "create_invite_code exec us fresh s t admin ttl =
     (case write_invite_code exec us s t fresh admin ttl of
        (Inl e, s') \<Rightarrow> (Inl e, s')
      | (Inr _, s') \<Rightarrow> (Inr fresh, s'))"

definition verify_invite_code ::
  "'r redis_exec \<Rightarrow> 'r \<Rightarrow> instant \<Rightarrow> string \<Rightarrow> string + invite_verify_status" where
  "verify_invite_code exec s t code =
     (let key = invite_key code
      in rbind (redis_exists exec s t key)
           (\<lambda>e. if \<not> e then Inr NotFoundCode
                else rbind (fst (query exec s t (CHGetAll key)))
                  (\<lambda>r. case r of
                     RArr xs \<Rightarrow>
                       (let fm = map_of (pairs xs)
                        in if (case fm ''used_by'' of None \<Rightarrow> False | Some u \<Rightarrow> u \<noteq> []) then Inr Used
                           else if (case Option.bind (fm ''expires_at'') parse_int of
                                      None \<Rightarrow> False | Some x \<Rightarrow> x < int (timestamp t))
                           then Inr Expired else Inr Valid)
                   | _ \<Rightarrow> Inl ''unexpected reply'')))"

definition consume_invite_code ::
  "'r redis_exec \<Rightarrow> (uuid \<Rightarrow> string) \<Rightarrow> 'r \<Rightarrow> instant \<Rightarrow> string \<Rightarrow> uuid \<Rightarrow> (string + bool) \<times> 'r" where
  "consume_invite_code exec us s t code user =
     (let key = invite_key code
      in case redis_exists exec s t key of
           Inl e \<Rightarrow> (Inl e, s)
         | Inr False \<Rightarrow> (Inr False, s)
         | Inr True \<Rightarrow>
             (case pipe exec s t [CHSet key ''used_by'' (us user), CSRem invites_set code] of
                (Inl e, s') \<Rightarrow> (Inl e, s')
              | (Inr _, s') \<Rightarrow> (Inr True, s')))"

definition parse_invite_fields ::
  "(string \<Rightarrow> uuid option) \<Rightarrow> string \<Rightarrow> (string \<times> string) list \<Rightarrow> int \<Rightarrow> redis_invite_info option" where
  "parse_invite_fields pu code fvs now =
     (if fvs = [] then None
      else
        (let f = map_of fvs;
             used_by = Option.bind (f ''used_by'') (\<lambda>v. if v = [] then None else pu v);
             expires_at = opt_unwrap_or (Option.bind (f ''expires_at'') parse_int) 0
         in if expires_at < now \<or> used_by \<noteq> None then None
            else Some \<lparr>ri_code = code,
                   ri_created_by = opt_unwrap_or (Option.bind (f ''created_by'') pu) nil_uuid,
                   ri_expires_at = expires_at, ri_used_by = used_by,
                   ri_created_at = opt_unwrap_or (Option.bind (f ''created_at'') parse_int) 0\<rparr>))"

text \<open>One turn of the loop over the members per code, then the sort, then the cleaning.\<close>

fun scan_invites ::
  "'r redis_exec \<Rightarrow> (string \<Rightarrow> uuid option) \<Rightarrow> 'r \<Rightarrow> instant \<Rightarrow> string list \<Rightarrow>
   string + redis_invite_info list \<times> string list" where
  "scan_invites exec pu s t [] = Inr ([], [])"
| "scan_invites exec pu s t (code # rest) =
     rbind (fst (query exec s t (CHGetAll (invite_key code))))
       (\<lambda>r. case r of
          RArr xs \<Rightarrow>
            rbind (scan_invites exec pu s t rest)
              (\<lambda>(codes, stale).
                 case parse_invite_fields pu code (pairs xs) (int (timestamp t)) of
                   Some info \<Rightarrow> Inr (info # codes, stale)
                 | None \<Rightarrow> Inr (codes, code # stale))
        | _ \<Rightarrow> Inl ''unexpected reply'')"

definition clean_stale_invites ::
  "'r redis_exec \<Rightarrow> 'r \<Rightarrow> instant \<Rightarrow> string list \<Rightarrow> (string + unit) \<times> 'r" where
  "clean_stale_invites exec s t stale =
     (if stale = [] then (Inr (), s) else pipe exec s t (map (CSRem invites_set) stale))"

definition list_invite_codes ::
  "'r redis_exec \<Rightarrow> (string \<Rightarrow> uuid option) \<Rightarrow> 'r \<Rightarrow> instant \<Rightarrow> (string + redis_invite_info list) \<times> 'r" where
  "list_invite_codes exec pu s t =
     (case rbind (fst (query exec s t (CSMembers invites_set)))
             (\<lambda>r. case r of RArr ms \<Rightarrow> scan_invites exec pu s t ms | _ \<Rightarrow> Inl ''unexpected reply'') of
        Inl e \<Rightarrow> (Inl e, s)
      | Inr (codes, stale) \<Rightarrow>
          (case clean_stale_invites exec s t stale of
             (Inl e, s') \<Rightarrow> (Inl e, s')
           | (Inr _, s') \<Rightarrow> (Inr (sort_key (\<lambda>i. - ri_created_at i) codes), s')))"

definition to_core_invite_info :: "redis_invite_info \<Rightarrow> invite_code_info" where
  "to_core_invite_info i =
     \<lparr>ic_code = ri_code i,
      ic_created_by = (if ri_created_by i \<noteq> nil_uuid then Some (ri_created_by i) else None),
      ic_created_at = secs (nat (ri_created_at i)),
      ic_expires_at = (if 0 < ri_expires_at i then Some (secs (nat (ri_expires_at i))) else None),
      ic_used_by = ri_used_by i\<rparr>"

text \<open>The store of the trait.\<close>

definition redis_invite_create ::
  "'r redis_exec \<Rightarrow> (uuid \<Rightarrow> string) \<Rightarrow> 'r \<Rightarrow> instant \<Rightarrow> string \<Rightarrow> uuid \<Rightarrow> nat \<Rightarrow> (invite_error + unit) \<times> 'r" where
  "redis_invite_create exec us s t code by ttl =
     apfst (map_err IOther) (write_invite_code exec us s t code by ttl)"

definition redis_invite_verify ::
  "'r redis_exec \<Rightarrow> 'r \<Rightarrow> instant \<Rightarrow> string \<Rightarrow> invite_error + bool" where
  "redis_invite_verify exec s t code =
     map_err IOther (rbind (verify_invite_code exec s t code) (\<lambda>r. Inr (r = Valid)))"

definition redis_invite_consume ::
  "'r redis_exec \<Rightarrow> (uuid \<Rightarrow> string) \<Rightarrow> 'r \<Rightarrow> instant \<Rightarrow> string \<Rightarrow> uuid \<Rightarrow> (invite_error + unit) \<times> 'r" where
  "redis_invite_consume exec us s t code user =
     (case consume_invite_code exec us s t code user of
        (Inl e, s') \<Rightarrow> (Inl (IOther e), s')
      | (Inr consumed, s') \<Rightarrow>
          (if consumed then Inr () else Inl (IOther (''invite code not found: '' @ code)), s'))"

definition redis_invite_list ::
  "'r redis_exec \<Rightarrow> (string \<Rightarrow> uuid option) \<Rightarrow> 'r \<Rightarrow> instant \<Rightarrow> (invite_error + invite_code_info list) \<times> 'r" where
  "redis_invite_list exec pu s t =
     apfst (\<lambda>r. map_err IOther (rbind r (\<lambda>cs. Inr (map to_core_invite_info cs)))) (list_invite_codes exec pu s t)"

definition redis_invite_verify_detail ::
  "'r redis_exec \<Rightarrow> 'r \<Rightarrow> instant \<Rightarrow> string \<Rightarrow> invite_error + invite_verify_status" where
  "redis_invite_verify_detail exec s t code = map_err IOther (verify_invite_code exec s t code)"

definition redis_invite_ops ::
  "'r redis_exec \<Rightarrow> (uuid \<Rightarrow> string) \<Rightarrow> (string \<Rightarrow> uuid option) \<Rightarrow> 'r invite_ops" where
  "redis_invite_ops exec us pu =
     \<lparr>io_create = redis_invite_create exec us, io_verify = redis_invite_verify exec,
      io_consume = redis_invite_consume exec us, io_list = redis_invite_list exec pu,
      io_verify_detail = redis_invite_verify_detail exec\<rparr>"

section \<open>The rate limiter and its middleware\<close>

definition rate_limit_window_secs :: nat where "rate_limit_window_secs = 60"

definition rl_key :: "string \<Rightarrow> string \<Rightarrow> string" where
  "rl_key policy suffix = ''rl:'' @ policy @ '':'' @ suffix"

definition ttl_or_window ::
  "'r redis_exec \<Rightarrow> (int \<Rightarrow> nat option) \<Rightarrow> 'r \<Rightarrow> instant \<Rightarrow> string \<Rightarrow> nat \<Rightarrow> nat" where
  "ttl_or_window exec u64_of s t key window =
     (case fst (query exec s t (CTtl key)) of
        Inr (RInt i) \<Rightarrow> opt_unwrap_or (u64_of i) window
      | _ \<Rightarrow> window)"

definition redis_limiter_check ::
  "'r redis_exec \<Rightarrow> (int \<Rightarrow> nat option) \<Rightarrow> 'r \<Rightarrow> instant \<Rightarrow> string \<Rightarrow> string \<Rightarrow> nat \<Rightarrow> nat \<Rightarrow>
   (limiter_error + rate_limit_result) \<times> 'r" where
  "redis_limiter_check exec u64_of s t policy key limit window =
     (let k = rl_key policy key
      in case redis_incr exec s t k window of
           (Inl e, s') \<Rightarrow> (Inl (LOther e), s')
         | (Inr count, s') \<Rightarrow>
             (if count \<le> limit then (Inr \<lparr>allowed = True, retry_after = 0\<rparr>, s')
              else (Inr \<lparr>allowed = False, retry_after = ttl_or_window exec u64_of s' t k window\<rparr>, s')))"

definition redis_limiter_ops :: "'r redis_exec \<Rightarrow> (int \<Rightarrow> nat option) \<Rightarrow> 'r limiter_ops" where
  "redis_limiter_ops exec u64_of = \<lparr>lo_check = redis_limiter_check exec u64_of\<rparr>"

text \<open>A failing limiter lets the request through.\<close>

definition limiter_check ::
  "'l limiter_ops \<Rightarrow> 'l \<Rightarrow> instant \<Rightarrow> string \<Rightarrow> string \<Rightarrow> nat \<Rightarrow> rate_limit_result \<times> 'l" where
  "limiter_check lo s t policy key max_requests =
     (case lo_check lo s t policy key max_requests rate_limit_window_secs of
        (Inl _, s') \<Rightarrow> (\<lparr>allowed = True, retry_after = 0\<rparr>, s')
      | (Inr r, s') \<Rightarrow> (r, s'))"

text \<open>The request headers: names in lower case, values only when they are visible ASCII.\<close>

definition extract_client_ip :: "(string \<times> string) list \<Rightarrow> string" where
  "extract_client_ip headers =
     (case map_of headers ''x-forwarded-for'' of
        Some v \<Rightarrow> trim (hd (split_on (CHR '','') v))
      | None \<Rightarrow> ''unknown'')"

definition too_many_response :: "i18n \<Rightarrow> language \<Rightarrow> nat \<Rightarrow> api_error" where
  "too_many_response g loc retry = error_json_args g loc 429 ''rate_limited'' [nat_str retry]"

text \<open>One middleware per policy: \<open>Inr ()\<close> passes the request on.\<close>

definition limit_with ::
  "'l limiter_ops \<Rightarrow> i18n \<Rightarrow> language \<Rightarrow> 'l \<Rightarrow> instant \<Rightarrow> string \<Rightarrow> string \<Rightarrow> nat \<Rightarrow> (api_error + unit) \<times> 'l" where
  "limit_with lo g loc s t policy key max_requests =
     (let (r, s') = limiter_check lo s t policy key max_requests
      in (if allowed r then Inr () else Inl (too_many_response g loc (retry_after r)), s'))"

definition rate_limit_auth ::
  "'l limiter_ops \<Rightarrow> rate_limit_config \<Rightarrow> i18n \<Rightarrow> language \<Rightarrow> 'l \<Rightarrow> instant \<Rightarrow> (string \<times> string) list \<Rightarrow>
   (api_error + unit) \<times> 'l" where
  "rate_limit_auth lo cfg g loc s t headers =
     limit_with lo g loc s t ''auth'' (extract_client_ip headers) (rl_auth_max cfg)"

definition rate_limit_public ::
  "'l limiter_ops \<Rightarrow> rate_limit_config \<Rightarrow> i18n \<Rightarrow> language \<Rightarrow> 'l \<Rightarrow> instant \<Rightarrow> (string \<times> string) list \<Rightarrow>
   (api_error + unit) \<times> 'l" where
  "rate_limit_public lo cfg g loc s t headers =
     limit_with lo g loc s t ''public'' (extract_client_ip headers) (rl_public_max cfg)"

text \<open>The key of a signed-in request is the user.\<close>

definition user_or_ip :: "(uuid \<Rightarrow> string) \<Rightarrow> uuid option \<Rightarrow> (string \<times> string) list \<Rightarrow> string" where
  "user_or_ip us user headers = (case user of Some u \<Rightarrow> us u | None \<Rightarrow> extract_client_ip headers)"

definition rate_limit_upload ::
  "'l limiter_ops \<Rightarrow> (uuid \<Rightarrow> string) \<Rightarrow> rate_limit_config \<Rightarrow> i18n \<Rightarrow> language \<Rightarrow> 'l \<Rightarrow> instant \<Rightarrow>
   uuid option \<Rightarrow> (string \<times> string) list \<Rightarrow> (api_error + unit) \<times> 'l" where
  "rate_limit_upload lo us cfg g loc s t user headers =
     limit_with lo g loc s t ''upload'' (user_or_ip us user headers) (rl_upload_max cfg)"

definition rate_limit_general ::
  "'l limiter_ops \<Rightarrow> (uuid \<Rightarrow> string) \<Rightarrow> rate_limit_config \<Rightarrow> i18n \<Rightarrow> language \<Rightarrow> 'l \<Rightarrow> instant \<Rightarrow>
   uuid option \<Rightarrow> (string \<times> string) list \<Rightarrow> (api_error + unit) \<times> 'l" where
  "rate_limit_general lo us cfg g loc s t user headers =
     limit_with lo g loc s t ''general'' (user_or_ip us user headers) (rl_general_max cfg)"

end
