(* ===== verification/Redis_Props.thy ===== *)
theory Redis_Props
  imports Redis_State Lite_State
begin

text \<open>
  Every operation of the Redis state layer on a server that is up does to the key space what it
  does on the documented server, so its facts are proved there, by computation, and carried over.
\<close>

section \<open>Operations on a server that is up\<close>

lemma query_up:
  assumes "redis_up exec ks"
  shows "apsnd ks (query exec s t c) = query redis_server (ks s) t c"
proof -
  let ?s = "snd (exec s t c)"
  have e: "exec s t c = (Some (fst (documented c t (ks s))), ?s)"
    and k: "ks ?s = snd (documented c t (ks s))"
    using redis_upD [OF assms] by auto
  have "query exec s t c = (case fst (documented c t (ks s)) of RErr m \<Rightarrow> (Inl m, ?s) | r \<Rightarrow> (Inr r, ?s))"
    unfolding query_def by (subst e) (simp split: redis_reply.split)
  then show ?thesis
    by (simp add: query_def redis_server_def k split: redis_reply.split)
qed

lemma query_up_fst: "redis_up exec ks \<Longrightarrow> fst (query exec s t c) = fst (query redis_server (ks s) t c)"
  by (metis fst_apsnd query_up)

lemma pipe_server_Nil [simp]: "pipe redis_server ks t [] = (Inr (), ks)"
  by simp

lemma pipe_server_Cons [simp]:
  "pipe redis_server ks t (c # cs) =
     (let (r, ks') = documented c t ks; (res, ks'') = pipe redis_server ks' t cs
      in (case r of RErr m \<Rightarrow> (Inl m, ks'') | _ \<Rightarrow> (res, ks'')))"
  by (subst pipe.simps, subst redis_server_def) (simp add: split_beta)

declare pipe.simps [simp del]

lemma query_server:
  "query redis_server ks t c =
     (case documented c t ks of (RErr m, ks') \<Rightarrow> (Inl m, ks') | (r, ks') \<Rightarrow> (Inr r, ks'))"
  unfolding query_def by (subst redis_server_def) (simp split: redis_reply.split prod.split)

lemma pipe_up:
  assumes "redis_up exec ks"
  shows "apsnd ks (pipe exec s t cs) = pipe redis_server (ks s) t cs"
proof (induction cs arbitrary: s)
  case Nil
  then show ?case by (simp add: pipe.simps)
next
  case (Cons c cs)
  let ?s = "snd (exec s t c)"
  have e: "exec s t c = (Some (fst (documented c t (ks s))), ?s)"
    and k: "ks ?s = snd (documented c t (ks s))"
    using redis_upD [OF assms] by auto
  have IH: "apsnd ks (pipe exec ?s t cs) = pipe redis_server (snd (documented c t (ks s))) t cs"
    using Cons [of ?s] k by simp
  have p: "fst (pipe exec ?s t cs) = fst (pipe redis_server (snd (documented c t (ks s))) t cs)"
    "ks (snd (pipe exec ?s t cs)) = snd (pipe redis_server (snd (documented c t (ks s))) t cs)"
    unfolding IH [symmetric] by simp_all
  have lhs: "pipe exec s t (c # cs) =
      (case fst (documented c t (ks s)) of RErr m \<Rightarrow> (Inl m, snd (pipe exec ?s t cs))
       | _ \<Rightarrow> (fst (pipe exec ?s t cs), snd (pipe exec ?s t cs)))"
    by (subst pipe.simps, subst e) (simp add: Let_def split_beta split: redis_reply.split)
  show ?case
    unfolding lhs by (simp add: Let_def split_beta p split: redis_reply.split)
qed

lemma pipe_up_fst: "redis_up exec ks \<Longrightarrow> fst (pipe exec s t cs) = fst (pipe redis_server (ks s) t cs)"
  by (metis fst_apsnd pipe_up)

lemma pipe_up_snd: "redis_up exec ks \<Longrightarrow> ks (snd (pipe exec s t cs)) = snd (pipe redis_server (ks s) t cs)"
  by (metis snd_apsnd pipe_up)

lemma redis_exists_up: "redis_up exec ks \<Longrightarrow> redis_exists exec s t k = redis_exists redis_server (ks s) t k"
  by (simp add: redis_exists_def query_up_fst)

lemma redis_get_up: "redis_up exec ks \<Longrightarrow> redis_get exec s t k = redis_get redis_server (ks s) t k"
  by (simp add: redis_get_def query_up_fst)

lemma redis_incr_up:
  assumes "redis_up exec ks"
  shows "apsnd ks (redis_incr exec s t k ttl) = redis_incr redis_server (ks s) t k ttl"
proof -
  obtain r s' where p: "pipe exec s t [CIncr k, CExpire k ttl] = (r, s')" by fastforce
  have p': "pipe redis_server (ks s) t [CIncr k, CExpire k ttl] = (r, ks s')"
    using pipe_up [OF assms, of s t "[CIncr k, CExpire k ttl]"] p by simp
  obtain q s'' where g: "query exec s' t (CGet k) = (q, s'')" by fastforce
  have g': "query redis_server (ks s') t (CGet k) = (q, ks s'')"
    using query_up [OF assms, of s' t "CGet k"] g by simp
  show ?thesis
    unfolding redis_incr_def p p' by (cases r) (auto simp: g g' split: sum.splits redis_reply.splits)
qed

lemma redis_exists_server [simp]: "redis_exists redis_server ks t k = Inr (live ks t k \<noteq> None)"
  by (simp add: redis_exists_def query_server)

lemma redis_get_server:
  "live ks t k = Some (VStr v) \<Longrightarrow> redis_get redis_server ks t k = Inr (Some v)"
  by (simp add: redis_get_def query_server str_of_def)

lemma redis_get_cold:
  assumes "live ks t k = None"
  shows "redis_get redis_server ks t k = Inr None"
  unfolding redis_get_def query_server documented.simps assms by (simp add: str_of_def)

lemma redis_set_ex_server:
  "0 < ttl \<Longrightarrow> redis_set_ex redis_server ks t k v ttl = (Inr (), ks(k \<mapsto> (VStr v, Some (t + secs ttl))))"
  by (simp add: redis_set_ex_def)

section \<open>The blacklist\<close>

definition redis_covers :: "instant \<Rightarrow> nat \<Rightarrow> instant \<Rightarrow> bool" where
  "redis_covers t ttl t' = (0 < ttl \<and> t' < t + secs ttl)"

lemma redis_revoke_ks:
  assumes "redis_up exec ks"
  shows "ks (revoked_in (redis_blacklist_ops exec) s t jti ttl) =
    (if ttl = 0 then ks s else (ks s)(bl_key jti \<mapsto> (VStr ''revoked'', Some (t + secs ttl))))"
  by (simp add: revoked_in_def redis_blacklist_ops_def redis_blacklist_revoke_def redis_set_ex_def
      pipe_up_snd [OF assms])

lemma redis_refused:
  assumes "redis_up exec ks"
  shows "refused (redis_blacklist_ops exec) s t jti = (live (ks s) t (bl_key jti) \<noteq> None)"
  using assms
  by (simp add: refused_def redis_blacklist_ops_def redis_blacklist_check_def redis_exists_up)

lemma bl_key_inj [simp]: "bl_key a = bl_key b \<longleftrightarrow> a = b"
  by (simp add: bl_key_def)

lemma redis_blacklist_contract:
  assumes "redis_up exec ks"
  shows "token_blacklist (revoked_in (redis_blacklist_ops exec)) (refused (redis_blacklist_ops exec)) redis_covers"
  by unfold_locales
    (auto simp: redis_refused [OF assms] redis_revoke_ks [OF assms] redis_covers_def)

interpretation rbl: token_blacklist "revoked_in (redis_blacklist_ops redis_server)"
  "refused (redis_blacklist_ops redis_server)" redis_covers
  by (rule redis_blacklist_contract [OF redis_server_up])

text \<open>
  On Redis a revoked token is refused from its revocation until its time to live is
  over and accepted from then on, and the revocation changes nothing for any other token.
\<close>

theorem redis_revocation_holds:
  assumes "redis_up exec ks" and "0 < ttl"
  shows "(refused (redis_blacklist_ops exec) (revoked_in (redis_blacklist_ops exec) s t jti ttl) t' jti \<longleftrightarrow>
       t' < t + secs ttl) \<and>
    (\<forall>jti'. jti' \<noteq> jti \<longrightarrow>
      refused (redis_blacklist_ops exec) (revoked_in (redis_blacklist_ops exec) s t jti ttl) t' jti' =
      refused (redis_blacklist_ops exec) s t' jti')"
  using assms(2) by (auto simp: redis_refused [OF assms(1)] redis_revoke_ks [OF assms(1)])

theorem redis_revocation_holds_witness:
  "refused (redis_blacklist_ops redis_server)
     (revoked_in (redis_blacklist_ops redis_server) Map.empty 0 ''a'' 60) (secs 59) ''a'' \<and>
   \<not> refused (redis_blacklist_ops redis_server)
     (revoked_in (redis_blacklist_ops redis_server) Map.empty 0 ''a'' 60) (secs 60) ''a''"
  using redis_revocation_holds [OF redis_server_up, of 60 Map.empty 0 "''a''" "secs 59"]
    redis_revocation_holds [OF redis_server_up, of 60 Map.empty 0 "''a''" "secs 60"]
  by (simp add: secs_def nanos_per_sec_def)

section \<open>The rate limiter\<close>

lemma nat_str_digits: "list_all is_digit (nat_str n)"
proof (induction n rule: nat_str.induct)
  case (1 n)
  have d: "is_digit (digit_char m)" if "m < 10" for m
    using that by (simp add: is_digit_def)
  show ?case using 1 d by (cases "n < 10") (simp_all add: nat_str.simps [of n])
qed

lemma nat_str_nonempty [simp]: "nat_str n \<noteq> []"
  by (simp add: nat_str.simps [of n])

lemma parse_nat_nat_str [simp]: "parse_nat (nat_str n) = Some n"
  by (simp add: parse_nat_def nat_str_digits)

lemma parse_int_nat_str: "n < 2 ^ 63 \<Longrightarrow> parse_int (nat_str n) = Some (int n)"
proof -
  assume n: "n < 2 ^ 63"
  obtain c cs where e: "nat_str n = c # cs" by (cases "nat_str n") auto
  have "is_digit c" using nat_str_digits [of n] by (simp add: e)
  then have "c \<noteq> CHR ''-''" by (auto simp: is_digit_def)
  with n parse_nat_nat_str [of n] show ?thesis
    unfolding parse_int_def e by simp
qed

lemma int_str_of_nat [simp]: "int_str (int n) = nat_str n"
  by (simp add: int_str_def)

definition counter_at :: "key_space \<Rightarrow> string \<Rightarrow> nat \<Rightarrow> instant \<Rightarrow> bool" where
  "counter_at k key n t = (live k t key = (if n = 0 then None else Some (VStr (nat_str n))))"

lemma redis_incr_server:
  assumes "counter_at k key n t" and "Suc n < 2 ^ 63" and "0 < ttl"
  shows "redis_incr redis_server k t key ttl =
    (Inr (Suc n), k(key \<mapsto> (VStr (nat_str (Suc n)), Some (t + secs ttl))))"
proof -
  have st: "str_of (live k t key) = Some (if n = 0 then None else Some (nat_str n))"
    using assms(1) by (simp add: counter_at_def str_of_def)
  have ad: "add_int (if n = 0 then None else Some (nat_str n)) 1 = Some (int (Suc n))"
    using assms(2) by (simp add: add_int_def parse_int_nat_str)
  have s: "t < t + secs ttl" using assms(3) by (simp add: secs_def nanos_per_sec_def)
  have incr: "documented (CIncr key) t k =
      (RInt (int (Suc n)), store_keep k t key (VStr (nat_str (Suc n))))"
    unfolding documented.simps st ad option.case int_str_of_nat ..
  have expire: "documented (CExpire key ttl) t (store_keep k t key (VStr (nat_str (Suc n)))) =
      (RInt 1, k(key \<mapsto> (VStr (nat_str (Suc n)), Some (t + secs ttl))))"
    using assms(3) by simp (simp add: store_keep_def)
  have "pipe redis_server k t [CIncr key, CExpire key ttl] =
      (Inr (), k(key \<mapsto> (VStr (nat_str (Suc n)), Some (t + secs ttl))))"
    by (simp only: pipe_server_Cons pipe_server_Nil incr expire Let_def prod.case redis_reply.case)
  with s show ?thesis by (simp add: redis_incr_def query_server str_of_def)
qed

text \<open>Requests of one client under one policy, at the given instants.\<close>

fun limiter_run ::
  "'l limiter_ops \<Rightarrow> string \<Rightarrow> string \<Rightarrow> nat \<Rightarrow> 'l \<Rightarrow> instant list \<Rightarrow> bool list \<times> 'l" where
  "limiter_run lo policy key limit s [] = ([], s)"
| "limiter_run lo policy key limit s (t # ts) =
     (let (r, s') = limiter_check lo s t policy key limit;
          (rs, s'') = limiter_run lo policy key limit s' ts
      in (allowed r # rs, s''))"

lemma limiter_check_up:
  assumes "redis_up exec ks" and "counter_at (ks s) (rl_key p k) n t" and "Suc n < 2 ^ 63"
  shows "allowed (fst (limiter_check (redis_limiter_ops exec u) s t p k limit)) \<longleftrightarrow> n < limit"
    and "ks (snd (limiter_check (redis_limiter_ops exec u) s t p k limit)) =
      (ks s)(rl_key p k \<mapsto> (VStr (nat_str (Suc n)), Some (t + secs 60)))"
proof -
  have i: "apsnd ks (redis_incr exec s t (rl_key p k) 60) =
      (Inr (Suc n), (ks s)(rl_key p k \<mapsto> (VStr (nat_str (Suc n)), Some (t + secs 60))))"
    using redis_incr_server [OF assms(2,3), of 60] redis_incr_up [OF assms(1)] by simp
  then obtain s' where s': "redis_incr exec s t (rl_key p k) 60 = (Inr (Suc n), s')"
    and ks': "ks s' = (ks s)(rl_key p k \<mapsto> (VStr (nat_str (Suc n)), Some (t + secs 60)))"
    by (cases "redis_incr exec s t (rl_key p k) 60") auto
  show "allowed (fst (limiter_check (redis_limiter_ops exec u) s t p k limit)) \<longleftrightarrow> n < limit"
    by (simp add: limiter_check_def redis_limiter_ops_def redis_limiter_check_def
        rate_limit_window_secs_def s' Suc_le_eq)
  show "ks (snd (limiter_check (redis_limiter_ops exec u) s t p k limit)) =
      (ks s)(rl_key p k \<mapsto> (VStr (nat_str (Suc n)), Some (t + secs 60)))"
    by (simp add: limiter_check_def redis_limiter_ops_def redis_limiter_check_def
        rate_limit_window_secs_def s' ks')
qed

lemma limiter_run_up:
  assumes up: "redis_up exec ks"
  shows "successively (\<lambda>a b. b < a + secs 60) ts \<Longrightarrow> n + length ts < 2 ^ 63 \<Longrightarrow>
    (ts \<noteq> [] \<Longrightarrow> counter_at (ks s) (rl_key p k) n (hd ts)) \<Longrightarrow>
    fst (limiter_run (redis_limiter_ops exec u) p k limit s ts) = map (\<lambda>i. i < limit) [n..<n + length ts] \<and>
    (ts \<noteq> [] \<longrightarrow> (\<exists>v. ks (snd (limiter_run (redis_limiter_ops exec u) p k limit s ts)) (rl_key p k) =
      Some (v, Some (last ts + secs 60))))"
proof (induction ts arbitrary: s n)
  case Nil
  then show ?case by simp
next
  case (Cons t ts)
  let ?s = "snd (limiter_check (redis_limiter_ops exec u) s t p k limit)"
  have c: "counter_at (ks s) (rl_key p k) n t" using Cons.prems(3) by simp
  have small: "Suc n < 2 ^ 63" using Cons.prems(2) by simp
  have k': "ks ?s = (ks s)(rl_key p k \<mapsto> (VStr (nat_str (Suc n)), Some (t + secs 60)))"
    by (rule limiter_check_up(2) [OF up c small])
  have nxt: "counter_at (ks ?s) (rl_key p k) (Suc n) (hd ts)" if "ts \<noteq> []"
    using Cons.prems(1) that unfolding k' by (cases ts) (auto simp: counter_at_def)
  have suc: "successively (\<lambda>a b. b < a + secs 60) ts"
    using Cons.prems(1) by (auto simp: successively_Cons)
  have IH: "fst (limiter_run (redis_limiter_ops exec u) p k limit ?s ts) = map (\<lambda>i. i < limit) [Suc n..<Suc n + length ts] \<and>
    (ts \<noteq> [] \<longrightarrow> (\<exists>v. ks (snd (limiter_run (redis_limiter_ops exec u) p k limit ?s ts)) (rl_key p k) =
      Some (v, Some (last ts + secs 60))))"
    using Cons.IH [OF suc _ nxt] Cons.prems(2) by simp
  have up_list: "[n..<n + length (t # ts)] = n # [Suc n..<Suc n + length ts]"
    by (simp add: upt_rec)
  show ?case
    unfolding up_list using IH limiter_check_up(1) [OF up c small, of u limit]
    by (cases ts) (auto simp: split_beta Let_def k')
qed

text \<open>
  The Redis limiter counts the requests of a client since its last quiet minute:
  however long a run of requests lasts, while each comes less than 60 seconds after the one before,
  the i-th is let through exactly when i is below the limit; the first request after a full quiet
  window is let through. So a burst never passes more than the limit, and a client that sends one
  request every 59 seconds is shut out after \<open>limit\<close> of them.
\<close>

theorem redis_limiter_counts_since_quiet:
  assumes up: "redis_up exec ks" and fresh: "live (ks s) (hd ts) (rl_key policy key) = None"
    and gaps: "successively (\<lambda>a b. b < a + secs 60) ts" and small: "length ts < 2 ^ 63"
  shows "fst (limiter_run (redis_limiter_ops exec u) policy key limit s ts) =
      map (\<lambda>i. i < limit) [0..<length ts] \<and>
    (\<forall>t. ts \<noteq> [] \<longrightarrow> last ts + secs 60 \<le> t \<longrightarrow> 0 < limit \<longrightarrow>
      allowed (fst (limiter_check (redis_limiter_ops exec u)
        (snd (limiter_run (redis_limiter_ops exec u) policy key limit s ts)) t policy key limit)))"
proof -
  let ?r = "limiter_run (redis_limiter_ops exec u) policy key limit s ts"
  have r: "fst ?r = map (\<lambda>i. i < limit) [0..<length ts] \<and>
    (ts \<noteq> [] \<longrightarrow> (\<exists>v. ks (snd ?r) (rl_key policy key) = Some (v, Some (last ts + secs 60))))"
    using limiter_run_up [OF up gaps, of 0 s policy key u limit] small fresh
    by (auto simp: counter_at_def)
  have "allowed (fst (limiter_check (redis_limiter_ops exec u) (snd ?r) t policy key limit))"
    if "ts \<noteq> []" "last ts + secs 60 \<le> t" "0 < limit" for t
  proof -
    have "counter_at (ks (snd ?r)) (rl_key policy key) 0 t"
      using r that by (auto simp: counter_at_def live_def)
    then show ?thesis using limiter_check_up(1) [OF up, of "snd ?r" policy key 0 t u limit] that(3) by simp
  qed
  with r show ?thesis by blast
qed

theorem redis_limiter_counts_since_quiet_witness:
  "fst (limiter_run (redis_limiter_ops redis_server (\<lambda>i. Some (nat i))) ''auth'' ''10.0.0.1'' 2 Map.empty
      [0, secs 59, secs 118]) = [True, True, False]"
  using redis_limiter_counts_since_quiet [OF redis_server_up, of Map.empty "[0, secs 59, secs 118]"
      "''auth''" "''10.0.0.1''" "\<lambda>i. Some (nat i)" 2]
  by (simp add: live_def secs_def nanos_per_sec_def upt_rec)

section \<open>Invite codes\<close>

lemma invites_set_not_key [simp]: "invites_set \<noteq> invite_key c" "invite_key c \<noteq> invites_set"
  by (simp_all add: invites_set_def invite_key_def)

lemma verify_invite_up:
  assumes "redis_up exec ks"
  shows "verify_invite_code exec s t c = verify_invite_code redis_server (ks s) t c"
  unfolding verify_invite_code_def redis_exists_up [OF assms] query_up_fst [OF assms] ..

lemma verify_server_hash:
  assumes "verify_invite_code redis_server k t c = Inr st" and "st \<noteq> NotFoundCode"
  shows "\<exists>h. live k t (invite_key c) = Some (VHash h)"
proof (cases "live k t (invite_key c)")
  case None
  with assms show ?thesis by (simp add: verify_invite_code_def)
next
  case (Some v)
  with assms show ?thesis
    by (cases v) (auto simp: verify_invite_code_def query_server hash_of_def wrong_type_def)
qed

lemma consume_invite_up:
  assumes up: "redis_up exec ks" and h: "live (ks s) t (invite_key c) = Some (VHash h)"
    and m: "set_of (live (ks s) t invites_set) \<noteq> None"
  shows "fst (redis_invite_consume exec us s t c u) = Inr ()"
    and "live (ks (snd (redis_invite_consume exec us s t c u))) t (invite_key c) =
      Some (VHash ((''used_by'', us u) # filter (\<lambda>p. fst p \<noteq> ''used_by'') h))"
proof -
  have p: "apsnd ks (pipe exec s t [CHSet (invite_key c) ''used_by'' (us u), CSRem invites_set c]) =
      (Inr (), let k1 = store_keep (ks s) t (invite_key c)
                    (VHash ((''used_by'', us u) # filter (\<lambda>p. fst p \<noteq> ''used_by'') h));
                  xs = the (set_of (live (ks s) t invites_set))
               in if c \<in> set xs then store_set k1 t invites_set (removeAll c xs) else k1)"
    unfolding pipe_up [OF up] using h m by (auto simp: hash_of_def Let_def)
  then obtain s' where s': "pipe exec s t [CHSet (invite_key c) ''used_by'' (us u), CSRem invites_set c] = (Inr (), s')"
    and k': "live (ks s') t (invite_key c) =
      Some (VHash ((''used_by'', us u) # filter (\<lambda>p. fst p \<noteq> ''used_by'') h))"
    by (cases "pipe exec s t [CHSet (invite_key c) ''used_by'' (us u), CSRem invites_set c]")
      (auto simp: Let_def split: if_splits)
  have e: "redis_exists exec s t (invite_key c) = Inr True"
    using h by (simp add: redis_exists_up [OF up])
  show "fst (redis_invite_consume exec us s t c u) = Inr ()"
    and "live (ks (snd (redis_invite_consume exec us s t c u))) t (invite_key c) =
      Some (VHash ((''used_by'', us u) # filter (\<lambda>p. fst p \<noteq> ''used_by'') h))"
    by (simp_all add: redis_invite_consume_def consume_invite_code_def e s' k')
qed

text \<open>
  The two invite stores disagree on a used code: with Redis, consuming it again
  succeeds and writes the new user over the old one; with SQLite it is an error and the table is
  unchanged.
\<close>

theorem redis_used_invite_consumed_again:
  assumes "redis_up exec ks"
    and "redis_invite_verify_detail exec s t code = Inr Used"
    and "set_of (live (ks s) t invites_set) \<noteq> None"
    and "distinct (map li_code tbl)" and "sqlite_invite_verify_detail mf False tbl t code = Inr Used"
  shows "fst (redis_invite_consume exec us s t code u) = Inr () \<and>
    (\<exists>h. live (ks (snd (redis_invite_consume exec us s t code u))) t (invite_key code) = Some (VHash h) \<and>
         map_of h ''used_by'' = Some (us u)) \<and>
    \<not> is_ok (fst (sqlite_invite_consume us False tbl code u)) \<and>
    snd (sqlite_invite_consume us False tbl code u) = tbl"
proof -
  have "verify_invite_code redis_server (ks s) t code = Inr Used"
    using assms(2) by (simp add: redis_invite_verify_detail_def verify_invite_up [OF assms(1)] map_err_def split: sum.splits)
  then obtain h where h: "live (ks s) t (invite_key code) = Some (VHash h)"
    using verify_server_hash by blast
  obtain r where r: "find (\<lambda>r. li_code r = code) tbl = Some r" "li_used_by r \<noteq> None"
    using assms(5) by (auto simp: sqlite_invite_verify_detail_def split: option.splits if_splits)
  have no_hit: "\<not> (li_code x = code \<and> li_used_by x = None)" if "x \<in> set tbl" for x
    using r that assms(4) distinct_map_eqD [of li_code tbl x r]
    by (auto simp: find_Some_iff)
  have "fst (redis_invite_consume exec us s t code u) = Inr ()"
    by (rule consume_invite_up(1) [OF assms(1) h assms(3)])
  moreover have "\<exists>h. live (ks (snd (redis_invite_consume exec us s t code u))) t (invite_key code) = Some (VHash h) \<and>
         map_of h ''used_by'' = Some (us u)"
    using consume_invite_up(2) [OF assms(1) h assms(3)] by auto
  moreover have "\<not> is_ok (fst (sqlite_invite_consume us False tbl code u)) \<and>
    snd (sqlite_invite_consume us False tbl code u) = tbl"
    using no_hit by (auto simp: sqlite_invite_consume_def Let_def filter_empty_conv intro!: map_idI)
  ultimately show ?thesis by blast
qed

definition demo_used_space :: key_space where
  "demo_used_space = [invite_key ''c'' \<mapsto> (VHash [(''used_by'', ''1'')], None)]"

definition demo_used_table :: invite_table where
  "demo_used_table = [\<lparr>li_code = ''c'', li_created_by = None, li_created_at = [], li_expires_at = None,
     li_used_by = Some ''1''\<rparr>]"

theorem redis_used_invite_consumed_again_witness:
  "fst (redis_invite_consume redis_server nat_str demo_used_space 0 ''c'' 2) = Inr () \<and>
   snd (sqlite_invite_consume nat_str False demo_used_table ''c'' 2) = demo_used_table"
proof -
  have a: "redis_invite_verify_detail redis_server demo_used_space 0 ''c'' = Inr Used"
    by (simp add: redis_invite_verify_detail_def verify_invite_code_def query_server demo_used_space_def
        live_def hash_of_def)
  have b: "set_of (live demo_used_space 0 invites_set) \<noteq> None"
    by (simp add: demo_used_space_def live_def set_of_def)
  have c: "distinct (map li_code demo_used_table)"
    "sqlite_invite_verify_detail nat_str False demo_used_table 0 ''c'' = Inr Used"
    by (simp_all add: demo_used_table_def sqlite_invite_verify_detail_def)
  from redis_used_invite_consumed_again [of redis_server "\<lambda>s. s" demo_used_space 0 "''c''"
      demo_used_table nat_str nat_str 2, OF redis_server_up a b c]
  show ?thesis by blast
qed

end
