(* ===== verification/Storage_Props.thy ===== *)
theory Storage_Props
  imports Storage Prelude
begin

text \<open>
  What the storage layer guarantees: the local backend is an object store (a locale, interpreted
  on the code's operations), a git backend talks only to its provider's hosts, and the router
  finds the backend of a configuration again.
\<close>

section \<open>The object-store contract\<close>

datatype store_op = StorePut string string | StoreDel string

text \<open>What the operations on one key leave there.\<close>

fun last_write :: "string \<Rightarrow> string option \<Rightarrow> store_op list \<Rightarrow> string option" where
  "last_write k v [] = v"
| "last_write k v (StorePut k' d # ops) = last_write k (if k' = k then Some d else v) ops"
| "last_write k v (StoreDel k' # ops) = last_write k (if k' = k then None else v) ops"

fun op_key :: "store_op \<Rightarrow> string" where
  "op_key (StorePut k d) = k"
| "op_key (StoreDel k) = k"

locale object_store =
  fixes put :: "'s \<Rightarrow> string \<Rightarrow> string \<Rightarrow> 's"
    and del :: "'s \<Rightarrow> string \<Rightarrow> 's"
    and lookup :: "'s \<Rightarrow> string \<Rightarrow> string option"
    and valid :: "string \<Rightarrow> bool"
  assumes lookup_put: "valid k \<Longrightarrow> valid k' \<Longrightarrow>
      lookup (put s k v) k' = (if k' = k then Some v else lookup s k')"
    and lookup_del: "valid k \<Longrightarrow> valid k' \<Longrightarrow>
      lookup (del s k) k' = (if k' = k then None else lookup s k')"
begin

definition apply_op :: "'s \<Rightarrow> store_op \<Rightarrow> 's" where
  "apply_op s x = (case x of StorePut k d \<Rightarrow> put s k d | StoreDel k \<Rightarrow> del s k)"

lemma lookup_run:
  "valid k \<Longrightarrow> (\<forall>x \<in> set ops. valid (op_key x)) \<Longrightarrow>
   lookup (foldl apply_op s ops) k = last_write k (lookup s k) ops"
proof (induction ops arbitrary: s)
  case Nil
  then show ?case by simp
next
  case (Cons x xs)
  then show ?case by (cases x) (auto simp: apply_op_def lookup_put lookup_del)
qed

end

text \<open>Keys the code builds are relative paths.\<close>

definition relative_key :: "string \<Rightarrow> bool" where
  "relative_key k \<longleftrightarrow> \<not> starts_with k ''/''"

lemma full_path_inj:
  "relative_key k \<Longrightarrow> relative_key k' \<Longrightarrow> full_path ls k = full_path ls k' \<longleftrightarrow> k = k'"
  by (auto simp: full_path_def path_join_def relative_key_def)

definition local_put_file :: "local_storage \<Rightarrow> files \<Rightarrow> string \<Rightarrow> string \<Rightarrow> files" where
  "local_put_file ls fs k d = snd (local_put False ls fs k d)"

definition local_del_file :: "local_storage \<Rightarrow> files \<Rightarrow> string \<Rightarrow> files" where
  "local_del_file ls fs k = snd (local_delete False ls fs k)"

definition local_lookup :: "local_storage \<Rightarrow> files \<Rightarrow> string \<Rightarrow> string option" where
  "local_lookup ls fs k = (case local_get False ls fs k of Inl _ \<Rightarrow> None | Inr d \<Rightarrow> Some d)"

lemma local_lookup_alt: "local_lookup ls fs k = fs (full_path ls k)"
  by (simp add: local_lookup_def local_get_def ok_or_def split: option.splits)

interpretation lcl: object_store "local_put_file ls" "local_del_file ls" "local_lookup ls" relative_key
  for ls
  by unfold_locales
    (auto simp: local_lookup_alt local_put_file_def local_del_file_def local_put_def local_delete_def
      full_path_inj)



section \<open>Requests of a git backend\<close>

text \<open>A client that also records what is sent.\<close>

definition recording :: "'h http_client \<Rightarrow> ('h \<times> http_request list) http_client" where
  "recording http st q = (let (r, h) = http (fst st) q in (r, h, snd st @ [q]))"

definition sent :: "'a \<times> 'h \<times> http_request list \<Rightarrow> http_request list" where
  "sent r = snd (snd r)"

definition to_provider :: "git_storage \<Rightarrow> http_request \<Rightarrow> bool" where
  "to_provider gs q \<longleftrightarrow>
     hq_authorization q = ''Bearer '' @ gs_token gs \<and>
     (starts_with (hq_url q) (gs_api_base_url gs @ ''/repos/'' @ gs_owner gs @ ''/'' @ gs_repo gs @ ''/contents/'') \<or>
      starts_with (hq_url q) (''https://'' @ gs_raw_base_url gs @ ''/'' @ gs_owner gs @ ''/'' @ gs_repo gs @ ''/''))"

lemma contents_url_prefix [simp]:
  "starts_with (contents_url gs p) (gs_api_base_url gs @ ''/repos/'' @ gs_owner gs @ ''/'' @ gs_repo gs @ ''/contents/'')"
  by (auto simp: starts_with_iff contents_url_def)

lemma raw_url_prefix [simp]:
  "starts_with (raw_url gs p) (''https://'' @ gs_raw_base_url gs @ ''/'' @ gs_owner gs @ ''/'' @ gs_repo gs @ ''/'')"
  by (auto simp: starts_with_iff raw_url_def)

lemma recording_split: "recording http (h, qs) q = (fst (http h q), snd (http h q), qs @ [q])"
  by (simp add: recording_def split_beta)

lemma sent_git_put:
  "sent (git_put (recording http) b64 ymd gs now (h, []) key data ct) =
   (if gs_provider gs = GitCode \<and> gitcode_max_contents_bytes < length data then []
    else [\<lparr>hq_method = (case gs_provider gs of GitHub \<Rightarrow> ''PUT'' | GitCode \<Rightarrow> ''POST''),
           hq_url = contents_url gs (build_path ymd gs now key (mime_to_ext ct)),
           hq_authorization = ''Bearer '' @ gs_token gs, hq_query = [],
           hq_body = Some (build_contents_body b64 gs key data)\<rparr>])"
  by (auto simp: sent_def git_put_def check_gitcode_size_limit_def send_contents_request_def Let_def
      recording_split ok_or_def split: option.splits)

lemma sent_git_get:
  "\<forall>q \<in> set (sent (git_get (recording http) gs (h, []) key)). to_provider gs q"
  by (auto simp: sent_def git_get_def recording_split to_provider_def simp del: append.simps append_assoc
      split: option.splits)

lemma sent_git_delete:
  "\<forall>q \<in> set (sent (git_delete (recording http) gs (h, []) key)). to_provider gs q \<and>
     (hq_method q = ''DELETE'' \<longrightarrow>
        (\<exists>sha. hq_body q = Some (JObj [(''message'', JStr (''Delete '' @ key)), (''sha'', JStr sha),
           (''branch'', JStr (gs_branch gs))])))"
  by (auto simp: sent_def git_delete_def recording_split to_provider_def Let_def
      simp del: append.simps append_assoc split: option.splits)



section \<open>The router\<close>

text \<open>
  The router finds the backend of a configuration again: once \<open>for_config\<close> has
  resolved a git configuration, images stored under its id are routed to that very backend, a
  second resolution returns it without decrypting anything, no other name is affected; and after
  an eviction, or in a process that has not resolved it, the id falls back to the default backend.
\<close>

theorem router_resolves_config:
  assumes "for_config cl us ro config key = Some (Inr b, ro')" and "sc_provider config \<noteq> ''local''"
  shows "for_backend ro' (us (sc_id config)) = Some b \<and>
    for_config cl us ro' config key' = Some (Inr b, ro') \<and>
    (\<forall>n. n \<noteq> us (sc_id config) \<longrightarrow> router_get ro' n = router_get ro n) \<and>
    for_backend (router_evict ro' (us (sc_id config))) (us (sc_id config)) =
      default_backend (router_evict ro' (us (sc_id config)))"
proof -
  have m: "map_of (ro_backends ro') (us (sc_id config)) = Some b"
    using assms
    by (auto simp: for_config_def get_or_create_git_def Let_def update_conv'
        split: option.splits if_splits sum.splits prod.splits)
  have o: "router_get ro' n = router_get ro n" if "n \<noteq> us (sc_id config)" for n
    using assms that
    by (auto simp: for_config_def get_or_create_git_def Let_def update_conv' router_get_def
        split: option.splits if_splits sum.splits prod.splits)
  have e: "map_of (ro_backends (router_evict ro' (us (sc_id config)))) (us (sc_id config)) = None"
    by (simp add: router_evict_def delete_conv')
  show ?thesis
    using m o e assms(2) by (simp add: for_backend_def for_config_def)
qed

definition demo_git_config :: config_row where
  "demo_git_config = \<lparr>sc_id = 5, sc_user_id = 7, sc_name = ''g'', sc_provider = ''github'',
     sc_is_default = False,
     sc_config = JObj [(''token_encrypted'', JStr (demo_nonce @ ''ghp'' @ demo_tag)), (''repo'', JStr ''o/r''),
                       (''branch'', JStr ''main'')],
     sc_created_at = 0, sc_updated_at = 0\<rparr>"

theorem router_resolves_config_witness:
  "\<exists>b ro'. for_config demo_crypto nat_str \<lparr>ro_backends = [], ro_default = ''local''\<rparr> demo_git_config demo_key =
     Some (Inr b, ro') \<and> for_backend ro' (nat_str 5) = Some b"
proof -
  have "decrypt_token demo_crypto (demo_nonce @ ''ghp'' @ demo_tag) demo_key = Inr ''ghp''"
    by (simp add: decrypt_token_def demo_crypto_def nonce_size_def)
  then obtain b ro' where f: "for_config demo_crypto nat_str \<lparr>ro_backends = [], ro_default = ''local''\<rparr>
      demo_git_config demo_key = Some (Inr b, ro')"
    by (simp add: for_config_def get_or_create_git_def demo_git_config_def git_config_of_json_def Let_def)
  from router_resolves_config [OF f] f show ?thesis by (auto simp: demo_git_config_def)
qed

end
