(* ===== verification/Upload_Props.thy ===== *)
theory Upload_Props
  imports Upload Storage_Props
begin

text \<open>
  What an upload guarantees: it adds at most one row, within the quota, for the user who sent it;
  the same content sent again is answered from the row that exists; and a request for two
  backends cannot succeed with new content.
\<close>

section \<open>Public keys\<close>

lemma length_pad_hex [simp]: "length (pad_hex w n) = w"
  by (induction w arbitrary: n) auto

lemma hex_char_inj: "m < 16 \<Longrightarrow> n < 16 \<Longrightarrow> hex_char m = hex_char n \<Longrightarrow> m = n"
proof -
  have v: "(of_char (hex_char k) :: nat) = (if k < 10 then 48 + k else 87 + k)" if "k < 16" for k
    using that by (simp add: hex_char_def)
  assume "m < 16" "n < 16" "hex_char m = hex_char n"
  then have "(if m < 10 then 48 + m else 87 + m) = (if n < 10 then 48 + n else 87 + n)"
    by (metis v)
  with \<open>m < 16\<close> \<open>n < 16\<close> show ?thesis by (auto split: if_splits)
qed

lemma pad_hex_inj: "m < 16 ^ w \<Longrightarrow> n < 16 ^ w \<Longrightarrow> pad_hex w m = pad_hex w n \<Longrightarrow> m = n"
proof (induction w arbitrary: m n)
  case 0
  then show ?case by simp
next
  case (Suc w)
  then have "pad_hex w (m div 16) = pad_hex w (n div 16)" and "m mod 16 = n mod 16"
    using hex_char_inj [of "m mod 16" "n mod 16"] by auto
  moreover have "m div 16 < 16 ^ w" "n div 16 < 16 ^ w"
    using Suc.prems(1,2) by (simp_all add: div_less_iff_less_mult mult.commute)
  ultimately have "m div 16 = n div 16" using Suc.IH by blast
  with \<open>m mod 16 = n mod 16\<close> show ?case by (metis div_mult_mod_eq)
qed

lemma public_key_inj: "m < 2 ^ 24 \<Longrightarrow> n < 2 ^ 24 \<Longrightarrow> public_key_of m = public_key_of n \<Longrightarrow> m = n"
  using pad_hex_inj [of m 6 n] by (simp add: public_key_of_def)

lemma generate_public_key_fresh:
  "generate_public_key g loc fails d ns = Some (Inr k) \<Longrightarrow>
   k \<notin> set (map im_public_key (t_images d)) \<and> length k = 6 \<and> (\<exists>n \<in> set ns. k = public_key_of n)"
  by (induction ns) (auto simp: Let_def public_key_of_def split: if_splits)

lemma generate_public_key_returns:
  "\<exists>n \<in> set ns. public_key_of n \<notin> set (map im_public_key (t_images d)) \<Longrightarrow>
   \<exists>k. generate_public_key g loc no_faults d ns = Some (Inr k)"
  by (induction ns) (auto simp: Let_def)

text \<open>More distinct numbers than images always contain a free key.\<close>

lemma some_key_free:
  assumes "distinct ns" "\<forall>n \<in> set ns. n < 2 ^ 24" "length (t_images d) < length ns"
  shows "\<exists>n \<in> set ns. public_key_of n \<notin> set (map im_public_key (t_images d))"
proof (rule ccontr)
  assume "\<not> ?thesis"
  then have "public_key_of ` set ns \<subseteq> set (map im_public_key (t_images d))" by blast
  then have "card (public_key_of ` set ns) \<le> card (set (map im_public_key (t_images d)))"
    by (rule card_mono [OF finite_set])
  also have "\<dots> \<le> length (t_images d)" by (metis card_length length_map)
  finally have "card (public_key_of ` set ns) \<le> length (t_images d)" .
  moreover have "inj_on public_key_of (set ns)"
    using assms(2) public_key_inj by (meson inj_onI)
  ultimately show False using assms(1,3) by (simp add: card_image distinct_card)
qed

text \<open>
  The search for a public key ends and its result is free: with more distinct random
  numbers than there are images the loop returns, and what it returns is a six-character key
  that no image has.
\<close>

theorem public_key_found:
  assumes "distinct ns" "\<forall>n \<in> set ns. n < 2 ^ 24" "length (t_images d) < length ns"
  shows "\<exists>k. generate_public_key g loc no_faults d ns = Some (Inr k) \<and> length k = 6 \<and>
    k \<notin> set (map im_public_key (t_images d))"
  using generate_public_key_returns [OF some_key_free [OF assms]] generate_public_key_fresh by blast

theorem public_key_found_witness:
  "\<exists>k. generate_public_key (i18n_from_maps 0 En (\<lambda>_. None)) En no_faults empty_db [255] = Some (Inr k) \<and>
     length k = 6"
  using public_key_found [of "[255]" empty_db "i18n_from_maps 0 En (\<lambda>_. None)" En]
  by (auto simp: empty_db_def)

section \<open>One backend\<close>

text \<open>\<open>d'\<close> is \<open>d\<close> with one more image of this user, content, size and configuration.\<close>

definition adds_image :: "database_mode \<Rightarrow> db \<Rightarrow> db \<Rightarrow> image_row \<Rightarrow> uuid \<Rightarrow> string \<Rightarrow> int \<Rightarrow> uuid option \<Rightarrow> bool" where
  "adds_image mode d d' row user sha fsize cid \<longleftrightarrow>
     d' = d\<lparr>t_images := t_images d @ [row]\<rparr> \<and> images_accept mode d row \<and> im_user_id row = user \<and>
     im_sha256 row = sha \<and> im_file_size row = fsize \<and> im_storage_config_id row = cid \<and>
     im_category_id row = None"

lemma insert_image_cases:
  assumes "insert_image_record mode g loc fail now iid user key name skey sb mime fsize w h sha url cid d = (r, d')"
  shows "(\<exists>e. r = Inl e \<and> d' = d) \<or>
    (\<exists>row. r = Inr iid \<and> im_id row = iid \<and> adds_image mode d d' row user sha fsize cid)"
proof (cases r)
  case (Inl e)
  with assms show ?thesis by (simp add: insert_image_record_def Let_def split: if_splits)
next
  case (Inr i)
  let ?row = "new_image_row now iid user key name skey sb mime fsize w h sha url cid"
  from Inr assms have "i = iid" "adds_image mode d d' ?row user sha fsize cid"
    by (auto simp: insert_image_record_def Let_def adds_image_def split: if_splits)
  with Inr have "r = Inr iid \<and> im_id ?row = iid \<and> adds_image mode d d' ?row user sha fsize cid" by simp
  then show ?thesis by blast
qed

lemma persist_cases:
  assumes "persist_image_for_config env cfg g loc fails now dr user config key name bytes mime w h sha app =
    Some (r, app')"
  shows "(\<exists>e. r = Inl e \<and> ap_db app' = ap_db app) \<or>
    (\<exists>row x. r = Inr (im_id row, x) \<and> im_id row = ud_image_id dr \<and>
      adds_image (dc_mode (cf_database cfg)) (ap_db app) (ap_db app') row (au_id user) sha (as_i64 (int (length bytes))) (config_id_of config))"
proof -
  obtain fc ro where fc: "for_config (se_crypto (ue_storage env)) (ue_uuid_str env) (ap_router app) config key = Some (fc, ro)"
    using assms by (auto simp: persist_image_for_config_def split: option.splits)
  show ?thesis
  proof (cases fc)
    case (Inl e)
    with assms fc show ?thesis by (auto simp: persist_image_for_config_def)
  next
    case (Inr b)
    obtain pk where pk: "generate_public_key g loc (\<lambda>n. fails (4 + n)) (ap_db app) (ud_numbers dr) = Some pk"
      using assms fc Inr by (auto simp: persist_image_for_config_def Let_def split: option.splits)
    show ?thesis
    proof (cases pk)
      case Inl
      with assms fc \<open>fc = Inr b\<close> pk show ?thesis by (auto simp: persist_image_for_config_def Let_def)
    next
      case (Inr k)
      obtain wr wd where wr: "write_to_storage (ue_storage env) (ue_uuid_str env) g loc (fails 2) now
          (ap_world app) b (sv_public_url (cf_server cfg)) (au_id user) k bytes mime = (wr, wd)"
        by fastforce
      show ?thesis
      proof (cases wr)
        case Inl
        with assms fc \<open>fc = Inr b\<close> pk \<open>pk = Inr k\<close> wr show ?thesis
          by (auto simp: persist_image_for_config_def Let_def)
      next
        case (Inr t)
        obtain sk url bn where t: "t = (sk, url, bn)" by (cases t)
        obtain ir d where ins: "insert_image_record (dc_mode (cf_database cfg)) g loc (fails 3) now (ud_image_id dr) (au_id user) k name sk
            (if sc_provider config = ''local'' then ''local'' else ue_uuid_str env (sc_id config)) mime
            (as_i64 (int (length bytes))) w h sha url (config_id_of config) (ap_db app) = (ir, d)"
          by fastforce
        have "r = (case ir of Inl e \<Rightarrow> Inl e | Inr i \<Rightarrow> Inr (i, sk, bn, k, url))" "ap_db app' = d"
          using assms fc \<open>fc = Inr b\<close> pk \<open>pk = Inr k\<close> wr Inr t ins
          by (auto simp: persist_image_for_config_def Let_def split: sum.splits)
        with insert_image_cases [OF ins] show ?thesis by auto
      qed
    qed
  qed
qed

lemma try_dedup_cases:
  assumes "try_dedup g loc fails d user sha cid = Inr r"
  shows "(r = None \<and> \<not> (\<exists>i \<in> set (t_images d). is_duplicate user sha cid i)) \<or>
    (\<exists>i \<in> set (t_images d). is_duplicate user sha cid i \<and> r = Some (result_from_row (join_config d i)))"
  using assms
  by (auto simp: try_dedup_def dedup_exists_def fetch_dedup_row_def rbind_eq_Inr list_ex_iff
      split: if_splits option.splits dest: find_SomeD)

text \<open>The three outcomes: an error, an existing image, a new one.\<close>

lemma upload_single_cases:
  assumes "upload_to_single_backend env cfg g loc fails now dr user config key bytes name sha mime w h app =
    Some (r, app')"
  shows "(\<exists>e. r = Inl e \<and> ap_db app' = ap_db app) \<or>
    (\<exists>i \<in> set (t_images (ap_db app)). is_duplicate (au_id user) sha (config_id_of config) i \<and>
        r = Inr (result_from_row (join_config (ap_db app) i)) \<and> app' = app) \<or>
    (\<exists>row x. r = Inr x \<and> ur_id x = im_id row \<and> im_id row = ud_image_id dr \<and>
      adds_image (dc_mode (cf_database cfg)) (ap_db app) (ap_db app') row (au_id user) sha (as_i64 (int (length bytes))) (config_id_of config))"
proof -
  obtain td where td: "try_dedup g loc fails (ap_db app) (au_id user) sha (config_id_of config) = td" by blast
  show ?thesis
  proof (cases td)
    case (Inl e)
    with assms td show ?thesis by (auto simp: upload_to_single_backend_def)
  next
    case (Inr ex)
    note cs = try_dedup_cases [OF td [unfolded Inr]]
    show ?thesis
    proof (cases ex)
      case (Some x)
      with cs assms td Inr show ?thesis by (auto simp: upload_to_single_backend_def)
    next
      case None
      then obtain pr app1 where p: "persist_image_for_config env cfg g loc fails now dr user config key name bytes
          mime w h sha app = Some (pr, app1)"
        using assms td Inr by (auto simp: upload_to_single_backend_def split: option.splits)
      show ?thesis
      proof (cases pr)
        case (Inl e)
        with assms td \<open>td = Inr ex\<close> None p persist_cases [OF p] show ?thesis
          by (auto simp: upload_to_single_backend_def)
      next
        case (Inr t)
        obtain iid sk bn k url where t: "t = (iid, sk, bn, k, url)" by (cases t)
        have "\<exists>x. r = Inr x \<and> ur_id x = iid" "ap_db app' = ap_db app1"
          using assms td \<open>td = Inr ex\<close> None p Inr t
          by (auto simp: upload_to_single_backend_def build_result_def Let_def)
        with persist_cases [OF p] Inr t show ?thesis by auto
      qed
    qed
  qed
qed

text \<open>A second image of the same user and content is never accepted.\<close>

lemma no_second_image:
  assumes "im_user_id row = u" "im_sha256 row = s" "row \<in> set (t_images d)"
  shows "\<not> adds_image mode d d' row2 u s fsize cid"
proof
  assume "adds_image mode d d' row2 u s fsize cid"
  then have "(u, s) \<notin> (\<lambda>i. (im_user_id i, im_sha256 i)) ` set (t_images d)"
    by (auto simp: adds_image_def images_accept_def)
  with assms show False by force
qed

section \<open>Several backends\<close>

lemma run_uploads_one:
  assumes "length configs = 1"
    and "run_backend_uploads env cfg g loc fails swap now drs user configs key bytes name sha mime w h app = Some (r, app')"
  obtains r1 where "upload_to_single_backend env cfg g loc (fails 0) now (drs 0) user (configs ! 0) key bytes name
      sha mime w h app = Some (r1, app')" "r = rbind r1 (\<lambda>x. Inr [x])"
  using assms by (auto simp: run_backend_uploads_def Let_def split: option.splits)

lemma run_uploads_two:
  assumes "length configs \<noteq> 1"
    and "run_backend_uploads env cfg g loc fails swap now drs user configs key bytes name sha mime w h app = Some (r, app')"
  obtains k1 k2 ra rb app1 where "{k1, k2} = {0, 1 :: nat}" "k1 \<noteq> k2"
    "upload_to_single_backend env cfg g loc (fails k1) now (drs k1) user (configs ! k1) key bytes name
      sha mime w h app = Some (ra, app1)"
    "upload_to_single_backend env cfg g loc (fails k2) now (drs k2) user (configs ! k2) key bytes name
      sha mime w h app1 = Some (rb, app')"
    "is_ok r \<longrightarrow> is_ok ra \<and> is_ok rb"
proof -
  define k1 k2 :: nat where "k1 = (if swap then 1 else 0)" and "k2 = (if swap then 0 else 1)"
  obtain ra app1 where a: "upload_to_single_backend env cfg g loc (fails k1) now (drs k1) user (configs ! k1) key
      bytes name sha mime w h app = Some (ra, app1)"
    using assms by (auto simp: run_backend_uploads_def Let_def k1_def split: option.splits if_splits)
  obtain rb app2 where b: "upload_to_single_backend env cfg g loc (fails k2) now (drs k2) user (configs ! k2) key
      bytes name sha mime w h app1 = Some (rb, app2)"
    using assms a by (auto simp: run_backend_uploads_def Let_def k1_def k2_def split: option.splits if_splits)
  have "app' = app2" "is_ok r \<longrightarrow> is_ok ra \<and> is_ok rb"
    using assms a b
    by (auto simp: run_backend_uploads_def Let_def k1_def k2_def is_ok_def rbind_eq_Inr
        split: if_splits sum.splits)
  then show ?thesis
    using that [of k1 k2, OF _ _ a] b by (auto simp: k1_def k2_def split: if_splits)
qed

text \<open>However many backends, at most one row is added.\<close>

lemma run_uploads_rows:
  assumes "run_backend_uploads env cfg g loc fails swap now drs user configs key bytes name sha mime w h app = Some (r, app')"
  shows "ap_db app' = ap_db app \<or>
    (\<exists>row cid. adds_image (dc_mode (cf_database cfg)) (ap_db app) (ap_db app') row (au_id user) sha (as_i64 (int (length bytes))) cid)"
proof (cases "length configs = 1")
  case True
  from run_uploads_one [OF this assms] show ?thesis
    by (metis upload_single_cases)
next
  case False
  show ?thesis
  proof (rule run_uploads_two [OF False assms])
    fix k1 k2 ra rb app1
    assume a: "upload_to_single_backend env cfg g loc (fails k1) now (drs k1) user (configs ! k1) key bytes name
      sha mime w h app = Some (ra, app1)"
      and b: "upload_to_single_backend env cfg g loc (fails k2) now (drs k2) user (configs ! k2) key bytes name
      sha mime w h app1 = Some (rb, app')"
    have one: "ap_db app1 = ap_db app \<or> (\<exists>row cid. adds_image (dc_mode (cf_database cfg)) (ap_db app) (ap_db app1) row (au_id user) sha
        (as_i64 (int (length bytes))) cid)"
      using upload_single_cases [OF a] by blast
    have two: "ap_db app' = ap_db app1 \<or> (\<exists>row cid. adds_image (dc_mode (cf_database cfg)) (ap_db app1) (ap_db app') row (au_id user) sha
        (as_i64 (int (length bytes))) cid)"
      using upload_single_cases [OF b] by blast
    show ?thesis
    proof (cases "ap_db app1 = ap_db app")
      case True
      with two show ?thesis by simp
    next
      case False
      with one obtain row cid where r: "adds_image (dc_mode (cf_database cfg)) (ap_db app) (ap_db app1) row (au_id user) sha
        (as_i64 (int (length bytes))) cid" by blast
      then have "row \<in> set (t_images (ap_db app1))" "im_user_id row = au_id user" "im_sha256 row = sha"
        by (auto simp: adds_image_def)
      then have "ap_db app' = ap_db app1" using two no_second_image by metis
      with r show ?thesis by auto
    qed
  qed
qed

lemma process_upload_cases:
  assumes "process_upload env cfg g loc fails bfails swap now drs user bytes name ids app = Some (r, app')"
  shows "(\<exists>e. r = Inl e \<and> app' = app) \<or>
    (ue_is_image env bytes \<and>
     check_upload_quotas (cf_upload cfg) g loc (fails 0) (ap_db app) user (length bytes) = Inr () \<and>
     (\<exists>configs key w h. resolve_upload_configs g loc (fails 1) now (ap_db app) (au_id user) ids = Inr configs \<and>
        validate_upload_configs g loc configs = Inr () \<and>
        run_backend_uploads env cfg g loc bfails swap now drs user configs key bytes name
          (ue_sha256 env bytes) (detect_mime env bytes) w h app = Some (r, app')))"
  using assms unfolding process_upload_def
  by (auto simp: Let_def split: if_splits sum.splits prod.splits)

lemma usage_append:
  "usage_of (d\<lparr>t_images := t_images d @ [row]\<rparr>) u =
   usage_of d u + (if im_user_id row = u then im_file_size row else 0)"
  by (simp add: usage_of_def)

lemma quota_checked:
  assumes "check_upload_quotas cfg g loc fail d user n = Inr ()" and "au_storage_quota user = Some q"
    and "0 \<le> usage_of d (au_id user)" and "usage_of d (au_id user) + int n < 2 ^ 63"
  shows "usage_of d (au_id user) + int n \<le> q"
proof -
  have "int n < 2 ^ 63" using assms(3,4) by linarith
  then have "as_i64 (int n) = int n" by simp
  moreover have "as_i64 (usage_of d (au_id user) + int n) = usage_of d (au_id user) + int n"
    using assms(3,4) by simp
  ultimately show ?thesis
    using assms(1,2) by (auto simp: check_upload_quotas_def Let_def split: if_splits)
qed

text \<open>
  Property C2. An upload stays within the quota: whatever the number of backends, the order they
  run in and the failures on the way, it adds at most one image, which belongs to the uploader;
  every image that was there stays; and a user who has a quota and was below it is not above it
  afterwards.
\<close>

theorem upload_within_quota:
  assumes "process_upload env cfg g loc fails bfails swap now drs user bytes name ids app = Some (r, app')"
    and "au_storage_quota user = Some q" and "0 \<le> usage_of (ap_db app) (au_id user)"
    and "usage_of (ap_db app) (au_id user) \<le> q" and "usage_of (ap_db app) (au_id user) + int (length bytes) < 2 ^ 63"
  shows "usage_of (ap_db app') (au_id user) \<le> q \<and>
    (\<exists>new. t_images (ap_db app') = t_images (ap_db app) @ new \<and> length new \<le> 1 \<and>
       (\<forall>i \<in> set new. im_user_id i = au_id user \<and> im_file_size i = int (length bytes))) \<and>
    (\<forall>u. u \<noteq> au_id user \<longrightarrow> usage_of (ap_db app') u = usage_of (ap_db app) u)"
proof -
  have len: "as_i64 (int (length bytes)) = int (length bytes)" using assms(3,5) by simp
  have "(\<exists>e. r = Inl e \<and> app' = app) \<or> (usage_of (ap_db app) (au_id user) + int (length bytes) \<le> q \<and>
      (ap_db app' = ap_db app \<or> (\<exists>row cid. adds_image (dc_mode (cf_database cfg)) (ap_db app) (ap_db app') row (au_id user)
         (ue_sha256 env bytes) (as_i64 (int (length bytes))) cid)))"
    using process_upload_cases [OF assms(1)] quota_checked [OF _ assms(2,3,5)] run_uploads_rows by metis
  then consider "ap_db app' = ap_db app"
    | row cid where "usage_of (ap_db app) (au_id user) + int (length bytes) \<le> q"
        "adds_image (dc_mode (cf_database cfg)) (ap_db app) (ap_db app') row (au_id user) (ue_sha256 env bytes) (int (length bytes)) cid"
    unfolding len by blast
  then show ?thesis
  proof cases
    case 1
    then show ?thesis using assms(4) by auto
  next
    case 2
    then have a: "ap_db app' = (ap_db app)\<lparr>t_images := t_images (ap_db app) @ [row]\<rparr>"
      "im_user_id row = au_id user" "im_file_size row = int (length bytes)"
      by (auto simp: adds_image_def)
    with 2(1) show ?thesis unfolding a(1) usage_append by simp
  qed
qed

section \<open>A concrete server\<close>

definition demo_storage_env :: "(unit, unit) storage_env" where
  "demo_storage_env =
     \<lparr>se_http = (\<lambda>h q. (None, h)),
      se_s3 = \<lparr>s3_put = (\<lambda>s b k c d. (Inl S3NotFound, s)), s3_get = (\<lambda>s b k. Inl S3NotFound),
               s3_delete = (\<lambda>s b k. (Inl S3NotFound, s)), s3_head = (\<lambda>s b k. Inl S3NotFound)\<rparr>,
      se_ymd = (\<lambda>_. ''2025/01/01''), se_crypto = demo_crypto\<rparr>"

definition demo_queue :: "task_payload list queue_ops" where
  "demo_queue = \<lparr>qo_enqueue = (\<lambda>q t p. (Inr (), q @ [p])), qo_dequeue = (\<lambda>q t. (Inr None, q)),
     qo_ack = (\<lambda>q t i. (Inr (), q)), qo_nack = (\<lambda>q t i r m. (Inr DeadLetter, q))\<rparr>"

definition demo_upload_env :: "(task_payload list, unit, unit) upload_env" where
  "demo_upload_env =
     \<lparr>ue_is_image = (\<lambda>b. b \<noteq> []), ue_mime = (\<lambda>b. Some ''image/png''), ue_dimensions = (\<lambda>b. Some (2, 3)),
      ue_sha256 = id, ue_uuid_str = nat_str, ue_storage = demo_storage_env, ue_queue = demo_queue\<rparr>"

lemma demo_upload_sel [simp]:
  "ue_is_image demo_upload_env b = (b \<noteq> [])" "ue_mime demo_upload_env b = Some ''image/png''"
  "ue_dimensions demo_upload_env b = Some (2, 3)" "ue_sha256 demo_upload_env = id"
  "ue_uuid_str demo_upload_env = nat_str" "ue_storage demo_upload_env = demo_storage_env"
  "ue_queue demo_upload_env = demo_queue" "se_crypto demo_storage_env = demo_crypto"
  by (simp_all add: demo_upload_env_def demo_storage_env_def)

definition demo_router :: router where
  "demo_router = \<lparr>ro_backends = [(''local'', LocalB \<lparr>ls_base_path = ''/d'', ls_base_url = ''u''\<rparr>)],
     ro_default = ''local''\<rparr>"

definition local_config :: "uuid \<Rightarrow> string \<Rightarrow> config_row" where
  "local_config i n = \<lparr>sc_id = i, sc_user_id = 7, sc_name = n, sc_provider = ''local'', sc_is_default = False,
     sc_config = JObj [], sc_created_at = i, sc_updated_at = i\<rparr>"

lemma local_config_sel [simp]:
  "sc_id (local_config i n) = i" "sc_user_id (local_config i n) = 7" "sc_provider (local_config i n) = ''local''"
  "sc_is_default (local_config i n) = False" "sc_name (local_config i n) = n" "sc_created_at (local_config i n) = i"
  by (simp_all add: local_config_def)

definition demo_owner :: user_row where
  "demo_owner = \<lparr>u_id = 7, u_username = ''bob'', u_email = None, u_password_hash = [],
     u_storage_backend = ''local'', u_storage_prefix = [], u_storage_quota = Some 100,
     u_is_admin = False, u_created_at = 0, u_updated_at = 0, u_watermark = None\<rparr>"

text \<open>The defaults in lite mode.\<close>

definition lite_config :: app_config where
  "lite_config = default_app_config\<lparr>cf_database :=
     \<lparr>dc_mode = SqliteMode, dc_url = ''sqlite:pichost.db'', dc_max_connections = 10\<rparr>\<rparr>"

lemma lite_config_mode [simp]: "dc_mode (cf_database lite_config) = SqliteMode"
  by (simp add: lite_config_def)

definition demo_app :: "image_row list \<Rightarrow> (task_payload list, unit, unit) app" where
  "demo_app ims = \<lparr>ap_db = empty_db\<lparr>t_users := [demo_owner], t_images := ims,
       t_configs := [local_config 3 ''one'', local_config 4 ''two'']\<rparr>,
     ap_queue = [], ap_router = demo_router, ap_world = \<lparr>wd_files = (\<lambda>_. None), wd_http = (), wd_s3 = ()\<rparr>\<rparr>"

lemma demo_app_sel [simp]:
  "t_users (ap_db (demo_app ims)) = [demo_owner]" "t_images (ap_db (demo_app ims)) = ims" "u_id demo_owner = 7"
  "t_configs (ap_db (demo_app ims)) = [local_config 3 ''one'', local_config 4 ''two'']"
  "ap_router (demo_app ims) = demo_router"
  by (simp_all add: demo_app_def demo_owner_def)

definition demo_uploader :: auth_user where
  "demo_uploader = \<lparr>au_id = 7, au_is_admin = False, au_storage_quota = Some 100, au_watermark = None\<rparr>"

lemma demo_uploader_sel [simp]:
  "au_id demo_uploader = 7" "au_storage_quota demo_uploader = Some 100" "au_is_admin demo_uploader = False"
  by (simp_all add: demo_uploader_def)

lemma demo_for_config:
  "sc_provider c = ''local'' \<Longrightarrow> for_config cl us demo_router c key =
     Some (Inr (LocalB \<lparr>ls_base_path = ''/d'', ls_base_url = ''u''\<rparr>), demo_router)"
  by (simp add: for_config_def default_backend_def demo_router_def)

text \<open>An upload of new content to a local configuration succeeds.\<close>

lemma demo_single_upload:
  assumes "sc_provider c = ''local''" "ap_router app = demo_router" "\<not> (\<exists>i \<in> set (t_images (ap_db app)).
      im_user_id i = 7 \<and> im_sha256 i = sha)" "7 \<in> set (map u_id (t_users (ap_db app)))"
    "config_id_of c = None \<or> sc_id c \<in> set (map sc_id (t_configs (ap_db app)))"
    "public_key_of n \<notin> set (map im_public_key (t_images (ap_db app)))"
    "ud_image_id dr \<notin> set (map im_id (t_images (ap_db app)))" "ud_numbers dr = [n]"
    "dc_mode (cf_database cfg) = SqliteMode"
  shows "\<exists>x app'. upload_to_single_backend demo_upload_env cfg g loc no_faults now dr demo_uploader c key bytes name
    sha mime w h app = Some (Inr x, app') \<and> ap_router app' = demo_router"
proof -
  have nd: "\<not> list_ex (is_duplicate 7 sha (config_id_of c)) (t_images (ap_db app))"
    using assms(3) by (auto simp: list_ex_iff is_duplicate_def)
  have acc: "images_accept (dc_mode (cf_database cfg)) (ap_db app) (new_image_row now (ud_image_id dr) 7 (public_key_of n) name sk sb mime fz w h sha
      url (config_id_of c))" for sk sb fz url
    using assms by (auto simp: images_accept_def config_id_of_def)
  show ?thesis
    using assms nd acc
    by (auto simp: upload_to_single_backend_def try_dedup_def dedup_exists_def persist_image_for_config_def
        demo_for_config write_to_storage_def backend_put_def local_put_def insert_image_record_def Let_def)
qed

definition demo_updraws :: "nat \<Rightarrow> upload_draws" where
  "demo_updraws k = \<lparr>ud_numbers = [k + 1], ud_image_id = k + 50, ud_task_id = k + 60\<rparr>"

lemma demo_updraws_sel [simp]:
  "ud_numbers (demo_updraws k) = [k + 1]" "ud_image_id (demo_updraws k) = k + 50"
  by (simp_all add: demo_updraws_def)

lemma demo_encryption [simp]: "resolve_encryption_key cl g loc lite_config = Inr zero_key"
  by (simp add: resolve_encryption_key_def lite_config_def default_app_config_def)

lemma demo_limits [simp]: "up_max_file_size_user (cf_upload lite_config) = 10485760"
  by (simp add: lite_config_def default_app_config_def)

definition demo_locale :: i18n where "demo_locale = i18n_from_maps 0 En (\<lambda>_. None)"

lemma demo_process_upload:
  "\<exists>x app'. process_upload demo_upload_env lite_config demo_locale En no_faults (\<lambda>_. no_faults) False 0 demo_updraws
     demo_uploader ''png'' ''a.png'' None (demo_app []) = Some (Inr [x], app')"
proof -
  have rc: "resolve_upload_configs demo_locale En False 0 (ap_db (demo_app [])) 7 None =
      Inr [local_fallback_config 0 7]"
    by (simp add: resolve_upload_configs_def fetch_default_config_def)
  have "sc_provider (local_fallback_config 0 7) = ''local''" "config_id_of (local_fallback_config 0 7) = None"
    by (simp_all add: local_fallback_config_def config_id_of_def)
  then obtain x app' where "upload_to_single_backend demo_upload_env lite_config demo_locale En no_faults 0
      (demo_updraws 0) demo_uploader (local_fallback_config 0 7) zero_key ''png'' ''a.png'' ''png'' ''image/png''
      (Some 2) (Some 3) (demo_app []) = Some (Inr x, app')"
    using demo_single_upload [of "local_fallback_config 0 7" "demo_app []" "''png''" 1 "demo_updraws 0"
        lite_config demo_locale En 0 zero_key "''png''" "''a.png''" "''image/png''" "Some 2" "Some 3"]
    by auto
  with rc show ?thesis
    by (simp add: process_upload_def check_upload_quotas_def usage_of_def validate_upload_configs_def
        local_fallback_config_def image_dimensions_def detect_mime_def run_backend_uploads_def)
qed

theorem upload_within_quota_witness:
  "\<exists>x app'. process_upload demo_upload_env lite_config demo_locale En no_faults (\<lambda>_. no_faults) False 0 demo_updraws
     demo_uploader ''png'' ''a.png'' None (demo_app []) = Some (Inr [x], app') \<and> usage_of (ap_db app') 7 \<le> 100"
proof -
  obtain x app' where p: "process_upload demo_upload_env lite_config demo_locale En no_faults (\<lambda>_. no_faults)
     False 0 demo_updraws demo_uploader ''png'' ''a.png'' None (demo_app []) = Some (Inr [x], app')"
    using demo_process_upload by blast
  from upload_within_quota [OF p] p show ?thesis by (auto simp: usage_of_def)
qed

text \<open>
  A request for two backends never succeeds with new content: the unique index on
  (user, sha256) refuses the second row, so the request answers an error although the first
  image has been stored, written to its row and queued.
\<close>

theorem two_backends_never_both_new:
  assumes "run_backend_uploads env cfg g loc fails swap now drs user configs key bytes name sha mime w h app = Some (r, app')"
    and "length configs = 2" and "sc_id (configs ! 0) \<noteq> sc_id (configs ! 1)"
    and "\<not> (\<exists>i \<in> set (t_images (ap_db app)). im_user_id i = au_id user \<and> im_sha256 i = sha)"
  shows "\<not> is_ok r"
proof
  assume ok: "is_ok r"
  have l: "length configs \<noteq> 1" using assms(2) by simp
  show False
  proof (rule run_uploads_two [OF l assms(1)])
    fix k1 k2 ra rb app1
    assume k: "{k1, k2} = {0, 1 :: nat}" "k1 \<noteq> k2"
      and a: "upload_to_single_backend env cfg g loc (fails k1) now (drs k1) user (configs ! k1) key bytes name
        sha mime w h app = Some (ra, app1)"
      and b: "upload_to_single_backend env cfg g loc (fails k2) now (drs k2) user (configs ! k2) key bytes name
        sha mime w h app1 = Some (rb, app')"
      and both: "is_ok r \<longrightarrow> is_ok ra \<and> is_ok rb"
    have diff: "config_id_of (configs ! k1) \<noteq> config_id_of (configs ! k2)"
      using assms(3) k by (auto simp: config_id_of_def doubleton_eq_iff)
    obtain row where r: "adds_image (dc_mode (cf_database cfg)) (ap_db app) (ap_db app1) row (au_id user) sha (as_i64 (int (length bytes)))
        (config_id_of (configs ! k1))"
      using upload_single_cases [OF a] both ok assms(4) by (auto simp: is_duplicate_def)
    then have row: "row \<in> set (t_images (ap_db app1))" "im_user_id row = au_id user" "im_sha256 row = sha"
      "im_storage_config_id row = config_id_of (configs ! k1)"
      and ims: "t_images (ap_db app1) = t_images (ap_db app) @ [row]"
      by (auto simp: adds_image_def)
    have "\<not> (\<exists>i \<in> set (t_images (ap_db app1)). is_duplicate (au_id user) sha (config_id_of (configs ! k2)) i)"
      using ims row diff assms(4) by (auto simp: is_duplicate_def)
    with upload_single_cases [OF b] no_second_image [OF row(2,3,1)] both ok show False by auto
  qed
qed

text \<open>With enough random numbers an upload to a local configuration returns.\<close>

lemma demo_upload_returns:
  assumes "sc_provider c = ''local''" "ap_router app = demo_router" "ud_numbers dr = [1, 2]"
    "length (t_images (ap_db app)) < 2"
  obtains r app' where "upload_to_single_backend demo_upload_env cfg g loc no_faults now dr demo_uploader c key bytes
    name sha mime w h app = Some (r, app')" "ap_router app' = demo_router"
    "length (t_images (ap_db app')) \<le> Suc (length (t_images (ap_db app)))"
proof -
  have "\<exists>n \<in> set [1, 2]. public_key_of n \<notin> set (map im_public_key (t_images (ap_db app)))"
    using assms(4) by (intro some_key_free) auto
  then obtain k where k: "generate_public_key g loc no_faults (ap_db app) [1, 2] = Some (Inr k)"
    using generate_public_key_returns by blast
  have "\<exists>r app'. upload_to_single_backend demo_upload_env cfg g loc no_faults now dr demo_uploader c key bytes
    name sha mime w h app = Some (r, app') \<and> ap_router app' = demo_router"
    using assms k
    by (auto simp: upload_to_single_backend_def persist_image_for_config_def demo_for_config write_to_storage_def
        backend_put_def local_put_def Let_def split: sum.splits option.splits prod.splits)
  then obtain r app' where u: "upload_to_single_backend demo_upload_env cfg g loc no_faults now dr demo_uploader c key
    bytes name sha mime w h app = Some (r, app')" "ap_router app' = demo_router" by blast
  have "length (t_images (ap_db app')) \<le> Suc (length (t_images (ap_db app)))"
    using upload_single_cases [OF u(1)] by (auto simp: adds_image_def)
  with that u show ?thesis by blast
qed

theorem two_backends_never_both_new_witness:
  "\<exists>r app'. run_backend_uploads demo_upload_env lite_config demo_locale En (\<lambda>_. no_faults) False 0
     (\<lambda>k. demo_updraws k\<lparr>ud_numbers := [1, 2]\<rparr>)
     demo_uploader [local_config 3 ''one'', local_config 4 ''two''] zero_key ''png'' ''a.png'' ''png'' ''image/png''
     None None (demo_app []) = Some (r, app') \<and> \<not> is_ok r"
proof -
  let ?up = "\<lambda>k c app. upload_to_single_backend demo_upload_env lite_config demo_locale En no_faults 0
    (demo_updraws k\<lparr>ud_numbers := [1, 2]\<rparr>) demo_uploader c zero_key ''png'' ''a.png'' ''png'' ''image/png''
    None None app"
  obtain ra app1 where a: "?up 0 (local_config 3 ''one'') (demo_app []) = Some (ra, app1)"
    "ap_router app1 = demo_router" "length (t_images (ap_db app1)) \<le> 1"
    by (rule demo_upload_returns [of "local_config 3 ''one''" "demo_app []" "demo_updraws 0\<lparr>ud_numbers := [1, 2]\<rparr>"])
      auto
  obtain rb app2 where b: "?up 1 (local_config 4 ''two'') app1 = Some (rb, app2)"
    by (rule demo_upload_returns [of "local_config 4 ''two''" app1 "demo_updraws 1\<lparr>ud_numbers := [1, 2]\<rparr>"])
      (use a in auto)
  obtain r where "run_backend_uploads demo_upload_env lite_config demo_locale En (\<lambda>_. no_faults) False 0
     (\<lambda>k. demo_updraws k\<lparr>ud_numbers := [1, 2]\<rparr>)
     demo_uploader [local_config 3 ''one'', local_config 4 ''two''] zero_key ''png'' ''a.png'' ''png'' ''image/png''
     None None (demo_app []) = Some (r, app2)"
    using a b by (simp add: run_backend_uploads_def Let_def)
  from two_backends_never_both_new [OF this] this show ?thesis by auto
qed

section \<open>Deduplication\<close>

lemma result_from_row_id [simp]: "ur_id (result_from_row (join_config d i)) = im_id i"
  by (simp add: result_from_row_def join_config_def Let_def split: option.splits)

text \<open>
  Uploading is idempotent per configuration: once an upload to a backend has
  succeeded, sending the same content to the same configuration again answers the image that is
  there, under its id, and changes nothing, neither rows nor storage nor queue.
\<close>

theorem upload_idempotent:
  assumes "upload_to_single_backend env cfg g loc fails now dr user config key bytes name sha mime w h app =
      Some (Inr x, app')"
    and "images_unique (t_images (ap_db app))"
  shows "\<exists>y. upload_to_single_backend env cfg g loc no_faults now' dr' user config key' bytes name' sha mime' w' h' app' =
      Some (Inr y, app') \<and> ur_id y = ur_id x"
proof -
  let ?dup = "is_duplicate (au_id user) sha (config_id_of config)"
  have ex: "\<exists>i \<in> set (t_images (ap_db app')). ?dup i \<and> im_id i = ur_id x"
    using upload_single_cases [OF assms(1)]
    by (auto simp: adds_image_def is_duplicate_def)
  have uq: "distinct (map (\<lambda>i. (im_user_id i, im_sha256 i)) (t_images (ap_db app')))"
    using upload_single_cases [OF assms(1)] assms(2)
    by (auto simp: adds_image_def images_accept_def images_unique_def)
  obtain i where i: "i \<in> set (t_images (ap_db app'))" "?dup i" "im_id i = ur_id x" using ex by blast
  have le: "list_ex ?dup (t_images (ap_db app'))" using i by (auto simp: list_ex_iff)
  obtain i' where f: "find ?dup (t_images (ap_db app')) = Some i'"
    using i by (metis find_None_iff not_Some_eq)
  then have "i' \<in> set (t_images (ap_db app'))" "?dup i'" by (auto dest: find_SomeD)
  then have "i' = i" using uq i by (auto simp: is_duplicate_def dest: distinct_map_eqD)
  then show ?thesis
    using f le i
    by (simp add: upload_to_single_backend_def try_dedup_def dedup_exists_def fetch_dedup_row_def)
qed

theorem upload_idempotent_witness:
  "\<exists>x app' y. upload_to_single_backend demo_upload_env lite_config demo_locale En no_faults 0 (demo_updraws 0)
     demo_uploader (local_config 3 ''one'') zero_key ''png'' ''a.png'' ''png'' ''image/png'' None None (demo_app []) =
     Some (Inr x, app') \<and>
   upload_to_single_backend demo_upload_env lite_config demo_locale En no_faults 9 (demo_updraws 5)
     demo_uploader (local_config 3 ''one'') zero_key ''png'' ''b.png'' ''png'' ''image/png'' None None app' =
     Some (Inr y, app') \<and> ur_id y = ur_id x"
proof -
  obtain x app' where u: "upload_to_single_backend demo_upload_env lite_config demo_locale En no_faults 0
     (demo_updraws 0) demo_uploader (local_config 3 ''one'') zero_key ''png'' ''a.png'' ''png'' ''image/png'' None None
     (demo_app []) = Some (Inr x, app')"
    using demo_single_upload [of "local_config 3 ''one''" "demo_app []" "''png''" 1 "demo_updraws 0"
        lite_config demo_locale En 0 zero_key "''png''" "''a.png''" "''image/png''" None None]
    by (auto simp: config_id_of_def)
  have "images_unique (t_images (ap_db (demo_app [])))" by (simp add: images_unique_def)
  from upload_idempotent [OF u this] u show ?thesis by blast
qed

text \<open>
  The backends of an upload are the user's own: a request that gets as far as storing
  uses one or two configurations, one of them local, each of them his (or the built-in local one
  when he has no default); naming other users' configurations selects nothing.
\<close>

theorem upload_configs_owned:
  assumes "resolve_upload_configs g loc fail now d user ids = Inr configs"
    and "validate_upload_configs g loc configs = Inr ()"
  shows "length configs \<in> {1, 2} \<and> (\<exists>c \<in> set configs. sc_provider c = ''local'') \<and>
    (\<forall>c \<in> set configs. sc_user_id c = user \<and> (c \<in> set (t_configs d) \<or> sc_id c = nil_uuid)) \<and>
    (\<forall>xs. ids = Some xs \<longrightarrow> (\<forall>c \<in> set configs. sc_id c \<in> set xs \<and> c \<in> set (t_configs d)))"
proof -
  have le: "length configs \<le> 2" and loc: "\<exists>c \<in> set configs. sc_provider c = ''local''"
    using assms(2) by (auto simp: validate_upload_configs_def list_ex_iff split: if_splits)
  from loc have "0 < length configs" by auto
  with le have "length configs = 1 \<or> length configs = 2" by linarith
  then have len: "length configs \<in> {1, 2}" by simp
  have own: "\<forall>c \<in> set configs. sc_user_id c = user \<and> (c \<in> set (t_configs d) \<or> sc_id c = nil_uuid)"
    using assms(1)
    by (cases ids)
      (auto simp: resolve_upload_configs_def fetch_configs_by_ids_def fetch_default_config_def
        local_fallback_config_def rbind_eq_Inr Let_def dest!: find_SomeD
        split: option.splits if_splits)
  have "\<forall>xs. ids = Some xs \<longrightarrow> (\<forall>c \<in> set configs. sc_id c \<in> set xs \<and> c \<in> set (t_configs d))"
    using assms(1)
    by (auto simp: resolve_upload_configs_def fetch_configs_by_ids_def Let_def split: if_splits)
  with len loc own show ?thesis by blast
qed

theorem upload_configs_owned_witness:
  "resolve_upload_configs demo_locale En False 0 (ap_db (demo_app [])) 7 (Some [3, 99]) =
     Inr [local_config 3 ''one''] \<and> sc_user_id (local_config 3 ''one'') = 7"
proof -
  have r: "resolve_upload_configs demo_locale En False 0 (ap_db (demo_app [])) 7 (Some [3, 99]) =
     Inr [local_config 3 ''one'']"
    by (simp add: resolve_upload_configs_def fetch_configs_by_ids_def)
  have v: "validate_upload_configs demo_locale En [local_config 3 ''one''] = Inr ()"
    by (simp add: validate_upload_configs_def)
  from upload_configs_owned [OF r v] r show ?thesis by simp
qed

section \<open>Git backends on PostgreSQL\<close>

text \<open>
  On PostgreSQL an image can never be stored with a git backend: its row names the
  backend by the configuration's UUID, 36 characters, in a column of 32, so every upload of new
  content to such a configuration fails, after the file has been pushed to the repository.
\<close>

theorem git_upload_fails_on_postgres:
  assumes "upload_to_single_backend env cfg g loc fails now dr user config key bytes name sha mime w h app = Some (r, app')"
    and "dc_mode (cf_database cfg) = PostgresMode" and "sc_provider config \<noteq> ''local''"
    and "char_count (ue_uuid_str env (sc_id config)) = 36"
    and "\<not> (\<exists>i \<in> set (t_images (ap_db app)). is_duplicate (au_id user) sha (config_id_of config) i)"
  shows "\<exists>e. r = Inl e \<and> t_images (ap_db app') = t_images (ap_db app)"
proof -
  have no: "\<not> images_accept PostgresMode d (new_image_row now i u k n sk (ue_uuid_str env (sc_id config)) m f w h sha url c)"
    for d i u k n sk m f url c
    using assms(4) by (simp add: images_accept_def pg_row_fits_def)
  have "\<not> is_ok r"
  proof
    assume ok: "is_ok r"
    obtain td where td: "try_dedup g loc fails (ap_db app) (au_id user) sha (config_id_of config) = td" by blast
    have "td = Inr None"
    proof (cases td)
      case (Inl e)
      with assms(1) ok td show ?thesis by (auto simp: upload_to_single_backend_def)
    next
      case (Inr x)
      with try_dedup_cases [OF td [unfolded Inr]] assms(5) show ?thesis by blast
    qed
    then obtain pr app1 where p: "persist_image_for_config env cfg g loc fails now dr user config key name bytes
        mime w h sha app = Some (pr, app1)" "is_ok pr"
      using assms(1) td ok by (auto simp: upload_to_single_backend_def split: option.splits sum.splits)
    then show False
      using assms(2,3) no
      by (auto simp: persist_image_for_config_def insert_image_record_def Let_def
          split: option.splits sum.splits prod.splits)
  qed
  then show ?thesis using upload_single_cases [OF assms(1)] by (auto simp: is_ok_def split: sum.splits)
qed

definition long_uuid_env :: "(task_payload list, unit, unit) upload_env" where
  "long_uuid_env = demo_upload_env\<lparr>ue_uuid_str := pad_nat 36, ue_storage := demo_storage_env\<lparr>se_http :=
     (\<lambda>h q. (Some \<lparr>hs_status = 201, hs_retry_after = None, hs_body = Some [], hs_json = None\<rparr>, h))\<rparr>\<rparr>"

lemma of_char_digit_div: "(of_char (digit_char (n mod 10)) :: nat) div 64 = 0"
  by simp

lemma char_count_pad_nat: "char_count (pad_nat w n) = w"
proof -
  have "filter (\<lambda>c. (of_char c :: nat) div 64 \<noteq> 2) (pad_nat w n) = pad_nat w n"
    by (induction w arbitrary: n) (simp_all add: of_char_digit_div)
  then show ?thesis by (simp add: char_count_def)
qed

theorem git_upload_fails_on_postgres_witness:
  "\<exists>e app'. upload_to_single_backend long_uuid_env default_app_config demo_locale En no_faults 0 (demo_updraws 0)
     demo_uploader demo_git_config demo_key ''png'' ''a.png'' ''png'' ''image/png'' None None (demo_app []) =
     Some (Inl e, app') \<and> t_images (ap_db app') = []"
proof -
  have dec: "decrypt_token demo_crypto (demo_nonce @ ''ghp'' @ demo_tag) demo_key = Inr ''ghp''"
    by (simp add: decrypt_token_def demo_crypto_def nonce_size_def)
  have "for_config demo_crypto (pad_nat 36) demo_router demo_git_config demo_key \<noteq> None"
    by (simp add: for_config_def demo_git_config_def split: option.splits)
  then obtain fc ro where fc: "for_config demo_crypto (pad_nat 36) demo_router demo_git_config demo_key = Some (fc, ro)"
    by auto
  let ?up = "upload_to_single_backend long_uuid_env default_app_config demo_locale En no_faults 0 (demo_updraws 0)
     demo_uploader demo_git_config demo_key ''png'' ''a.png'' ''png'' ''image/png'' None None (demo_app [])"
  have "?up \<noteq> None"
    using fc by (auto simp: upload_to_single_backend_def try_dedup_def dedup_exists_def long_uuid_env_def
        persist_image_for_config_def Let_def split: sum.splits prod.splits option.splits)
  then obtain r app' where up: "?up = Some (r, app')" by fastforce
  have env: "ue_uuid_str long_uuid_env = pad_nat 36"
    "dc_mode (cf_database default_app_config) = PostgresMode" "sc_provider demo_git_config = ''github''"
    by (simp_all add: long_uuid_env_def default_app_config_def demo_git_config_def)
  from git_upload_fails_on_postgres [OF up] up show ?thesis
    unfolding env char_count_pad_nat by auto
qed

section \<open>Escaping\<close>

text \<open>The inverse of \<open>html_escape\<close>, an HTML parser's view of the four entities.\<close>

fun html_unescape :: "nat \<Rightarrow> string \<Rightarrow> string" where
  "html_unescape 0 s = []"
| "html_unescape (Suc n) [] = []"
| "html_unescape (Suc n) (c # s) =
     (if starts_with (c # s) ''&amp;'' then CHR ''&'' # html_unescape n (drop 5 (c # s))
      else if starts_with (c # s) ''&lt;'' then CHR ''<'' # html_unescape n (drop 4 (c # s))
      else if starts_with (c # s) ''&gt;'' then CHR ''>'' # html_unescape n (drop 4 (c # s))
      else if starts_with (c # s) ''&quot;'' then CHR 0x22 # html_unescape n (drop 6 (c # s))
      else c # html_unescape n s)"

lemma html_escape_simps [simp]:
  "html_escape [] = []" "html_escape (c # s) = html_escape_char c @ html_escape s"
  by (simp_all add: html_escape_def)

lemma unescape_escape: "html_unescape (length s + n) (html_escape s) = s"
proof (induction s)
  case Nil
  then show ?case by (cases n) auto
next
  case (Cons c s)
  then show ?case by (simp add: html_escape_char_def starts_with_def)
qed

text \<open>
  A file name cannot break out of the generated HTML: the escaped name contains no
  quote and no angle bracket, and a reader that decodes the four entities gets the name back.
\<close>

theorem html_escape_safe:
  "(\<forall>c \<in> set (html_escape s). c \<noteq> CHR 0x22 \<and> c \<noteq> CHR ''<'' \<and> c \<noteq> CHR ''>'') \<and>
   html_unescape (length s) (html_escape s) = s"
proof
  show "\<forall>c \<in> set (html_escape s). c \<noteq> CHR 0x22 \<and> c \<noteq> CHR ''<'' \<and> c \<noteq> CHR ''>''"
    by (induction s) (auto simp: html_escape_char_def split: if_splits)
  show "html_unescape (length s) (html_escape s) = s"
    using unescape_escape [of s 0] by simp
qed

theorem html_escape_safe_witness:
  "html_unescape 5 (html_escape ''<a>&b'') = ''<a>&b'' \<and> CHR ''<'' \<notin> set (html_escape ''<a>&b'')"
proof -
  have l: "length ''<a>&b'' = 5" by simp
  show ?thesis using html_escape_safe [of "''<a>&b''"] unfolding l by blast
qed

end
