(* ===== verification/Images_Props.thy ===== *)
theory Images_Props
  imports Images Redis_Props Upload_Props "HOL-Library.Multiset"
begin

text \<open>
  Properties of the image routes: the pages of the gallery, who may delete, rename and move which
  rows, what the search matches, and what the metadata cache answers.
\<close>

section \<open>The pages of the gallery\<close>

fun page_items :: "api_error + image_list_response \<Rightarrow> upload_result list" where
  "page_items (Inl e) = []"
| "page_items (Inr r) = lr_items r"

lemma mset_order_rows: "mset (order_rows sx col dir rows) = mset rows"
  by (simp add: order_rows_def Let_def)

lemma length_order_rows [simp]: "length (order_rows sx col dir rows) = length rows"
  by (metis mset_order_rows size_mset)

lemma concat_pages: "concat (map (\<lambda>k. take n (drop (k * n) xs)) [0..<m]) = take (m * n) xs"
proof (induction m)
  case (Suc m)
  have "take (m * n + n) xs = take (m * n) xs @ take n (drop (m * n) xs)" by (rule take_add)
  with Suc show ?case by (simp add: add.commute)
qed simp

text \<open>The rows a query is about, in its order, and one page of it.\<close>

definition gallery_rows :: "sql_text \<Rightarrow> db \<Rightarrow> uuid \<Rightarrow> image_list_query \<Rightarrow> image_row list" where
  "gallery_rows sx d user q =
     filter (list_filter sx user (trim (lq_search q)) (lq_storage_config_id q) (lq_category_id q)) (t_images d)"

definition gallery_order :: "sql_text \<Rightarrow> image_list_query \<Rightarrow> image_row list \<Rightarrow> image_row list" where
  "gallery_order sx q = order_rows sx (normalize_sort (lq_sort q)) (normalize_order (lq_order q))"

definition gallery_page ::
  "sql_text \<Rightarrow> i18n \<Rightarrow> language \<Rightarrow> db \<Rightarrow> uuid \<Rightarrow> image_list_query \<Rightarrow> nat \<Rightarrow> nat \<Rightarrow> api_error + image_list_response" where
  "gallery_page sx g loc d user q pp k =
     list_images sx g loc no_faults d user (q\<lparr>lq_page := k, lq_per_page := pp\<rparr>)"

lemma gallery_page_Suc:
  assumes "1 \<le> pp" and "pp \<le> 100"
  shows "gallery_page sx g loc d user q pp (Suc k) =
    Inr \<lparr>lr_items = map (\<lambda>i. result_from_row (join_config d i))
               (take pp (drop (k * pp mod 2 ^ 32) (gallery_order sx q (gallery_rows sx d user q)))),
         lr_total = int (length (gallery_rows sx d user q)), lr_page = Suc k, lr_per_page = pp,
         lr_total_pages = calc_total_pages (int (length (gallery_rows sx d user q))) pp\<rparr>"
  using assms
  by (simp add: gallery_page_def list_images_def resolve_sort_def count_user_images_def fetch_user_images_def
      map_rows_to_results_def Let_def max_def min_def comp_def gallery_rows_def gallery_order_def)

lemma total_pages_cover:
  assumes "1 \<le> pp"
  shows "n \<le> calc_total_pages (int n) pp * pp" and "k < calc_total_pages (int n) pp \<Longrightarrow> k * pp \<le> n"
proof -
  have c: "calc_total_pages (int n) pp = (if n = 0 then 1 else (n + pp - 1) div pp)"
  proof -
    have "int n + int pp - 1 = int (n + pp - 1)" using assms by simp
    then have "(int n + int pp - 1) div int pp = int ((n + pp - 1) div pp)" by (simp only: zdiv_int)
    then show ?thesis by (simp add: calc_total_pages_def)
  qed
  show "n \<le> calc_total_pages (int n) pp * pp"
  proof (cases "n = 0")
    case False
    have "n + pp - 1 < ((n + pp - 1) div pp + 1) * pp"
      using assms by (simp add: dividend_less_div_times)
    then show ?thesis using False assms by (simp add: c)
  qed simp
  show "k * pp \<le> n" if "k < calc_total_pages (int n) pp"
  proof (cases "n = 0")
    case True
    have "k < 1" using that unfolding c by (simp add: True)
    then show ?thesis by simp
  next
    case False
    with that have "k + 1 \<le> (n + pp - 1) div pp" by (simp add: c)
    then have "(k + 1) * pp \<le> n + pp - 1"
      by (metis div_times_less_eq_dividend le_trans mult_le_mono1)
    with False assms show ?thesis by simp
  qed
qed


definition demo_row :: "uuid \<Rightarrow> uuid \<Rightarrow> image_row" where
  "demo_row i user = new_image_row i i user (pad_nat 6 i) ''a.png'' (pad_nat 6 i) ''local'' ''image/png'' 1
     None None (pad_nat 6 i) ''http://h/u'' None"

definition demo_gallery :: db where
  "demo_gallery = empty_db\<lparr>t_images := [demo_row 1 7, demo_row 2 7, demo_row 3 8]\<rparr>"

definition demo_sql :: sql_text where
  "demo_sql = \<lparr>sx_lower = to_ascii_lowercase, sx_collate = (\<lambda>s. s), sx_escape = False\<rparr>"

lemma demo_row_simps [simp]:
  "im_id (demo_row i u) = i" "im_user_id (demo_row i u) = u" "im_created_at (demo_row i u) = i"
  "im_storage_backend (demo_row i u) = ''local''"
  by (simp_all add: demo_row_def new_image_row_def)

lemma demo_gallery_rows: "gallery_rows demo_sql demo_gallery 7 default_list_query = [demo_row 1 7, demo_row 2 7]"
  by (simp add: gallery_rows_def default_list_query_def list_filter_def demo_gallery_def trim_def
      trim_end_def trim_start_def)


text \<open>
  The offset of a page is computed in 32 bits and wraps: with 64 images a page, page
  2^26 + 1 shows the images of the first page instead of none.
\<close>

theorem gallery_offset_wraps:
  "\<exists>r r1. gallery_page sx g loc d user q 64 (2 ^ 26 + 1) = Inr r \<and> gallery_page sx g loc d user q 64 1 = Inr r1 \<and>
     lr_items r = lr_items r1 \<and> lr_page r = 2 ^ 26 + 1"
  using gallery_page_Suc [of 64 sx g loc d user q "2 ^ 26"] gallery_page_Suc [of 64 sx g loc d user q 0]
  by simp

section \<open>The search\<close>

definition no_wildcards :: "string \<Rightarrow> bool" where
  "no_wildcards t = (CHR ''%'' \<notin> set t \<and> CHR ''_'' \<notin> set t \<and> backslash \<notin> set t)"

lemma like_literal_prefix:
  "no_wildcards t \<Longrightarrow> like_match esc (t @ [CHR ''%'']) s \<longleftrightarrow> starts_with s t"
proof (induction t arbitrary: s)
  case Nil
  have "like_match esc [CHR ''%''] s" for s
    by (induction s) simp_all
  then show ?case by (simp add: starts_with_def)
next
  case (Cons c t)
  then show ?case by (cases s) (auto simp: no_wildcards_def starts_with_def)
qed

lemma like_substring:
  assumes "no_wildcards t"
  shows "like_match esc (''%'' @ t @ ''%'') s \<longleftrightarrow> contains_sub s t"
proof (induction s)
  case Nil
  then show ?case using like_literal_prefix [OF assms, of esc "[]"] by (auto simp: starts_with_def)
next
  case (Cons c s)
  then show ?case using like_literal_prefix [OF assms, of esc "c # s"] by simp
qed

lemma ascii_lower_percent: "ascii_lower_char c = CHR ''%'' \<longleftrightarrow> c = CHR ''%''"
proof
  assume a: "ascii_lower_char c = CHR ''%''"
  show "c = CHR ''%''"
  proof (cases "65 \<le> (of_char c :: nat) \<and> (of_char c :: nat) \<le> 90")
    case True
    then have "ascii_lower_char c = char_of ((of_char c :: nat) + 32)" by (simp add: ascii_lower_char_def)
    with a have "of_char (char_of ((of_char c :: nat) + 32) :: char) = (37 :: nat)" by simp
    with True show ?thesis by simp
  next
    case False
    with a show ?thesis by (simp add: ascii_lower_char_def)
  qed
qed (simp add: ascii_lower_char_def)

text \<open>
  A search term without \<open>%\<close>, \<open>_\<close> and backslash selects exactly the user's images whose
  name contains it, case aside, on both databases; \<open>LOWER\<close> is taken to leave \<open>%\<close> alone and to work
  byte by byte, as it does on ASCII text.
\<close>

theorem search_is_substring:
  assumes "sx_lower sx = map lower_byte" and "\<forall>c. lower_byte c = CHR ''%'' \<longleftrightarrow> c = CHR ''%''"
    and "no_wildcards (map lower_byte pat)" and "pat \<noteq> []"
  shows "list_filter sx user pat None None i \<longleftrightarrow>
    im_user_id i = user \<and> contains_sub (map lower_byte (im_original_name i)) (map lower_byte pat)"
proof -
  have "sx_lower sx (''%'' @ pat @ ''%'') = ''%'' @ map lower_byte pat @ ''%''"
    using assms(1,2) by simp
  then show ?thesis
    using assms(4) like_substring [OF assms(3), of "sx_escape sx" "map lower_byte (im_original_name i)"]
    by (simp only: list_filter_def assms(1)) blast
qed

theorem search_is_substring_witness:
  "list_filter demo_sql 7 ''PN'' None None (demo_row 1 7)"
proof -
  have l: "sx_lower demo_sql = map ascii_lower_char"
    by (simp add: demo_sql_def to_ascii_lowercase_def fun_eq_iff)
  have pn: "map ascii_lower_char ''PN'' = ''pn''" "map ascii_lower_char ''a.png'' = ''a.png''"
    by code_simp+
  have w: "no_wildcards (map ascii_lower_char ''PN'')" unfolding pn by (simp add: no_wildcards_def backslash_def)
  have n: "im_original_name (demo_row 1 7) = ''a.png''" by (simp add: demo_row_def new_image_row_def)
  have c: "contains_sub ''a.png'' ''pn''" by (simp add: starts_with_def)
  have e: "''PN'' \<noteq> []" by simp
  have "\<forall>c. ascii_lower_char c = CHR ''%'' \<longleftrightarrow> c = CHR ''%''"
    using ascii_lower_percent by blast
  from search_is_substring [OF l this w e, of 7 "demo_row 1 7"] c show ?thesis
    unfolding n pn demo_row_simps by blast
qed

section \<open>Who may change which rows\<close>

definition demo_site :: "(task_payload list, unit, unit, key_space) site" where
  "demo_site = \<lparr>st_app = demo_app [demo_row 1 7, demo_row 2 7, demo_row 3 8], st_cache = Map.empty\<rparr>"

lemma demo_site_images [simp]:
  "t_images (site_db demo_site) = [demo_row 1 7, demo_row 2 7, demo_row 3 8]"
  "st_cache demo_site = Map.empty"
  by (simp_all add: demo_site_def site_db_def)

abbreviation "demo_cache \<equiv> redis_cache_ops redis_server"

text \<open>
  Property C13. \<open>delete_image\<close> deletes at most the image it names, and only for its owner or an
  administrator: anyone else is answered 404 and nothing changes. Whatever it answers, every other
  image stays.
\<close>

theorem delete_image_authorised:
  assumes "delete_image env co us g loc fails now user i s = Some (r, s')"
    and "distinct (map im_id (t_images (site_db s)))"
  shows "(\<forall>x \<in> set (t_images (site_db s)). x \<notin> set (t_images (site_db s')) \<longrightarrow> im_id x = i \<and> may_delete user x) \<and>
    (\<not> list_ex (\<lambda>x. im_id x = i \<and> may_delete user x) (t_images (site_db s)) \<longrightarrow>
       s' = s \<and> (\<exists>e. r = Inl e \<and> (fails 0 \<or> e = error_json g loc 404 ''image.not_found'')))"
proof (cases "fetch_delete_target g loc (fails 0) (site_db s) i user")
  case (Inl e)
  with assms(1) have e: "r = Inl e" "s' = s" by (simp_all add: delete_image_def)
  have "fails 0 \<or> e = error_json g loc 404 ''image.not_found''"
    using Inl by (auto simp: fetch_delete_target_def ok_or_def split: if_splits option.splits)
  with e show ?thesis by auto
next
  case (Inr x)
  then have "find (\<lambda>x. im_id x = i \<and> may_delete user x) (t_images (site_db s)) = Some x"
    by (auto simp: fetch_delete_target_def ok_or_def split: if_splits option.splits)
  then have x: "x \<in> set (t_images (site_db s))" "im_id x = i" "may_delete user x"
    by (auto dest: find_SomeD)
  have "t_images (site_db s') = t_images (site_db s) \<or>
      t_images (site_db s') = filter (\<lambda>y. im_id y \<noteq> i) (t_images (site_db s))"
    using assms(1) unfolding delete_image_def Inr sum.case
    by (auto simp: delete_rows_def split: option.splits if_splits)
  then have rest: "y \<in> set (t_images (site_db s'))" if "y \<in> set (t_images (site_db s))" "im_id y \<noteq> i" for y
    using that by (elim disjE) simp_all
  have same: "y = x" if "y \<in> set (t_images (site_db s))" "im_id y = i" for y
    using distinct_map_eqD [OF assms(2) that(1) x(1)] that(2) x(2) by simp
  have "im_id y = i \<and> may_delete user y"
    if "y \<in> set (t_images (site_db s))" "y \<notin> set (t_images (site_db s'))" for y
    using rest [OF that(1)] same [OF that(1)] that(2) x(3) by blast
  moreover have "list_ex (\<lambda>x. im_id x = i \<and> may_delete user x) (t_images (site_db s))"
    using x by (auto simp: list_ex_iff)
  ultimately show ?thesis by blast
qed

theorem delete_image_authorised_witness:
  "delete_image demo_storage_env demo_cache nat_str demo_locale En no_faults 0 demo_uploader 3 demo_site =
     Some (Inl (error_json demo_locale En 404 ''image.not_found''), demo_site)"
proof -
  let ?d = "delete_image demo_storage_env demo_cache nat_str demo_locale En no_faults 0 demo_uploader 3 demo_site"
  have no: "\<not> list_ex (\<lambda>x. im_id x = 3 \<and> may_delete demo_uploader x) (t_images (site_db demo_site))"
    by (simp add: may_delete_def)
  have "?d \<noteq> None"
    by (simp add: delete_image_def fetch_delete_target_def may_delete_def)
  then obtain r s' where d: "?d = Some (r, s')" by fastforce
  have "distinct (map im_id (t_images (site_db demo_site)))" by simp
  from delete_image_authorised [OF d this] no d show ?thesis by blast
qed

text \<open>
  Property C14. \<open>batch_delete\<close> checks the owner only when it looks for the files: a user who is not
  an administrator and owns none of the named images deletes the rows of all of them, whoever owns
  them, and leaves their files where they are.
\<close>

theorem batch_delete_ignores_owner:
  assumes "ids \<noteq> []" and "length ids \<le> 100"
    and "list_all (\<lambda>x. im_id x \<in> set ids \<longrightarrow> \<not> may_delete user x) (t_images (site_db s))"
  shows "\<exists>j s'. batch_delete env co us g loc no_faults now user ids s = Some (Inr j, s') \<and>
    t_images (site_db s') = filter (\<lambda>x. im_id x \<notin> set ids) (t_images (site_db s)) \<and>
    site_world s' = site_world s"
proof -
  have "filter (\<lambda>x. im_id x \<in> set ids \<and> may_delete user x) (t_images (site_db s)) = []"
    using assms(3) by (auto simp: filter_empty_conv list_all_iff)
  then show ?thesis
    using assms(1,2)
    by (simp add: batch_delete_def validate_batch_ids_def fetch_batch_delete_targets_def Let_def delete_rows_def)
qed

theorem batch_delete_ignores_owner_witness:
  "\<exists>j s'. batch_delete demo_storage_env demo_cache nat_str demo_locale En no_faults 0 demo_uploader [3] demo_site =
     Some (Inr j, s') \<and> t_images (site_db s') = [demo_row 1 7, demo_row 2 7]"
  using batch_delete_ignores_owner [of "[3]" demo_uploader demo_site demo_storage_env demo_cache nat_str
      demo_locale En 0]
  by (auto simp: may_delete_def)

definition only_own_changed :: "uuid \<Rightarrow> db \<Rightarrow> db \<Rightarrow> bool" where
  "only_own_changed user d d' \<longleftrightarrow>
     list_all2 (\<lambda>x y. im_id y = im_id x \<and> im_user_id y = im_user_id x \<and> (im_user_id x \<noteq> user \<longrightarrow> y = x))
       (t_images d) (t_images d')"

definition owned_category :: "category_row list \<Rightarrow> uuid option \<Rightarrow> uuid \<Rightarrow> bool" where
  "owned_category cats c user =
     (case c of None \<Rightarrow> True | Some k \<Rightarrow> list_ex (\<lambda>r. cat_id r = k \<and> cat_user_id r = user) cats)"

definition categories_owned :: "db \<Rightarrow> bool" where
  "categories_owned d \<longleftrightarrow>
     list_all (\<lambda>x. owned_category (t_categories d) (im_category_id x) (im_user_id x)) (t_images d)"

lemma only_own_refl: "only_own_changed user d d"
  by (simp add: only_own_changed_def list_all2_refl)

lemma set_category_own: "only_own_changed user d (set_category c user ids d)"
  by (auto simp: only_own_changed_def set_category_def list_all2_map2 intro!: list_all2_refl)

lemma set_category_owned:
  assumes "categories_owned d"
    and "owned_category (t_categories d) c user"
  shows "categories_owned (set_category c user ids d)"
  using assms by (auto simp: categories_owned_def set_category_def list_all_iff)

lemma ensure_category_owned_ok:
  "ensure_category_owned g loc fail d c user = Inr () \<longleftrightarrow>
     \<not> fail \<and> list_ex (\<lambda>r. cat_id r = c \<and> cat_user_id r = user) (t_categories d)"
proof (cases "find (\<lambda>r. cat_id r = c \<and> cat_user_id r = user) (t_categories d)")
  case None
  then have "\<not> list_ex (\<lambda>r. cat_id r = c \<and> cat_user_id r = user) (t_categories d)"
    by (auto simp: find_None_iff list_ex_iff)
  with None show ?thesis by (simp add: ensure_category_owned_def)
next
  case (Some r)
  then have "list_ex (\<lambda>r. cat_id r = c \<and> cat_user_id r = user) (t_categories d)"
    by (auto simp: list_ex_iff dest: find_SomeD)
  with Some show ?thesis by (simp add: ensure_category_owned_def)
qed

definition renamed :: "uuid \<Rightarrow> uuid \<Rightarrow> string \<Rightarrow> db \<Rightarrow> db" where
  "renamed user i name d =
     d\<lparr>t_images := map (\<lambda>x. if im_id x = i \<and> im_user_id x = user then x\<lparr>im_original_name := name\<rparr> else x)
        (t_images d)\<rparr>"

lemma rename_cases:
  "site_db (snd (rename_image co us g loc fails now user i name s)) \<in> {site_db s, renamed user i name (site_db s)}"
proof -
  have "snd (rename_image_in_db g loc (fails 0) (site_db s) user i name) \<in>
      {site_db s, renamed user i name (site_db s)}"
    by (simp add: rename_image_in_db_def renamed_def)
  then show ?thesis
    by (cases "rename_image_in_db g loc (fails 0) (site_db s) user i name")
      (auto simp: rename_image_def split: sum.split)
qed

lemma renamed_own: "only_own_changed user d (renamed user i name d)"
  by (auto simp: only_own_changed_def renamed_def list_all2_map2 intro!: list_all2_refl)

lemma renamed_categories: "categories_owned d \<Longrightarrow> categories_owned (renamed user i name d)"
  by (auto simp: categories_owned_def renamed_def list_all_iff)

lemma move_cases:
  "(site_db (snd (move_image co us g loc fails now user i c s)) = site_db s) \<or>
   (site_db (snd (move_image co us g loc fails now user i c s)) = set_category c user [i] (site_db s) \<and>
    owned_category (t_categories (site_db s)) c user)"
  by (cases c) (auto simp: move_image_def ensure_category_owned_ok owned_category_def split: sum.split)

lemma batch_move_cases:
  "(site_db (snd (batch_move_images co us g loc fails now user ids c s)) = site_db s) \<or>
   (site_db (snd (batch_move_images co us g loc fails now user ids c s)) = set_category (Some c) user ids (site_db s) \<and>
    owned_category (t_categories (site_db s)) (Some c) user)"
  by (auto simp: batch_move_images_def ensure_category_owned_ok owned_category_def rbind_eq_Inr split: sum.split)

text \<open>
  Property C15. Rename, move and batch move touch only the caller's own images, and an image is put
  only into a category of its owner.
\<close>

theorem changes_stay_with_owner:
  "only_own_changed user (site_db s) (site_db (snd (rename_image co us g loc fails now user i name s))) \<and>
   only_own_changed user (site_db s) (site_db (snd (move_image co us g loc fails now user i c s))) \<and>
   only_own_changed user (site_db s) (site_db (snd (batch_move_images co us g loc fails now user ids k s))) \<and>
   (categories_owned (site_db s) \<longrightarrow>
     categories_owned (site_db (snd (rename_image co us g loc fails now user i name s))) \<and>
     categories_owned (site_db (snd (move_image co us g loc fails now user i c s))) \<and>
     categories_owned (site_db (snd (batch_move_images co us g loc fails now user ids k s))))"
proof -
  have r: "only_own_changed user (site_db s) (site_db (snd (rename_image co us g loc fails now user i name s))) \<and>
    (categories_owned (site_db s) \<longrightarrow>
     categories_owned (site_db (snd (rename_image co us g loc fails now user i name s))))"
    using rename_cases [of co us g loc fails now user i name s]
    by (auto simp: only_own_refl renamed_own renamed_categories)
  have m: "only_own_changed user (site_db s) (site_db (snd (move_image co us g loc fails now user i c s))) \<and>
    (categories_owned (site_db s) \<longrightarrow>
     categories_owned (site_db (snd (move_image co us g loc fails now user i c s))))"
    using move_cases [of co us g loc fails now user i c s]
    by (auto simp: only_own_refl set_category_own set_category_owned)
  have b: "only_own_changed user (site_db s) (site_db (snd (batch_move_images co us g loc fails now user ids k s))) \<and>
    (categories_owned (site_db s) \<longrightarrow>
     categories_owned (site_db (snd (batch_move_images co us g loc fails now user ids k s))))"
    using batch_move_cases [of co us g loc fails now user ids k s]
    by (auto simp: only_own_refl set_category_own set_category_owned)
  from r m b show ?thesis by blast
qed

theorem changes_stay_with_owner_witness:
  "only_own_changed 7 (site_db demo_site)
     (site_db (snd (rename_image demo_cache nat_str demo_locale En no_faults 0 7 1 ''b.png'' demo_site))) \<and>
   categories_owned
     (site_db (snd (batch_move_images demo_cache nat_str demo_locale En no_faults 0 7 [1, 2] 5 demo_site)))"
proof -
  have "categories_owned (site_db demo_site)"
    by (simp add: categories_owned_def owned_category_def demo_row_def new_image_row_def)
  with changes_stay_with_owner [of 7 demo_site demo_cache nat_str demo_locale En no_faults 0 1 "''b.png''" None "[1, 2]" 5]
  show ?thesis by blast
qed

section \<open>The metadata cache\<close>

lemma get_image_miss:
  assumes "co_get co (st_cache s) t (''pichost:meta:'' @ us i) = Inr None"
    and "own_image (site_db s) user i = Some x"
  shows "fst (get_image co enc dec us g loc False t user i s) = Inr (result_from_row (join_config (site_db s) x))"
  using assms by (simp add: get_image_def cached_meta_def Let_def)

text \<open>
  The metadata cache is keyed by the image alone: for ten minutes after the owner has
  looked at an image, \<open>get_image\<close> gives its details to any signed-in user who asks, although the
  query it stands for selects only the caller's own images.
\<close>

theorem meta_cache_leaks_across_users:
  assumes up: "redis_up exec ks" and codec: "dec (enc x) = Some x"
    and cold: "live (ks (st_cache s)) t (''pichost:meta:'' @ us i) = None"
    and owner: "get_image (redis_cache_ops exec) enc dec us g loc False t user i s = (Inr x, s')"
    and later: "t' < t + secs 600"
  shows "fst (get_image (redis_cache_ops exec) enc dec us g' loc' fail t' other i s') = Inr x"
proof -
  let ?key = "''pichost:meta:'' @ us i"
  have miss: "co_get (redis_cache_ops exec) (st_cache s) t ?key = Inr None"
    using redis_get_cold [OF cold] by (simp add: redis_cache_ops_def redis_get_up [OF up])
  have s': "st_cache s' = snd (redis_set_ex exec (st_cache s) t ?key (enc x) 600)"
    using owner miss
    by (auto simp: get_image_def cached_meta_def Let_def redis_cache_ops_def split: sum.splits prod.splits)
  have "ks (st_cache s') = (ks (st_cache s))(?key \<mapsto> (VStr (enc x), Some (t + secs 600)))"
    unfolding s' by (simp add: redis_set_ex_def pipe_up_snd [OF up])
  then have "co_get (redis_cache_ops exec) (st_cache s') t' ?key = Inr (Some (enc x))"
    using later by (simp add: redis_cache_ops_def redis_get_up [OF up] redis_get_server)
  then show ?thesis
    using codec by (simp add: get_image_def cached_meta_def Let_def)
qed

theorem meta_cache_leaks_across_users_witness:
  "\<exists>x s'. get_image demo_cache (\<lambda>_. ''v'') (\<lambda>v. Some (result_from_row (join_config (site_db demo_site) (demo_row 1 7))))
      nat_str demo_locale En False 0 7 1 demo_site = (Inr x, s') \<and>
    fst (get_image demo_cache (\<lambda>_. ''v'') (\<lambda>v. Some (result_from_row (join_config (site_db demo_site) (demo_row 1 7))))
      nat_str demo_locale En False (secs 599) 8 1 s') = Inr x \<and> own_image (site_db demo_site) 8 1 = None"
proof -
  let ?x = "result_from_row (join_config (site_db demo_site) (demo_row 1 7))"
  let ?get = "get_image demo_cache (\<lambda>_. ''v'') (\<lambda>v. Some ?x) nat_str demo_locale En False"
  have cold: "live Map.empty 0 k = None" for k by (simp add: live_def)
  have own: "own_image (site_db demo_site) 7 1 = Some (demo_row 1 7)"
    and other: "own_image (site_db demo_site) 8 1 = None"
    by (simp_all add: own_image_def)
  have "fst (?get 0 7 1 demo_site) = Inr ?x"
    by (rule get_image_miss [OF _ own]) (simp add: redis_cache_ops_def redis_get_cold [OF cold])
  then obtain s' where g: "?get 0 7 1 demo_site = (Inr ?x, s')" by (cases "?get 0 7 1 demo_site") auto
  have "fst (?get (secs 599) 8 1 s') = Inr ?x"
    by (rule meta_cache_leaks_across_users [OF redis_server_up _ _ g])
      (simp_all add: cold secs_def nanos_per_sec_def)
  with g other show ?thesis by blast
qed

end
