(* ===== verification/Floats.thy ===== *)
theory Floats
  imports Prelude Complex_Main
begin

text \<open>
  The floating-point arithmetic that the worker does on image sizes (\<open>f32\<close>, \<open>f64\<close>), on rationals: an
  operation is the exact one followed by rounding to 24 or 53 significant bits, ties to even.
  Overflow to infinity and subnormal numbers are left out; a quotient by zero only arises for
  an image without pixels. Casts to unsigned integers truncate and saturate, as \<open>as\<close> does.
\<close>

text \<open>The number of binary digits of a positive integer.\<close>

function int_bits :: "int \<Rightarrow> nat" where
  "int_bits n = (if n \<le> 0 then 0 else Suc (int_bits (n div 2)))"
  by auto
termination by (relation "measure nat") auto

declare int_bits.simps [simp del]

lemma int_bits_bounds: "0 < n \<Longrightarrow> 2 ^ (int_bits n - 1) \<le> n \<and> n < 2 ^ int_bits n \<and> 0 < int_bits n"
proof (induction n rule: int_bits.induct)
  case (1 n)
  show ?case
  proof (cases "n div 2 \<le> 0")
    case True
    with 1(2) have "n = 1" by simp
    then show ?thesis by (simp add: int_bits.simps)
  next
    case False
    with 1 have IH: "2 ^ (int_bits (n div 2) - 1) \<le> n div 2" "n div 2 < 2 ^ int_bits (n div 2)"
      "0 < int_bits (n div 2)" by auto
    have "(2 :: int) ^ int_bits (n div 2) = 2 * 2 ^ (int_bits (n div 2) - 1)"
      using IH(3) by (cases "int_bits (n div 2)") auto
    then have "2 ^ int_bits (n div 2) \<le> n" using IH(1) by linarith
    moreover have "n < 2 * 2 ^ int_bits (n div 2)" using IH(2) by linarith
    ultimately show ?thesis using 1(2) by (simp add: int_bits.simps [of n])
  qed
qed

text \<open>The power of two below a positive number, and the distance between its neighbours.\<close>

definition pow2 :: "int \<Rightarrow> rat" where
  "pow2 e = 2 powi e"

definition log2_floor :: "rat \<Rightarrow> int" where
  "log2_floor x =
     (let (n, d) = quotient_of x;
          e = int (int_bits n) - int (int_bits d)
      in if pow2 e \<le> x then e else e - 1)"

definition round_half_even :: "rat \<Rightarrow> int" where
  "round_half_even q =
     (let f = \<lfloor>q\<rfloor>; r = q - of_int f
      in if r < 1 / 2 \<or> (r = 1 / 2 \<and> even f) then f else f + 1)"

definition round_bits :: "nat \<Rightarrow> rat \<Rightarrow> rat" where
  "round_bits p x =
     (if x = 0 then 0
      else (let ulp = pow2 (log2_floor \<bar>x\<bar> + 1 - int p)
            in sgn x * (of_int (round_half_even (\<bar>x\<bar> / ulp)) * ulp)))"

definition f32_round :: "rat \<Rightarrow> rat" where "f32_round = round_bits 24"

definition f64_round :: "rat \<Rightarrow> rat" where "f64_round = round_bits 53"

text \<open>\<open>as u32\<close> and \<open>as u8\<close>.\<close>

definition sat_u32 :: "rat \<Rightarrow> nat" where
  "sat_u32 x = nat (min (2 ^ 32 - 1) \<lfloor>x\<rfloor>)"

definition sat_u8 :: "rat \<Rightarrow> nat" where
  "sat_u8 x = nat (min 255 \<lfloor>x\<rfloor>)"

text \<open>The integer square root, one bit at a time, and the square root of an \<open>f32\<close> integer.\<close>

fun isqrt_from :: "nat \<Rightarrow> int \<Rightarrow> int \<Rightarrow> int" where
  "isqrt_from 0 n acc = acc"
| "isqrt_from (Suc k) n acc =
     isqrt_from k n (if (acc + 2 ^ k) ^ 2 \<le> n then acc + 2 ^ k else acc)"

definition isqrt :: "int \<Rightarrow> int" where "isqrt n = isqrt_from (int_bits n) n 0"

definition f32_sqrt :: "rat \<Rightarrow> rat" where
  "f32_sqrt x =
     (let n = \<lfloor>x\<rfloor> * 4 ^ 32; r = isqrt n
      in f32_round ((of_int r + (if r ^ 2 = n then 0 else 1 / 2)) / 2 ^ 32))"

section \<open>How far rounding moves a number\<close>

lemma pow2_pos [simp]: "0 < pow2 e"
  by (simp add: pow2_def)

lemma pow2_add: "pow2 (a + b) = pow2 a * pow2 b"
  by (simp add: pow2_def power_int_add)

lemma pow2_nat [simp]: "pow2 (int n) = 2 ^ n"
  by (simp add: pow2_def)

lemma pow2_log2_floor:
  assumes "0 < x"
  shows "pow2 (log2_floor x) \<le> x"
proof -
  obtain n d where q: "quotient_of x = (n, d)" by fastforce
  have d: "0 < d" and x: "x = of_int n / of_int d"
    using q quotient_of_denom_pos quotient_of_div by blast+
  have n: "0 < n" using assms d by (simp add: x zero_less_divide_iff)
  let ?a = "int_bits n" and ?b = "int_bits d"
  have a: "2 ^ (?a - 1) \<le> n" "d < 2 ^ ?b" and a0: "0 < ?a"
    using int_bits_bounds [OF n] int_bits_bounds [OF d] by blast+
  from a(1) have a': "(2 :: rat) ^ (?a - 1) \<le> of_int n"
    by (metis of_int_le_iff of_int_numeral of_int_power)
  from a(2) have "d \<le> 2 ^ ?b" by simp
  then have b': "of_int d \<le> (2 :: rat) ^ ?b"
    by (metis of_int_le_iff of_int_numeral of_int_power)
  have "pow2 (int ?a - int ?b - 1) * 2 ^ ?b = 2 ^ (?a - 1)"
  proof -
    have "int ?a - int ?b - 1 + int ?b = int (?a - 1)" using a0 by simp
    then have "pow2 (int ?a - int ?b - 1) * pow2 (int ?b) = pow2 (int (?a - 1))"
      by (simp only: pow2_add [symmetric])
    then show ?thesis by (simp only: pow2_nat)
  qed
  then have "pow2 (int ?a - int ?b - 1) * of_int d \<le> of_int n"
    using a' mult_left_mono [OF b' less_imp_le [OF pow2_pos], of "int ?a - int ?b - 1"] by linarith
  then have "pow2 (int ?a - int ?b - 1) \<le> x" using d by (simp add: x pos_le_divide_eq)
  then show ?thesis using q by (simp add: log2_floor_def Let_def)
qed

lemma round_half_even_error: "\<bar>of_int (round_half_even q) - q\<bar> \<le> 1 / 2"
proof -
  have "0 \<le> q - of_int \<lfloor>q\<rfloor>" "q - of_int \<lfloor>q\<rfloor> < 1" by linarith+
  then show ?thesis by (auto simp: round_half_even_def Let_def abs_le_iff)
qed

lemma round_bits_error:
  assumes "0 < x" and "0 < p"
  shows "\<bar>round_bits p x - x\<bar> \<le> x / 2 ^ p"
proof -
  let ?ulp = "pow2 (log2_floor x + 1 - int p)"
  have "?ulp * 2 ^ p = pow2 (log2_floor x) * 2"
    using pow2_add [of "log2_floor x + 1 - int p" "int p"] pow2_add [of "log2_floor x" 1]
    by (simp add: pow2_def)
  then have ulp: "?ulp * 2 ^ p \<le> x * 2" using pow2_log2_floor [OF assms(1)] by simp
  have "round_bits p x - x = (of_int (round_half_even (x / ?ulp)) - x / ?ulp) * ?ulp"
    using assms(1) less_imp_neq [OF pow2_pos, of "log2_floor x + 1 - int p"]
    by (simp add: round_bits_def Let_def algebra_simps)
  then have "\<bar>round_bits p x - x\<bar> \<le> 1 / 2 * ?ulp"
    using round_half_even_error [of "x / ?ulp"]
    by (metis abs_mult abs_of_pos mult_right_mono pow2_pos less_imp_le)
  also have "\<dots> \<le> x / 2 ^ p" using ulp by (simp add: field_simps)
  finally show ?thesis .
qed

lemma round_bits_0 [simp]: "round_bits p 0 = 0"
  by (simp add: round_bits_def)

lemma round_bits_bounds:
  assumes "0 \<le> x" and "0 < p"
  shows "x * (1 - 1 / 2 ^ p) \<le> round_bits p x" and "round_bits p x \<le> x * (1 + 1 / 2 ^ p)"
  using round_bits_error [of x p] assms
  by (cases "x = 0"; simp add: abs_le_iff algebra_simps)+

lemma f64_bounds:
  "0 \<le> x \<Longrightarrow> x * (1 - 1 / 2 ^ 53) \<le> f64_round x" "0 \<le> x \<Longrightarrow> f64_round x \<le> x * (1 + 1 / 2 ^ 53)"
  unfolding f64_round_def by (rule round_bits_bounds; simp)+

lemma f64_round_nonneg: "0 \<le> x \<Longrightarrow> 0 \<le> f64_round x"
  by (rule order_trans [OF _ f64_bounds(1)]) simp_all

end
