(* ===== verification/Watermark.thy ===== *)
theory Watermark
  imports Floats Tables Upload
begin

text \<open>
  The watermark of the worker: \<open>pichost-worker/src/watermark.rs\<close> and \<open>fonts.rs\<close>. The imaging
  libraries (image, imageproc, webp and the font parser) are a parameter, \<open>image_lib\<close>; what the code computes
  itself is here: the colour syntax, the font size, the positions and the tiling. \<open>None\<close> is a call
  that does not return: a panic, or a loop that never ends.
\<close>

section \<open>The imaging libraries\<close>

datatype image_format = Png | Jpeg | Gif | WebP | Avif | Bmp | OtherFormat string

type_synonym rgba = "nat \<times> nat \<times> nat \<times> nat"

text \<open>
  A font is known by its name; \<open>il_font\<close> says whether its bundled file parses. \<open>il_text_width\<close> is the
  width of \<open>text_size\<close>, and \<open>il_draw_text\<close> is \<open>draw_text_mut\<close> with its colour, position and size.
\<close>

record 'i image_lib =
  il_guess_format :: "string \<Rightarrow> string + image_format"
  il_decode :: "string \<Rightarrow> string + 'i"
  il_width :: "'i \<Rightarrow> nat"
  il_height :: "'i \<Rightarrow> nat"
  il_has_alpha :: "'i \<Rightarrow> bool"
  il_to_rgba8 :: "'i \<Rightarrow> 'i"
  il_resize_exact :: "'i \<Rightarrow> nat \<Rightarrow> nat \<Rightarrow> 'i"
  il_encode_jpeg :: "'i \<Rightarrow> nat \<Rightarrow> string + string"
  il_encode_png :: "'i \<Rightarrow> string + string"
  il_encode_webp :: "'i \<Rightarrow> rat \<Rightarrow> string"
  il_font :: "string \<Rightarrow> bool"
  il_text_width :: "rat \<Rightarrow> string \<Rightarrow> string \<Rightarrow> nat"
  il_draw_text :: "rgba \<Rightarrow> int \<Rightarrow> int \<Rightarrow> rat \<Rightarrow> string \<Rightarrow> string \<Rightarrow> 'i \<Rightarrow> 'i"

section \<open>Numbers in text\<close>

text \<open>
  \<open>u8::from_str_radix\<close> and \<open>parse::<u8>\<close>: one leading \<open>+\<close> is accepted when digits follow.
\<close>

definition digit_of :: "nat \<Rightarrow> char \<Rightarrow> nat option" where
  "digit_of radix c =
     (let n = of_char c :: nat;
          d = (if 48 \<le> n \<and> n \<le> 57 then n - 48 else if 97 \<le> n \<and> n \<le> 122 then n - 87
               else if 65 \<le> n \<and> n \<le> 90 then n - 55 else radix)
      in if d < radix then Some d else None)"

fun digits_of :: "nat \<Rightarrow> nat \<Rightarrow> string \<Rightarrow> nat option" where
  "digits_of radix acc [] = Some acc"
| "digits_of radix acc (c # cs) =
     (case digit_of radix c of None \<Rightarrow> None | Some d \<Rightarrow> digits_of radix (acc * radix + d) cs)"

definition u8_from_str_radix :: "nat \<Rightarrow> string \<Rightarrow> nat option" where
  "u8_from_str_radix radix s =
     (let digits = (case s of [] \<Rightarrow> [] | c # r \<Rightarrow> if c = CHR ''+'' \<and> r \<noteq> [] then r else s)
      in if digits = [] then None
         else (case digits_of radix 0 digits of
                 None \<Rightarrow> None
               | Some n \<Rightarrow> if n < 256 then Some n else None))"

text \<open>\<open>parse::<f64>\<close>: a sign, then \<open>inf\<close>, \<open>infinity\<close>, \<open>nan\<close> or a decimal number with an exponent.\<close>

datatype f64 = Finite rat | Infinite bool | NaN

definition all_digits :: "string \<Rightarrow> bool" where
  "all_digits s = list_all (\<lambda>c. digit_of 10 c \<noteq> None) s"

definition split_exponent :: "string \<Rightarrow> string \<times> string option" where
  "split_exponent s =
     (case split_once (CHR ''e'') (map ascii_lower_char s) of
        None \<Rightarrow> (s, None)
      | Some (m, e) \<Rightarrow> (m, Some e))"

definition parse_exponent :: "string \<Rightarrow> int option" where
  "parse_exponent s =
     (let (neg, d) = (case s of [] \<Rightarrow> (False, [])
                      | c # r \<Rightarrow> if c = CHR ''-'' then (True, r)
                                else if c = CHR ''+'' then (False, r) else (False, s))
      in if d = [] \<or> \<not> all_digits d then None
         else Some (if neg then - int (digits_val d) else int (digits_val d)))"

definition parse_decimal :: "string \<Rightarrow> rat option" where
  "parse_decimal s =
     (let (m, e) = split_exponent s;
          (ip, fp) = (case split_once (CHR ''.'') m of None \<Rightarrow> (m, []) | Some (a, b) \<Rightarrow> (a, b));
          expo = (case e of None \<Rightarrow> Some 0 | Some t \<Rightarrow> parse_exponent t)
      in if ip @ fp = [] \<or> \<not> all_digits (ip @ fp) then None
         else map_option (\<lambda>x. of_nat (digits_val (ip @ fp)) * 10 powi (x - int (length fp))) expo)"

definition parse_f64 :: "string \<Rightarrow> f64 option" where
  "parse_f64 s =
     (let (neg, t) = (case s of [] \<Rightarrow> (False, [])
                      | c # r \<Rightarrow> if c = CHR ''-'' then (True, r)
                                else if c = CHR ''+'' then (False, r) else (False, s));
          low = to_ascii_lowercase t
      in if low = ''inf'' \<or> low = ''infinity'' then Some (Infinite neg)
         else if low = ''nan'' then Some NaN
         else map_option (\<lambda>x. Finite (f64_round (if neg then - x else x))) (parse_decimal t))"

text \<open>\<open>(a.clamp(0.0, 1.0) * 255.0) as u8\<close>\<close>

fun alpha_u8 :: "f64 \<Rightarrow> nat" where
  "alpha_u8 (Finite a) = sat_u8 (f64_round (min 1 (max 0 a) * 255))"
| "alpha_u8 (Infinite neg) = (if neg then 0 else 255)"
| "alpha_u8 NaN = 0"

section \<open>Colours\<close>

text \<open>A slice of a \<open>str\<close>; \<open>None\<close> when an end is not on a character boundary.\<close>

definition str_slice :: "string \<Rightarrow> nat \<Rightarrow> nat \<Rightarrow> string option" where
  "str_slice s i j =
     (if i \<le> j \<and> j \<le> length s \<and> char_boundary s i \<and> char_boundary s j
      then Some (take (j - i) (drop i s)) else None)"

text \<open>Two hexadecimal digits at a position: a panic, an error, or the value.\<close>

definition hex_pair :: "string \<Rightarrow> nat \<Rightarrow> (string + nat) option" where
  "hex_pair hex i =
     (case str_slice hex i (i + 2) of
        None \<Rightarrow> None
      | Some t \<Rightarrow> Some (ok_or (u8_from_str_radix 16 t) ''Invalid hex color''))"

fun hex_pairs :: "string \<Rightarrow> nat list \<Rightarrow> (string + nat list) option" where
  "hex_pairs hex [] = Some (Inr [])"
| "hex_pairs hex (i # is) =
     (case hex_pair hex i of
        None \<Rightarrow> None
      | Some (Inl e) \<Rightarrow> Some (Inl e)
      | Some (Inr n) \<Rightarrow>
          (case hex_pairs hex is of
             None \<Rightarrow> None
           | Some r \<Rightarrow> Some (rbind r (\<lambda>ns. Inr (n # ns)))))"

definition rgba_components :: "string list \<Rightarrow> string + rgba" where
  "rgba_components parts =
     rbind (ok_or (u8_from_str_radix 10 (parts ! 0)) ''Invalid R in rgba()'') (\<lambda>r.
     rbind (ok_or (u8_from_str_radix 10 (parts ! 1)) ''Invalid G in rgba()'') (\<lambda>g.
     rbind (ok_or (u8_from_str_radix 10 (parts ! 2)) ''Invalid B in rgba()'') (\<lambda>b.
     rbind (ok_or (parse_f64 (parts ! 3)) ''Invalid A in rgba()'') (\<lambda>a. Inr (r, g, b, alpha_u8 a)))))"

definition parse_hex_color :: "string \<Rightarrow> (string + rgba) option" where
  "parse_hex_color s =
     (let bad = Some (Inl (''Invalid color format: '' @ s))
      in case strip_prefix s ''#'' of
           None \<Rightarrow> bad
         | Some hex \<Rightarrow>
             (if length hex = 6 then
                map_option (\<lambda>x. rbind x (\<lambda>ns. Inr (ns ! 0, ns ! 1, ns ! 2, 255))) (hex_pairs hex [0, 2, 4])
              else if length hex = 8 then
                map_option (\<lambda>x. rbind x (\<lambda>ns. Inr (ns ! 0, ns ! 1, ns ! 2, ns ! 3)))
                  (hex_pairs hex [0, 2, 4, 6])
              else bad))"

definition parse_rgba :: "string \<Rightarrow> (string + rgba) option" where
  "parse_rgba color_str =
     (let s = trim color_str
      in if starts_with s ''rgba('' \<and> ends_with s '')''
         then (let parts = map trim (split_on (CHR '','') (take (length s - 6) (drop 5 s)))
               in if length parts = 4 then Some (rgba_components parts) else parse_hex_color s)
         else parse_hex_color s)"

section \<open>Fonts\<close>

definition builtin_font_names :: "string list" where
  "builtin_font_names =
     [''NotoSansSC-Regular'', ''NotoSans-Regular'', ''Arial'', ''DejaVuSans'', ''FiraCode-Regular'']"

text \<open>The font itself is its name; the same table is in \<open>fonts::load_font\<close>.\<close>

definition load_font_arc :: "'i image_lib \<Rightarrow> string \<Rightarrow> string + string" where
  "load_font_arc il name =
     (if name = ''NotoSansSC-Regular'' \<or> name = ''NotoSans-Regular'' \<or> name = ''Arial'' \<or>
         name = ''DejaVuSans'' \<or> name = ''FiraCode-Regular''
      then (if il_font il name then Inr name else Inl (''Failed to parse font: '' @ name))
      else Inl (''Unknown font: '' @ name))"

definition load_font :: "'i image_lib \<Rightarrow> string \<Rightarrow> string + string" where
  "load_font il name =
     (if name = ''NotoSansSC-Regular'' \<or> name = ''NotoSans-Regular'' \<or> name = ''Arial'' \<or>
         name = ''DejaVuSans'' \<or> name = ''FiraCode-Regular''
      then (if il_font il name then Inr name else Inl (''Failed to parse font: '' @ name))
      else Inl (''Unknown font: '' @ name))"

definition scaled_font_size :: "rat \<Rightarrow> nat \<Rightarrow> rat \<Rightarrow> rat" where
  "scaled_font_size img_diagonal base_size scale =
     f32_round (f64_round (f64_round (f64_round (of_nat base_size * scale) * img_diagonal) / 1000))"

section \<open>Positions and tiles\<close>

text \<open>Division of \<open>i32\<close> truncates toward zero.\<close>

definition half_i32 :: "int \<Rightarrow> int" where
  "half_i32 x = (if x < 0 then - (- x div 2) else x div 2)"

definition text_height :: "rat \<Rightarrow> nat" where
  "text_height font_size = sat_u32 (of_int \<lceil>font_size\<rceil>)"

definition calculate_position ::
  "'i image_lib \<Rightarrow> nat \<Rightarrow> nat \<Rightarrow> string \<Rightarrow> rat \<Rightarrow> string \<Rightarrow> watermark_position \<Rightarrow> nat \<Rightarrow> nat \<Rightarrow>
   (int \<times> int) option" where
  "calculate_position il img_w img_h txt font_size font position margin_x margin_y =
     (let text_w = as_i32 (int (il_text_width il font_size font txt));
          text_h = as_i32 (int (text_height font_size));
          w = as_i32 (int img_w); h = as_i32 (int img_h);
          mx = as_i32 (int margin_x); my = as_i32 (int margin_y);
          right = as_i32 (as_i32 (w - text_w) - mx); bottom = as_i32 (as_i32 (h - text_h) - my)
      in case position of
           TopLeft \<Rightarrow> Some (mx, my)
         | TopRight \<Rightarrow> Some (right, my)
         | BottomLeft \<Rightarrow> Some (mx, bottom)
         | BottomRight \<Rightarrow> Some (right, bottom)
         | Center \<Rightarrow> Some (half_i32 (as_i32 (w - text_w)), half_i32 (as_i32 (h - text_h)))
         | Tile \<Rightarrow> None)"

text \<open>The two loops of \<open>draw_tiled\<close>; \<open>u32\<close> addition wraps, a step of 0 never leaves the loop.\<close>

partial_function (option) tile_row ::
  "(nat \<Rightarrow> 'i \<Rightarrow> 'i) \<Rightarrow> nat \<Rightarrow> nat \<Rightarrow> nat \<Rightarrow> 'i \<Rightarrow> 'i option" where
  "tile_row draw tile_w img_w x canvas =
     (if x < img_w then tile_row draw tile_w img_w ((x + tile_w) mod 2 ^ 32) (draw x canvas)
      else Some canvas)"

partial_function (option) tile_rows ::
  "(nat \<Rightarrow> nat \<Rightarrow> 'i \<Rightarrow> 'i) \<Rightarrow> nat \<Rightarrow> nat \<Rightarrow> nat \<Rightarrow> nat \<Rightarrow> nat \<Rightarrow> 'i \<Rightarrow> 'i option" where
  "tile_rows draw tile_w tile_h img_w img_h y canvas =
     (if y < img_h
      then Option.bind (tile_row (\<lambda>x. draw x y) tile_w img_w 0 canvas)
             (tile_rows draw tile_w tile_h img_w img_h ((y + tile_h) mod 2 ^ 32))
      else Some canvas)"

definition tile_width :: "nat \<Rightarrow> nat" where
  "tile_width text_w = sat_u32 (f32_round (f32_round (of_nat text_w) * 3))"

definition tile_height :: "nat \<Rightarrow> nat" where
  "tile_height text_h = sat_u32 (f32_round (f32_round (of_nat text_h) * 5))"

definition draw_tiled ::
  "'i image_lib \<Rightarrow> string \<Rightarrow> string \<Rightarrow> rat \<Rightarrow> rgba \<Rightarrow> 'i \<Rightarrow> 'i option" where
  "draw_tiled il font txt font_size color canvas =
     tile_rows (\<lambda>x y. il_draw_text il color (as_i32 (int x)) (as_i32 (int y)) font_size font txt)
       (tile_width (il_text_width il font_size font txt)) (tile_height (text_height font_size))
       (il_width il canvas) (il_height il canvas) 0 canvas"

definition apply_watermark ::
  "'i image_lib \<Rightarrow> 'i \<Rightarrow> watermark_config \<Rightarrow> (string + 'i) option" where
  "apply_watermark il img wm =
     (if \<not> wm_enabled wm \<or> wm_text wm = [] then Some (Inr img)
      else
        (let w = f32_round (of_nat (il_width il img)); h = f32_round (of_nat (il_height il img));
             diagonal = f32_sqrt (f32_round (f32_round (w * w) + f32_round (h * h)));
             font_size = scaled_font_size diagonal (wm_font_size wm) (wm_scale wm)
         in case load_font_arc il (wm_font wm) of
              Inl e \<Rightarrow> Some (Inl e)
            | Inr font \<Rightarrow>
                (case parse_rgba (wm_color wm) of
                   None \<Rightarrow> None
                 | Some (Inl e) \<Rightarrow> Some (Inl e)
                 | Some (Inr color) \<Rightarrow>
                     (let canvas = il_to_rgba8 il img
                      in if wm_position wm = Tile
                         then map_option Inr (draw_tiled il font (wm_text wm) font_size color canvas)
                         else
                           (case calculate_position il (sat_u32 w) (sat_u32 h) (wm_text wm) font_size font
                                   (wm_position wm) (wm_margin_x wm) (wm_margin_y wm) of
                              None \<Rightarrow> None
                            | Some (x, y) \<Rightarrow>
                                Some (Inr (il_draw_text il color x y font_size font (wm_text wm) canvas)))))))"

end
