(* ===== verification/Redis_Queue.thy ===== *)
theory Redis_Queue
  imports Redis_Props
begin

text \<open>
  The Redis task queue of the worker, \<open>pichost-worker/src/queue.rs\<close>: a pending, a processing and a
  dead list of task ids and one hash per task. Parameters, besides the server: \<open>us\<close> and \<open>pu\<close> print
  and parse a \<open>Uuid\<close>, \<open>enc\<close> and \<open>dec\<close> are \<open>serde_json\<close> of a payload, \<open>rfc\<close> and \<open>prfc\<close> print and
  parse an RFC 3339 time (\<open>queue_codec\<close>). An operation is a function of the server's state; \<open>qbind\<close>
  is the \<open>?\<close> of the code: after an error nothing more is sent.
\<close>

section \<open>Sequencing\<close>

datatype rq_error = RqRedis string | RqSerialize | RqMissing uuid | RqInvalidUuid string

type_synonym ('r, 'a) redis_op = "'r \<Rightarrow> (rq_error + 'a) \<times> 'r"

definition qret :: "'a \<Rightarrow> ('r, 'a) redis_op" where "qret x = (\<lambda>s. (Inr x, s))"

definition qfail :: "rq_error \<Rightarrow> ('r, 'a) redis_op" where "qfail e = (\<lambda>s. (Inl e, s))"

definition qbind :: "('r, 'a) redis_op \<Rightarrow> ('a \<Rightarrow> ('r, 'b) redis_op) \<Rightarrow> ('r, 'b) redis_op" where
  "qbind m f = (\<lambda>s. case m s of (Inl e, s') \<Rightarrow> (Inl e, s') | (Inr x, s') \<Rightarrow> f x s')"

definition ask :: "'r redis_exec \<Rightarrow> instant \<Rightarrow> redis_cmd \<Rightarrow> ('r, redis_reply) redis_op" where
  "ask exec t c = (\<lambda>s. apfst (map_err RqRedis) (query exec s t c))"

definition ask_opt :: "'r redis_exec \<Rightarrow> instant \<Rightarrow> redis_cmd \<Rightarrow> ('r, string option) redis_op" where
  "ask_opt exec t c =
     qbind (ask exec t c)
       (\<lambda>r. case r of RNil \<Rightarrow> qret None | RBulk v \<Rightarrow> qret (Some v)
            | _ \<Rightarrow> qfail (RqRedis ''unexpected reply''))"

definition ask_arr :: "'r redis_exec \<Rightarrow> instant \<Rightarrow> redis_cmd \<Rightarrow> ('r, string list) redis_op" where
  "ask_arr exec t c =
     qbind (ask exec t c)
       (\<lambda>r. case r of RArr xs \<Rightarrow> qret xs | _ \<Rightarrow> qfail (RqRedis ''unexpected reply''))"

fun ask_all :: "'r redis_exec \<Rightarrow> instant \<Rightarrow> redis_cmd list \<Rightarrow> ('r, unit) redis_op" where
  "ask_all exec t [] = qret ()"
| "ask_all exec t (c # cs) = qbind (ask exec t c) (\<lambda>_. ask_all exec t cs)"

section \<open>Keys and codecs\<close>

definition key_pending :: string where "key_pending = ''pichost:tasks:pending''"
definition key_processing :: string where "key_processing = ''pichost:tasks:processing''"
definition key_dead :: string where "key_dead = ''pichost:tasks:dead''"

definition task_key :: "(uuid \<Rightarrow> string) \<Rightarrow> uuid \<Rightarrow> string" where
  "task_key us i = ''pichost:task:'' @ us i"

record queue_codec =
  qc_uuid :: "uuid \<Rightarrow> string"
  qc_parse_uuid :: "string \<Rightarrow> uuid option"
  qc_enc :: "task_payload \<Rightarrow> string"
  qc_dec :: "string \<Rightarrow> task_payload option"
  qc_time :: "instant \<Rightarrow> string"
  qc_parse_time :: "string \<Rightarrow> instant option"

text \<open>What is printed parses back, the payloads at least for the tasks \<open>ps\<close>.\<close>

definition queue_codec_laws :: "queue_codec \<Rightarrow> task_payload set \<Rightarrow> bool" where
  "queue_codec_laws qc ps \<longleftrightarrow>
     (\<forall>i. qc_parse_uuid qc (qc_uuid qc i) = Some i) \<and> (\<forall>p \<in> ps. qc_dec qc (qc_enc qc p) = Some p) \<and>
     (\<forall>t. qc_parse_time qc (qc_time qc t) = Some t)"

section \<open>The queue functions\<close>

definition enqueue_task ::
  "'r redis_exec \<Rightarrow> queue_codec \<Rightarrow> instant \<Rightarrow> task_payload \<Rightarrow> ('r, unit) redis_op" where
  "enqueue_task exec qc t task =
     (let key = task_key (qc_uuid qc) (task_id task); now = qc_time qc t; json = qc_enc qc task
      in ask_all exec t
           [CHSet key ''data'' json, CHSet key ''status'' ''pending'', CHSet key ''created_at'' now,
            CHSet key ''updated_at'' now, CLPush key_pending (qc_uuid qc (task_id task))])"

text \<open>The blocking wait returns the element or, after its timeout, nothing.\<close>

definition dequeue_task ::
  "'r redis_exec \<Rightarrow> queue_codec \<Rightarrow> instant \<Rightarrow> ('r, task_payload option) redis_op" where
  "dequeue_task exec qc t =
     qbind (ask_opt exec t (CRPopLPush key_pending key_processing))
       (\<lambda>popped. case popped of
          None \<Rightarrow> qret None
        | Some id_str \<Rightarrow>
            (case qc_parse_uuid qc id_str of
               None \<Rightarrow> qfail (RqInvalidUuid id_str)
             | Some i \<Rightarrow>
                 (let key = task_key (qc_uuid qc) i
                  in qbind (ask_opt exec t (CHGet key ''data''))
                       (\<lambda>json. case json of
                          None \<Rightarrow>
                            qbind (ask_all exec t [CLRem key_processing (qc_uuid qc i)])
                              (\<lambda>_. qfail (RqMissing i))
                        | Some j \<Rightarrow>
                            (case qc_dec qc j of
                               None \<Rightarrow> qfail RqSerialize
                             | Some task \<Rightarrow>
                                 qbind (ask_all exec t
                                          [CHSet key ''status'' ''processing'',
                                           CHSet key ''updated_at'' (qc_time qc t)])
                                   (\<lambda>_. qret (Some task)))))))"

definition ack_task :: "'r redis_exec \<Rightarrow> queue_codec \<Rightarrow> instant \<Rightarrow> uuid \<Rightarrow> ('r, unit) redis_op" where
  "ack_task exec qc t i =
     (let key = task_key (qc_uuid qc) i
      in ask_all exec t
           [CLRem key_processing (qc_uuid qc i), CHSet key ''status'' ''done'',
            CHSet key ''updated_at'' (qc_time qc t)])"

text \<open>The \<open>i32\<close> counter wraps in a release build.\<close>

definition nack_task ::
  "'r redis_exec \<Rightarrow> queue_codec \<Rightarrow> instant \<Rightarrow> task_payload \<Rightarrow> string \<Rightarrow> ('r, nack_action) redis_op" where
  "nack_task exec qc t task err =
     (let key = task_key (qc_uuid qc) (task_id task); id_str = qc_uuid qc (task_id task)
      in qbind (ask_all exec t
                 [CLRem key_processing id_str, CHSet key ''error'' err,
                  CHSet key ''updated_at'' (qc_time qc t)])
           (\<lambda>_. if retry_count task < max_retries task
                then (let updated = task\<lparr>retry_count := as_i32 (retry_count task + 1)\<rparr>
                      in qbind (ask_all exec t
                                 [CHSet key ''data'' (qc_enc qc updated), CHSet key ''status'' ''pending'',
                                  CLPush key_pending id_str])
                           (\<lambda>_. qret Retry))
                else qbind (ask_all exec t [CLPush key_dead id_str, CHSet key ''status'' ''dead''])
                       (\<lambda>_. qret DeadLetter)))"

definition parse_task_updated_at :: "queue_codec \<Rightarrow> string \<Rightarrow> instant option" where
  "parse_task_updated_at qc s = qc_parse_time qc s"

definition recover_single_task ::
  "'r redis_exec \<Rightarrow> queue_codec \<Rightarrow> instant \<Rightarrow> uuid \<Rightarrow> string \<Rightarrow> ('r, task_payload option) redis_op" where
  "recover_single_task exec qc t i id_str =
     (let key = task_key (qc_uuid qc) i
      in qbind (ask_opt exec t (CHGet key ''data''))
           (\<lambda>json. case Option.bind json (qc_dec qc) of
              None \<Rightarrow> qret None
            | Some task \<Rightarrow>
                qbind (ask_all exec t
                         [CLRem key_processing id_str, CHSet key ''status'' ''pending'',
                          CHSet key ''updated_at'' (qc_time qc t), CHSet key ''error'' ''recovered: stale'',
                          CLPush key_pending id_str])
                  (\<lambda>_. qret (Some task))))"

text \<open>One turn of the loop; a \<open>continue\<close> gives \<open>None\<close>.\<close>

definition recover_one ::
  "'r redis_exec \<Rightarrow> queue_codec \<Rightarrow> instant \<Rightarrow> nat \<Rightarrow> string \<Rightarrow> ('r, task_payload option) redis_op" where
  "recover_one exec qc t timeout id_str =
     (case qc_parse_uuid qc id_str of
        None \<Rightarrow> qret None
      | Some i \<Rightarrow>
          qbind (ask_opt exec t (CHGet (task_key (qc_uuid qc) i) ''updated_at''))
            (\<lambda>u. case Option.bind u (parse_task_updated_at qc) of
               None \<Rightarrow> qret None
             | Some updated_at \<Rightarrow>
                 (if t \<le> updated_at + secs timeout then qret None
                  else recover_single_task exec qc t i id_str)))"

fun recover_loop ::
  "'r redis_exec \<Rightarrow> queue_codec \<Rightarrow> instant \<Rightarrow> nat \<Rightarrow> string list \<Rightarrow> ('r, task_payload list) redis_op" where
  "recover_loop exec qc t timeout [] = qret []"
| "recover_loop exec qc t timeout (x # xs) =
     qbind (recover_one exec qc t timeout x)
       (\<lambda>r. qbind (recover_loop exec qc t timeout xs)
          (\<lambda>rs. qret (case r of None \<Rightarrow> rs | Some task \<Rightarrow> task # rs)))"

definition recover_stale_tasks ::
  "'r redis_exec \<Rightarrow> queue_codec \<Rightarrow> instant \<Rightarrow> nat \<Rightarrow> ('r, task_payload list) redis_op" where
  "recover_stale_tasks exec qc t timeout =
     qbind (ask_arr exec t (CLRange key_processing)) (recover_loop exec qc t timeout)"

section \<open>The trait\<close>

fun rq_error_display :: "(uuid \<Rightarrow> string) \<Rightarrow> rq_error \<Rightarrow> string" where
  "rq_error_display us (RqRedis m) = ''redis error: '' @ m"
| "rq_error_display us RqSerialize = ''serialization error''"
| "rq_error_display us (RqMissing i) = ''missing task data for id '' @ us i"
| "rq_error_display us (RqInvalidUuid s) = ''invalid uuid: '' @ s"

definition to_state_error :: "(uuid \<Rightarrow> string) \<Rightarrow> rq_error \<Rightarrow> queue_error" where
  "to_state_error us e = QOther (rq_error_display us e)"

definition nack_err_msg :: string where "nack_err_msg = ''nack: task failed''"

definition redis_queue_nack ::
  "'r redis_exec \<Rightarrow> queue_codec \<Rightarrow> instant \<Rightarrow> uuid \<Rightarrow> int \<Rightarrow> int \<Rightarrow> ('r, nack_action) redis_op" where
  "redis_queue_nack exec qc t i rc mr =
     qbind (ask_opt exec t (CHGet (task_key (qc_uuid qc) i) ''data''))
       (\<lambda>json. case json of
          None \<Rightarrow> qfail (RqMissing i)
        | Some j \<Rightarrow>
            (case qc_dec qc j of
               None \<Rightarrow> qfail RqSerialize
             | Some task \<Rightarrow>
                 nack_task exec qc t (task\<lparr>retry_count := rc, max_retries := mr\<rparr>) nack_err_msg))"

definition redis_queue_ops :: "'r redis_exec \<Rightarrow> queue_codec \<Rightarrow> 'r queue_ops" where
  "redis_queue_ops exec qc =
     \<lparr>qo_enqueue = (\<lambda>s t p. apfst (map_err (to_state_error (qc_uuid qc))) (enqueue_task exec qc t p s)),
      qo_dequeue = (\<lambda>s t. apfst (map_err (to_state_error (qc_uuid qc))) (dequeue_task exec qc t s)),
      qo_ack = (\<lambda>s t i. apfst (map_err (to_state_error (qc_uuid qc))) (ack_task exec qc t i s)),
      qo_nack = (\<lambda>s t i rc mr.
        apfst (map_err (to_state_error (qc_uuid qc))) (redis_queue_nack exec qc t i rc mr s))\<rparr>"

section \<open>Operations on a server that is up\<close>

named_theorems sim_intros "operations that do on a server what they do on the documented one"

definition sim :: "('r \<Rightarrow> key_space) \<Rightarrow> ('r, 'a) redis_op \<Rightarrow> (key_space, 'a) redis_op \<Rightarrow> bool" where
  "sim ks m m' \<longleftrightarrow> (\<forall>s. apsnd ks (m s) = m' (ks s))"

lemma simD: "sim ks m m' \<Longrightarrow> m s = (r, s') \<Longrightarrow> m' (ks s) = (r, ks s')"
  unfolding sim_def by (metis apsnd_conv)

lemma sim_fst: "sim ks m m' \<Longrightarrow> fst (m s) = fst (m' (ks s))"
  unfolding sim_def by (metis fst_apsnd)

lemma sim_snd: "sim ks m m' \<Longrightarrow> ks (snd (m s)) = snd (m' (ks s))"
  unfolding sim_def by (metis snd_apsnd)

lemma sim_qret [sim_intros]: "sim ks (qret x) (qret x)"
  by (simp add: sim_def qret_def)

lemma sim_qfail [sim_intros]: "sim ks (qfail e) (qfail e)"
  by (simp add: sim_def qfail_def)

lemma sim_qbind [sim_intros]:
  assumes "sim ks m m'" and "\<And>x. sim ks (f x) (f' x)"
  shows "sim ks (qbind m f) (qbind m' f')"
  unfolding sim_def
proof
  fix s
  obtain r s' where m: "m s = (r, s')" by fastforce
  have m': "m' (ks s) = (r, ks s')" by (rule simD [OF assms(1) m])
  show "apsnd ks (qbind m f s) = qbind m' f' (ks s)"
    using assms(2) by (cases r) (simp_all add: qbind_def m m' sim_def)
qed

lemma sim_ask [sim_intros]: "redis_up exec ks \<Longrightarrow> sim ks (ask exec t c) (ask redis_server t c)"
proof -
  assume up: "redis_up exec ks"
  show ?thesis
    unfolding sim_def
  proof
    fix s
    show "apsnd ks (ask exec t c s) = ask redis_server t c (ks s)"
      using query_up [OF up, of s t c] by (cases "query exec s t c") (simp add: ask_def flip: \<open>_ = query redis_server _ _ _\<close>)
  qed
qed

end
