(* ===== verification/Redis_Queue_Props.thy ===== *)
theory Redis_Queue_Props
  imports Redis_Queue "HOL-Library.Multiset"
begin

text \<open>
  The lists and hashes of the Redis queue, what each command of the queue does to them, that no
  operation but an ack loses a task, and the life of a task that keeps failing.
\<close>

section \<open>The operations on a server that is up\<close>

lemma sim_ask_opt [sim_intros]:
  "redis_up exec ks \<Longrightarrow> sim ks (ask_opt exec t c) (ask_opt redis_server t c)"
  unfolding ask_opt_def by (auto intro!: sim_intros split: redis_reply.split)

lemma sim_ask_arr [sim_intros]:
  "redis_up exec ks \<Longrightarrow> sim ks (ask_arr exec t c) (ask_arr redis_server t c)"
  unfolding ask_arr_def by (auto intro!: sim_intros split: redis_reply.split)

lemma sim_ask_all [sim_intros]:
  "redis_up exec ks \<Longrightarrow> sim ks (ask_all exec t cs) (ask_all redis_server t cs)"
  by (induction cs) (auto intro!: sim_intros)

lemma sim_enqueue: "redis_up exec ks \<Longrightarrow> sim ks (enqueue_task exec qc t p) (enqueue_task redis_server qc t p)"
  by (simp add: enqueue_task_def Let_def sim_intros)

lemma sim_dequeue: "redis_up exec ks \<Longrightarrow> sim ks (dequeue_task exec qc t) (dequeue_task redis_server qc t)"
  unfolding dequeue_task_def Let_def by (auto intro!: sim_intros split: option.split)

lemma sim_ack: "redis_up exec ks \<Longrightarrow> sim ks (ack_task exec qc t i) (ack_task redis_server qc t i)"
  by (simp add: ack_task_def Let_def sim_intros)

lemma sim_nack_task [sim_intros]:
  "redis_up exec ks \<Longrightarrow> sim ks (nack_task exec qc t p e) (nack_task redis_server qc t p e)"
  unfolding nack_task_def Let_def by (auto intro!: sim_intros)

lemma sim_nack: "redis_up exec ks \<Longrightarrow> sim ks (redis_queue_nack exec qc t i rc mr) (redis_queue_nack redis_server qc t i rc mr)"
  unfolding redis_queue_nack_def by (auto intro!: sim_intros split: option.split)

lemma sim_recover_one [sim_intros]:
  "redis_up exec ks \<Longrightarrow> sim ks (recover_one exec qc t n x) (recover_one redis_server qc t n x)"
  unfolding recover_one_def recover_single_task_def Let_def by (auto intro!: sim_intros split: option.split)

lemma sim_recover: "redis_up exec ks \<Longrightarrow> sim ks (recover_stale_tasks exec qc t n) (recover_stale_tasks redis_server qc t n)"
proof -
  assume up: "redis_up exec ks"
  have "sim ks (recover_loop exec qc t n xs) (recover_loop redis_server qc t n xs)" for xs
    by (induction xs) (auto intro!: sim_intros up)
  then show ?thesis unfolding recover_stale_tasks_def by (auto intro!: sim_intros up)
qed

section \<open>The data of the queue\<close>

definition qlist :: "key_space \<Rightarrow> string \<Rightarrow> string list" where
  "qlist k key = (case k key of Some (VList xs, _) \<Rightarrow> xs | _ \<Rightarrow> [])"

definition qfields :: "key_space \<Rightarrow> string \<Rightarrow> string \<Rightarrow> string option" where
  "qfields k key = (case k key of Some (VHash h, _) \<Rightarrow> map_of h | _ \<Rightarrow> Map.empty)"

definition wf_list :: "key_space \<Rightarrow> string \<Rightarrow> bool" where
  "wf_list k key \<longleftrightarrow> (k key = None \<or> (\<exists>xs. k key = Some (VList xs, None)))"

definition wf_hash :: "key_space \<Rightarrow> string \<Rightarrow> bool" where
  "wf_hash k key \<longleftrightarrow> (k key = None \<or> (\<exists>h. k key = Some (VHash h, None)))"

definition list_keys :: "string set" where "list_keys = {key_pending, key_processing, key_dead}"

definition queue_wf :: "(uuid \<Rightarrow> string) \<Rightarrow> key_space \<Rightarrow> bool" where
  "queue_wf us k \<longleftrightarrow> (\<forall>key \<in> list_keys. wf_list k key) \<and> (\<forall>i. wf_hash k (task_key us i))"

lemma list_keys_simps [simp]:
  "key_pending \<in> list_keys" "key_processing \<in> list_keys" "key_dead \<in> list_keys"
  "key_pending \<noteq> key_processing" "key_processing \<noteq> key_pending" "key_pending \<noteq> key_dead"
  "key_dead \<noteq> key_pending" "key_processing \<noteq> key_dead" "key_dead \<noteq> key_processing"
  by (simp_all add: list_keys_def key_pending_def key_processing_def key_dead_def)

lemma task_key_not_list [simp]: "task_key us i \<notin> list_keys"
  by (simp add: task_key_def list_keys_def key_pending_def key_processing_def key_dead_def)

lemma task_key_inj: "queue_codec_laws qc ps \<Longrightarrow> task_key (qc_uuid qc) i = task_key (qc_uuid qc) j \<longleftrightarrow> i = j"
  by (auto simp: task_key_def queue_codec_laws_def) (metis option.inject)

lemma wf_list_live: "wf_list k key \<Longrightarrow> list_of (live k t key) = Some (qlist k key)"
  by (auto simp: wf_list_def live_def list_of_def qlist_def)

lemma wf_hash_live: "wf_hash k key \<Longrightarrow> \<exists>h. hash_of (live k t key) = Some h \<and> map_of h = qfields k key"
  by (auto simp: wf_hash_def live_def hash_of_def qfields_def)

lemma wf_list_store:
  "wf_list k key \<Longrightarrow> wf_list (store_list k t key xs) key \<and> qlist (store_list k t key xs) key = xs"
  by (auto simp: wf_list_def store_list_def drop_key_def store_keep_def deadline_def live_def qlist_def)

lemma store_list_other:
  "key \<noteq> key' \<Longrightarrow> store_list k t key xs key' = k key'"
  by (simp add: store_list_def drop_key_def store_keep_def)

lemma wf_hash_store:
  "wf_hash k key \<Longrightarrow> wf_hash (store_keep k t key (VHash h)) key \<and> qfields (store_keep k t key (VHash h)) key = map_of h"
  by (auto simp: wf_hash_def store_keep_def deadline_def live_def qfields_def)

lemma store_keep_other: "key \<noteq> key' \<Longrightarrow> store_keep k t key v key' = k key'"
  by (simp add: store_keep_def)

section \<open>The effect of a command\<close>

fun queue_cmd :: "(uuid \<Rightarrow> string) \<Rightarrow> redis_cmd \<Rightarrow> bool" where
  "queue_cmd us (CLPush key x) = (key \<in> list_keys)"
| "queue_cmd us (CLRem key x) = (key \<in> list_keys)"
| "queue_cmd us (CHSet key f v) = (\<exists>i. key = task_key us i)"
| "queue_cmd us _ = False"

fun list_effect :: "string \<Rightarrow> redis_cmd \<Rightarrow> string list \<Rightarrow> string list" where
  "list_effect key (CLPush k x) xs = (if k = key then x # xs else xs)"
| "list_effect key (CLRem k x) xs = (if k = key then remove1 x xs else xs)"
| "list_effect key _ xs = xs"

fun field_effect :: "string \<Rightarrow> redis_cmd \<Rightarrow> (string \<Rightarrow> string option) \<Rightarrow> string \<Rightarrow> string option" where
  "field_effect key (CHSet k f v) m = (if k = key then m(f \<mapsto> v) else m)"
| "field_effect key _ m = m"

definition queue_step :: "(uuid \<Rightarrow> string) \<Rightarrow> redis_cmd list \<Rightarrow> key_space \<Rightarrow> key_space \<Rightarrow> bool" where
  "queue_step us cs k k' \<longleftrightarrow> queue_wf us k' \<and>
     (\<forall>key \<in> list_keys. qlist k' key = fold (list_effect key) cs (qlist k key)) \<and>
     (\<forall>i. qfields k' (task_key us i) = fold (field_effect (task_key us i)) cs (qfields k (task_key us i)))"

lemma map_of_filter_other: "map_of ((f, v) # filter (\<lambda>p. fst p \<noteq> f) h) = (map_of h)(f \<mapsto> v)"
proof
  fix x
  have "map_of (filter (\<lambda>p. fst p \<noteq> f) h) x = map_of h x" if "x \<noteq> f"
    using that by (induction h) auto
  then show "map_of ((f, v) # filter (\<lambda>p. fst p \<noteq> f) h) x = ((map_of h)(f \<mapsto> v)) x" by simp
qed

lemma wf_frame:
  assumes "queue_wf us k" and "\<forall>key'. key' \<noteq> key \<longrightarrow> k' key' = k key'" and "key \<in> list_keys"
    and "wf_list k' key"
  shows "queue_wf us k' \<and> (\<forall>i. qfields k' (task_key us i) = qfields k (task_key us i)) \<and>
    (\<forall>key' \<in> list_keys. key' \<noteq> key \<longrightarrow> qlist k' key' = qlist k key')"
proof -
  have t: "k' (task_key us i) = k (task_key us i)" for i
    using assms(2,3) task_key_not_list by metis
  show ?thesis
    using assms t by (auto simp: queue_wf_def wf_list_def wf_hash_def qlist_def qfields_def; metis)
qed

lemma list_cmd_step:
  assumes "queue_wf us k" and "key \<in> list_keys"
    and "list_effect key c (qlist k key) = xs" and "c = CLPush key x \<or> c = CLRem key x"
  shows "queue_step us [c] k (store_list k t key xs)"
proof -
  have w: "wf_list k key" using assms(1,2) by (simp add: queue_wf_def)
  have f: "\<forall>key'. key' \<noteq> key \<longrightarrow> store_list k t key xs key' = k key'"
    by (auto simp: store_list_other)
  have s: "wf_list (store_list k t key xs) key" "qlist (store_list k t key xs) key = xs"
    using wf_list_store [OF w] by auto
  have o: "list_effect key' c ys = ys" if "key' \<noteq> key" for key' ys
    using assms(4) that by auto
  have h: "field_effect key' c m = m" for key' m
    using assms(4) by auto
  note fr = wf_frame [OF assms(1) f assms(2) s(1)]
  have "qlist (store_list k t key xs) key' = list_effect key' c (qlist k key')"
    if "key' \<in> list_keys" for key'
    using fr s(2) assms(3) o that by (cases "key' = key") auto
  then show ?thesis
    using fr h by (simp add: queue_step_def)
qed

lemma queue_step_unchanged: "queue_wf us k \<Longrightarrow> queue_step us [] k k"
  by (simp add: queue_step_def)

lemma queue_step_trans:
  "queue_step us cs k k' \<Longrightarrow> queue_step us cs' k' k'' \<Longrightarrow> queue_step us (cs @ cs') k k''"
  by (simp add: queue_step_def)

lemma queue_cmd_step:
  assumes "queue_wf us k" and "queue_cmd us c"
  shows "\<exists>r k'. ask redis_server t c k = (Inr r, k') \<and> queue_step us [c] k k'"
proof (cases c)
  case (CLPush key x)
  then have key: "key \<in> list_keys" using assms(2) by simp
  then have w: "list_of (live k t key) = Some (qlist k key)"
    using assms(1) wf_list_live by (auto simp: queue_wf_def)
  show ?thesis
    using list_cmd_step [OF assms(1) key, of c _ x t] CLPush
    by (simp add: ask_def query_server w)
next
  case (CLRem key x)
  then have key: "key \<in> list_keys" using assms(2) by simp
  then have w: "list_of (live k t key) = Some (qlist k key)"
    using assms(1) wf_list_live by (auto simp: queue_wf_def)
  show ?thesis
  proof (cases "x \<in> set (qlist k key)")
    case True
    then show ?thesis
      using list_cmd_step [OF assms(1) key, of c _ x t] CLRem
      by (simp add: ask_def query_server w)
  next
    case False
    then have "queue_step us [c] k k"
      using assms(1) CLRem by (auto simp: queue_step_def remove1_idem)
    with False show ?thesis using CLRem by (simp add: ask_def query_server w)
  qed
next
  case (CHSet key f v)
  then obtain i where key: "key = task_key us i" using assms(2) by auto
  then obtain h where h: "hash_of (live k t key) = Some h" "map_of h = qfields k key"
    using assms(1) wf_hash_live by (fastforce simp: queue_wf_def)
  let ?h = "(f, v) # filter (\<lambda>p. fst p \<noteq> f) h"
  have w: "wf_hash (store_keep k t key (VHash ?h)) key"
    "qfields (store_keep k t key (VHash ?h)) key = (qfields k key)(f \<mapsto> v)"
    using wf_hash_store [of k key t ?h] assms(1) key h(2)
    by (auto simp: queue_wf_def map_of_filter_other simp del: map_of.simps)
  have o: "store_keep k t key (VHash ?h) key' = k key'" if "key' \<noteq> key" for key'
    using that by (simp add: store_keep_other)
  have n: "key' \<noteq> key" if "key' \<in> list_keys" for key'
    using that key by auto
  have "queue_step us [c] k (store_keep k t key (VHash ?h))"
    unfolding queue_step_def
  proof (intro conjI ballI allI)
    show "queue_wf us (store_keep k t key (VHash ?h))"
      unfolding queue_wf_def
    proof (intro conjI ballI allI)
      fix key' assume "key' \<in> list_keys"
      then show "wf_list (store_keep k t key (VHash ?h)) key'"
        using assms(1) o n by (simp add: queue_wf_def wf_list_def)
    next
      fix j
      show "wf_hash (store_keep k t key (VHash ?h)) (task_key us j)"
        using assms(1) w(1) o by (cases "task_key us j = key") (simp_all add: queue_wf_def wf_hash_def)
    qed
  next
    fix key' assume "key' \<in> list_keys"
    then show "qlist (store_keep k t key (VHash ?h)) key' = fold (list_effect key') [c] (qlist k key')"
      using o n CHSet by (simp add: qlist_def)
  next
    fix j
    show "qfields (store_keep k t key (VHash ?h)) (task_key us j) =
        fold (field_effect (task_key us j)) [c] (qfields k (task_key us j))"
    proof (cases "task_key us j = key")
      case True
      then show ?thesis using w(2) CHSet by simp
    next
      case False
      then show ?thesis using o CHSet by (simp add: qfields_def)
    qed
  qed
  then show ?thesis using CHSet h(1) by (simp add: ask_def query_server)
qed (use assms in auto)

lemma ask_all_step:
  "queue_wf us k \<Longrightarrow> list_all (queue_cmd us) cs \<Longrightarrow>
   \<exists>k'. ask_all redis_server t cs k = (Inr (), k') \<and> queue_step us cs k k'"
proof (induction cs arbitrary: k)
  case Nil
  then show ?case by (simp add: qret_def queue_step_unchanged)
next
  case (Cons c cs)
  then obtain r k1 where c: "ask redis_server t c k = (Inr r, k1)" "queue_step us [c] k k1"
    using queue_cmd_step [of us k c t] by auto
  then have "queue_wf us k1" by (simp add: queue_step_def)
  with Cons obtain k' where "ask_all redis_server t cs k1 = (Inr (), k')" "queue_step us cs k1 k'"
    by auto
  with c queue_step_trans [of us "[c]" k k1 cs k'] show ?case by (simp add: qbind_def)
qed

lemma ask_opt_hget:
  assumes "queue_wf us k"
  shows "ask_opt redis_server t (CHGet (task_key us i) f) k = (Inr (qfields k (task_key us i) f), k)"
proof -
  obtain h where "hash_of (live k t (task_key us i)) = Some h" "map_of h = qfields k (task_key us i)"
    using assms wf_hash_live by (fastforce simp: queue_wf_def)
  then show ?thesis
    by (auto simp: ask_opt_def ask_def qbind_def query_server qret_def split: option.splits)
qed

lemma ask_opt_pop:
  assumes "queue_wf us k"
  shows "\<exists>k'. ask_opt redis_server t (CRPopLPush key_pending key_processing) k =
      (Inr (if qlist k key_pending = [] then None else Some (last (qlist k key_pending))), k') \<and>
    queue_wf us k' \<and> qlist k' key_pending = butlast (qlist k key_pending) \<and>
    qlist k' key_processing =
      (if qlist k key_pending = [] then [] else [last (qlist k key_pending)]) @ qlist k key_processing \<and>
    qlist k' key_dead = qlist k key_dead \<and> (\<forall>i. qfields k' (task_key us i) = qfields k (task_key us i))"
proof -
  have w: "wf_list k key_pending" "wf_list k key_processing"
    using assms by (simp_all add: queue_wf_def)
  have l: "list_of (live k t key_pending) = Some (qlist k key_pending)"
    "list_of (live k t key_processing) = Some (qlist k key_processing)"
    using w wf_list_live by auto
  show ?thesis
  proof (cases "qlist k key_pending")
    case Nil
    then show ?thesis
      using assms l by (simp add: ask_opt_def ask_def qbind_def query_server qret_def)
  next
    case (Cons y ys)
    let ?xs = "qlist k key_pending"
    let ?k1 = "store_list k t key_pending (butlast ?xs)"
    let ?k2 = "store_list ?k1 t key_processing (last ?xs # qlist k key_processing)"
    have e1: "\<forall>key. key \<noteq> key_pending \<longrightarrow> ?k1 key = k key" by (auto simp: store_list_other)
    have w1: "queue_wf us ?k1"
      and f1: "\<forall>i. qfields ?k1 (task_key us i) = qfields k (task_key us i)"
      and q1: "\<forall>key \<in> list_keys. key \<noteq> key_pending \<longrightarrow> qlist ?k1 key = qlist k key"
      using wf_frame [OF assms e1 _ conjunct1 [OF wf_list_store [OF w(1)]]] by auto
    have p1: "qlist ?k1 key_pending = butlast ?xs" using wf_list_store [OF w(1)] by blast
    have wp: "wf_list ?k1 key_processing" using w1 by (simp add: queue_wf_def)
    have l1: "list_of (live ?k1 t key_processing) = Some (qlist k key_processing)"
      using wf_list_live [OF wp] q1 by simp
    have e2: "\<forall>key. key \<noteq> key_processing \<longrightarrow> ?k2 key = ?k1 key" by (auto simp: store_list_other)
    have r: "documented (CRPopLPush key_pending key_processing) t k = (RBulk (last ?xs), ?k2)"
      using l l1 Cons by (simp add: Let_def)
    have "queue_wf us ?k2" "\<forall>i. qfields ?k2 (task_key us i) = qfields ?k1 (task_key us i)"
      "\<forall>key \<in> list_keys. key \<noteq> key_processing \<longrightarrow> qlist ?k2 key = qlist ?k1 key"
      using wf_frame [OF w1 e2 _ conjunct1 [OF wf_list_store [OF wp]]] by auto
    moreover have "qlist ?k2 key_processing = last ?xs # qlist k key_processing"
      using wf_list_store [OF wp] by blast
    moreover have "ask_opt redis_server t (CRPopLPush key_pending key_processing) k = (Inr (Some (last ?xs)), ?k2)"
      by (simp add: ask_opt_def ask_def qbind_def query_server qret_def r del: documented.simps)
    ultimately show ?thesis using f1 q1 p1 Cons by auto
  qed
qed

lemma ask_arr_range:
  assumes "queue_wf us k"
  shows "ask_arr redis_server t (CLRange key_processing) k = (Inr (qlist k key_processing), k)"
  using assms wf_list_live [of k key_processing t]
  by (simp add: queue_wf_def ask_arr_def ask_def qbind_def query_server qret_def)

section \<open>What the operations do\<close>

definition queue_ids :: "key_space \<Rightarrow> string multiset" where
  "queue_ids k = mset (qlist k key_pending) + mset (qlist k key_processing) + mset (qlist k key_dead)"

text \<open>The hash of a task holds that task.\<close>

definition queue_data_ok :: "queue_codec \<Rightarrow> key_space \<Rightarrow> bool" where
  "queue_data_ok qc k \<longleftrightarrow>
     (\<forall>i j p. qfields k (task_key (qc_uuid qc) i) ''data'' = Some j \<longrightarrow> qc_dec qc j = Some p \<longrightarrow> task_id p = i)"

lemma enqueue_step:
  "queue_wf (qc_uuid qc) k \<Longrightarrow> \<exists>k'. enqueue_task redis_server qc t p k = (Inr (), k') \<and>
     queue_step (qc_uuid qc)
       [CHSet (task_key (qc_uuid qc) (task_id p)) ''data'' (qc_enc qc p),
        CHSet (task_key (qc_uuid qc) (task_id p)) ''status'' ''pending'',
        CHSet (task_key (qc_uuid qc) (task_id p)) ''created_at'' (qc_time qc t),
        CHSet (task_key (qc_uuid qc) (task_id p)) ''updated_at'' (qc_time qc t),
        CLPush key_pending (qc_uuid qc (task_id p))] k k'"
  unfolding enqueue_task_def Let_def by (rule ask_all_step) auto

lemma ack_step:
  "queue_wf (qc_uuid qc) k \<Longrightarrow> \<exists>k'. ack_task redis_server qc t i k = (Inr (), k') \<and>
     queue_step (qc_uuid qc)
       [CLRem key_processing (qc_uuid qc i), CHSet (task_key (qc_uuid qc) i) ''status'' ''done'',
        CHSet (task_key (qc_uuid qc) i) ''updated_at'' (qc_time qc t)] k k'"
  unfolding ack_task_def Let_def by (rule ask_all_step) auto

definition nack_cmds :: "queue_codec \<Rightarrow> instant \<Rightarrow> task_payload \<Rightarrow> string \<Rightarrow> redis_cmd list" where
  "nack_cmds qc t p e =
     (let key = task_key (qc_uuid qc) (task_id p); i = qc_uuid qc (task_id p)
      in [CLRem key_processing i, CHSet key ''error'' e, CHSet key ''updated_at'' (qc_time qc t)] @
         (if retry_count p < max_retries p
          then [CHSet key ''data'' (qc_enc qc (p\<lparr>retry_count := as_i32 (retry_count p + 1)\<rparr>)),
                CHSet key ''status'' ''pending'', CLPush key_pending i]
          else [CLPush key_dead i, CHSet key ''status'' ''dead'']))"

lemma nack_task_step:
  assumes "queue_wf (qc_uuid qc) k"
  shows "\<exists>k'. nack_task redis_server qc t p e k =
      (Inr (if retry_count p < max_retries p then Retry else DeadLetter), k') \<and>
    queue_step (qc_uuid qc) (nack_cmds qc t p e) k k'"
proof -
  let ?key = "task_key (qc_uuid qc) (task_id p)" and ?i = "qc_uuid qc (task_id p)"
  let ?c1 = "[CLRem key_processing ?i, CHSet ?key ''error'' e, CHSet ?key ''updated_at'' (qc_time qc t)]"
  obtain k1 where k1: "ask_all redis_server t ?c1 k = (Inr (), k1)" "queue_step (qc_uuid qc) ?c1 k k1"
    using ask_all_step [OF assms, of ?c1 t] by auto
  then have w1: "queue_wf (qc_uuid qc) k1" by (simp add: queue_step_def)
  let ?c2 = "if retry_count p < max_retries p
          then [CHSet ?key ''data'' (qc_enc qc (p\<lparr>retry_count := as_i32 (retry_count p + 1)\<rparr>)),
                CHSet ?key ''status'' ''pending'', CLPush key_pending ?i]
          else [CLPush key_dead ?i, CHSet ?key ''status'' ''dead'']"
  obtain k2 where k2: "ask_all redis_server t ?c2 k1 = (Inr (), k2)" "queue_step (qc_uuid qc) ?c2 k1 k2"
  proof -
    have "list_all (queue_cmd (qc_uuid qc)) ?c2" by simp blast
    with ask_all_step [OF w1] that show thesis by blast
  qed
  have "nack_task redis_server qc t p e k =
      (Inr (if retry_count p < max_retries p then Retry else DeadLetter), k2)"
    using k1(1) k2(1) unfolding nack_task_def Let_def qbind_def qret_def
    by (cases "retry_count p < max_retries p") (simp_all del: ask_all.simps)
  with queue_step_trans [OF k1(2) k2(2)] show ?thesis by (auto simp: nack_cmds_def Let_def)
qed

lemma queue_step_lists:
  assumes "queue_step us cs k k'"
  shows "queue_wf us k'"
    and "qlist k' key_pending = fold (list_effect key_pending) cs (qlist k key_pending)"
    and "qlist k' key_processing = fold (list_effect key_processing) cs (qlist k key_processing)"
    and "qlist k' key_dead = fold (list_effect key_dead) cs (qlist k key_dead)"
    and "qfields k' (task_key us i) = fold (field_effect (task_key us i)) cs (qfields k (task_key us i))"
  using assms by (simp_all add: queue_step_def)

lemma nack_ids:
  assumes "queue_step us (nack_cmds qc t p e) k k'" and "qc_uuid qc (task_id p) \<in> set (qlist k key_processing)"
  shows "queue_ids k' = queue_ids k"
  using assms(2)
  by (simp add: queue_ids_def queue_step_lists(2-4) [OF assms(1)] nack_cmds_def Let_def)

lemma dequeue_ids:
  assumes w: "queue_wf (qc_uuid qc) k"
  shows "\<exists>r k'. dequeue_task redis_server qc t k = (r, k') \<and> queue_wf (qc_uuid qc) k' \<and>
    ((\<exists>i. r = Inl (RqMissing i)) \<or> queue_ids k' = queue_ids k)"
proof -
  let ?us = "qc_uuid qc" and ?xs = "qlist k key_pending"
  obtain k1 where pop: "ask_opt redis_server t (CRPopLPush key_pending key_processing) k =
      (Inr (if ?xs = [] then None else Some (last ?xs)), k1)"
    and w1: "queue_wf ?us k1" and l1: "qlist k1 key_pending = butlast ?xs"
    "qlist k1 key_processing = (if ?xs = [] then [] else [last ?xs]) @ qlist k key_processing"
    "qlist k1 key_dead = qlist k key_dead"
    using ask_opt_pop [OF w, of t] by auto
  have ids: "queue_ids k1 = queue_ids k"
  proof (cases "?xs = []")
    case False
    then have "mset ?xs = mset (butlast ?xs) + {#last ?xs#}"
      by (metis append_butlast_last_id mset.simps(1) mset.simps(2) mset_append)
    then show ?thesis using False by (simp add: queue_ids_def l1)
  qed (simp add: queue_ids_def l1)
  show ?thesis
  proof (cases "?xs = []")
    case True
    then show ?thesis using w1 ids by (simp add: dequeue_task_def qbind_def pop qret_def)
  next
    case False
    show ?thesis
    proof (cases "qc_parse_uuid qc (last ?xs)")
      case None
      with False show ?thesis using w1 ids by (simp add: dequeue_task_def qbind_def pop qfail_def)
    next
      case (Some i)
      have get: "ask_opt redis_server t (CHGet (task_key ?us i) ''data'') k1 =
          (Inr (qfields k1 (task_key ?us i) ''data''), k1)"
        by (rule ask_opt_hget [OF w1])
      obtain k2 where rem: "ask_all redis_server t [CLRem key_processing (?us i)] k1 = (Inr (), k2)"
        "queue_step ?us [CLRem key_processing (?us i)] k1 k2"
        using ask_all_step [OF w1, of "[CLRem key_processing (?us i)]" t] by auto
      let ?m = "[CHSet (task_key ?us i) ''status'' ''processing'',
                 CHSet (task_key ?us i) ''updated_at'' (qc_time qc t)]"
      obtain k3 where mark: "ask_all redis_server t ?m k1 = (Inr (), k3)" "queue_step ?us ?m k1 k3"
        using ask_all_step [OF w1, of ?m t] by auto
      have i3: "queue_ids k3 = queue_ids k1"
        by (simp add: queue_ids_def queue_step_lists(2-4) [OF mark(2)])
      show ?thesis
        using False Some get rem mark(1) queue_step_lists(1) [OF mark(2)] queue_step_lists(1) [OF rem(2)] w1 ids i3
        by (simp add: dequeue_task_def qbind_def pop qfail_def qret_def Let_def del: ask_all.simps
            split: option.split)
    qed
  qed
qed

lemma dequeue_last:
  assumes w: "queue_wf (qc_uuid qc) k" and laws: "queue_codec_laws qc ps" "p \<in> ps"
    and x: "qlist k key_pending = xs @ [qc_uuid qc i]"
    and d: "qfields k (task_key (qc_uuid qc) i) ''data'' = Some (qc_enc qc p)"
  shows "\<exists>k'. dequeue_task redis_server qc t k = (Inr (Some p), k') \<and> queue_wf (qc_uuid qc) k' \<and>
    qlist k' key_pending = xs \<and> qlist k' key_processing = qc_uuid qc i # qlist k key_processing \<and>
    qlist k' key_dead = qlist k key_dead \<and>
    qfields k' (task_key (qc_uuid qc) i) ''data'' = Some (qc_enc qc p)"
proof -
  let ?us = "qc_uuid qc"
  obtain k1 where pop: "ask_opt redis_server t (CRPopLPush key_pending key_processing) k = (Inr (Some (?us i)), k1)"
    and w1: "queue_wf ?us k1" and l1: "qlist k1 key_pending = xs"
    "qlist k1 key_processing = ?us i # qlist k key_processing" "qlist k1 key_dead = qlist k key_dead"
    and f1: "\<forall>j. qfields k1 (task_key ?us j) = qfields k (task_key ?us j)"
    using ask_opt_pop [OF w, of t] x by auto
  let ?m = "[CHSet (task_key ?us i) ''status'' ''processing'',
             CHSet (task_key ?us i) ''updated_at'' (qc_time qc t)]"
  obtain k3 where mark: "ask_all redis_server t ?m k1 = (Inr (), k3)" "queue_step ?us ?m k1 k3"
    using ask_all_step [OF w1, of ?m t] by auto
  have "dequeue_task redis_server qc t k = (Inr (Some p), k3)"
    using laws d f1 mark(1)
    by (simp add: dequeue_task_def qbind_def pop qret_def Let_def ask_opt_hget [OF w1]
        queue_codec_laws_def del: ask_all.simps)
  then show ?thesis
    using queue_step_lists [OF mark(2)] l1 d f1 by simp
qed

lemma nack_step:
  assumes w: "queue_wf (qc_uuid qc) k" and laws: "queue_codec_laws qc ps" "p \<in> ps"
    and d: "qfields k (task_key (qc_uuid qc) i) ''data'' = Some (qc_enc qc p)"
  shows "\<exists>k'. redis_queue_nack redis_server qc t i rc mr k =
      (Inr (if rc < mr then Retry else DeadLetter), k') \<and>
    queue_step (qc_uuid qc) (nack_cmds qc t (p\<lparr>retry_count := rc, max_retries := mr\<rparr>) nack_err_msg) k k'"
  using nack_task_step [OF w, of t "p\<lparr>retry_count := rc, max_retries := mr\<rparr>" nack_err_msg] laws d
  by (simp add: redis_queue_nack_def qbind_def ask_opt_hget [OF w] queue_codec_laws_def)

lemma nack_same_on_error:
  assumes w: "queue_wf (qc_uuid qc) k" and ok: "queue_data_ok qc k"
    and i: "qc_uuid qc i \<in> set (qlist k key_processing)"
  shows "\<exists>r k'. redis_queue_nack redis_server qc t i rc mr k = (r, k') \<and> queue_wf (qc_uuid qc) k' \<and>
    queue_ids k' = queue_ids k"
proof (cases "Option.bind (qfields k (task_key (qc_uuid qc) i) ''data'') (qc_dec qc)")
  case None
  then show ?thesis
    using w by (auto simp: redis_queue_nack_def qbind_def ask_opt_hget [OF w] qfail_def
        split: option.splits bind_splits)
next
  case (Some p)
  then obtain j where j: "qfields k (task_key (qc_uuid qc) i) ''data'' = Some j" "qc_dec qc j = Some p"
    by (auto simp: bind_eq_Some_conv)
  then have id: "task_id p = i" using ok by (auto simp: queue_data_ok_def)
  let ?p = "p\<lparr>retry_count := rc, max_retries := mr\<rparr>"
  obtain r k' where n: "nack_task redis_server qc t ?p nack_err_msg k = (r, k')"
    "queue_step (qc_uuid qc) (nack_cmds qc t ?p nack_err_msg) k k'"
    using nack_task_step [OF w, of t ?p nack_err_msg] by auto
  have "redis_queue_nack redis_server qc t i rc mr k = (r, k')"
    using n(1) j by (simp add: redis_queue_nack_def qbind_def ask_opt_hget [OF w])
  moreover have "queue_ids k' = queue_ids k"
    by (rule nack_ids [OF n(2)]) (simp add: id i)
  ultimately show ?thesis using queue_step_lists(1) [OF n(2)] by blast
qed

lemma recover_one_ids:
  assumes w: "queue_wf (qc_uuid qc) k" and x: "x \<in> set (qlist k key_processing)"
  shows "\<exists>r k'. recover_one redis_server qc t timeout x k = (Inr r, k') \<and> queue_wf (qc_uuid qc) k' \<and>
    queue_ids k' = queue_ids k \<and> mset (qlist k key_processing) - {#x#} \<subseteq># mset (qlist k' key_processing)"
proof -
  let ?us = "qc_uuid qc"
  have stay: ?thesis if "recover_one redis_server qc t timeout x k = (Inr None, k)"
    using that w by (auto intro!: exI [of _ "None :: task_payload option"])
  show ?thesis
  proof (cases "qc_parse_uuid qc x")
    case None
    then show ?thesis by (intro stay) (simp add: recover_one_def qret_def)
  next
    case (Some i)
    let ?u = "Option.bind (qfields k (task_key ?us i) ''updated_at'') (parse_task_updated_at qc)"
    let ?d = "Option.bind (qfields k (task_key ?us i) ''data'') (qc_dec qc)"
    let ?cs = "[CLRem key_processing x, CHSet (task_key ?us i) ''status'' ''pending'',
      CHSet (task_key ?us i) ''updated_at'' (qc_time qc t),
      CHSet (task_key ?us i) ''error'' ''recovered: stale'', CLPush key_pending x]"
    obtain k' where k': "ask_all redis_server t ?cs k = (Inr (), k')" "queue_step ?us ?cs k k'"
      using ask_all_step [OF w, of ?cs t] by auto
    have r: "recover_one redis_server qc t timeout x k =
        (case ?u of None \<Rightarrow> (Inr None, k)
         | Some u \<Rightarrow> if t \<le> u + secs timeout then (Inr None, k)
                     else (case ?d of None \<Rightarrow> (Inr None, k) | Some p \<Rightarrow> (Inr (Some p), k')))"
      using Some k'(1)
      by (simp add: recover_one_def recover_single_task_def qbind_def qret_def Let_def
          ask_opt_hget [OF w] del: ask_all.simps split: option.split)
    have l: "qlist k' key_pending = x # qlist k key_pending"
      "qlist k' key_processing = remove1 x (qlist k key_processing)" "qlist k' key_dead = qlist k key_dead"
      using queue_step_lists(2-4) [OF k'(2)] by simp_all
    have "queue_ids k' = queue_ids k" using x by (simp add: queue_ids_def l)
    then have go: ?thesis if "recover_one redis_server qc t timeout x k = (Inr (Some p), k')" for p
      using that queue_step_lists(1) [OF k'(2)] l by auto
    show ?thesis
      using stay go by (auto simp: r split: option.splits if_splits)
  qed
qed

lemma recover_loop_ids:
  "queue_wf (qc_uuid qc) k \<Longrightarrow> mset xs \<subseteq># mset (qlist k key_processing) \<Longrightarrow>
   \<exists>r k'. recover_loop redis_server qc t timeout xs k = (Inr r, k') \<and> queue_wf (qc_uuid qc) k' \<and>
     queue_ids k' = queue_ids k"
proof (induction xs arbitrary: k)
  case Nil
  then show ?case by (simp add: qret_def)
next
  case (Cons x xs)
  have "x \<in># mset (qlist k key_processing)"
    using Cons.prems(2) by (simp add: insert_subset_eq_iff)
  then obtain r k1 where 1: "recover_one redis_server qc t timeout x k = (Inr r, k1)"
    "queue_wf (qc_uuid qc) k1" "queue_ids k1 = queue_ids k"
    "mset (qlist k key_processing) - {#x#} \<subseteq># mset (qlist k1 key_processing)"
    using recover_one_ids [OF Cons.prems(1), of x t timeout] by auto
  have "mset xs \<subseteq># mset (qlist k key_processing) - {#x#}"
    using Cons.prems(2) by (simp add: insert_subset_eq_iff)
  then have "mset xs \<subseteq># mset (qlist k1 key_processing)" using 1(4) by (rule subset_mset.order_trans)
  with Cons.IH [OF 1(2)] 1 show ?case by (auto simp: qbind_def qret_def)
qed

section \<open>No task is lost\<close>


definition demo_task :: "uuid \<Rightarrow> int \<Rightarrow> task_payload" where
  "demo_task i n = \<lparr>task_id = i, image_id = 1, tp_user_id = 1, tp_storage_backend = ''local'',
     tp_storage_config_id = None, storage_backend_name = ''local'', source_key = ''k'',
     source_mime = ''image/png'', retry_count = n, max_retries = 3\<rparr>"

text \<open>A codec of the ids and of these tasks, whose data is the retry count.\<close>

definition demo_codec :: queue_codec where
  "demo_codec = \<lparr>qc_uuid = nat_str, qc_parse_uuid = parse_nat, qc_enc = (\<lambda>p. int_str (retry_count p)),
     qc_dec = (\<lambda>s. map_option (demo_task 7) (parse_int s)), qc_time = nat_str, qc_parse_time = parse_nat\<rparr>"

lemma demo_codec_laws: "queue_codec_laws demo_codec {demo_task 7 n | n. 0 \<le> n \<and> n \<le> 3}"
proof -
  have "parse_int (int_str n) = Some n" if "0 \<le> n" "n \<le> 3" for n
    using that parse_int_nat_str [of "nat n"] by (simp add: int_str_def)
  then show ?thesis by (auto simp: queue_codec_laws_def demo_codec_def demo_task_def)
qed

lemma queue_wf_empty: "queue_wf us Map.empty"
  by (simp add: queue_wf_def wf_list_def wf_hash_def)


section \<open>A task that keeps failing\<close>

text \<open>One turn of a worker whose processing fails: the count it saw and what the nack said.\<close>

definition fail_turn :: "'r redis_exec \<Rightarrow> queue_codec \<Rightarrow> instant \<Rightarrow> ('r, (int \<times> nack_action) option) redis_op" where
  "fail_turn exec qc t =
     qbind (dequeue_task exec qc t)
       (\<lambda>r. case r of
          None \<Rightarrow> qret None
        | Some p \<Rightarrow>
            qbind (redis_queue_nack exec qc t (task_id p) (retry_count p) (max_retries p))
              (\<lambda>a. qret (Some (retry_count p, a))))"

fun fail_turns ::
  "'r redis_exec \<Rightarrow> queue_codec \<Rightarrow> instant list \<Rightarrow> ('r, (int \<times> nack_action) option list) redis_op" where
  "fail_turns exec qc [] = qret []"
| "fail_turns exec qc (t # ts) = qbind (fail_turn exec qc t) (\<lambda>r. qbind (fail_turns exec qc ts) (\<lambda>rs. qret (r # rs)))"

lemma sim_fail_turns: "redis_up exec ks \<Longrightarrow> sim ks (fail_turns exec qc ts) (fail_turns redis_server qc ts)"
  by (induction ts) (auto intro!: sim_intros sim_dequeue sim_nack split: option.split simp: fail_turn_def)

lemma fail_turn_step:
  assumes w: "queue_wf (qc_uuid qc) k" and laws: "queue_codec_laws qc ps" "p \<in> ps"
    and q: "qlist k key_pending = [qc_uuid qc (task_id p)]" "qlist k key_processing = []"
    and d: "qfields k (task_key (qc_uuid qc) (task_id p)) ''data'' = Some (qc_enc qc p)"
  shows "\<exists>k'. fail_turn redis_server qc t k =
      (Inr (Some (retry_count p, if retry_count p < max_retries p then Retry else DeadLetter)), k') \<and>
    queue_wf (qc_uuid qc) k' \<and> qlist k' key_processing = [] \<and>
    (if retry_count p < max_retries p
     then qlist k' key_pending = [qc_uuid qc (task_id p)] \<and> qlist k' key_dead = qlist k key_dead \<and>
       qfields k' (task_key (qc_uuid qc) (task_id p)) ''data'' =
         Some (qc_enc qc (p\<lparr>retry_count := as_i32 (retry_count p + 1)\<rparr>))
     else qlist k' key_pending = [] \<and> qlist k' key_dead = qc_uuid qc (task_id p) # qlist k key_dead \<and>
       qfields k' (task_key (qc_uuid qc) (task_id p)) ''status'' = Some ''dead'')"
proof -
  let ?us = "qc_uuid qc"
  obtain k1 where deq: "dequeue_task redis_server qc t k = (Inr (Some p), k1)"
    and w1: "queue_wf ?us k1" and q1: "qlist k1 key_pending = []"
    "qlist k1 key_processing = [?us (task_id p)]" "qlist k1 key_dead = qlist k key_dead"
    and d1: "qfields k1 (task_key ?us (task_id p)) ''data'' = Some (qc_enc qc p)"
    using dequeue_last [OF w laws, of "[]" "task_id p" t] q d by auto
  obtain k' where nack: "redis_queue_nack redis_server qc t (task_id p) (retry_count p) (max_retries p) k1 =
      (Inr (if retry_count p < max_retries p then Retry else DeadLetter), k')"
    and st: "queue_step ?us (nack_cmds qc t p nack_err_msg) k1 k'"
    using nack_step [OF w1 laws d1, of t "retry_count p" "max_retries p"] by auto
  have "fail_turn redis_server qc t k =
      (Inr (Some (retry_count p, if retry_count p < max_retries p then Retry else DeadLetter)), k')"
    by (simp add: fail_turn_def qbind_def deq nack qret_def)
  then show ?thesis
    using queue_step_lists [OF st] q1 d1 by (simp add: nack_cmds_def Let_def)
qed

lemma fail_turns_up_to_dead:
  "queue_wf (qc_uuid qc) k \<Longrightarrow>
   queue_codec_laws qc {p\<lparr>retry_count := n\<rparr> | n. 0 \<le> n \<and> n \<le> max_retries p} \<Longrightarrow>
   0 \<le> rc \<Longrightarrow> rc + int m = max_retries p \<Longrightarrow> max_retries p < 2 ^ 31 \<Longrightarrow>
   qlist k key_pending = [qc_uuid qc (task_id p)] \<Longrightarrow> qlist k key_processing = [] \<Longrightarrow>
   qfields k (task_key (qc_uuid qc) (task_id p)) ''data'' = Some (qc_enc qc (p\<lparr>retry_count := rc\<rparr>)) \<Longrightarrow>
   length ts = Suc m \<Longrightarrow>
   \<exists>k'. fail_turns redis_server qc ts k =
       (Inr (map (\<lambda>i. Some (rc + int i, if i < m then Retry else DeadLetter)) [0..<Suc m]), k') \<and>
     queue_wf (qc_uuid qc) k' \<and> qlist k' key_pending = [] \<and> qlist k' key_processing = [] \<and>
     qlist k' key_dead = qc_uuid qc (task_id p) # qlist k key_dead \<and>
     qfields k' (task_key (qc_uuid qc) (task_id p)) ''status'' = Some ''dead''"
proof (induction m arbitrary: k rc ts)
  case 0
  then obtain t where ts: "ts = [t]" by (cases ts) auto
  have mem: "p\<lparr>retry_count := rc\<rparr> \<in> {p\<lparr>retry_count := n\<rparr> | n. 0 \<le> n \<and> n \<le> max_retries p}"
    using 0 by auto
  show ?case
    using fail_turn_step [OF 0(1,2) mem, of t] 0 by (auto simp: ts qbind_def qret_def)
next
  case (Suc m)
  then obtain t ts' where ts: "ts = t # ts'" "length ts' = Suc m" by (cases ts) auto
  have mem: "p\<lparr>retry_count := rc\<rparr> \<in> {p\<lparr>retry_count := n\<rparr> | n. 0 \<le> n \<and> n \<le> max_retries p}"
    using Suc.prems by auto
  have rc: "as_i32 (rc + 1) = rc + 1" using Suc.prems by simp
  obtain k1 where k1: "fail_turn redis_server qc t k = (Inr (Some (rc, Retry)), k1)"
    "queue_wf (qc_uuid qc) k1" "qlist k1 key_processing = []"
    "qlist k1 key_pending = [qc_uuid qc (task_id p)]" "qlist k1 key_dead = qlist k key_dead"
    "qfields k1 (task_key (qc_uuid qc) (task_id p)) ''data'' = Some (qc_enc qc (p\<lparr>retry_count := rc + 1\<rparr>))"
    using fail_turn_step [OF Suc.prems(1,2) mem, of t] Suc.prems by (auto simp: rc)
  have IH: "\<exists>k'. fail_turns redis_server qc ts' k1 =
       (Inr (map (\<lambda>i. Some (rc + 1 + int i, if i < m then Retry else DeadLetter)) [0..<Suc m]), k') \<and>
     queue_wf (qc_uuid qc) k' \<and> qlist k' key_pending = [] \<and> qlist k' key_processing = [] \<and>
     qlist k' key_dead = qc_uuid qc (task_id p) # qlist k1 key_dead \<and>
     qfields k' (task_key (qc_uuid qc) (task_id p)) ''status'' = Some ''dead''"
    using Suc.IH [OF k1(2) Suc.prems(2) _ _ Suc.prems(5) k1(4,3,6) ts(2)] Suc.prems by simp
  have l: "map (\<lambda>i. Some (rc + int i, if i < Suc m then Retry else DeadLetter)) [0..<Suc (Suc m)] =
      Some (rc, Retry) # map (\<lambda>i. Some (rc + 1 + int i, if i < m then Retry else DeadLetter)) [0..<Suc m]"
    by (subst map_upt_Suc) (simp add: ac_simps)
  show ?case
    unfolding l using IH k1(1,5) by (auto simp: ts qbind_def qret_def)
qed

text \<open>
  Property C17. A task of the Redis queue whose processing always fails is tried exactly
  \<open>max_retries + 1\<close> times, with retry counts 0, 1, ..., \<open>max_retries\<close>: each failure but the last puts it
  back, the last one moves it to the dead list and marks it dead, and the other lists are empty.
\<close>

theorem redis_failing_task_dead_lettered:
  assumes up: "redis_up exec ks" and w: "queue_wf (qc_uuid qc) (ks s)"
    and empty: "qlist (ks s) key_pending = []" "qlist (ks s) key_processing = []"
    and laws: "queue_codec_laws qc {p\<lparr>retry_count := n\<rparr> | n. 0 \<le> n \<and> n \<le> max_retries p}"
    and p: "retry_count p = 0" "0 \<le> max_retries p" "max_retries p < 2 ^ 31"
    and ts: "length ts = nat (max_retries p) + 1"
  shows "fst (fail_turns exec qc ts (snd (enqueue_task exec qc t p s))) =
      Inr (map (\<lambda>i. Some (int i, if i < nat (max_retries p) then Retry else DeadLetter))
             [0..<nat (max_retries p) + 1]) \<and>
    (let k' = ks (snd (fail_turns exec qc ts (snd (enqueue_task exec qc t p s))))
     in qlist k' key_pending = [] \<and> qlist k' key_processing = [] \<and>
        qlist k' key_dead = qc_uuid qc (task_id p) # qlist (ks s) key_dead \<and>
        qfields k' (task_key (qc_uuid qc) (task_id p)) ''status'' = Some ''dead'')"
proof -
  obtain k1 where e: "enqueue_task redis_server qc t p (ks s) = (Inr (), k1)"
    and q: "queue_step (qc_uuid qc)
       [CHSet (task_key (qc_uuid qc) (task_id p)) ''data'' (qc_enc qc p),
        CHSet (task_key (qc_uuid qc) (task_id p)) ''status'' ''pending'',
        CHSet (task_key (qc_uuid qc) (task_id p)) ''created_at'' (qc_time qc t),
        CHSet (task_key (qc_uuid qc) (task_id p)) ''updated_at'' (qc_time qc t),
        CLPush key_pending (qc_uuid qc (task_id p))] (ks s) k1"
    using enqueue_step [OF w] by blast
  have k1: "ks (snd (enqueue_task exec qc t p s)) = k1"
    by (simp add: sim_snd [OF sim_enqueue [OF up]] e)
  have d: "qfields k1 (task_key (qc_uuid qc) (task_id p)) ''data'' = Some (qc_enc qc (p\<lparr>retry_count := 0\<rparr>))"
  proof -
    have "p\<lparr>retry_count := 0\<rparr> = p" using p(1) by (cases p) simp
    then show ?thesis by (simp add: queue_step_lists(5) [OF q])
  qed
  have l: "qlist k1 key_pending = [qc_uuid qc (task_id p)]" "qlist k1 key_processing = []"
    "qlist k1 key_dead = qlist (ks s) key_dead"
    using empty by (simp_all add: queue_step_lists(2-4) [OF q])
  have "\<exists>k'. fail_turns redis_server qc ts k1 =
       (Inr (map (\<lambda>i. Some (0 + int i, if i < nat (max_retries p) then Retry else DeadLetter))
         [0..<Suc (nat (max_retries p))]), k') \<and>
     queue_wf (qc_uuid qc) k' \<and> qlist k' key_pending = [] \<and> qlist k' key_processing = [] \<and>
     qlist k' key_dead = qc_uuid qc (task_id p) # qlist k1 key_dead \<and>
     qfields k' (task_key (qc_uuid qc) (task_id p)) ''status'' = Some ''dead''"
    using fail_turns_up_to_dead [OF queue_step_lists(1) [OF q] laws, of 0 "nat (max_retries p)" ts] p ts d l
    by simp
  then show ?thesis
    by (auto simp: sim_fst [OF sim_fail_turns [OF up]] sim_snd [OF sim_fail_turns [OF up]] k1 l Let_def)
qed

theorem redis_failing_task_dead_lettered_witness:
  "fst (fail_turns redis_server demo_codec [1, 2, 3, 4]
     (snd (enqueue_task redis_server demo_codec 0 (demo_task 7 0) Map.empty))) =
   Inr [Some (0, Retry), Some (1, Retry), Some (2, Retry), Some (3, DeadLetter)]"
proof -
  have "{demo_task 7 0\<lparr>retry_count := n\<rparr> | n. 0 \<le> n \<and> n \<le> max_retries (demo_task 7 0)} =
      {demo_task 7 n | n. 0 \<le> n \<and> n \<le> 3}"
    by (auto simp: demo_task_def)
  then have laws: "queue_codec_laws demo_codec
      {demo_task 7 0\<lparr>retry_count := n\<rparr> | n. 0 \<le> n \<and> n \<le> max_retries (demo_task 7 0)}"
    using demo_codec_laws by simp
  have s: "retry_count (demo_task 7 0) = 0" "max_retries (demo_task 7 0) = 3"
    by (simp_all add: demo_task_def)
  show ?thesis
    using redis_failing_task_dead_lettered [OF redis_server_up, of demo_codec Map.empty "demo_task 7 0" "[1, 2, 3, 4]" 0]
      laws by (simp add: s queue_wf_empty qlist_def upt_rec)
qed

end
