(* ===== verification/Worker.thy ===== *)
theory Worker
  imports Watermark Redis_Queue_Props
begin

text \<open>
  The worker: \<open>pichost-worker/src/processor.rs\<close> (thumbnail and WebP), \<open>pipeline.rs\<close> (one task), \<open>main.rs\<close>
  (one turn of the loop). The loop of the lite mode is in \<open>Lite_Queue\<close>. A job is cancelled when the timeout of the loop fires: it runs under a budget of half steps, two for
  every awaited call, so that the timeout can fall before a call or between its effect and its
  answer. \<open>Stuck\<close> is a panic or an endless loop: the slot that ran the job does nothing any more.
\<close>

section \<open>Jobs\<close>

datatype pipeline_error =
    StorageRead string
  | StorageWrite string
  | Decode string
  | Thumbnail string
  | Webp string
  | WatermarkError string
  | Database string
  | BackendResolution string

fun pipeline_error_display :: "pipeline_error \<Rightarrow> string" where
  "pipeline_error_display (StorageRead m) = ''storage read failed: '' @ m"
| "pipeline_error_display (StorageWrite m) = ''storage write failed: '' @ m"
| "pipeline_error_display (Decode m) = ''image decode failed: '' @ m"
| "pipeline_error_display (Thumbnail m) = ''thumbnail generation failed: '' @ m"
| "pipeline_error_display (Webp m) = ''webp conversion failed: '' @ m"
| "pipeline_error_display (WatermarkError m) = ''watermark error: '' @ m"
| "pipeline_error_display (Database m) = ''database update failed: '' @ m"
| "pipeline_error_display (BackendResolution m) = ''backend resolution failed: '' @ m"

datatype ('e, 'a) outcome = Done 'a | Failed_with 'e | Elapsed | Stuck

type_synonym ('w, 'e, 'a) job = "nat \<Rightarrow> 'w \<Rightarrow> ('e, 'a) outcome \<times> nat \<times> 'w"

definition jret :: "'a \<Rightarrow> ('w, 'e, 'a) job" where "jret x = (\<lambda>n w. (Done x, n, w))"

definition jlift :: "('e, 'a) outcome \<Rightarrow> ('w, 'e, 'a) job" where "jlift r = (\<lambda>n w. (r, n, w))"

definition jbind ::
  "('w, 'e, 'a) job \<Rightarrow> ('a \<Rightarrow> ('w, 'e, 'b) job) \<Rightarrow> ('w, 'e, 'b) job" where
  "jbind m f = (\<lambda>n w. case m n w of
     (Done x, n', w') \<Rightarrow> f x n' w'
   | (Failed_with e, n', w') \<Rightarrow> (Failed_with e, n', w')
   | (Elapsed, n', w') \<Rightarrow> (Elapsed, n', w')
   | (Stuck, n', w') \<Rightarrow> (Stuck, n', w'))"

definition jmap_err :: "('e \<Rightarrow> 'f) \<Rightarrow> ('w, 'e, 'a) job \<Rightarrow> ('w, 'f, 'a) job" where
  "jmap_err h m = (\<lambda>n w. case m n w of
     (Done x, n', w') \<Rightarrow> (Done x, n', w')
   | (Failed_with e, n', w') \<Rightarrow> (Failed_with (h e), n', w')
   | (Elapsed, n', w') \<Rightarrow> (Elapsed, n', w')
   | (Stuck, n', w') \<Rightarrow> (Stuck, n', w'))"

definition await :: "('w \<Rightarrow> ('e + 'a) \<times> 'w) \<Rightarrow> ('w, 'e, 'a) job" where
  "await f = (\<lambda>n w.
     if n = 0 then (Elapsed, 0, w)
     else (let (r, w') = f w
           in if n = 1 then (Elapsed, 0, w')
              else (case r of Inl e \<Rightarrow> (Failed_with e, n - 2, w') | Inr x \<Rightarrow> (Done x, n - 2, w'))))"

definition jsum :: "'e + 'a \<Rightarrow> ('w, 'e, 'a) job" where
  "jsum r = jlift (case r of Inl e \<Rightarrow> Failed_with e | Inr x \<Rightarrow> Done x)"

section \<open>State and environment\<close>

record ('h, 's) wk =
  wk_db :: db
  wk_router :: router
  wk_world :: "('h, 's) world"

record ('i, 'h, 's) worker_env =
  we_image :: "'i image_lib"
  we_storage :: "('h, 's) storage_env"
  we_uuid_str :: "uuid \<Rightarrow> string"
  we_wm_of_json :: "json \<Rightarrow> watermark_config option"

section \<open>Variants (processor.rs)\<close>

definition thumbnail_output_format ::
  "'i image_lib \<Rightarrow> 'i \<Rightarrow> image_format \<Rightarrow> image_format \<times> string" where
  "thumbnail_output_format il img source_fmt =
     (if source_fmt = Png then
        (if il_has_alpha il img then (Png, ''image/png'') else (Jpeg, ''image/jpeg''))
      else (Jpeg, ''image/jpeg''))"

definition should_thumbnail :: "image_format \<Rightarrow> bool" where
  "should_thumbnail fmt = (fmt \<noteq> Gif)"

definition should_webp :: "image_format \<Rightarrow> bool" where
  "should_webp fmt = (fmt = Png \<or> fmt = Jpeg \<or> fmt = Avif \<or> fmt = Bmp)"

text \<open>The size of the thumbnail: both sides times \<open>max_size / max(w, h)\<close>, at least 1.\<close>

definition thumb_side :: "nat \<Rightarrow> nat \<Rightarrow> nat \<Rightarrow> nat" where
  "thumb_side max_size longest side =
     sat_u32 (max 1 (f64_round (of_nat side * f64_round (of_nat max_size / of_nat longest))))"

definition thumb_size :: "nat \<Rightarrow> nat \<Rightarrow> nat \<Rightarrow> nat \<times> nat" where
  "thumb_size max_size w h = (thumb_side max_size (max w h) w, thumb_side max_size (max w h) h)"

text \<open>Encoding, then the write; the path that \<open>put\<close> returns is dropped.\<close>

definition encode_thumbnail ::
  "'i image_lib \<Rightarrow> image_format \<Rightarrow> 'i \<Rightarrow> nat \<Rightarrow> string + string" where
  "encode_thumbnail il out_fmt thumb quality =
     (case out_fmt of
        Jpeg \<Rightarrow> (case il_encode_jpeg il thumb quality of
                  Inl e \<Rightarrow> Inl (''jpeg encode: '' @ e) | Inr b \<Rightarrow> Inr b)
      | Png \<Rightarrow> (case il_encode_png il thumb of
                 Inl e \<Rightarrow> Inl (''png encode: '' @ e) | Inr b \<Rightarrow> Inr b)
      | _ \<Rightarrow> Inl ''unsupported thumb output format'')"

definition storage_put_job ::
  "('h, 's) storage_env \<Rightarrow> bool \<Rightarrow> instant \<Rightarrow> backend \<Rightarrow> string \<Rightarrow> string \<Rightarrow> string \<Rightarrow>
   (('h, 's) wk, storage_error, string) job" where
  "storage_put_job se fail now b key bytes mime =
     await (\<lambda>w. let (r, wd) = backend_put se fail b now (wk_world w) key bytes mime
                in (r, w\<lparr>wk_world := wd\<rparr>))"

definition generate_thumbnail ::
  "('i, 'h, 's) worker_env \<Rightarrow> bool \<Rightarrow> instant \<Rightarrow> 'i \<Rightarrow> image_format \<Rightarrow> backend \<Rightarrow> string \<Rightarrow> nat \<Rightarrow> nat \<Rightarrow>
   (('h, 's) wk, string, bool \<times> string) job" where
  "generate_thumbnail env fail now img source_fmt b key max_size quality =
     (let il = we_image env
      in if \<not> should_thumbnail source_fmt then jret (False, [])
         else
           (let (new_w, new_h) = thumb_size max_size (il_width il img) (il_height il img);
                thumb = il_resize_exact il img new_w new_h;
                (out_fmt, mime) = thumbnail_output_format il img source_fmt
            in jbind (jsum (encode_thumbnail il out_fmt thumb quality))
                 (\<lambda>buf. jbind (jmap_err (\<lambda>e. ''thumb storage write: '' @ storage_error_display e)
                                (storage_put_job (we_storage env) fail now b key buf mime))
                          (\<lambda>_. jret (True, mime)))))"

definition convert_to_webp ::
  "('i, 'h, 's) worker_env \<Rightarrow> bool \<Rightarrow> instant \<Rightarrow> 'i \<Rightarrow> image_format \<Rightarrow> backend \<Rightarrow> string \<Rightarrow> rat \<Rightarrow>
   (('h, 's) wk, string, bool \<times> string) job" where
  "convert_to_webp env fail now img source_fmt b key quality =
     (let il = we_image env
      in if \<not> should_webp source_fmt then jret (False, [])
         else
           (let webp_bytes = il_encode_webp il (il_to_rgba8 il img) quality
            in jbind (jmap_err (\<lambda>e. ''webp storage write: '' @ storage_error_display e)
                        (storage_put_job (we_storage env) fail now b key webp_bytes ''image/webp''))
                 (\<lambda>_. jret (True, ''image/webp''))))"

section \<open>One task (pipeline.rs)\<close>

text \<open>Faults by position: 0 configuration, 1 source, 2 watermark, 3 and 4 variants, 5 update.\<close>

definition fetch_watermark_config ::
  "('i, 'h, 's) worker_env \<Rightarrow> bool \<Rightarrow> task_payload \<Rightarrow>
   (('h, 's) wk, pipeline_error, watermark_config option) job" where
  "fetch_watermark_config env fail task =
     await (\<lambda>w. (if fail then Inl (Database ''Failed to fetch watermark config'')
                 else Inr (Option.bind (Option.bind (user_by_id (wk_db w) (tp_user_id task)) u_watermark)
                             (we_wm_of_json env)), w))"

definition load_watermarked_image ::
  "('i, 'h, 's) worker_env \<Rightarrow> bool \<Rightarrow> task_payload \<Rightarrow> 'i \<Rightarrow> (('h, 's) wk, pipeline_error, 'i) job" where
  "load_watermarked_image env fail task raw_img =
     jbind (fetch_watermark_config env fail task)
       (\<lambda>c. case c of
          None \<Rightarrow> jret raw_img
        | Some wm \<Rightarrow>
            (if wm_enabled wm \<and> wm_text wm \<noteq> []
             then (case apply_watermark (we_image env) raw_img wm of
                     None \<Rightarrow> jlift Stuck
                   | Some (Inl e) \<Rightarrow> jlift (Failed_with (WatermarkError e))
                   | Some (Inr img) \<Rightarrow> jret img)
             else jret raw_img))"

definition fetch_storage_config ::
  "(uuid \<Rightarrow> string) \<Rightarrow> bool \<Rightarrow> uuid \<Rightarrow> (('h, 's) wk, pipeline_error, config_row) job" where
  "fetch_storage_config us fail config_id =
     await (\<lambda>w. (if fail then Inl (BackendResolution ''config db query failed'')
                 else ok_or (find (\<lambda>c. sc_id c = config_id) (t_configs (wk_db w)))
                        (BackendResolution (''storage config '' @ us config_id @ '' not found'')), w))"

text \<open>Unlike the upload service, a key that does not decode becomes the zero key here.\<close>

definition worker_encryption_key :: "crypto_lib \<Rightarrow> app_config \<Rightarrow> string" where
  "worker_encryption_key cl cfg =
     opt_unwrap_or (Option.bind (cf_token_encryption_key cfg)
       (\<lambda>k. case decode_key cl k of Inl e \<Rightarrow> None | Inr key \<Rightarrow> Some key)) zero_key"

definition resolve_backend ::
  "('i, 'h, 's) worker_env \<Rightarrow> app_config \<Rightarrow> bool \<Rightarrow> task_payload \<Rightarrow>
   (('h, 's) wk, pipeline_error, backend) job" where
  "resolve_backend env cfg fail task =
     (case tp_storage_config_id task of
        Some config_id \<Rightarrow>
          jbind (fetch_storage_config (we_uuid_str env) fail config_id)
            (\<lambda>config n w.
               let cl = se_crypto (we_storage env)
               in case for_config cl (we_uuid_str env) (wk_router w) config
                         (worker_encryption_key cl cfg) of
                    None \<Rightarrow> (Stuck, n, w)
                  | Some (Inl e, ro) \<Rightarrow>
                      (Failed_with (BackendResolution (storage_error_display e)), n, w\<lparr>wk_router := ro\<rparr>)
                  | Some (Inr b, ro) \<Rightarrow> (Done b, n, w\<lparr>wk_router := ro\<rparr>))
      | None \<Rightarrow>
          (\<lambda>n w. case for_backend (wk_router w) (tp_storage_backend task) of
                   None \<Rightarrow> (Stuck, n, w)
                 | Some b \<Rightarrow> (Done b, n, w)))"

definition process_image_variants ::
  "('i, 'h, 's) worker_env \<Rightarrow> app_config \<Rightarrow> faults \<Rightarrow> instant \<Rightarrow> 'i \<Rightarrow> image_format \<Rightarrow> backend \<Rightarrow>
   string \<Rightarrow> string \<Rightarrow> (('h, 's) wk, pipeline_error, bool \<times> bool) job" where
  "process_image_variants env cfg fails now img fmt b thumb_key webp_key =
     (let pc = wc_processing (cf_worker cfg)
      in jbind (jmap_err Thumbnail
                  (generate_thumbnail env (fails 3) now img fmt b thumb_key (pc_thumbnail_size pc)
                     (pc_thumbnail_quality pc)))
           (\<lambda>(thumb_written, _).
              jbind (jmap_err Webp
                       (convert_to_webp env (fails 4) now img fmt b webp_key (pc_webp_quality pc)))
                (\<lambda>(webp_written, _). jret (thumb_written, webp_written))))"

definition read_source_image ::
  "('i, 'h, 's) worker_env \<Rightarrow> bool \<Rightarrow> backend \<Rightarrow> task_payload \<Rightarrow>
   (('h, 's) wk, pipeline_error, 'i \<times> image_format \<times> string) job" where
  "read_source_image env fail b task =
     jbind (await (\<lambda>w. let (r, wd) = backend_get (we_storage env) fail b (wk_world w) (source_key task)
                       in ((case r of Inl e \<Rightarrow> Inl (StorageRead (storage_error_display e)) | Inr x \<Rightarrow> Inr x),
                           w\<lparr>wk_world := wd\<rparr>)))
       (\<lambda>bytes.
          case il_decode (we_image env) bytes of
            Inl e \<Rightarrow> jlift (Failed_with (Decode e))
          | Inr img \<Rightarrow>
              (case il_guess_format (we_image env) bytes of
                 Inl e \<Rightarrow> jlift (Failed_with (Decode e))
               | Inr fmt \<Rightarrow> jret (img, fmt, bytes)))"

definition some_if :: "bool \<Rightarrow> string \<Rightarrow> string option" where
  "some_if flag val = (if flag then Some val else None)"

text \<open>The columns of an image that the update sets; the widths are PostgreSQL's.\<close>

definition set_variants ::
  "int \<Rightarrow> int \<Rightarrow> string option \<Rightarrow> string option \<Rightarrow> string option \<Rightarrow> string option \<Rightarrow> image_row \<Rightarrow> image_row" where
  "set_variants width height tk tu wk wu x =
     x\<lparr>im_width := Some width, im_height := Some height, im_thumbnail_key := tk,
       im_thumbnail_url := tu, im_webp_key := wk, im_webp_url := wu, im_status := ''ready''\<rparr>"

definition column_fits :: "nat \<Rightarrow> string option \<Rightarrow> bool" where
  "column_fits width v = (case v of None \<Rightarrow> True | Some s \<Rightarrow> char_count s \<le> width)"

definition variants_fit :: "string option \<Rightarrow> string option \<Rightarrow> string option \<Rightarrow> string option \<Rightarrow> bool" where
  "variants_fit tk tu wk wu \<longleftrightarrow>
     column_fits 512 tk \<and> column_fits 1024 tu \<and> column_fits 512 wk \<and> column_fits 1024 wu"

definition published ::
  "uuid \<Rightarrow> int \<Rightarrow> int \<Rightarrow> string option \<Rightarrow> string option \<Rightarrow> string option \<Rightarrow> string option \<Rightarrow> db \<Rightarrow> db" where
  "published i width height tk tu wk wu d =
     d\<lparr>t_images := map (\<lambda>x. if im_id x = i then set_variants width height tk tu wk wu x else x)
                     (t_images d)\<rparr>"

definition update_image_record ::
  "('i, 'h, 's) worker_env \<Rightarrow> database_mode \<Rightarrow> bool \<Rightarrow> task_payload \<Rightarrow> int \<Rightarrow> int \<Rightarrow> string \<Rightarrow> string \<Rightarrow>
   bool \<Rightarrow> bool \<Rightarrow> string \<Rightarrow> (('h, 's) wk, pipeline_error, unit) job" where
  "update_image_record env mode fail task width height thumb_key webp_key thumb_written webp_written
     public_url =
     (let thumb_url = public_url @ ''/u/thumb/'' @ we_uuid_str env (image_id task);
          webp_url = public_url @ ''/u/webp/'' @ we_uuid_str env (image_id task);
          tk = some_if thumb_written thumb_key; tu = some_if thumb_written thumb_url;
          wk = some_if webp_written webp_key; wu = some_if webp_written webp_url
      in await (\<lambda>w.
           let d = wk_db w
           in if fail \<or> (mode = PostgresMode \<and> image_id task \<in> set (map im_id (t_images d)) \<and>
                         \<not> variants_fit tk tu wk wu)
              then (Inl (Database ''database error''), w)
              else (Inr (), w\<lparr>wk_db := published (image_id task) width height tk tu wk wu d\<rparr>)))"

definition thumb_key_of :: "(uuid \<Rightarrow> string) \<Rightarrow> task_payload \<Rightarrow> string" where
  "thumb_key_of us task = us (tp_user_id task) @ ''/thumb.'' @ us (image_id task)"

definition webp_key_of :: "(uuid \<Rightarrow> string) \<Rightarrow> task_payload \<Rightarrow> string" where
  "webp_key_of us task = us (tp_user_id task) @ ''/webp.'' @ us (image_id task)"

definition process_task ::
  "('i, 'h, 's) worker_env \<Rightarrow> app_config \<Rightarrow> faults \<Rightarrow> instant \<Rightarrow> task_payload \<Rightarrow>
   (('h, 's) wk, pipeline_error, unit) job" where
  "process_task env cfg fails now task =
     (let us = we_uuid_str env; il = we_image env
      in jbind (resolve_backend env cfg (fails 0) task)
           (\<lambda>b. jbind (read_source_image env (fails 1) b task)
           (\<lambda>(raw_img, fmt, bytes).
              let width = as_i32 (int (il_width il raw_img)); height = as_i32 (int (il_height il raw_img));
                  thumb_key = thumb_key_of us task; webp_key = webp_key_of us task
              in jbind (load_watermarked_image env (fails 2) task raw_img)
              (\<lambda>img. jbind (process_image_variants env cfg fails now img fmt b thumb_key webp_key)
              (\<lambda>(thumb_written, webp_written).
                 update_image_record env (dc_mode (cf_database cfg)) (fails 5) task width height
                   thumb_key webp_key thumb_written webp_written
                   (trim_end_matches (CHR ''/'') (sv_public_url (cf_server cfg))))))))"

section \<open>The loop (main.rs)\<close>

text \<open>A worker: what it shares with the other slots, and the queue.\<close>

record ('q, 'h, 's) worker =
  wo_queue :: 'q
  wo_wk :: "('h, 's) wk"

definition upload_tasks_accept :: "db \<Rightarrow> uuid \<Rightarrow> bool" where
  "upload_tasks_accept d i = (i \<in> set (map im_id (t_images d)))"

text \<open>Both statements are best effort: the row of the failed task, then the image.\<close>

definition handle_dead_letter ::
  "faults \<Rightarrow> instant \<Rightarrow> uuid \<Rightarrow> int \<Rightarrow> int \<Rightarrow> string \<Rightarrow> db \<Rightarrow> db" where
  "handle_dead_letter fails now img_id retry_cnt max_ret error d =
     (let d1 = (if fails 6 \<or> \<not> upload_tasks_accept d img_id then d
                else d\<lparr>t_upload_tasks := t_upload_tasks d @
                  [\<lparr>ut_image_id = img_id, ut_task_type = ''all'', ut_payload = None, ut_status = ''failed'',
                    ut_error = Some error, ut_retry_count = retry_cnt, ut_max_retries = max_ret,
                    ut_completed_at = Some now\<rparr>]\<rparr>)
      in if fails 7 then d1
         else d1\<lparr>t_images := map (\<lambda>x. if im_id x = img_id then x\<lparr>im_status := ''failed''\<rparr> else x)
                              (t_images d1)\<rparr>)"

definition nack_failed_task ::
  "'q queue_ops \<Rightarrow> faults \<Rightarrow> instant \<Rightarrow> task_payload \<Rightarrow> string \<Rightarrow> ('q, 'h, 's) worker \<Rightarrow>
   ('q, 'h, 's) worker" where
  "nack_failed_task qo fails now task error w =
     (let (r, q) = qo_nack qo (wo_queue w) now (task_id task) (retry_count task) (max_retries task);
          w1 = w\<lparr>wo_queue := q\<rparr>
      in case r of
           Inl e \<Rightarrow> w1
         | Inr Retry \<Rightarrow> w1
         | Inr DeadLetter \<Rightarrow>
             w1\<lparr>wo_wk := (wo_wk w1)\<lparr>wk_db := handle_dead_letter fails now (image_id task)
                 (as_i32 (retry_count task + 1)) (max_retries task) error (wk_db (wo_wk w1))\<rparr>\<rparr>)"

text \<open>\<open>None\<close>: the slot never comes back from the job.\<close>

definition handle_task_result ::
  "'q queue_ops \<Rightarrow> faults \<Rightarrow> instant \<Rightarrow> task_payload \<Rightarrow> (pipeline_error, unit) outcome \<Rightarrow>
   ('q, 'h, 's) worker \<Rightarrow> ('q, 'h, 's) worker option" where
  "handle_task_result qo fails now task result w =
     (case result of
        Done _ \<Rightarrow> Some (w\<lparr>wo_queue := snd (qo_ack qo (wo_queue w) now (task_id task))\<rparr>)
      | Failed_with e \<Rightarrow> Some (nack_failed_task qo fails now task (pipeline_error_display e) w)
      | Elapsed \<Rightarrow>
          Some (w\<lparr>wo_queue := snd (qo_nack qo (wo_queue w) now (task_id task) (retry_count task)
                                      (max_retries task))\<rparr>)
      | Stuck \<Rightarrow> None)"

definition dequeue_or_retry ::
  "'q queue_ops \<Rightarrow> instant \<Rightarrow> 'q \<Rightarrow> task_payload option \<times> 'q" where
  "dequeue_or_retry qo now q =
     (let (r, q') = qo_dequeue qo q now
      in case r of Inr (Some t) \<Rightarrow> (Some t, q') | Inr None \<Rightarrow> (None, q') | Inl e \<Rightarrow> (None, q'))"

text \<open>One turn of \<open>worker_loop\<close>; \<open>budget\<close> is how many half steps finish before the timeout.\<close>

definition worker_turn ::
  "('i, 'h, 's) worker_env \<Rightarrow> 'q queue_ops \<Rightarrow> app_config \<Rightarrow> faults \<Rightarrow> instant \<Rightarrow> nat \<Rightarrow>
   ('q, 'h, 's) worker \<Rightarrow> ('q, 'h, 's) worker option" where
  "worker_turn env qo cfg fails now budget w =
     (let (t, q) = dequeue_or_retry qo now (wo_queue w); w1 = w\<lparr>wo_queue := q\<rparr>
      in case t of
           None \<Rightarrow> Some w1
         | Some task \<Rightarrow>
             (let (result, _, k) = process_task env cfg fails now task budget (wo_wk w1)
              in handle_task_result qo fails now task result (w1\<lparr>wo_wk := k\<rparr>)))"

text \<open>The state a worker starts with: the stale tasks are queued again, then the backends are set up.\<close>

definition init_router :: "app_config \<Rightarrow> router" where
  "init_router cfg =
     \<lparr>ro_backends =
        (let local = (''local'', LocalB \<lparr>ls_base_path = st_local_base_path (cf_storage cfg),
                                         ls_base_url = sv_public_url (cf_server cfg)\<rparr>)
         in case st_rustfs (cf_storage cfg) of
              None \<Rightarrow> [local]
            | Some rf \<Rightarrow> [local, (''rustfs'', RustfsB (rustfs_new rf))]),
      ro_default = st_default_backend (cf_storage cfg)\<rparr>"

definition init_worker_state ::
  "'r redis_exec \<Rightarrow> queue_codec \<Rightarrow> app_config \<Rightarrow> instant \<Rightarrow> db \<Rightarrow> ('h, 's) world \<Rightarrow> 'r \<Rightarrow>
   (rq_error + ('r, 'h, 's) worker) \<times> 'r" where
  "init_worker_state exec qc cfg now d wd q =
     (case recover_stale_tasks exec qc now (wc_task_timeout (cf_worker cfg)) q of
        (Inl e, q') \<Rightarrow> (Inl e, q')
      | (Inr recovered, q') \<Rightarrow>
          (Inr \<lparr>wo_queue = q', wo_wk = \<lparr>wk_db = d, wk_router = init_router cfg, wk_world = wd\<rparr>\<rparr>, q'))"

end
