(* ===== verification/Watermark_Props.thy ===== *)
theory Watermark_Props
  imports Watermark Upload_Props
begin

text \<open>
  What the watermark code does: the tiling loops end exactly when both steps are positive, and
  then draw the whole grid; every colour printed in hexadecimal is read back.
\<close>

section \<open>Tiling\<close>

lemma tile_row_ends:
  assumes "0 < tile_w" and "img_w + tile_w \<le> 2 ^ 32" and "k * tile_w < img_w + tile_w"
    and "img_w \<le> n * tile_w" and "k \<le> n" and "(n - 1) * tile_w < img_w \<or> n = 0"
  shows "tile_row draw tile_w img_w (k * tile_w) canvas =
    Some (fold (\<lambda>i. draw (i * tile_w)) [k..<n] canvas)"
  using assms
proof (induction "n - k" arbitrary: k canvas)
  case 0
  then have "k = n" by simp
  then have "\<not> k * tile_w < img_w" using 0 by simp
  then show ?case using 0 by (subst tile_row.simps) simp
next
  case (Suc m)
  then have lt: "k < n" by simp
  then have "k * tile_w \<le> (n - Suc 0) * tile_w" by (intro mult_le_mono1) simp
  then have in_row: "k * tile_w < img_w" using Suc.prems(6) lt by (simp only: One_nat_def) linarith
  have next_x: "(k * tile_w + tile_w) mod 2 ^ 32 = Suc k * tile_w"
    using in_row Suc.prems(2) by (simp add: ac_simps)
  have "tile_row draw tile_w img_w (Suc k * tile_w) (draw (k * tile_w) canvas) =
      Some (fold (\<lambda>i. draw (i * tile_w)) [Suc k..<n] (draw (k * tile_w) canvas))"
    using in_row Suc.hyps(2) Suc.prems lt by (intro Suc.hyps(1)) simp_all
  then show ?case
    using in_row lt next_x by (subst tile_row.simps) (simp add: upt_conv_Cons)
qed

text \<open>The number of tiles along a side: the quotient rounded up.\<close>

definition tiles_along :: "nat \<Rightarrow> nat \<Rightarrow> nat" where
  "tiles_along side tile = (side + tile - 1) div tile"

lemma tiles_along_bounds:
  assumes "0 < tile"
  shows "side \<le> tiles_along side tile * tile"
    and "(tiles_along side tile - 1) * tile < side \<or> tiles_along side tile = 0"
proof -
  let ?n = "tiles_along side tile"
  have e: "?n * tile + (side + tile - 1) mod tile = side + tile - 1"
    unfolding tiles_along_def by (rule div_mult_mod_eq)
  have m: "(side + tile - 1) mod tile < tile" using assms by simp
  show "side \<le> ?n * tile" using e m by linarith
  show "(?n - 1) * tile < side \<or> ?n = 0"
    using e assms by (cases "?n") auto
qed

lemma tile_row_grid:
  assumes "0 < tile_w" and "img_w + tile_w \<le> 2 ^ 32"
  shows "tile_row draw tile_w img_w 0 canvas =
    Some (fold (\<lambda>i. draw (i * tile_w)) [0..<tiles_along img_w tile_w] canvas)"
  using tile_row_ends [OF assms, of 0 "tiles_along img_w tile_w" draw canvas] assms
    tiles_along_bounds [OF assms(1), of img_w] by simp

lemma tile_rows_ends:
  assumes "0 < tile_w" and "img_w + tile_w \<le> 2 ^ 32"
    and "0 < tile_h" and "img_h + tile_h \<le> 2 ^ 32"
    and "k * tile_h < img_h + tile_h" and "img_h \<le> n * tile_h" and "k \<le> n"
    and "(n - 1) * tile_h < img_h \<or> n = 0"
  shows "tile_rows draw tile_w tile_h img_w img_h (k * tile_h) canvas =
    Some (fold (\<lambda>j. fold (\<lambda>i. draw (i * tile_w) (j * tile_h)) [0..<tiles_along img_w tile_w]) [k..<n] canvas)"
  using assms
proof (induction "n - k" arbitrary: k canvas)
  case 0
  then have "k = n" by simp
  then have "\<not> k * tile_h < img_h" using 0 by simp
  then show ?case using 0 by (subst tile_rows.simps) simp
next
  case (Suc m)
  then have lt: "k < n" by simp
  then have "k * tile_h \<le> (n - Suc 0) * tile_h" by (intro mult_le_mono1) simp
  then have in_col: "k * tile_h < img_h" using Suc.prems(8) lt by (simp only: One_nat_def) linarith
  have next_y: "(k * tile_h + tile_h) mod 2 ^ 32 = Suc k * tile_h"
    using in_col Suc.prems(4) by (simp add: ac_simps)
  let ?row = "\<lambda>j. fold (\<lambda>i. draw (i * tile_w) (j * tile_h)) [0..<tiles_along img_w tile_w]"
  have "tile_rows draw tile_w tile_h img_w img_h (Suc k * tile_h) (?row k canvas) =
      Some (fold ?row [Suc k..<n] (?row k canvas))"
    using in_col Suc.hyps(2) Suc.prems lt by (intro Suc.hyps(1)) simp_all
  then show ?case
    using in_col lt next_y tile_row_grid [OF Suc.prems(1,2), of "\<lambda>x. draw x (k * tile_h)" canvas]
    by (subst tile_rows.simps) (simp add: upt_conv_Cons)
qed

text \<open>A step of 0 never leaves its loop: the least solution of the equation is undefined.\<close>

lemmas tile_row_induct = tile_row.raw_induct [of _ "((((d, w), iw), x), c)" for d w iw x c, unfolded prod.case]

lemma tile_row_stuck:
  assumes "x < img_w" and "img_w \<le> 2 ^ 32"
  shows "tile_row draw 0 img_w x canvas = None"
proof -
  have "w = 0 \<longrightarrow> iw \<le> 2 ^ 32 \<longrightarrow> \<not> x < iw" if "tile_row d w iw x c = Some y"
    for d :: "nat \<Rightarrow> 'a \<Rightarrow> 'a" and w iw x c y
    using _ that by (rule tile_row_induct) (auto split: if_splits)
  then show ?thesis using assms by (cases "tile_row draw 0 img_w x canvas") auto
qed

lemma tile_rows_stuck:
  assumes "y < img_h" and "img_h \<le> 2 ^ 32" and "img_w \<le> 2 ^ 32"
    and "tile_h = 0 \<or> (tile_w = 0 \<and> 0 < img_w)"
  shows "tile_rows draw tile_w tile_h img_w img_h y canvas = None"
proof -
  have "h = 0 \<or> (w = 0 \<and> 0 < iw) \<longrightarrow> ih \<le> 2 ^ 32 \<longrightarrow> iw \<le> 2 ^ 32 \<longrightarrow> \<not> y < ih"
    if "tile_rows d w h iw ih y c = Some z"
    for d :: "nat \<Rightarrow> nat \<Rightarrow> 'a \<Rightarrow> 'a" and w h iw ih y c z
    using _ that
    by (rule tile_rows.raw_induct) (auto simp: tile_row_stuck bind_eq_Some_conv split: if_splits)
  then show ?thesis using assms by (cases "tile_rows draw tile_w tile_h img_w img_h y canvas") auto
qed

text \<open>
  Property C21. The tiling of a watermark ends if and only if both steps are positive, and then it
  draws the text once at every point of the grid, row by row: for a canvas whose sides plus one step
  stay below 2^32, a text without width or without height never leaves the loop.
\<close>

theorem draw_tiled_ends_iff:
  assumes "0 < il_width il canvas" and "0 < il_height il canvas"
    and "il_width il canvas + tile_width (il_text_width il fs font txt) \<le> 2 ^ 32"
    and "il_height il canvas + tile_height (text_height fs) \<le> 2 ^ 32"
  shows "(draw_tiled il font txt fs color canvas \<noteq> None) =
      (0 < tile_width (il_text_width il fs font txt) \<and> 0 < tile_height (text_height fs)) \<and>
    (0 < tile_width (il_text_width il fs font txt) \<longrightarrow> 0 < tile_height (text_height fs) \<longrightarrow>
     draw_tiled il font txt fs color canvas =
       Some (fold (\<lambda>j. fold (\<lambda>i. il_draw_text il color
                        (as_i32 (int (i * tile_width (il_text_width il fs font txt))))
                        (as_i32 (int (j * tile_height (text_height fs)))) fs font txt)
                      [0..<tiles_along (il_width il canvas) (tile_width (il_text_width il fs font txt))])
               [0..<tiles_along (il_height il canvas) (tile_height (text_height fs))] canvas))"
proof (cases "0 < tile_width (il_text_width il fs font txt) \<and> 0 < tile_height (text_height fs)")
  case True
  show ?thesis
    using tile_rows_ends [of "tile_width (il_text_width il fs font txt)" "il_width il canvas"
        "tile_height (text_height fs)" "il_height il canvas" 0
        "tiles_along (il_height il canvas) (tile_height (text_height fs))"
        "\<lambda>x y. il_draw_text il color (as_i32 (int x)) (as_i32 (int y)) fs font txt" canvas]
      tiles_along_bounds [of "tile_height (text_height fs)" "il_height il canvas"] True assms
    by (simp add: draw_tiled_def)
next
  case False
  have "draw_tiled il font txt fs color canvas = None"
    unfolding draw_tiled_def by (rule tile_rows_stuck) (use False assms in auto)
  then show ?thesis using False by auto
qed

text \<open>A library whose images are their size and the points drawn so far, ten units per letter.\<close>

definition demo_image_lib :: "(nat \<times> nat \<times> (int \<times> int) list) image_lib" where
  "demo_image_lib =
     \<lparr>il_guess_format = (\<lambda>b. if starts_with b ''PNG'' then Inr Png else if starts_with b ''GIF'' then Inr Gif
        else Inl ''unknown''),
      il_decode = (\<lambda>b. if length b < 4 then Inl ''eof'' else Inr (length b * 10, length b * 20, [])),
      il_width = fst, il_height = (\<lambda>i. fst (snd i)), il_has_alpha = (\<lambda>_. False), il_to_rgba8 = id,
      il_resize_exact = (\<lambda>i w h. (w, h, [])),
      il_encode_jpeg = (\<lambda>i q. Inr (''JPG'' @ nat_str (fst i))), il_encode_png = (\<lambda>i. Inr ''PNG''),
      il_encode_webp = (\<lambda>i q. ''WEBP''), il_font = (\<lambda>_. True),
      il_text_width = (\<lambda>size font txt. length txt * 10),
      il_draw_text = (\<lambda>c x y size font txt i. (fst i, fst (snd i), snd (snd i) @ [(x, y)]))\<rparr>"

lemma demo_image_lib_sel [simp]:
  "il_width demo_image_lib i = fst i" "il_height demo_image_lib i = fst (snd i)"
  "il_to_rgba8 demo_image_lib i = i" "il_font demo_image_lib f"
  "il_text_width demo_image_lib fs f t = length t * 10"
  "il_draw_text demo_image_lib c x y fs f t i = (fst i, fst (snd i), snd (snd i) @ [(x, y)])"
  by (simp_all add: demo_image_lib_def)

theorem draw_tiled_ends_iff_witness:
  "map_option (snd \<circ> snd) (draw_tiled demo_image_lib ''Arial'' ''ab'' 8 (0, 0, 0, 255) (100, 50, [])) =
     Some [(0, 0), (60, 0), (0, 40), (60, 40)] \<and>
   draw_tiled demo_image_lib ''Arial'' ''ab'' 0 (0, 0, 0, 255) (100, 50, []) = None"
proof -
  have w: "tile_width 20 = 60" "tile_height (text_height 8) = 40" "tile_height (text_height 0) = 0"
    by code_simp+
  have t: "tiles_along 100 60 = 2" "tiles_along 50 40 = 2" "[0..<2] = [0, 1 :: nat]"
    by (simp_all add: tiles_along_def numeral_2_eq_2)
  have "draw_tiled demo_image_lib ''Arial'' ''ab'' 8 (0, 0, 0, 255) (100, 50, []) =
      Some (100, 50, [(0, 0), (60, 0), (0, 40), (60, 40)])"
    using draw_tiled_ends_iff [of demo_image_lib "(100, 50, [])" 8 "''Arial''" "''ab''" "(0, 0, 0, 255)"]
    by (simp add: w t)
  moreover have "draw_tiled demo_image_lib ''Arial'' ''ab'' 0 (0, 0, 0, 255) (100, 50, []) = None"
    using draw_tiled_ends_iff [of demo_image_lib "(100, 50, [])" 0 "''Arial''" "''ab''" "(0, 0, 0, 255)"]
    by (simp add: w flip: not_Some_eq)
  ultimately show ?thesis by simp
qed

section \<open>A watermark without size\<close>

text \<open>
  A tiled watermark with font size 0 or scale 0, which the profile handler stores
  unchecked, hangs the worker that applies it: on every non-empty image the call never returns.
\<close>

theorem tiled_watermark_without_size_hangs:
  assumes "wm_enabled wm" and "wm_text wm \<noteq> []" and "wm_position wm = Tile"
    and "load_font_arc il (wm_font wm) = Inr font" and "parse_rgba (wm_color wm) = Some (Inr color)"
    and "wm_font_size wm = 0 \<or> wm_scale wm = 0"
    and "0 < il_height il (il_to_rgba8 il img)" and "il_height il (il_to_rgba8 il img) < 2 ^ 32"
    and "il_width il (il_to_rgba8 il img) < 2 ^ 32"
  shows "apply_watermark il img wm = None"
proof -
  have "scaled_font_size d (wm_font_size wm) (wm_scale wm) = 0" for d
    using assms(6) by (auto simp: scaled_font_size_def f64_round_def f32_round_def)
  moreover have "tile_height (text_height 0) = 0"
    by (simp add: text_height_def tile_height_def sat_u32_def f32_round_def)
  ultimately have "draw_tiled il font (wm_text wm) (scaled_font_size d (wm_font_size wm) (wm_scale wm)) color
      (il_to_rgba8 il img) = None" for d
    using assms(7-9) by (simp add: draw_tiled_def tile_rows_stuck)
  then show ?thesis using assms(1-5) by (simp add: apply_watermark_def Let_def)
qed

text \<open>The default watermark, switched on and tiled, with font size 0.\<close>

definition sizeless_watermark :: watermark_config where
  "sizeless_watermark =
     default_watermark\<lparr>wm_enabled := True, wm_text := ''me'', wm_font_size := 0, wm_position := Tile\<rparr>"

theorem tiled_watermark_without_size_hangs_witness:
  "apply_watermark demo_image_lib (100, 50, []) sizeless_watermark = None"
proof -
  have c: "parse_rgba (wm_color sizeless_watermark) = Some (Inr (255, 255, 255, 127))"
    by code_simp
  have f: "load_font_arc demo_image_lib (wm_font sizeless_watermark) = Inr ''NotoSansSC-Regular''"
    by (simp add: sizeless_watermark_def default_watermark_def load_font_arc_def)
  show ?thesis
    by (rule tiled_watermark_without_size_hangs [OF _ _ _ f c])
      (simp_all add: sizeless_watermark_def)
qed

section \<open>Colours\<close>

definition hex_color :: "rgba \<Rightarrow> string" where
  "hex_color c = (case c of (r, g, b, a) \<Rightarrow> ''#'' @ pad_hex 2 r @ pad_hex 2 g @ pad_hex 2 b @ pad_hex 2 a)"

lemma digit_of_hex_char: "n < 16 \<Longrightarrow> digit_of 16 (hex_char n) = Some n"
  by (auto simp: digit_of_def hex_char_def Let_def)

lemma hex_char_not_plus: "n < 16 \<Longrightarrow> hex_char n \<noteq> CHR ''+''"
proof
  assume "n < 16" and "hex_char n = CHR ''+''"
  then have "digit_of 16 (CHR ''+'') = Some n" using digit_of_hex_char by metis
  moreover have "digit_of 16 (CHR ''+'') = None" by code_simp
  ultimately show False by simp
qed

lemma u8_of_pad_hex:
  assumes "n < 256"
  shows "u8_from_str_radix 16 (pad_hex 2 n) = Some n"
proof -
  have d: "n div 16 < 16" "n mod 16 < 16" using assms by auto
  then have m: "n div 16 mod 16 = n div 16" by simp
  show ?thesis
    using d assms hex_char_not_plus [OF d(1)]
    by (simp add: numeral_2_eq_2 m u8_from_str_radix_def digit_of_hex_char Let_def)
qed

lemma hex_char_boundary: "n < 16 \<Longrightarrow> (of_char (hex_char n) :: nat) < 128"
  by (auto simp: hex_char_def)

lemma char_boundary_ascii: "list_all (\<lambda>c. (of_char c :: nat) < 128) s \<Longrightarrow> i \<le> length s \<Longrightarrow> char_boundary s i"
proof -
  assume s: "list_all (\<lambda>c. (of_char c :: nat) < 128) s" and i: "i \<le> length s"
  show "char_boundary s i"
  proof (cases "i < length s")
    case True
    then have "(of_char (s ! i) :: nat) < 128" using s by (simp add: list_all_length)
    then have "(of_char (s ! i) :: nat) div 64 < 2" by (simp add: div_less_iff_less_mult)
    then show ?thesis using True by (simp add: char_boundary_def)
  qed (use i in \<open>simp add: char_boundary_def\<close>)
qed

lemma hex_pair_ascii:
  assumes "list_all (\<lambda>c. (of_char c :: nat) < 128) s" and "i + 2 \<le> length s"
  shows "hex_pair s i = Some (ok_or (u8_from_str_radix 16 (take 2 (drop i s))) ''Invalid hex color'')"
  using assms by (simp add: hex_pair_def str_slice_def char_boundary_ascii)

lemma pad_hex_ascii: "list_all (\<lambda>c. (of_char c :: nat) < 128) (pad_hex w n)"
  by (induction w arbitrary: n) (simp_all add: hex_char_boundary)

lemma trim_no_ws: "list_all (\<lambda>c. \<not> is_ws c) s \<Longrightarrow> trim s = s"
proof -
  assume s: "list_all (\<lambda>c. \<not> is_ws c) s"
  have d: "dropWhile is_ws t = t" if "list_all (\<lambda>c. \<not> is_ws c) t" for t
    using that by (cases t) auto
  show ?thesis using s d [of s] d [of "rev s"] by (simp add: trim_def trim_start_def trim_end_def)
qed

lemma hex_char_no_ws: "n < 16 \<Longrightarrow> \<not> is_ws (hex_char n)"
  by (auto simp: is_ws_def hex_char_def Let_def)

lemma pad_hex_no_ws: "list_all (\<lambda>c. \<not> is_ws c) (pad_hex w n)"
  by (induction w arbitrary: n) (simp_all add: hex_char_no_ws)

text \<open>
  Every colour written as \<open>#rrggbbaa\<close> is read back as itself, and \<open>#rrggbb\<close> as the
  opaque colour, with any white space around it.
\<close>

theorem parse_rgba_reads_hex:
  assumes "r < 256" and "g < 256" and "b < 256" and "a < 256"
    and "list_all is_ws before" and "list_all is_ws after"
  shows "parse_rgba (before @ hex_color (r, g, b, a) @ after) = Some (Inr (r, g, b, a)) \<and>
    parse_rgba (before @ ''#'' @ pad_hex 2 r @ pad_hex 2 g @ pad_hex 2 b @ after) = Some (Inr (r, g, b, 255))"
proof -
  have strip: "trim (before @ s @ after) = s" if "list_all (\<lambda>c. \<not> is_ws c) s" "s \<noteq> []" for s
  proof -
    have d: "dropWhile is_ws (xs @ t) = t" if "list_all is_ws xs" "list_all (\<lambda>c. \<not> is_ws c) t" for xs t
      using that by (induction xs) (auto simp: dropWhile_eq_self_iff list_all_iff)
    have "dropWhile is_ws (before @ s @ after) = s @ after"
      using that assms(5) by (cases s) (auto simp: dropWhile_append2 dropWhile_append list_all_iff)
    moreover have "dropWhile is_ws (rev after @ rev s) = rev s" by (rule d) (use that assms(6) in auto)
    ultimately show ?thesis by (simp add: trim_def trim_start_def trim_end_def)
  qed
  let ?p = "\<lambda>n. pad_hex 2 n"
  have no_ws: "\<not> is_ws (CHR ''#'')" by code_simp
  have not_fn: "\<not> starts_with (CHR ''#'' # t) ''rgba(''" for t by (simp add: starts_with_def)
  have hash: "strip_prefix (CHR ''#'' # t) ''#'' = Some t" for t
    using strip_prefix_append [of "''#''" t] by simp
  have a8: "list_all (\<lambda>c. (of_char c :: nat) < 128) (?p r @ ?p g @ ?p b @ ?p a)"
    and a6: "list_all (\<lambda>c. (of_char c :: nat) < 128) (?p r @ ?p g @ ?p b)"
    by (simp_all add: pad_hex_ascii)
  have "hex_pairs (?p r @ ?p g @ ?p b @ ?p a) [0, 2, 4, 6] = Some (Inr [r, g, b, a])"
    using assms(1-4) by (simp add: hex_pair_ascii [OF a8] u8_of_pad_hex)
  then have 1: "parse_hex_color (hex_color (r, g, b, a)) = Some (Inr (r, g, b, a))"
    by (simp add: parse_hex_color_def hex_color_def hash)
  have "hex_pairs (?p r @ ?p g @ ?p b) [0, 2, 4] = Some (Inr [r, g, b])"
    using assms(1-4) by (simp add: hex_pair_ascii [OF a6] u8_of_pad_hex)
  then have 2: "parse_hex_color (''#'' @ ?p r @ ?p g @ ?p b) = Some (Inr (r, g, b, 255))"
    by (simp add: parse_hex_color_def hash)
  have "parse_rgba (before @ (''#'' @ t) @ after) = parse_hex_color (''#'' @ t)"
    if "list_all (\<lambda>c. \<not> is_ws c) t" for t
    using strip [of "''#'' @ t"] that no_ws not_fn [of t] by (simp add: parse_rgba_def)
  from this [of "?p r @ ?p g @ ?p b @ ?p a"] this [of "?p r @ ?p g @ ?p b"] 1 2
  show ?thesis by (simp add: pad_hex_no_ws hex_color_def)
qed

theorem parse_rgba_reads_hex_witness:
  "parse_rgba '' #0a80ff10 '' = Some (Inr (10, 128, 255, 16))"
proof -
  have "hex_color (10, 128, 255, 16) = ''#0a80ff10''" "list_all is_ws '' ''" by code_simp+
  then show ?thesis
    using parse_rgba_reads_hex [of 10 128 255 16 "'' ''" "'' ''"] by simp
qed

end
