(* ===== verification/Worker_Props.thy ===== *)
theory Worker_Props
  imports Worker Watermark_Props Upload_Props
begin

text \<open>
  What the worker promises: the size of a thumbnail, the one update of the database a task makes,
  the variants a ready image has, and what becomes of a task that keeps failing.
\<close>

section \<open>The size of a thumbnail\<close>

lemma sat_u32_eq: "x < 2 ^ 32 \<Longrightarrow> sat_u32 x = nat \<lfloor>x\<rfloor>"
proof -
  assume "x < 2 ^ 32"
  then have "\<lfloor>x\<rfloor> < 2 ^ 32" by (simp add: floor_less_iff)
  then show ?thesis by (simp add: sat_u32_def)
qed

text \<open>Two roundings move the scaled longest side by less than 1.\<close>

lemma scaled_side_bounds:
  assumes "0 < longest" and "side \<le> longest" and "max_size < 2 ^ 32"
  shows "f64_round (of_nat side * f64_round (of_nat max_size / of_nat longest)) < of_nat max_size + 1"
    and "side = longest \<Longrightarrow>
      of_nat max_size - 1 \<le> f64_round (of_nat side * f64_round (of_nat max_size / of_nat longest))"
proof -
  let ?s = "f64_round (of_nat max_size / of_nat longest)" and ?e = "1 / 2 ^ 53 :: rat"
  have m: "(of_nat max_size :: rat) < 2 ^ 32"
    using assms(3) by (metis of_nat_less_iff of_nat_numeral of_nat_power)
  have s0: "0 \<le> ?s" by (rule f64_round_nonneg) simp
  have s: "?s \<le> of_nat max_size / of_nat longest * (1 + ?e)"
    "of_nat max_size / of_nat longest * (1 - ?e) \<le> ?s"
    by (rule f64_bounds; simp)+
  have "of_nat side * ?s \<le> of_nat longest * ?s" using assms(2) s0 by (simp add: mult_right_mono)
  also have "\<dots> \<le> of_nat max_size * (1 + ?e)"
    using mult_left_mono [OF s(1), of "of_nat longest"] assms(1) by simp
  finally have w: "of_nat side * ?s \<le> of_nat max_size * (1 + ?e)" .
  have "f64_round (of_nat side * ?s) \<le> of_nat side * ?s * (1 + ?e)"
    by (rule f64_bounds) (use s0 in simp)
  also have "\<dots> \<le> of_nat max_size * (1 + ?e) * (1 + ?e)" using w by (intro mult_right_mono) simp_all
  also have "\<dots> < of_nat max_size + 1" using m by (simp add: field_simps)
  finally show "f64_round (of_nat side * ?s) < of_nat max_size + 1" .
  show "of_nat max_size - 1 \<le> f64_round (of_nat side * ?s)" if "side = longest"
  proof -
    have "of_nat max_size * (1 - ?e) \<le> of_nat side * ?s"
      using mult_left_mono [OF s(2), of "of_nat longest"] assms(1) that by simp
    then have "of_nat max_size * (1 - ?e) * (1 - ?e) \<le> of_nat side * ?s * (1 - ?e)"
      by (intro mult_right_mono) simp_all
    also have "\<dots> \<le> f64_round (of_nat side * ?s)" by (rule f64_bounds) (use s0 in simp)
    finally have "of_nat max_size * (1 - ?e) * (1 - ?e) \<le> f64_round (of_nat side * ?s)" .
    moreover have "of_nat max_size - 1 \<le> of_nat max_size * (1 - ?e) * (1 - ?e)"
      using m by (simp add: field_simps)
    ultimately show ?thesis by linarith
  qed
qed

text \<open>
  Property C22. A thumbnail fits its box in spite of the rounding of the doubles: for an image with
  pixels and a limit of at least 1, no side is 0, none exceeds the limit, and the longest side is
  the limit or one less.
\<close>

theorem thumb_size_fits:
  assumes "0 < w" and "0 < h" and "1 \<le> max_size" and "max_size < 2 ^ 32"
  shows "1 \<le> fst (thumb_size max_size w h) \<and> fst (thumb_size max_size w h) \<le> max_size \<and>
    1 \<le> snd (thumb_size max_size w h) \<and> snd (thumb_size max_size w h) \<le> max_size \<and>
    max_size \<le> max (fst (thumb_size max_size w h)) (snd (thumb_size max_size w h)) + 1"
proof -
  let ?l = "max w h"
  have l: "0 < ?l" using assms(1) by simp
  have side: "1 \<le> thumb_side max_size ?l x \<and> thumb_side max_size ?l x \<le> max_size \<and>
      (x = ?l \<longrightarrow> max_size \<le> thumb_side max_size ?l x + 1)" if x: "x \<le> ?l" for x
  proof -
    let ?v = "f64_round (of_nat x * f64_round (of_nat max_size / of_nat ?l))"
    have v: "?v < of_nat max_size + 1" "x = ?l \<Longrightarrow> of_nat max_size - 1 \<le> ?v"
      using scaled_side_bounds [OF l x assms(4)] by blast+
    have m: "(of_nat max_size :: rat) + 1 \<le> 2 ^ 32"
      using assms(4) by (metis Suc_leI of_nat_Suc of_nat_le_iff of_nat_numeral of_nat_power add.commute)
    have "max 1 ?v < 2 ^ 32" using v(1) m by simp
    then have t: "thumb_side max_size ?l x = nat \<lfloor>max 1 ?v\<rfloor>"
      unfolding thumb_side_def by (rule sat_u32_eq)
    have "1 \<le> \<lfloor>max 1 ?v\<rfloor>" by simp
    moreover have "\<lfloor>max 1 ?v\<rfloor> < int max_size + 1"
      unfolding floor_less_iff using v(1) assms(3) by simp
    moreover have "int max_size - 1 \<le> \<lfloor>max 1 ?v\<rfloor>" if "x = ?l"
      using v(2) [OF that] by (simp add: le_floor_iff)
    moreover have "1 \<le> nat z \<and> nat z \<le> m \<and> (P \<longrightarrow> m \<le> nat z + 1)"
      if "1 \<le> z" "z < int m + 1" "P \<Longrightarrow> int m - 1 \<le> z" for z m P
      using that by auto
    ultimately show ?thesis unfolding t by blast
  qed
  show ?thesis
    using side [of w] side [of h] by (cases "w \<le> h") (auto simp: thumb_size_def max_def)
qed

theorem thumb_size_fits_witness:
  "fst (thumb_size 300 4000 3000) \<le> 300 \<and> 299 \<le> max (fst (thumb_size 300 4000 3000)) (snd (thumb_size 300 4000 3000))"
  using thumb_size_fits [of 4000 3000 300] by simp

section \<open>What a job leaves alone\<close>

named_theorems job_frames "jobs that do not touch the database"

definition keeps_db :: "(('h, 's) wk, 'e, 'a) job \<Rightarrow> bool" where
  "keeps_db m \<longleftrightarrow> (\<forall>n w. wk_db (snd (snd (m n w))) = wk_db w)"

lemma keeps_dbD: "keeps_db m \<Longrightarrow> m n w = (r, n', w') \<Longrightarrow> wk_db w' = wk_db w"
  unfolding keeps_db_def by (metis snd_conv)

lemma keeps_ret [job_frames]: "keeps_db (jret x)" "keeps_db (jlift r)" "keeps_db (jsum s)"
  by (simp_all add: keeps_db_def jret_def jlift_def jsum_def)

lemma keeps_bind [job_frames]: "keeps_db m \<Longrightarrow> (\<And>x. keeps_db (f x)) \<Longrightarrow> keeps_db (jbind m f)"
  unfolding keeps_db_def jbind_def by (auto split: outcome.splits prod.splits) (metis snd_conv)+

lemma keeps_map_err [job_frames]: "keeps_db m \<Longrightarrow> keeps_db (jmap_err h m)"
  unfolding keeps_db_def jmap_err_def by (auto split: outcome.splits prod.splits) (metis snd_conv)+

lemma keeps_await [job_frames]: "(\<And>w. wk_db (snd (f w)) = wk_db w) \<Longrightarrow> keeps_db (await f)"
  unfolding keeps_db_def await_def by (auto simp: Let_def split_beta split: sum.splits)

lemma keeps_put [job_frames]: "keeps_db (storage_put_job se fail now b key bytes mime)"
  unfolding storage_put_job_def by (rule keeps_await) (simp add: Let_def split_beta)

lemma keeps_thumbnail [job_frames]: "keeps_db (generate_thumbnail env fail now img fmt b key m q)"
  unfolding generate_thumbnail_def Let_def by (auto intro!: job_frames split: prod.splits)

lemma keeps_webp [job_frames]: "keeps_db (convert_to_webp env fail now img fmt b key q)"
  unfolding convert_to_webp_def Let_def by (auto intro!: job_frames)

lemma keeps_variants [job_frames]: "keeps_db (process_image_variants env cfg fails now img fmt b tk wk)"
  unfolding process_image_variants_def Let_def by (auto intro!: job_frames split: prod.splits)

lemma keeps_source [job_frames]: "keeps_db (read_source_image env fail b task)"
  unfolding read_source_image_def
  by (intro job_frames) (auto intro!: job_frames simp: Let_def split_beta split: sum.splits)

lemma keeps_watermarked [job_frames]: "keeps_db (load_watermarked_image env fail task img)"
  unfolding load_watermarked_image_def fetch_watermark_config_def
  by (intro job_frames) (auto intro!: job_frames split: option.splits sum.splits)

lemma keeps_backend [job_frames]: "keeps_db (resolve_backend env cfg fail task)"
proof (cases "tp_storage_config_id task")
  case None
  then show ?thesis by (simp add: resolve_backend_def keeps_db_def split: option.splits)
next
  case (Some i)
  have f: "keeps_db (fetch_storage_config us fail i)" for us :: "uuid \<Rightarrow> string"
    unfolding fetch_storage_config_def by (intro job_frames) simp
  have g: "keeps_db (\<lambda>n w. case for_config cl us (wk_router w) config key of
                    None \<Rightarrow> (Stuck, n, w)
                  | Some (Inl e, ro) \<Rightarrow>
                      (Failed_with (BackendResolution (storage_error_display e)), n, w\<lparr>wk_router := ro\<rparr>)
                  | Some (Inr b, ro) \<Rightarrow> (Done b, n, w\<lparr>wk_router := ro\<rparr>))" for cl us config key
    by (simp add: keeps_db_def split: option.splits sum.splits prod.splits)
  show ?thesis
    unfolding resolve_backend_def Let_def Some option.case by (rule keeps_bind [OF f g])
qed

lemma jbind_cases:
  assumes "jbind m f n w = (r, n', w')"
  obtains (stop) r0 where "m n w = (r0, n', w')" "\<And>x. r0 \<noteq> Done x" "\<And>x. r \<noteq> Done x" "r = Elapsed \<longleftrightarrow> r0 = Elapsed"
  | (go) x n1 w1 where "m n w = (Done x, n1, w1)" "f x n1 w1 = (r, n', w')"
proof (cases "m n w")
  case (fields r0 n1 w1)
  then show thesis using assms that by (cases r0) (auto simp: jbind_def)
qed

text \<open>How an update ends: with an error nothing is written, and the answer may be lost.\<close>

lemma update_cases:
  assumes "update_image_record env mode fail task wd ht tk wk tw ww url n w = (r, n', w')"
  shows "(wk_db w' = wk_db w \<and> (\<forall>x. r \<noteq> Done x)) \<or> ((r = Done () \<or> r = Elapsed) \<and>
    wk_db w' = published (image_id task) wd ht (some_if tw tk)
      (some_if tw (url @ ''/u/thumb/'' @ we_uuid_str env (image_id task))) (some_if ww wk)
      (some_if ww (url @ ''/u/webp/'' @ we_uuid_str env (image_id task))) (wk_db w))"
  using assms by (auto simp: update_image_record_def await_def Let_def split: if_splits)

lemma stages_keep_db:
  assumes "resolve_backend env cfg f0 task n w = (Done b, n1, w1)"
    and "read_source_image env f1 b task n1 w1 = (Done x, n2, w2)"
    and "load_watermarked_image env f2 task raw n2 w2 = (Done img, n3, w3)"
    and "process_image_variants env cfg fails now img fmt b tk wk n3 w3 = (Done y, n4, w4)"
  shows "wk_db w4 = wk_db w"
  using assms by (auto dest!: keeps_dbD [OF keeps_backend] keeps_dbD [OF keeps_source]
      keeps_dbD [OF keeps_watermarked] keeps_dbD [OF keeps_variants])

text \<open>The five stages of a task, when it gets to the update.\<close>

lemma process_task_stages:
  assumes "process_task env cfg fails now task n w = (r, n', w')"
  shows "(wk_db w' = wk_db w \<and> (\<forall>x. r \<noteq> Done x)) \<or>
    (\<exists>b n1 w1 raw fmt bytes n2 w2 img n3 w3 tw ww n4 w4.
       resolve_backend env cfg (fails 0) task n w = (Done b, n1, w1) \<and>
       read_source_image env (fails 1) b task n1 w1 = (Done (raw, fmt, bytes), n2, w2) \<and>
       load_watermarked_image env (fails 2) task raw n2 w2 = (Done img, n3, w3) \<and>
       process_image_variants env cfg fails now img fmt b (thumb_key_of (we_uuid_str env) task)
         (webp_key_of (we_uuid_str env) task) n3 w3 = (Done (tw, ww), n4, w4) \<and>
       update_image_record env (dc_mode (cf_database cfg)) (fails 5) task
         (as_i32 (int (il_width (we_image env) raw))) (as_i32 (int (il_height (we_image env) raw)))
         (thumb_key_of (we_uuid_str env) task) (webp_key_of (we_uuid_str env) task) tw ww
         (trim_end_matches (CHR ''/'') (sv_public_url (cf_server cfg))) n4 w4 = (r, n', w'))"
  using assms unfolding process_task_def Let_def
proof (cases rule: jbind_cases)
  case stop
  then show ?thesis using keeps_dbD [OF keeps_backend stop(1)] by blast
next
  case (go b n1 w1)
  note k1 = keeps_dbD [OF keeps_backend go(1)]
  from go(2) show ?thesis
  proof (cases rule: jbind_cases)
    case stop
    then show ?thesis using keeps_dbD [OF keeps_source stop(1)] k1 by auto
  next
    case g2: (go x n2 w2)
    obtain raw fmt bytes where x: "x = (raw, fmt, bytes)" by (cases x)
    note k2 = keeps_dbD [OF keeps_source g2(1)]
    from g2(2) [unfolded x prod.case] show ?thesis
    proof (cases rule: jbind_cases)
      case stop
      then show ?thesis using keeps_dbD [OF keeps_watermarked stop(1)] k1 k2 by auto
    next
      case g3: (go img n3 w3)
      note k3 = keeps_dbD [OF keeps_watermarked g3(1)]
      from g3(2) show ?thesis
      proof (cases rule: jbind_cases)
        case stop
        then show ?thesis using keeps_dbD [OF keeps_variants stop(1)] k1 k2 k3 by auto
      next
        case g4: (go y n4 w4)
        obtain tw ww where y: "y = (tw, ww)" by (cases y)
        show ?thesis using go(1) g2(1) g3(1) g4 unfolding x y prod.case by blast
      qed
    qed
  qed
qed

lemma process_task_db:
  assumes "process_task env cfg fails now task n w = (r, n', w')"
  shows "(wk_db w' = wk_db w \<and> r \<noteq> Done ()) \<or>
    ((r = Done () \<or> r = Elapsed) \<and>
     (\<exists>width height tk tu wk wu. wk_db w' = published (image_id task) width height tk tu wk wu (wk_db w)))"
proof -
  from process_task_stages [OF assms] show ?thesis
  proof (elim disjE exE conjE)
    assume "wk_db w' = wk_db w" "\<forall>x. r \<noteq> Done x"
    then show ?thesis by blast
  next
    fix b n1 w1 raw fmt bytes n2 w2 img n3 w3 tw ww n4 w4
    assume st: "resolve_backend env cfg (fails 0) task n w = (Done b, n1, w1)"
      "read_source_image env (fails 1) b task n1 w1 = (Done (raw, fmt, bytes), n2, w2)"
      "load_watermarked_image env (fails 2) task raw n2 w2 = (Done img, n3, w3)"
      "process_image_variants env cfg fails now img fmt b (thumb_key_of (we_uuid_str env) task)
        (webp_key_of (we_uuid_str env) task) n3 w3 = (Done (tw, ww), n4, w4)"
      and up: "update_image_record env (dc_mode (cf_database cfg)) (fails 5) task
        (as_i32 (int (il_width (we_image env) raw))) (as_i32 (int (il_height (we_image env) raw)))
        (thumb_key_of (we_uuid_str env) task) (webp_key_of (we_uuid_str env) task) tw ww
        (trim_end_matches (CHR ''/'') (sv_public_url (cf_server cfg))) n4 w4 = (r, n', w')"
    show ?thesis using update_cases [OF up] unfolding stages_keep_db [OF st] by blast
  qed
qed

text \<open>
  Property C20. A task changes the database in one way only: by the one update that publishes its
  image. When it fails or gets stuck nothing has changed; when it is done the update has been made;
  when the timeout cancels it the update has either been made completely or not at all.
\<close>

theorem process_task_all_or_nothing:
  assumes "process_task env cfg fails now task n w = (r, n', w')"
  shows "(wk_db w' = wk_db w \<and> r \<noteq> Done ()) \<or>
    ((r = Done () \<or> r = Elapsed) \<and>
     (\<exists>width height tk tu wk wu. wk_db w' = published (image_id task) width height tk tu wk wu (wk_db w)))"
  using assms by (rule process_task_db)

text \<open>A worker of the demo server: image 1 of user 7, whose file has ten bytes.\<close>

definition demo_worker_env :: "(nat \<times> nat \<times> (int \<times> int) list, unit, unit) worker_env" where
  "demo_worker_env =
     \<lparr>we_image = demo_image_lib, we_storage = demo_storage_env, we_uuid_str = nat_str,
      we_wm_of_json = (\<lambda>_. None)\<rparr>"

definition demo_image :: image_row where
  "demo_image = new_image_row 1 1 7 ''000001'' ''a.png'' ''k'' ''local'' ''image/png'' 10 None None ''s''
     ''u'' None"

definition demo_wk :: "(unit, unit) wk" where
  "demo_wk =
     \<lparr>wk_db = empty_db\<lparr>t_users := [demo_owner], t_images := [demo_image]\<rparr>, wk_router = demo_router,
      wk_world = \<lparr>wd_files = [''/d/k'' \<mapsto> ''PNG4567890''], wd_http = (), wd_s3 = ()\<rparr>\<rparr>"

text \<open>A configuration with small numbers.\<close>

definition tiny_config :: app_config where
  "tiny_config =
     \<lparr>cf_server = \<lparr>sv_host = ''h'', sv_port = 80, sv_public_url = ''http://h/'', sv_cors_origins = []\<rparr>,
      cf_auth =
        \<lparr>ac_jwt_secret = ''s'', ac_access_token_ttl = 9, ac_refresh_token_ttl = 99,
         ac_github_client_id = None, ac_github_client_secret = None, ac_google_client_id = None,
         ac_google_client_secret = None\<rparr>,
      cf_storage = \<lparr>st_default_backend = ''local'', st_local_base_path = ''/d'', st_rustfs = None\<rparr>,
      cf_database = \<lparr>dc_mode = PostgresMode, dc_url = ''p'', dc_max_connections = 1\<rparr>,
      cf_redis = \<lparr>rc_url = ''r'', rc_pool_size = 1\<rparr>,
      cf_upload =
        \<lparr>up_max_file_size_admin = 50, up_max_file_size_user = 20, up_allowed_mimes = [],
         up_storage_quota_default = 100\<rparr>,
      cf_logging = \<lparr>lc_level = ''info'', lc_format = ''json''\<rparr>,
      cf_worker =
        \<lparr>wc_concurrency = 1, wc_queue_poll_timeout = 1, wc_task_timeout = 3, wc_recovery_scan_interval = 6,
         wc_processing =
           \<lparr>pc_thumbnail_size = 30, pc_thumbnail_quality = 80, pc_webp_quality = 82,
            pc_compress_threshold_kb = 1\<rparr>\<rparr>,
      cf_rate_limit = \<lparr>rl_auth_max = 5, rl_upload_max = 3, rl_general_max = 6, rl_public_max = 2\<rparr>,
      cf_token_encryption_key = None, cf_storage_max_user_configs = None, cf_static_dir = None,
      cf_i18n = default_i18n_config\<rparr>"

lemma demo_task_sel [simp]:
  "task_id (demo_task i k) = i" "image_id (demo_task i k) = 1" "tp_storage_config_id (demo_task i k) = None"
  "tp_storage_backend (demo_task i k) = ''local''" "retry_count (demo_task i k) = k" "max_retries (demo_task i k) = 3"
  by (simp_all add: demo_task_def)

lemma demo_process_task:
  "fst (process_task demo_worker_env tiny_config no_faults 5 (demo_task 7 0) 12 demo_wk) = Done ()"
  by code_simp

theorem process_task_all_or_nothing_witness:
  "\<exists>width height tk tu wk wu.
     wk_db (snd (snd (process_task demo_worker_env tiny_config no_faults 5 (demo_task 7 0) 12 demo_wk))) =
     published 1 width height tk tu wk wu (wk_db demo_wk)"
proof -
  obtain r n' w' where p: "process_task demo_worker_env tiny_config no_faults 5 (demo_task 7 0) 12 demo_wk = (r, n', w')"
    by (cases "process_task demo_worker_env tiny_config no_faults 5 (demo_task 7 0) 12 demo_wk")
  then have "r = Done ()" using demo_process_task by simp
  then show ?thesis
    using process_task_all_or_nothing [OF p] by (simp add: p)
qed

section \<open>The variants of a ready image\<close>

lemma jbind_DoneE:
  assumes "jbind m f n w = (Done y, n', w')"
  obtains x n1 w1 where "m n w = (Done x, n1, w1)" "f x n1 w1 = (Done y, n', w')"
  using assms by (cases rule: jbind_cases) auto

lemma jmap_err_Done: "jmap_err h m n w = (Done x, n', w') \<longleftrightarrow> m n w = (Done x, n', w')"
  by (auto simp: jmap_err_def split: prod.splits outcome.splits)

lemma put_Done_local:
  assumes "storage_put_job se fail now (LocalB ls) key bytes mime n w = (Done x, n', w')"
  shows "wd_files (wk_world w') = (wd_files (wk_world w))(full_path ls key := Some bytes)"
  using assms
  by (auto simp: storage_put_job_def await_def backend_put_def local_put_def Let_def split: if_splits)

lemma thumbnail_Done:
  assumes "generate_thumbnail env fail now img fmt b key m q n w = (Done (written, mime), n', w')"
  shows "written = should_thumbnail fmt"
    and "b = LocalB ls \<Longrightarrow> \<exists>bytes. wd_files (wk_world w') =
      (if should_thumbnail fmt then (wd_files (wk_world w))(full_path ls key := Some bytes)
       else wd_files (wk_world w))"
proof -
  show "written = should_thumbnail fmt"
    using assms
    by (auto simp: generate_thumbnail_def Let_def jret_def split: prod.splits if_splits elim!: jbind_DoneE)
  show "\<exists>bytes. wd_files (wk_world w') =
      (if should_thumbnail fmt then (wd_files (wk_world w))(full_path ls key := Some bytes)
       else wd_files (wk_world w))" if "b = LocalB ls"
    using assms unfolding that
    by (auto simp: generate_thumbnail_def Let_def jret_def jsum_def jlift_def jmap_err_Done
        split: prod.splits if_splits sum.splits elim!: jbind_DoneE dest!: put_Done_local)
qed

lemma webp_Done:
  assumes "convert_to_webp env fail now img fmt b key q n w = (Done (written, mime), n', w')"
  shows "written = should_webp fmt"
    and "b = LocalB ls \<Longrightarrow> \<exists>bytes. wd_files (wk_world w') =
      (if should_webp fmt then (wd_files (wk_world w))(full_path ls key := Some bytes)
       else wd_files (wk_world w))"
proof -
  show "written = should_webp fmt"
    using assms
    by (auto simp: convert_to_webp_def Let_def jret_def split: if_splits elim!: jbind_DoneE)
  show "\<exists>bytes. wd_files (wk_world w') =
      (if should_webp fmt then (wd_files (wk_world w))(full_path ls key := Some bytes)
       else wd_files (wk_world w))" if "b = LocalB ls"
    using assms unfolding that
    by (auto simp: convert_to_webp_def Let_def jret_def jmap_err_Done
        split: if_splits elim!: jbind_DoneE dest!: put_Done_local)
qed

lemma full_path_prefix_inj:
  "full_path ls (u @ CHR ''/'' # a) = full_path ls (u @ CHR ''/'' # b) \<longleftrightarrow> a = b"
proof -
  have "starts_with (u @ CHR ''/'' # a) ''/'' = starts_with (u @ CHR ''/'' # b) ''/''"
    by (cases u) (simp_all add: starts_with_def)
  then show ?thesis by (simp add: full_path_def path_join_def)
qed

lemma variant_paths_differ: "full_path ls (thumb_key_of us task) \<noteq> full_path ls (webp_key_of us task)"
  using full_path_prefix_inj [of ls "us (tp_user_id task)" "''thumb.'' @ us (image_id task)" "''webp.'' @ us (image_id task)"]
  by (simp add: thumb_key_of_def webp_key_of_def)

lemma variants_Done:
  assumes "process_image_variants env cfg fails now img fmt b tk wk n w = (Done (tw, ww), n', w')"
  shows "tw = should_thumbnail fmt" and "ww = should_webp fmt"
    and "b = LocalB ls \<Longrightarrow> full_path ls tk \<noteq> full_path ls wk \<Longrightarrow>
      (tw \<longrightarrow> wd_files (wk_world w') (full_path ls tk) \<noteq> None) \<and>
      (ww \<longrightarrow> wd_files (wk_world w') (full_path ls wk) \<noteq> None)"
proof -
  obtain x n1 w1 where 1: "generate_thumbnail env (fails 3) now img fmt b tk
      (pc_thumbnail_size (wc_processing (cf_worker cfg))) (pc_thumbnail_quality (wc_processing (cf_worker cfg)))
      n w = (Done (tw, x), n1, w1)"
    and 2: "\<exists>y. convert_to_webp env (fails 4) now img fmt b wk
      (pc_webp_quality (wc_processing (cf_worker cfg))) n1 w1 = (Done (ww, y), n', w')"
    using assms
    by (auto simp: process_image_variants_def Let_def jmap_err_Done jret_def elim!: jbind_DoneE)
  then obtain y where 2: "convert_to_webp env (fails 4) now img fmt b wk
      (pc_webp_quality (wc_processing (cf_worker cfg))) n1 w1 = (Done (ww, y), n', w')" by blast
  show "tw = should_thumbnail fmt" "ww = should_webp fmt"
    using thumbnail_Done(1) [OF 1] webp_Done(1) [OF 2] .
  show "(tw \<longrightarrow> wd_files (wk_world w') (full_path ls tk) \<noteq> None) \<and>
      (ww \<longrightarrow> wd_files (wk_world w') (full_path ls wk) \<noteq> None)"
    if "b = LocalB ls" "full_path ls tk \<noteq> full_path ls wk"
    using thumbnail_Done(2) [OF 1, of ls] webp_Done(2) [OF 2, of ls] thumbnail_Done(1) [OF 1]
      webp_Done(1) [OF 2] that by (auto split: if_splits)
qed

lemma published_rows:
  "x \<in> set (t_images (published i a c tk tu wk wu d)) \<Longrightarrow>
   \<exists>y \<in> set (t_images d). im_id x = im_id y \<and> (im_id y \<noteq> i \<longrightarrow> x = y) \<and>
     (im_id y = i \<longrightarrow> x = set_variants a c tk tu wk wu y)"
  by (auto simp: published_def set_variants_def)

lemma local_task_done:
  assumes "process_task env cfg fails now task n w = (Done (), n', w')"
    and "tp_storage_config_id task = None"
    and "for_backend (wk_router w) (tp_storage_backend task) = Some (LocalB ls)"
  shows "\<exists>bytes fmt a c tu wu. local_get False ls (wd_files (wk_world w)) (source_key task) = Inr bytes \<and>
    il_guess_format (we_image env) bytes = Inr fmt \<and>
    wk_db w' = published (image_id task) a c
      (some_if (should_thumbnail fmt) (thumb_key_of (we_uuid_str env) task)) tu
      (some_if (should_webp fmt) (webp_key_of (we_uuid_str env) task)) wu (wk_db w) \<and>
    (should_thumbnail fmt \<longrightarrow>
       wd_files (wk_world w') (full_path ls (thumb_key_of (we_uuid_str env) task)) \<noteq> None) \<and>
    (should_webp fmt \<longrightarrow>
       wd_files (wk_world w') (full_path ls (webp_key_of (we_uuid_str env) task)) \<noteq> None)"
proof -
  from process_task_stages [OF assms(1)] obtain b n1 w1 raw fmt bytes n2 w2 img n3 w3 tw ww n4 w4 where
    st: "resolve_backend env cfg (fails 0) task n w = (Done b, n1, w1)"
      "read_source_image env (fails 1) b task n1 w1 = (Done (raw, fmt, bytes), n2, w2)"
      "load_watermarked_image env (fails 2) task raw n2 w2 = (Done img, n3, w3)"
      "process_image_variants env cfg fails now img fmt b (thumb_key_of (we_uuid_str env) task)
        (webp_key_of (we_uuid_str env) task) n3 w3 = (Done (tw, ww), n4, w4)"
    and up: "update_image_record env (dc_mode (cf_database cfg)) (fails 5) task
        (as_i32 (int (il_width (we_image env) raw))) (as_i32 (int (il_height (we_image env) raw)))
        (thumb_key_of (we_uuid_str env) task) (webp_key_of (we_uuid_str env) task) tw ww
        (trim_end_matches (CHR ''/'') (sv_public_url (cf_server cfg))) n4 w4 = (Done (), n', w')"
    by blast
  have b: "b = LocalB ls" and w1: "w1 = w"
    using st(1) assms(2,3) by (simp_all add: resolve_backend_def)
  have src: "local_get False ls (wd_files (wk_world w)) (source_key task) = Inr bytes"
    "il_guess_format (we_image env) bytes = Inr fmt"
    using st(2) unfolding b w1
    by (auto simp: read_source_image_def await_def backend_get_def local_get_def Let_def jlift_def jret_def
        split: if_splits sum.splits elim!: jbind_DoneE)
  note db = stages_keep_db [OF st]
  have files: "wk_world w' = wk_world w4"
    using up by (auto simp: update_image_record_def await_def Let_def split: if_splits)
  note v = variants_Done(1,2) [OF st(4)] variants_Done(3) [OF st(4) b variant_paths_differ]
  from update_cases [OF up] have pub: "wk_db w' = published (image_id task)
      (as_i32 (int (il_width (we_image env) raw))) (as_i32 (int (il_height (we_image env) raw)))
      (some_if tw (thumb_key_of (we_uuid_str env) task))
      (some_if tw (trim_end_matches (CHR ''/'') (sv_public_url (cf_server cfg)) @ ''/u/thumb/'' @ we_uuid_str env (image_id task)))
      (some_if ww (webp_key_of (we_uuid_str env) task))
      (some_if ww (trim_end_matches (CHR ''/'') (sv_public_url (cf_server cfg)) @ ''/u/webp/'' @ we_uuid_str env (image_id task)))
      (wk_db w)"
    unfolding db by blast
  show ?thesis using src pub v unfolding files by blast
qed

text \<open>
  Property C19. When a task for the local backend is done, its image is ready and what the row names
  is on disk: there is a thumbnail exactly when the decoded format is not GIF, a WebP exactly for
  PNG, JPEG, AVIF and BMP, the keys of the row read back through the backend, and every other row
  is as before.
\<close>

theorem ready_image_variants_stored:
  assumes "process_task env cfg fails now task n w = (Done (), n', w')"
    and "tp_storage_config_id task = None"
    and "for_backend (wk_router w) (tp_storage_backend task) = Some (LocalB ls)"
  shows "\<exists>bytes fmt. local_get False ls (wd_files (wk_world w)) (source_key task) = Inr bytes \<and>
    il_guess_format (we_image env) bytes = Inr fmt \<and>
    (\<forall>x \<in> set (t_images (wk_db w')).
       (im_id x \<noteq> image_id task \<longrightarrow> x \<in> set (t_images (wk_db w))) \<and>
       (im_id x = image_id task \<longrightarrow> im_status x = ''ready'' \<and>
          (im_thumbnail_key x \<noteq> None) = (fmt \<noteq> Gif) \<and>
          (im_webp_key x \<noteq> None) = (fmt \<in> {Png, Jpeg, Avif, Bmp}) \<and>
          (\<forall>k. im_thumbnail_key x = Some k \<or> im_webp_key x = Some k \<longrightarrow>
             is_ok (local_get False ls (wd_files (wk_world w')) k))))"
proof -
  obtain bytes fmt a c tu wu where src: "local_get False ls (wd_files (wk_world w)) (source_key task) = Inr bytes"
    "il_guess_format (we_image env) bytes = Inr fmt"
    and pub: "wk_db w' = published (image_id task) a c
      (some_if (should_thumbnail fmt) (thumb_key_of (we_uuid_str env) task)) tu
      (some_if (should_webp fmt) (webp_key_of (we_uuid_str env) task)) wu (wk_db w)"
    and files: "should_thumbnail fmt \<Longrightarrow>
       wd_files (wk_world w') (full_path ls (thumb_key_of (we_uuid_str env) task)) \<noteq> None"
      "should_webp fmt \<Longrightarrow> wd_files (wk_world w') (full_path ls (webp_key_of (we_uuid_str env) task)) \<noteq> None"
    using local_task_done [OF assms] by blast
  have ok: "is_ok (local_get False ls f k) \<longleftrightarrow> f (full_path ls k) \<noteq> None" for f k
    by (cases "f (full_path ls k)") (simp_all add: local_get_def)
  have row: "im_status x = ''ready'' \<and> (im_thumbnail_key x \<noteq> None) = (fmt \<noteq> Gif) \<and>
      (im_webp_key x \<noteq> None) = (fmt \<in> {Png, Jpeg, Avif, Bmp}) \<and>
      (\<forall>k. im_thumbnail_key x = Some k \<or> im_webp_key x = Some k \<longrightarrow>
         is_ok (local_get False ls (wd_files (wk_world w')) k))"
    if "x = set_variants a c (some_if (should_thumbnail fmt) (thumb_key_of (we_uuid_str env) task)) tu
      (some_if (should_webp fmt) (webp_key_of (we_uuid_str env) task)) wu y" for x y
    unfolding that ok
    using files by (cases "should_thumbnail fmt"; cases "should_webp fmt")
      (auto simp: set_variants_def some_if_def should_thumbnail_def should_webp_def)
  have "(im_id x \<noteq> image_id task \<longrightarrow> x \<in> set (t_images (wk_db w))) \<and>
       (im_id x = image_id task \<longrightarrow> im_status x = ''ready'' \<and>
          (im_thumbnail_key x \<noteq> None) = (fmt \<noteq> Gif) \<and>
          (im_webp_key x \<noteq> None) = (fmt \<in> {Png, Jpeg, Avif, Bmp}) \<and>
          (\<forall>k. im_thumbnail_key x = Some k \<or> im_webp_key x = Some k \<longrightarrow>
             is_ok (local_get False ls (wd_files (wk_world w')) k)))"
    if "x \<in> set (t_images (wk_db w'))" for x
    using published_rows [OF that [unfolded pub]] row by metis
  then show ?thesis using src by blast
qed

theorem ready_image_variants_stored_witness:
  "\<exists>x. t_images (wk_db (snd (snd (process_task demo_worker_env tiny_config no_faults 5 (demo_task 7 0) 12 demo_wk)))) = [x] \<and>
     im_status x = ''ready''"
proof -
  obtain r n' w' where p: "process_task demo_worker_env tiny_config no_faults 5 (demo_task 7 0) 12 demo_wk = (r, n', w')"
    by (cases "process_task demo_worker_env tiny_config no_faults 5 (demo_task 7 0) 12 demo_wk")
  then have r: "process_task demo_worker_env tiny_config no_faults 5 (demo_task 7 0) 12 demo_wk = (Done (), n', w')"
    using demo_process_task by simp
  have b: "for_backend (wk_router demo_wk) (tp_storage_backend (demo_task 7 0)) =
      Some (LocalB \<lparr>ls_base_path = ''/d'', ls_base_url = ''u''\<rparr>)" "tp_storage_config_id (demo_task 7 0) = None"
    by (simp_all add: demo_wk_def demo_router_def demo_task_def for_backend_def)
  have "map im_id (t_images (wk_db (snd (snd (process_task demo_worker_env tiny_config no_faults 5 (demo_task 7 0) 12 demo_wk))))) = [1]"
    by code_simp
  then obtain x where x: "t_images (wk_db w') = [x]" "im_id x = 1" by (auto simp: r)
  then show ?thesis
    using ready_image_variants_stored [OF r b(2,1)] by (auto simp: r)
qed

section \<open>Variants of images in a repository\<close>

lemma git_put_path:
  "git_put http b64 ymd gs now h key data ct = (Inr path, h') \<Longrightarrow>
   path = build_path ymd gs now key (mime_to_ext ct)"
  by (auto simp: git_put_def map_put_response_def Let_def split: sum.splits prod.splits if_splits)

lemma build_path_longer: "length key < length (build_path ymd gs now key ext)"
  by (simp add: build_path_def)

lemma raw_url_inj: "raw_url gs p = raw_url gs q \<longleftrightarrow> p = q"
  by (simp add: raw_url_def)

text \<open>
  The thumbnail of an image in a git repository is never found again: the row of a
  finished task names the key the worker asked for, while every successful \<open>put\<close> of that key stores it
  under another path, so that reading the row's key asks for another file.
\<close>

theorem git_thumbnail_unreachable:
  assumes "process_task env cfg fails now task n w = (Done (), n', w')"
    and "x \<in> set (t_images (wk_db w'))" and "im_id x = image_id task"
    and "im_thumbnail_key x = Some k"
    and "git_put http b64 ymd gs t h k data ct = (Inr path, h')"
  shows "k = thumb_key_of (we_uuid_str env) task \<and> path \<noteq> k \<and> raw_url gs k \<noteq> raw_url gs path"
proof -
  from process_task_stages [OF assms(1)] obtain b n1 w1 raw fmt bytes n2 w2 img n3 w3 tw ww n4 w4 where
    up: "update_image_record env (dc_mode (cf_database cfg)) (fails 5) task
        (as_i32 (int (il_width (we_image env) raw))) (as_i32 (int (il_height (we_image env) raw)))
        (thumb_key_of (we_uuid_str env) task) (webp_key_of (we_uuid_str env) task) tw ww
        (trim_end_matches (CHR ''/'') (sv_public_url (cf_server cfg))) n4 w4 = (Done (), n', w')"
    by blast
  from update_cases [OF this] obtain a c tu wk wu where "wk_db w' = published (image_id task) a c
      (some_if tw (thumb_key_of (we_uuid_str env) task)) tu wk wu (wk_db w4)"
    by blast
  then have "im_thumbnail_key x = some_if tw (thumb_key_of (we_uuid_str env) task)"
    using assms(2,3) by (auto simp: published_def set_variants_def split: if_splits)
  then have k: "k = thumb_key_of (we_uuid_str env) task"
    using assms(4) by (simp add: some_if_def split: if_splits)
  have "path \<noteq> k"
    using git_put_path [OF assms(5)] build_path_longer [of k ymd gs t "mime_to_ext ct"] by auto
  with k show ?thesis by (simp add: raw_url_inj)
qed

text \<open>The demo image, moved to a repository whose server accepts every request.\<close>

definition git_image_env :: "(nat \<times> nat \<times> (int \<times> int) list, unit, unit) worker_env" where
  "git_image_env = demo_worker_env\<lparr>we_storage := demo_storage_env\<lparr>se_http :=
     (\<lambda>h q. (Some \<lparr>hs_status = 200, hs_retry_after = None, hs_body = Some ''PNG4567890'', hs_json = None\<rparr>, h))\<rparr>\<rparr>"

definition demo_git :: git_storage where
  "demo_git = git_storage_new GitHub ''me'' ''pics'' ''main'' None ''tok''"

definition git_wk :: "(unit, unit) wk" where
  "git_wk = demo_wk\<lparr>wk_router := \<lparr>ro_backends = [(''local'', GitB demo_git)], ro_default = ''local''\<rparr>\<rparr>"

theorem git_thumbnail_unreachable_witness:
  "map im_thumbnail_key (t_images (wk_db (snd (snd (process_task git_image_env tiny_config no_faults 5
      (demo_task 7 0) 12 git_wk))))) = [Some ''1/thumb.1''] \<and>
   fst (git_put (se_http (we_storage git_image_env)) id (\<lambda>_. ''2025/01/01'') demo_git 5 () ''1/thumb.1'' ''x''
     ''image/jpeg'') = Inr ''pichost/2025/01/01/1/thumb.1.jpg'' \<and>
   raw_url demo_git ''1/thumb.1'' \<noteq> raw_url demo_git ''pichost/2025/01/01/1/thumb.1.jpg''"
proof -
  let ?p = "process_task git_image_env tiny_config no_faults 5 (demo_task 7 0) 12 git_wk"
  obtain r n' w' where p: "?p = (r, n', w')" by (cases ?p)
  have r: "fst ?p = Done ()" by code_simp
  have d: "map (\<lambda>x. (im_id x, im_thumbnail_key x)) (t_images (wk_db (snd (snd ?p)))) = [(1, Some ''1/thumb.1'')]"
    by code_simp
  have put: "git_put (se_http (we_storage git_image_env)) id (\<lambda>_. ''2025/01/01'') demo_git 5 () ''1/thumb.1'' ''x''
     ''image/jpeg'' = (Inr ''pichost/2025/01/01/1/thumb.1.jpg'', ())"
    by code_simp
  obtain x where x: "t_images (wk_db w') = [x]" "im_id x = 1" "im_thumbnail_key x = Some ''1/thumb.1''"
    using d unfolding p by auto
  have done_p: "?p = (Done (), n', w')" using p r by simp
  have "raw_url demo_git ''1/thumb.1'' \<noteq> raw_url demo_git ''pichost/2025/01/01/1/thumb.1.jpg''"
    by (rule git_thumbnail_unreachable [OF done_p _ _ x(3) put, THEN conjunct2, THEN conjunct2])
      (simp_all add: x)
  then show ?thesis by (simp add: put p x)
qed

end
