(* ===== verification/Worker_Turns.thy ===== *)
theory Worker_Turns
  imports Worker_Props
begin

text \<open>
  The worker over its queue: turns of \<open>worker_loop\<close> on the Redis queue, up to the dead letter. A task
  that fails is recorded in the database after its last try; a task that times out is not.
\<close>

fun worker_run ::
  "('i, 'h, 's) worker_env \<Rightarrow> 'q queue_ops \<Rightarrow> app_config \<Rightarrow> faults \<Rightarrow> (instant \<times> nat) list \<Rightarrow>
   ('q, 'h, 's) worker \<Rightarrow> ('q, 'h, 's) worker option" where
  "worker_run env qo cfg fails [] w = Some w"
| "worker_run env qo cfg fails ((t, budget) # es) w =
     Option.bind (worker_turn env qo cfg fails t budget w) (worker_run env qo cfg fails es)"

text \<open>The jobs' state after a failed or cancelled attempt, when it was the last one.\<close>

definition after_last ::
  "faults \<Rightarrow> instant \<Rightarrow> task_payload \<Rightarrow> (pipeline_error, unit) outcome \<Rightarrow> ('h, 's) wk \<Rightarrow> ('h, 's) wk" where
  "after_last fails t p r k =
     (case r of
        Failed_with e \<Rightarrow>
          k\<lparr>wk_db := handle_dead_letter fails t (image_id p) (as_i32 (retry_count p + 1)) (max_retries p)
                      (pipeline_error_display e) (wk_db k)\<rparr>
      | _ \<Rightarrow> k)"

definition ends_attempt :: "(pipeline_error, unit) outcome \<Rightarrow> bool" where
  "ends_attempt r \<longleftrightarrow> (\<exists>e. r = Failed_with e) \<or> r = Elapsed"

lemma redis_ops_sel:
  "qo_dequeue (redis_queue_ops exec qc) s t = apfst (map_err (to_state_error (qc_uuid qc))) (dequeue_task exec qc t s)"
  "qo_nack (redis_queue_ops exec qc) s t i rc mr =
     apfst (map_err (to_state_error (qc_uuid qc))) (redis_queue_nack exec qc t i rc mr s)"
  by (simp_all add: redis_queue_ops_def)

lemma worker_turn_unsuccessful:
  assumes up: "redis_up exec ks" and w: "queue_wf (qc_uuid qc) (ks (wo_queue w))"
    and laws: "queue_codec_laws qc ps" "p \<in> ps"
    and q: "qlist (ks (wo_queue w)) key_pending = [qc_uuid qc (task_id p)]"
      "qlist (ks (wo_queue w)) key_processing = []"
    and d: "qfields (ks (wo_queue w)) (task_key (qc_uuid qc) (task_id p)) ''data'' = Some (qc_enc qc p)"
    and run: "process_task env cfg fails t p budget (wo_wk w) = (r, n', k')" and r: "ends_attempt r"
  shows "\<exists>w'. worker_turn env (redis_queue_ops exec qc) cfg fails t budget w = Some w' \<and>
    queue_wf (qc_uuid qc) (ks (wo_queue w')) \<and> qlist (ks (wo_queue w')) key_processing = [] \<and>
    (if retry_count p < max_retries p
     then qlist (ks (wo_queue w')) key_pending = [qc_uuid qc (task_id p)] \<and>
       qlist (ks (wo_queue w')) key_dead = qlist (ks (wo_queue w)) key_dead \<and>
       qfields (ks (wo_queue w')) (task_key (qc_uuid qc) (task_id p)) ''data'' =
         Some (qc_enc qc (p\<lparr>retry_count := as_i32 (retry_count p + 1)\<rparr>)) \<and> wo_wk w' = k'
     else qlist (ks (wo_queue w')) key_pending = [] \<and>
       qlist (ks (wo_queue w')) key_dead = qc_uuid qc (task_id p) # qlist (ks (wo_queue w)) key_dead \<and>
       wo_wk w' = after_last fails t p r k')"
proof -
  let ?us = "qc_uuid qc"
  obtain k1 where deq: "dequeue_task redis_server qc t (ks (wo_queue w)) = (Inr (Some p), k1)"
    and w1: "queue_wf ?us k1" and q1: "qlist k1 key_pending = []"
    "qlist k1 key_processing = [?us (task_id p)]" "qlist k1 key_dead = qlist (ks (wo_queue w)) key_dead"
    and d1: "qfields k1 (task_key ?us (task_id p)) ''data'' = Some (qc_enc qc p)"
    using dequeue_last [OF w laws, of "[]" "task_id p" t] q d by auto
  obtain q2 where q2: "dequeue_task exec qc t (wo_queue w) = (Inr (Some p), q2)" "ks q2 = k1"
  proof -
    obtain r' q' where e: "dequeue_task exec qc t (wo_queue w) = (r', q')" by fastforce
    show thesis using simD [OF sim_dequeue [OF up] e] deq e that by auto
  qed
  let ?a = "if retry_count p < max_retries p then Retry else DeadLetter"
  obtain k2 where nack: "redis_queue_nack redis_server qc t (task_id p) (retry_count p) (max_retries p) k1 =
      (Inr ?a, k2)"
    and st: "queue_step ?us (nack_cmds qc t p nack_err_msg) k1 k2"
    using nack_step [OF w1 laws d1, of t "retry_count p" "max_retries p"] by auto
  obtain q3 where q3: "redis_queue_nack exec qc t (task_id p) (retry_count p) (max_retries p) q2 = (Inr ?a, q3)"
    "ks q3 = k2"
  proof -
    obtain r' q' where e: "redis_queue_nack exec qc t (task_id p) (retry_count p) (max_retries p) q2 = (r', q')"
      by fastforce
    show thesis using simD [OF sim_nack [OF up] e] nack q2(2) e that by auto
  qed
  let ?w' = "w\<lparr>wo_queue := q3, wo_wk := (if retry_count p < max_retries p then k' else after_last fails t p r k')\<rparr>"
  have "worker_turn env (redis_queue_ops exec qc) cfg fails t budget w = Some ?w'"
    using r run
    by (auto simp: ends_attempt_def worker_turn_def dequeue_or_retry_def redis_ops_sel q2 q3 Let_def map_err_def
        handle_task_result_def nack_failed_task_def after_last_def)
  then show ?thesis
    using queue_step_lists [OF st] q1 by (simp add: nack_cmds_def Let_def q3)
qed

text \<open>
  What every attempt at the task \<open>p\<close> in the turns \<open>es\<close> does: from a state with \<open>P\<close> it ends with an
  outcome in \<open>Q\<close> in a state with \<open>P\<close>.
\<close>

definition attempts ::
  "('i, 'h, 's) worker_env \<Rightarrow> app_config \<Rightarrow> faults \<Rightarrow> (instant \<times> nat) list \<Rightarrow> task_payload \<Rightarrow>
   (('h, 's) wk \<Rightarrow> bool) \<Rightarrow> ((pipeline_error, unit) outcome \<Rightarrow> bool) \<Rightarrow> bool" where
  "attempts env cfg fails es p P Q \<longleftrightarrow>
     (\<forall>k m e. e \<in> set es \<longrightarrow> P k \<longrightarrow>
        Q (fst (process_task env cfg fails (fst e) (p\<lparr>retry_count := m\<rparr>) (snd e) k)) \<and>
        P (snd (snd (process_task env cfg fails (fst e) (p\<lparr>retry_count := m\<rparr>) (snd e) k))))"

lemma attempts_tl: "attempts env cfg fails (x # es) p P Q \<Longrightarrow> attempts env cfg fails es p P Q"
  by (simp add: attempts_def)

lemma attempts_step:
  assumes "attempts env cfg fails es p P Q" and "(t, b) \<in> set es" and "P k"
    and "process_task env cfg fails t (p\<lparr>retry_count := m\<rparr>) b k = (r, n', k')"
  shows "Q r \<and> P k'"
  using assms unfolding attempts_def by (metis fst_conv snd_conv)

lemma attemptsD:
  assumes "attempts env cfg fails ((t, b) # es) p P Q" and "P k"
  obtains r n' k' where "process_task env cfg fails t (p\<lparr>retry_count := m\<rparr>) b k = (r, n', k')" "Q r" "P k'"
proof -
  obtain r n' k' where e: "process_task env cfg fails t (p\<lparr>retry_count := m\<rparr>) b k = (r, n', k')"
    by (cases "process_task env cfg fails t (p\<lparr>retry_count := m\<rparr>) b k")
  show thesis using attempts_step [OF assms(1) _ assms(2) e] e that by simp
qed

lemma failed_keeps_db:
  "process_task env cfg fails t p b k = (Failed_with e, n', k') \<Longrightarrow> wk_db k' = wk_db k"
  by (drule process_task_stages) (auto dest!: update_cases stages_keep_db)

lemma worker_run_to_dead_letter:
  assumes up: "redis_up exec ks" and Q: "\<And>r. Q r \<Longrightarrow> ends_attempt r"
    and laws: "queue_codec_laws qc {p\<lparr>retry_count := n\<rparr> | n. 0 \<le> n \<and> n \<le> max_retries p}"
    and mx: "max_retries p < 2 ^ 31"
  shows "attempts env cfg fails es p P Q \<Longrightarrow> queue_wf (qc_uuid qc) (ks (wo_queue w)) \<Longrightarrow>
    0 \<le> rc \<Longrightarrow> rc + int m = max_retries p \<Longrightarrow>
    qlist (ks (wo_queue w)) key_pending = [qc_uuid qc (task_id p)] \<Longrightarrow>
    qlist (ks (wo_queue w)) key_processing = [] \<Longrightarrow>
    qfields (ks (wo_queue w)) (task_key (qc_uuid qc) (task_id p)) ''data'' =
      Some (qc_enc qc (p\<lparr>retry_count := rc\<rparr>)) \<Longrightarrow>
    length es = Suc m \<Longrightarrow> P (wo_wk w) \<Longrightarrow>
    \<exists>w' t r k. worker_run env (redis_queue_ops exec qc) cfg fails es w = Some w' \<and>
      qlist (ks (wo_queue w')) key_pending = [] \<and> qlist (ks (wo_queue w')) key_processing = [] \<and>
      qlist (ks (wo_queue w')) key_dead = qc_uuid qc (task_id p) # qlist (ks (wo_queue w)) key_dead \<and>
      Q r \<and> P k \<and> wo_wk w' = after_last fails t (p\<lparr>retry_count := max_retries p\<rparr>) r k"
proof (induction m arbitrary: rc w es)
  case 0
  then obtain t b where es: "es = [(t, b)]" by (cases es) auto
  have rc: "rc = max_retries p" using 0 by simp
  let ?p = "p\<lparr>retry_count := rc\<rparr>"
  have mem: "?p \<in> {p\<lparr>retry_count := n\<rparr> | n. 0 \<le> n \<and> n \<le> max_retries p}" using 0 by auto
  obtain r n' k' where run: "process_task env cfg fails t ?p b (wo_wk w) = (r, n', k')" and r: "Q r" "P k'"
    using 0(1) 0(9) unfolding es by (rule attemptsD)
  obtain w' where "worker_turn env (redis_queue_ops exec qc) cfg fails t b w = Some w'"
    "qlist (ks (wo_queue w')) key_processing = []" "qlist (ks (wo_queue w')) key_pending = []"
    "qlist (ks (wo_queue w')) key_dead = qc_uuid qc (task_id p) # qlist (ks (wo_queue w)) key_dead"
    "wo_wk w' = after_last fails t (p\<lparr>retry_count := max_retries p\<rparr>) r k'"
    using worker_turn_unsuccessful [OF up 0(2) laws mem _ 0(6) _ run Q [OF r(1)]] 0(5,7) rc by auto
  then show ?case using r by (simp add: es) blast
next
  case (Suc m)
  then obtain t b es' where es: "es = (t, b) # es'" "length es' = Suc m" by (cases es) auto
  let ?p = "p\<lparr>retry_count := rc\<rparr>"
  have mem: "?p \<in> {p\<lparr>retry_count := n\<rparr> | n. 0 \<le> n \<and> n \<le> max_retries p}" using Suc.prems by auto
  have rc: "as_i32 (rc + 1) = rc + 1" using Suc.prems mx by simp
  obtain r n' k' where run: "process_task env cfg fails t ?p b (wo_wk w) = (r, n', k')" and r: "Q r" "P k'"
    using Suc.prems(1) Suc.prems(9) unfolding es by (rule attemptsD)
  obtain w1 where w1: "worker_turn env (redis_queue_ops exec qc) cfg fails t b w = Some w1"
    "queue_wf (qc_uuid qc) (ks (wo_queue w1))" "qlist (ks (wo_queue w1)) key_processing = []"
    "qlist (ks (wo_queue w1)) key_pending = [qc_uuid qc (task_id p)]"
    "qlist (ks (wo_queue w1)) key_dead = qlist (ks (wo_queue w)) key_dead"
    "qfields (ks (wo_queue w1)) (task_key (qc_uuid qc) (task_id p)) ''data'' =
      Some (qc_enc qc (p\<lparr>retry_count := rc + 1\<rparr>))" "wo_wk w1 = k'"
    using worker_turn_unsuccessful [OF up Suc.prems(2) laws mem _ Suc.prems(6) _ run Q [OF r(1)]]
      Suc.prems(4,5,7) by (auto simp: rc)
  show ?case
    using Suc.IH [OF attempts_tl [OF Suc.prems(1) [unfolded es(1)]] w1(2) _ _ w1(4,3,6) es(2)] Suc.prems(3,4) w1 r
    by (auto simp: es(1))
qed

text \<open>The state right after the enqueue.\<close>

lemma enqueued_alone:
  assumes up: "redis_up exec ks" and w: "queue_wf (qc_uuid qc) (ks s)"
    and empty: "qlist (ks s) key_pending = []" "qlist (ks s) key_processing = []" and p: "retry_count p = 0"
  shows "queue_wf (qc_uuid qc) (ks (snd (enqueue_task exec qc t p s))) \<and>
    qlist (ks (snd (enqueue_task exec qc t p s))) key_pending = [qc_uuid qc (task_id p)] \<and>
    qlist (ks (snd (enqueue_task exec qc t p s))) key_processing = [] \<and>
    qlist (ks (snd (enqueue_task exec qc t p s))) key_dead = qlist (ks s) key_dead \<and>
    qfields (ks (snd (enqueue_task exec qc t p s))) (task_key (qc_uuid qc) (task_id p)) ''data'' =
      Some (qc_enc qc (p\<lparr>retry_count := 0\<rparr>))"
proof -
  obtain k1 where e: "enqueue_task redis_server qc t p (ks s) = (Inr (), k1)"
    and q: "queue_step (qc_uuid qc)
       [CHSet (task_key (qc_uuid qc) (task_id p)) ''data'' (qc_enc qc p),
        CHSet (task_key (qc_uuid qc) (task_id p)) ''status'' ''pending'',
        CHSet (task_key (qc_uuid qc) (task_id p)) ''created_at'' (qc_time qc t),
        CHSet (task_key (qc_uuid qc) (task_id p)) ''updated_at'' (qc_time qc t),
        CLPush key_pending (qc_uuid qc (task_id p))] (ks s) k1"
    using enqueue_step [OF w] by blast
  have k1: "ks (snd (enqueue_task exec qc t p s)) = k1"
    by (simp add: sim_snd [OF sim_enqueue [OF up]] e)
  have "p\<lparr>retry_count := 0\<rparr> = p" using p by (cases p) simp
  then show ?thesis
    using empty queue_step_lists(1) [OF q] by (simp add: k1 queue_step_lists(2-5) [OF q])
qed

text \<open>
  Property C18. A task whose every attempt fails ends as a dead letter that the database shows: after
  \<open>max_retries + 1\<close> turns of the worker the queue holds it on the dead list only, exactly one row of
  failed tasks has been added, with its retry count, and its image, and no other, is marked failed.
\<close>

theorem failing_task_recorded:
  assumes up: "redis_up exec ks" and wf: "queue_wf (qc_uuid qc) (ks (wo_queue w))"
    and empty: "qlist (ks (wo_queue w)) key_pending = []" "qlist (ks (wo_queue w)) key_processing = []"
    and laws: "queue_codec_laws qc {p\<lparr>retry_count := n\<rparr> | n. 0 \<le> n \<and> n \<le> max_retries p}"
    and p: "retry_count p = 0" "0 \<le> max_retries p" "max_retries p + 1 < 2 ^ 31"
    and es: "length es = nat (max_retries p) + 1"
    and db: "\<not> fails 6" "\<not> fails 7" "image_id p \<in> im_id ` set (t_images (wk_db (wo_wk w)))"
    and P: "P (wo_wk w)" and bad: "attempts env cfg fails es p P (\<lambda>r. \<exists>e. r = Failed_with e)"
  shows "\<exists>w' row. worker_run env (redis_queue_ops exec qc) cfg fails es
        (w\<lparr>wo_queue := snd (enqueue_task exec qc t p (wo_queue w))\<rparr>) = Some w' \<and>
    qlist (ks (wo_queue w')) key_pending = [] \<and> qlist (ks (wo_queue w')) key_processing = [] \<and>
    qlist (ks (wo_queue w')) key_dead = qc_uuid qc (task_id p) # qlist (ks (wo_queue w)) key_dead \<and>
    t_images (wk_db (wo_wk w')) =
      map (\<lambda>x. if im_id x = image_id p then x\<lparr>im_status := ''failed''\<rparr> else x) (t_images (wk_db (wo_wk w))) \<and>
    t_upload_tasks (wk_db (wo_wk w')) = t_upload_tasks (wk_db (wo_wk w)) @ [row] \<and>
    ut_image_id row = image_id p \<and> ut_status row = ''failed'' \<and> ut_retry_count row = max_retries p + 1"
proof -
  let ?w = "w\<lparr>wo_queue := snd (enqueue_task exec qc t p (wo_queue w))\<rparr>" and ?d = "wk_db (wo_wk w)"
  have bad': "attempts env cfg fails es p (\<lambda>k. P k \<and> wk_db k = ?d) (\<lambda>r. \<exists>e. r = Failed_with e)"
    unfolding attempts_def
  proof (intro allI impI)
    fix k m e
    assume x: "e \<in> set es" "P k \<and> wk_db k = ?d"
    obtain r n' k' where run: "process_task env cfg fails (fst e) (p\<lparr>retry_count := m\<rparr>) (snd e) k = (r, n', k')"
      by (cases "process_task env cfg fails (fst e) (p\<lparr>retry_count := m\<rparr>) (snd e) k")
    have "(\<exists>e. r = Failed_with e) \<and> P k'"
      by (rule attempts_step [OF bad _ _ run]) (use x in auto)
    then show "(\<exists>er. fst (process_task env cfg fails (fst e) (p\<lparr>retry_count := m\<rparr>) (snd e) k) = Failed_with er) \<and>
        P (snd (snd (process_task env cfg fails (fst e) (p\<lparr>retry_count := m\<rparr>) (snd e) k))) \<and>
        wk_db (snd (snd (process_task env cfg fails (fst e) (p\<lparr>retry_count := m\<rparr>) (snd e) k))) = ?d"
      using failed_keeps_db [of env cfg fails "fst e" "p\<lparr>retry_count := m\<rparr>" "snd e" k] run x(2) by auto
  qed
  note q = enqueued_alone [OF up wf empty p(1), of t]
  have "\<exists>w' t' r k. worker_run env (redis_queue_ops exec qc) cfg fails es ?w = Some w' \<and>
      qlist (ks (wo_queue w')) key_pending = [] \<and> qlist (ks (wo_queue w')) key_processing = [] \<and>
      qlist (ks (wo_queue w')) key_dead = qc_uuid qc (task_id p) # qlist (ks (wo_queue w)) key_dead \<and>
      (\<exists>e. r = Failed_with e) \<and> (P k \<and> wk_db k = ?d) \<and>
      wo_wk w' = after_last fails t' (p\<lparr>retry_count := max_retries p\<rparr>) r k"
    using worker_run_to_dead_letter [OF up _ laws _ bad', where rc = 0 and m = "nat (max_retries p)" and w = ?w]
      q p es P by (simp add: ends_attempt_def)
  then obtain w' t' r k where fin: "worker_run env (redis_queue_ops exec qc) cfg fails es ?w = Some w'"
    "qlist (ks (wo_queue w')) key_pending = []" "qlist (ks (wo_queue w')) key_processing = []"
    "qlist (ks (wo_queue w')) key_dead = qc_uuid qc (task_id p) # qlist (ks (wo_queue w)) key_dead"
    "\<exists>e. r = Failed_with e" "wk_db k = ?d"
    "wo_wk w' = after_last fails t' (p\<lparr>retry_count := max_retries p\<rparr>) r k"
    by blast
  then obtain e where "r = Failed_with e" by blast
  with fin(6,7) db p have "wk_db (wo_wk w') =
      handle_dead_letter fails t' (image_id p) (max_retries p + 1) (max_retries p) (pipeline_error_display e) ?d"
    by (simp add: after_last_def)
  then show ?thesis
    using fin db by (simp add: handle_dead_letter_def upload_tasks_accept_def)
qed

text \<open>The demo worker, whose storage cannot be read.\<close>

definition demo_worker :: "(key_space, unit, unit) worker" where
  "demo_worker = \<lparr>wo_queue = Map.empty, wo_wk = demo_wk\<rparr>"

lemma demo_worker_sel [simp]:
  "wo_queue demo_worker = Map.empty" "wo_wk demo_worker = demo_wk"
  by (simp_all add: demo_worker_def)

lemma demo_laws:
  "queue_codec_laws demo_codec {demo_task 7 0\<lparr>retry_count := n\<rparr> | n. 0 \<le> n \<and> n \<le> max_retries (demo_task 7 0)}"
proof -
  have "{demo_task 7 0\<lparr>retry_count := n\<rparr> | n. 0 \<le> n \<and> n \<le> max_retries (demo_task 7 0)} =
      {demo_task 7 n | n. 0 \<le> n \<and> n \<le> 3}"
    by (auto simp: demo_task_def)
  then show ?thesis using demo_codec_laws by simp
qed

lemma demo_resolves:
  "wk_router k = demo_router \<Longrightarrow> resolve_backend env cfg f (demo_task 7 0\<lparr>retry_count := m\<rparr>) n k =
     (Done (LocalB \<lparr>ls_base_path = ''/d'', ls_base_url = ''u''\<rparr>), n, k)"
  by (simp add: resolve_backend_def for_backend_def demo_router_def)

lemma demo_attempts_fail:
  "attempts demo_worker_env tiny_config (\<lambda>n. n = 1) [(1, 12), (2, 12), (3, 12), (4, 12)] (demo_task 7 0)
     (\<lambda>k. wk_router k = demo_router) (\<lambda>r. \<exists>e. r = Failed_with e)"
  unfolding attempts_def
  by (auto simp: process_task_def Let_def jbind_def demo_resolves read_source_image_def await_def
      backend_get_def local_get_def)

lemma demo_queue_state:
  "queue_wf us (Map.empty :: key_space)" "qlist Map.empty key = []"
  by (simp_all add: queue_wf_empty qlist_def)

lemma demo_wk_sel [simp]:
  "wk_router demo_wk = demo_router" "t_images (wk_db demo_wk) = [demo_image]" "im_id demo_image = 1"
  "t_upload_tasks (wk_db demo_wk) = []"
  by (simp_all add: demo_wk_def demo_image_def empty_db_def)

theorem failing_task_recorded_witness:
  "\<exists>w' row. worker_run demo_worker_env (redis_queue_ops redis_server demo_codec) tiny_config (\<lambda>n. n = 1)
      [(1, 12), (2, 12), (3, 12), (4, 12)]
      (demo_worker\<lparr>wo_queue := snd (enqueue_task redis_server demo_codec 0 (demo_task 7 0) Map.empty)\<rparr>) = Some w' \<and>
    t_images (wk_db (wo_wk w')) = [demo_image\<lparr>im_status := ''failed''\<rparr>] \<and>
    t_upload_tasks (wk_db (wo_wk w')) = [row] \<and> ut_retry_count row = 4"
proof -
  have "\<exists>w' row. worker_run demo_worker_env (redis_queue_ops redis_server demo_codec) tiny_config (\<lambda>n. n = 1)
      [(1, 12), (2, 12), (3, 12), (4, 12)]
      (demo_worker\<lparr>wo_queue := snd (enqueue_task redis_server demo_codec 0 (demo_task 7 0) (wo_queue demo_worker))\<rparr>) =
      Some w' \<and>
    t_images (wk_db (wo_wk w')) = map (\<lambda>x. if im_id x = image_id (demo_task 7 0)
      then x\<lparr>im_status := ''failed''\<rparr> else x) (t_images (wk_db (wo_wk demo_worker))) \<and>
    t_upload_tasks (wk_db (wo_wk w')) = t_upload_tasks (wk_db (wo_wk demo_worker)) @ [row] \<and>
    ut_retry_count row = max_retries (demo_task 7 0) + 1"
    using failing_task_recorded [OF redis_server_up, of demo_codec demo_worker "demo_task 7 0"
        "[(1, 12), (2, 12), (3, 12), (4, 12)]" "\<lambda>n. n = 1", OF _ _ _ demo_laws _ _ _ _ _ _ _ _ demo_attempts_fail, of 0]
    by (simp add: demo_queue_state) blast
  then show ?thesis by simp
qed

section \<open>Timeouts\<close>

text \<open>
  A task whose every attempt times out ends on the dead list as well, but nothing in
  the database says so: no image is marked failed that was not before, and no row of failed tasks
  is added.
\<close>

theorem timed_out_task_unrecorded:
  assumes up: "redis_up exec ks" and wf: "queue_wf (qc_uuid qc) (ks (wo_queue w))"
    and empty: "qlist (ks (wo_queue w)) key_pending = []" "qlist (ks (wo_queue w)) key_processing = []"
    and laws: "queue_codec_laws qc {p\<lparr>retry_count := n\<rparr> | n. 0 \<le> n \<and> n \<le> max_retries p}"
    and p: "retry_count p = 0" "0 \<le> max_retries p" "max_retries p < 2 ^ 31"
    and es: "length es = nat (max_retries p) + 1"
    and P: "P (wo_wk w)" and late: "attempts env cfg fails es p P (\<lambda>r. r = Elapsed)"
  shows "\<exists>w'. worker_run env (redis_queue_ops exec qc) cfg fails es
        (w\<lparr>wo_queue := snd (enqueue_task exec qc t p (wo_queue w))\<rparr>) = Some w' \<and>
    qlist (ks (wo_queue w')) key_pending = [] \<and> qlist (ks (wo_queue w')) key_processing = [] \<and>
    qlist (ks (wo_queue w')) key_dead = qc_uuid qc (task_id p) # qlist (ks (wo_queue w)) key_dead \<and>
    t_upload_tasks (wk_db (wo_wk w')) = t_upload_tasks (wk_db (wo_wk w)) \<and>
    (\<forall>x \<in> set (t_images (wk_db (wo_wk w'))). im_status x = ''failed'' \<longrightarrow>
       x \<in> set (t_images (wk_db (wo_wk w))))"
proof -
  let ?w = "w\<lparr>wo_queue := snd (enqueue_task exec qc t p (wo_queue w))\<rparr>" and ?d = "wk_db (wo_wk w)"
  let ?S = "\<lambda>d. t_upload_tasks d = t_upload_tasks ?d \<and>
    (\<forall>x \<in> set (t_images d). im_status x = ''failed'' \<longrightarrow> x \<in> set (t_images ?d))"
  have pub: "?S (published i a c tk tu wk wu d)" if "?S d" for i a c tk tu wk wu d
    using that by (auto simp: published_def set_variants_def)
  have late': "attempts env cfg fails es p (\<lambda>k. P k \<and> ?S (wk_db k)) (\<lambda>r. r = Elapsed)"
    unfolding attempts_def
  proof (intro allI impI)
    fix k m e
    assume x: "e \<in> set es" "P k \<and> ?S (wk_db k)"
    obtain r n' k' where run: "process_task env cfg fails (fst e) (p\<lparr>retry_count := m\<rparr>) (snd e) k = (r, n', k')"
      by (cases "process_task env cfg fails (fst e) (p\<lparr>retry_count := m\<rparr>) (snd e) k")
    have r: "r = Elapsed \<and> P k'" by (rule attempts_step [OF late _ _ run]) (use x in auto)
    have "wk_db k' = wk_db k \<or> (\<exists>a c tk tu wk wu. wk_db k' = published (image_id p) a c tk tu wk wu (wk_db k))"
      using process_task_db [OF run] by auto
    then have "?S (wk_db k')"
    proof (elim disjE exE)
      assume "wk_db k' = wk_db k"
      then show ?thesis using x(2) by simp
    next
      fix a c tk tu wk wu
      assume "wk_db k' = published (image_id p) a c tk tu wk wu (wk_db k)"
      then show ?thesis using pub [OF conjunct2 [OF x(2)]] by simp
    qed
    then show "fst (process_task env cfg fails (fst e) (p\<lparr>retry_count := m\<rparr>) (snd e) k) = Elapsed \<and>
        P (snd (snd (process_task env cfg fails (fst e) (p\<lparr>retry_count := m\<rparr>) (snd e) k))) \<and>
        ?S (wk_db (snd (snd (process_task env cfg fails (fst e) (p\<lparr>retry_count := m\<rparr>) (snd e) k))))"
      using r by (simp add: run)
  qed
  note q = enqueued_alone [OF up wf empty p(1), of t]
  have "\<exists>w' t' r k. worker_run env (redis_queue_ops exec qc) cfg fails es ?w = Some w' \<and>
      qlist (ks (wo_queue w')) key_pending = [] \<and> qlist (ks (wo_queue w')) key_processing = [] \<and>
      qlist (ks (wo_queue w')) key_dead = qc_uuid qc (task_id p) # qlist (ks (wo_queue w)) key_dead \<and>
      r = Elapsed \<and> (P k \<and> ?S (wk_db k)) \<and> wo_wk w' = after_last fails t' (p\<lparr>retry_count := max_retries p\<rparr>) r k"
    using worker_run_to_dead_letter [OF up _ laws _ late', where rc = 0 and m = "nat (max_retries p)" and w = ?w]
      q p es P by (simp add: ends_attempt_def)
  then obtain w' t' r k where fin: "worker_run env (redis_queue_ops exec qc) cfg fails es ?w = Some w'"
    "qlist (ks (wo_queue w')) key_pending = []" "qlist (ks (wo_queue w')) key_processing = []"
    "qlist (ks (wo_queue w')) key_dead = qc_uuid qc (task_id p) # qlist (ks (wo_queue w)) key_dead"
    "r = Elapsed" "?S (wk_db k)" "wo_wk w' = after_last fails t' (p\<lparr>retry_count := max_retries p\<rparr>) r k"
    by blast
  then have "wo_wk w' = k" by (simp add: after_last_def)
  with fin show ?thesis by blast
qed

lemma demo_attempts_late:
  "attempts demo_worker_env tiny_config no_faults [(1, 0), (2, 0), (3, 0), (4, 0)] (demo_task 7 0)
     (\<lambda>k. wk_router k = demo_router) (\<lambda>r. r = Elapsed)"
  unfolding attempts_def
  by (auto simp: process_task_def Let_def jbind_def demo_resolves read_source_image_def await_def)

theorem timed_out_task_unrecorded_witness:
  "\<exists>w'. worker_run demo_worker_env (redis_queue_ops redis_server demo_codec) tiny_config no_faults
      [(1, 0), (2, 0), (3, 0), (4, 0)]
      (demo_worker\<lparr>wo_queue := snd (enqueue_task redis_server demo_codec 0 (demo_task 7 0) Map.empty)\<rparr>) = Some w' \<and>
    qlist (wo_queue w') key_dead = [nat_str 7] \<and> t_upload_tasks (wk_db (wo_wk w')) = []"
proof -
  have "qc_uuid demo_codec = nat_str" by (simp add: demo_codec_def)
  then show ?thesis
    using timed_out_task_unrecorded [OF redis_server_up, of demo_codec demo_worker "demo_task 7 0"
        "[(1, 0), (2, 0), (3, 0), (4, 0)]", OF _ _ _ demo_laws _ _ _ _ _ demo_attempts_late, of 0]
    by (simp add: demo_queue_state) blast
qed

end
