(* ===== verification/Categories.thy ===== *)
theory Categories
  imports Images
begin

text \<open>
  The categories of images, \<open>pichost-api/src/routes/categories.rs\<close>, with the table of
  \<open>migrations/0009_create_categories.sql\<close>: a two-level tree per user. A new row's id and time are
  arguments. Deleting a category deletes the categories under it and clears the category of their
  images, which is the database's \<open>ON DELETE\<close>.
\<close>

definition max_depth :: nat where "max_depth = 2"

record category_node =
  cn_id :: uuid
  cn_name :: string
  cn_parent_id :: "uuid option"

datatype category_tree_node = CategoryTreeNode category_node "category_tree_node list"

section \<open>The tree\<close>

definition build_children :: "uuid \<Rightarrow> category_row list \<Rightarrow> category_tree_node list" where
  "build_children parent cats =
     map (\<lambda>c. CategoryTreeNode \<lparr>cn_id = cat_id c, cn_name = cat_name c, cn_parent_id = Some parent\<rparr> [])
       (filter (\<lambda>c. cat_parent_id c = Some parent) cats)"

definition build_tree :: "category_row list \<Rightarrow> category_tree_node list" where
  "build_tree cats =
     map (\<lambda>c. CategoryTreeNode \<lparr>cn_id = cat_id c, cn_name = cat_name c, cn_parent_id = None\<rparr>
                (build_children (cat_id c) cats))
       (filter (\<lambda>c. cat_parent_id c = None) cats)"

section \<open>Depth\<close>

definition own_category :: "db \<Rightarrow> uuid \<Rightarrow> uuid \<Rightarrow> category_row option" where
  "own_category d user i = find (\<lambda>c. cat_id c = i \<and> cat_user_id c = user) (t_categories d)"

definition db_detail :: "i18n \<Rightarrow> language \<Rightarrow> api_error" where
  "db_detail g loc = error_json_args g loc 500 ''common.internal_error_detail'' [''db error'']"

text \<open>The n-th query may fail; each recursive call is one level deeper.\<close>

function validate_depth ::
  "i18n \<Rightarrow> language \<Rightarrow> faults \<Rightarrow> db \<Rightarrow> uuid \<Rightarrow> uuid \<Rightarrow> nat \<Rightarrow> api_error + unit" where
  "validate_depth g loc fails d user parent_id current =
     (if max_depth \<le> current
      then Inl (error_json_args g loc 400 ''category.depth_exceeded'' [nat_str max_depth])
      else if fails current then Inl (db_detail g loc)
      else
        (case own_category d user parent_id of
           None \<Rightarrow> Inl (error_json g loc 404 ''category.parent_not_found'')
         | Some parent \<Rightarrow>
             (case cat_parent_id parent of
                None \<Rightarrow> Inr ()
              | Some gp \<Rightarrow> validate_depth g loc fails d user gp (current + 1))))"
  by pat_completeness auto
termination by (relation "measure (\<lambda>(g, loc, fails, d, user, p, current). max_depth - current)") auto

declare validate_depth.simps [simp del]

section \<open>Handlers\<close>

definition list_categories ::
  "i18n \<Rightarrow> language \<Rightarrow> faults \<Rightarrow> db \<Rightarrow> uuid \<Rightarrow> api_error + category_tree_node list" where
  "list_categories g loc fails d user =
     (if fails 0 then Inl (db_detail g loc)
      else Inr (build_tree (sort_key cat_created_at
                  (filter (\<lambda>c. cat_user_id c = user) (t_categories d)))))"

text \<open>
  What the insert checks: the width of the name (PostgreSQL), the unique constraint, in which a
  missing parent equals nothing, the owner and the parent.
\<close>

definition name_taken :: "db \<Rightarrow> uuid \<Rightarrow> string \<Rightarrow> uuid option \<Rightarrow> bool" where
  "name_taken d user name parent =
     (parent \<noteq> None \<and>
      list_ex (\<lambda>c. cat_user_id c = user \<and> cat_name c = name \<and> cat_parent_id c = parent) (t_categories d))"

definition categories_accept :: "database_mode \<Rightarrow> db \<Rightarrow> category_row \<Rightarrow> bool" where
  "categories_accept mode d c =
     ((mode = PostgresMode \<longrightarrow> char_count (cat_name c) \<le> 128) \<and>
      cat_id c \<notin> set (map cat_id (t_categories d)) \<and> cat_user_id c \<in> set (map u_id (t_users d)) \<and>
      (case cat_parent_id c of None \<Rightarrow> True | Some p \<Rightarrow> p \<in> set (map cat_id (t_categories d))))"

definition create_category ::
  "database_mode \<Rightarrow> i18n \<Rightarrow> language \<Rightarrow> faults \<Rightarrow> instant \<Rightarrow> uuid \<Rightarrow> uuid \<Rightarrow> string \<Rightarrow> uuid option \<Rightarrow> db \<Rightarrow>
   (api_error + category_row) \<times> db" where
  "create_category mode g loc fails now new_id user req_name parent_id d =
     (let name = trim req_name
      in if name = [] \<or> 128 < length name then (Inl (error_json g loc 400 ''category.invalid_name''), d)
         else
           (case (case parent_id of None \<Rightarrow> Inr ()
                  | Some pid \<Rightarrow> validate_depth g loc fails d user pid 1) of
              Inl e \<Rightarrow> (Inl e, d)
            | Inr _ \<Rightarrow>
                (let c = \<lparr>cat_id = new_id, cat_user_id = user, cat_name = name, cat_parent_id = parent_id,
                          cat_created_at = now\<rparr>
                 in if fails 0 then (Inl (db_detail g loc), d)
                    else if name_taken d user name parent_id
                    then (Inl (error_json g loc 409 ''category.name_exists''), d)
                    else if \<not> categories_accept mode d c then (Inl (db_detail g loc), d)
                    else (Inr c, d\<lparr>t_categories := t_categories d @ [c]\<rparr>))))"

definition get_category ::
  "i18n \<Rightarrow> language \<Rightarrow> faults \<Rightarrow> db \<Rightarrow> uuid \<Rightarrow> uuid \<Rightarrow> api_error + category_row" where
  "get_category g loc fails d user i =
     (if fails 0 then Inl (db_detail g loc)
      else ok_or (own_category d user i) (error_json g loc 404 ''category.not_found''))"

text \<open>Unlike on creation the name is taken as it is, and a conflict is an internal error.\<close>

definition update_category ::
  "database_mode \<Rightarrow> i18n \<Rightarrow> language \<Rightarrow> faults \<Rightarrow> uuid \<Rightarrow> uuid \<Rightarrow> string option \<Rightarrow> db \<Rightarrow>
   (api_error + category_row) \<times> db" where
  "update_category mode g loc fails user i req_name d =
     (case get_category g loc fails d user i of
        Inl e \<Rightarrow> (Inl e, d)
      | Inr existing \<Rightarrow>
          (let new_name = opt_unwrap_or req_name (cat_name existing);
               others = d\<lparr>t_categories := filter (\<lambda>c. cat_id c \<noteq> i) (t_categories d)\<rparr>
           in if fails 1 \<or> (mode = PostgresMode \<and> 128 < char_count new_name) \<or>
                 name_taken others user new_name (cat_parent_id existing)
              then (Inl (db_detail g loc), d)
              else (Inr (existing\<lparr>cat_name := new_name\<rparr>),
                    d\<lparr>t_categories := map (\<lambda>c. if cat_id c = i \<and> cat_user_id c = user
                        then c\<lparr>cat_name := new_name\<rparr> else c) (t_categories d)\<rparr>)))"

text \<open>The ids that go with a set of deleted ones: children, level by level.\<close>

definition with_children :: "category_row list \<Rightarrow> uuid list \<Rightarrow> uuid list" where
  "with_children cats ids =
     ids @ map cat_id (filter (\<lambda>c. case cat_parent_id c of None \<Rightarrow> False | Some p \<Rightarrow> p \<in> set ids) cats)"

definition cascade :: "category_row list \<Rightarrow> uuid list \<Rightarrow> uuid list" where
  "cascade cats ids = (with_children cats ^^ length cats) ids"

definition drop_categories :: "uuid list \<Rightarrow> db \<Rightarrow> db" where
  "drop_categories ids d =
     d\<lparr>t_categories := filter (\<lambda>c. cat_id c \<notin> set ids) (t_categories d),
       t_images := map (\<lambda>x. case im_category_id x of None \<Rightarrow> x
                            | Some c \<Rightarrow> if c \<in> set ids then x\<lparr>im_category_id := None\<rparr> else x) (t_images d)\<rparr>"

definition delete_category ::
  "i18n \<Rightarrow> language \<Rightarrow> faults \<Rightarrow> uuid \<Rightarrow> uuid \<Rightarrow> db \<Rightarrow> (api_error + status_code) \<times> db" where
  "delete_category g loc fails user i d =
     (if fails 0 then (Inl (db_detail g loc), d)
      else
        (let ids = map cat_id (filter (\<lambda>c. cat_id c = i \<and> cat_user_id c = user) (t_categories d))
         in if ids = [] then (Inl (error_json g loc 404 ''category.not_found''), d)
            else (Inr 200, drop_categories (cascade (t_categories d) ids) d)))"

section \<open>The shape of the forest\<close>

text \<open>Ids are unique, every parent is there, is a root, and has the same owner.\<close>

definition forest_ok :: "category_row list \<Rightarrow> bool" where
  "forest_ok cats \<longleftrightarrow> distinct (map cat_id cats) \<and>
     (\<forall>c \<in> set cats. case cat_parent_id c of None \<Rightarrow> True
        | Some p \<Rightarrow> (\<exists>r \<in> set cats. cat_id r = p \<and> cat_parent_id r = None \<and> cat_user_id r = cat_user_id c))"

lemma forest_ok_iff:
  "forest_ok cats \<longleftrightarrow> distinct (map cat_id cats) \<and>
     (\<forall>c \<in> set cats. \<forall>p. cat_parent_id c = Some p \<longrightarrow>
        (\<exists>r \<in> set cats. cat_id r = p \<and> cat_parent_id r = None \<and> cat_user_id r = cat_user_id c))"
  by (auto simp: forest_ok_def split: option.splits)

definition categories_used :: "db \<Rightarrow> bool" where
  "categories_used d \<longleftrightarrow>
     (\<forall>x \<in> set (t_images d). \<forall>c. im_category_id x = Some c \<longrightarrow>
        (\<exists>r \<in> set (t_categories d). cat_id r = c \<and> cat_user_id r = im_user_id x))"

text \<open>One request to the routes of the module, as a step of the database.\<close>

inductive category_step :: "db \<Rightarrow> db \<Rightarrow> bool" where
  created: "category_step d (snd (create_category mode g loc fails now new_id user name parent d))"
| renamed: "category_step d (snd (update_category mode g loc fails user i name d))"
| deleted: "category_step d (snd (delete_category g loc fails user i d))"

inductive_cases category_stepE: "category_step d d'"

inductive category_reachable :: "db \<Rightarrow> db \<Rightarrow> bool" for d0 :: db where
  start: "category_reachable d0 d0"
| step: "category_reachable d0 d \<Longrightarrow> category_step d d' \<Longrightarrow> category_reachable d0 d'"

section \<open>Lemmas\<close>

lemma own_category_Some:
  "own_category d user i = Some c \<Longrightarrow> c \<in> set (t_categories d) \<and> cat_id c = i \<and> cat_user_id c = user"
  unfolding own_category_def by (drule find_SomeD) auto

lemma validate_depth_1:
  "validate_depth g loc fails d user pid 1 = Inr () \<Longrightarrow>
   \<exists>p \<in> set (t_categories d). cat_id p = pid \<and> cat_user_id p = user \<and> cat_parent_id p = None"
  by (subst (asm) validate_depth.simps)
    (auto simp: max_depth_def validate_depth.simps [of _ _ _ _ _ _ "Suc (Suc 0)"] numeral_2_eq_2 split: if_splits option.splits dest!: own_category_Some)

lemma create_cases:
  "create_category mode g loc fails now new_id user name parent d = (r, d') \<Longrightarrow>
   (d' = d \<and> (\<exists>e. r = Inl e)) \<or>
   (\<exists>c. r = Inr c \<and> d' = d\<lparr>t_categories := t_categories d @ [c]\<rparr> \<and> cat_id c = new_id \<and>
     cat_user_id c = user \<and> cat_name c = trim name \<and> cat_parent_id c = parent \<and> categories_accept mode d c \<and>
     \<not> name_taken d user (trim name) parent \<and>
     (\<forall>pid. parent = Some pid \<longrightarrow> validate_depth g loc fails d user pid 1 = Inr ()))"
  by (auto simp: create_category_def Let_def split: if_splits option.splits sum.splits)

lemma create_forest_ok:
  assumes "forest_ok (t_categories d)"
  shows "forest_ok (t_categories (snd (create_category mode g loc fails now new_id user name parent d)))"
proof -
  obtain r d' where c: "create_category mode g loc fails now new_id user name parent d = (r, d')" by fastforce
  from create_cases [OF c] show ?thesis
  proof (elim disjE exE conjE)
    assume "d' = d" then show ?thesis using assms c by simp
  next
    fix x
    assume x: "r = Inr x" "d' = d\<lparr>t_categories := t_categories d @ [x]\<rparr>" "cat_id x = new_id" "cat_user_id x = user"
      "cat_parent_id x = parent" "categories_accept mode d x"
      "\<forall>pid. parent = Some pid \<longrightarrow> validate_depth g loc fails d user pid 1 = Inr ()"
    have "\<exists>p \<in> set (t_categories d). cat_id p = pid \<and> cat_user_id p = user \<and> cat_parent_id p = None"
      if "parent = Some pid" for pid
      using x(7) that validate_depth_1 by blast
    then show ?thesis
      using assms x(3-6) unfolding c snd_conv x(2)
      by (auto simp: forest_ok_iff categories_accept_def; blast)
  qed
qed

lemma update_forest:
  "forest_ok (t_categories d) \<Longrightarrow>
   forest_ok (t_categories (snd (update_category mode g loc fails user i name d)))"
proof -
  assume ok: "forest_ok (t_categories d)"
  have "forest_ok (map (\<lambda>c. if cat_id c = i \<and> cat_user_id c = user then c\<lparr>cat_name := n\<rparr> else c) (t_categories d))"
    for n
  proof -
    let ?f = "\<lambda>c. if cat_id c = i \<and> cat_user_id c = user then c\<lparr>cat_name := n\<rparr> else c"
    have f: "cat_id (?f c) = cat_id c" "cat_user_id (?f c) = cat_user_id c" "cat_parent_id (?f c) = cat_parent_id c"
      for c by simp_all
    have "map cat_id (map ?f (t_categories d)) = map cat_id (t_categories d)" by simp
    then have "distinct (map cat_id (map ?f (t_categories d)))" using ok by (simp only: forest_ok_iff)
    moreover have "\<exists>r \<in> set (map ?f (t_categories d)). cat_id r = p \<and> cat_parent_id r = None \<and>
        cat_user_id r = cat_user_id c"
      if c: "c \<in> set (map ?f (t_categories d))" and p: "cat_parent_id c = Some p" for c p
    proof -
      obtain c0 where c0: "c0 \<in> set (t_categories d)" "c = ?f c0" using c by auto
      have c0_eq: "cat_parent_id c0 = Some p" "cat_user_id c = cat_user_id c0"
        using p f(2,3) [of c0] unfolding c0(2) by simp_all
      obtain r where r: "r \<in> set (t_categories d)" "cat_id r = p" "cat_parent_id r = None"
        "cat_user_id r = cat_user_id c0"
        using ok c0(1) c0_eq(1) unfolding forest_ok_iff by blast
      have "?f r \<in> set (map ?f (t_categories d))" using r(1) by simp
      then show ?thesis using r(2-4) c0_eq(2) f [of r] by (intro bexI [of _ "?f r"]) simp_all
    qed
    ultimately show ?thesis unfolding forest_ok_iff by blast
  qed
  then show ?thesis
    using ok by (auto simp: update_category_def Let_def split: sum.splits)
qed

lemma set_with_children:
  "set (with_children cats ids) = set ids \<union> {cat_id c | c. c \<in> set cats \<and> (\<exists>p \<in> set ids. cat_parent_id c = Some p)}"
  by (auto simp: with_children_def split: option.splits)

text \<open>In a forest of two levels one step reaches everything below.\<close>

lemma with_children_twice:
  assumes "forest_ok cats"
  shows "set (with_children cats (with_children cats ids)) = set (with_children cats ids)"
proof -
  have "cat_id c \<in> set (with_children cats ids)"
    if c: "c \<in> set cats" "cat_parent_id c = Some (cat_id k)" and k: "k \<in> set cats" "cat_parent_id k = Some q" for c k q
  proof -
    obtain r where r: "r \<in> set cats" "cat_id r = cat_id k" "cat_parent_id r = None"
      using assms c unfolding forest_ok_iff by blast
    then have "r = k" using assms k(1) unfolding forest_ok_iff by (metis distinct_map_eqD)
    then show ?thesis using r(3) k(2) by simp
  qed
  then show ?thesis unfolding set_with_children [of cats "with_children cats ids"]
    by (auto simp: set_with_children)
qed

lemma set_cascade:
  assumes "forest_ok cats" and "cats \<noteq> []"
  shows "set (cascade cats ids) = set (with_children cats ids)"
proof -
  have "set ((with_children cats ^^ Suc n) ids) = set (with_children cats ids)" for n
  proof (induction n)
    case (Suc n)
    have "set ((with_children cats ^^ Suc (Suc n)) ids) =
        set (with_children cats (with_children cats ((with_children cats ^^ n) ids)))" by simp
    also have "\<dots> = set ((with_children cats ^^ Suc n) ids)"
      by (simp add: with_children_twice [OF assms(1)])
    finally show ?case using Suc by simp
  qed simp
  then show ?thesis using assms(2) unfolding cascade_def by (cases cats) auto
qed

lemma delete_cases:
  "delete_category g loc fails user i d = (r, d') \<Longrightarrow>
   (d' = d \<and> (\<exists>e. r = Inl e)) \<or>
   (r = Inr 200 \<and> (\<exists>c \<in> set (t_categories d). cat_id c = i \<and> cat_user_id c = user) \<and>
    (\<exists>ids. set ids = {i} \<and> d' = drop_categories (cascade (t_categories d) ids) d))"
proof -
  assume r: "delete_category g loc fails user i d = (r, d')"
  let ?ids = "map cat_id (filter (\<lambda>c. cat_id c = i \<and> cat_user_id c = user) (t_categories d))"
  show ?thesis
  proof (cases "fails 0 \<or> ?ids = []")
    case True
    then show ?thesis using r unfolding delete_category_def Let_def by (auto split: if_splits)
  next
    case False
    then have "set ?ids = {i}" "\<exists>c \<in> set (t_categories d). cat_id c = i \<and> cat_user_id c = user"
      by (auto simp: filter_empty_conv)
    moreover have "r = Inr 200" "d' = drop_categories (cascade (t_categories d) ?ids) d"
      using r False unfolding delete_category_def Let_def by (auto split: if_splits)
    ultimately show ?thesis by blast
  qed
qed

lemma drop_forest:
  assumes "forest_ok (t_categories d)" and "\<exists>c \<in> set (t_categories d). cat_id c = i"
    and "set ids = {i}"
  shows "forest_ok (t_categories (drop_categories (cascade (t_categories d) ids) d))"
proof -
  let ?c = "t_categories d" and ?D = "set (cascade (t_categories d) ids)"
  have D: "?D = set (with_children ?c ids)" using assms(1,2) by (intro set_cascade) auto
  have closed: "cat_id c \<in> ?D" if "c \<in> set ?c" "cat_parent_id c = Some p" "p \<in> ?D" for c p
  proof -
    have "cat_id c \<in> set (with_children ?c (with_children ?c ids))"
      using that unfolding D set_with_children [of ?c "with_children ?c ids"] by blast
    then show ?thesis by (simp add: D with_children_twice [OF assms(1)])
  qed
  have n: "t_categories (drop_categories (cascade ?c ids) d) = filter (\<lambda>c. cat_id c \<notin> ?D) ?c"
    by (simp add: drop_categories_def)
  show ?thesis
    unfolding n forest_ok_iff
  proof (intro conjI allI ballI impI)
    show "distinct (map cat_id (filter (\<lambda>c. cat_id c \<notin> ?D) ?c))"
      using assms(1) by (simp add: forest_ok_iff distinct_map_filter)
    fix c p
    assume c: "c \<in> set (filter (\<lambda>c. cat_id c \<notin> ?D) ?c)" "cat_parent_id c = Some p"
    then obtain r where "r \<in> set ?c" "cat_id r = p" "cat_parent_id r = None" "cat_user_id r = cat_user_id c"
      using assms(1) unfolding forest_ok_iff by auto
    moreover have "p \<notin> ?D" using closed [of c p] c by auto
    ultimately show "\<exists>r \<in> set (filter (\<lambda>c. cat_id c \<notin> ?D) ?c). cat_id r = p \<and> cat_parent_id r = None \<and>
        cat_user_id r = cat_user_id c" by auto
  qed
qed

end
