(* ===== verification/Categories_Props.thy ===== *)
theory Categories_Props
  imports Categories Images_Props
begin

text \<open>
  What the category routes promise: the forest keeps its two levels and its owners through any
  requests, the tree shows every category of the user once, and the name of a root is not unique.
\<close>

section \<open>The forest through any requests\<close>

lemma create_used:
  "categories_used d \<Longrightarrow> categories_used (snd (create_category mode g loc fails now new_id user name parent d))"
proof -
  assume u: "categories_used d"
  obtain r d' where c: "create_category mode g loc fails now new_id user name parent d = (r, d')" by fastforce
  from create_cases [OF c] show ?thesis using u c by (auto simp: categories_used_def)
qed

lemma update_used:
  "categories_used d \<Longrightarrow> categories_used (snd (update_category mode g loc fails user i name d))"
proof -
  assume u: "categories_used d"
  have "categories_used (d\<lparr>t_categories := map (\<lambda>c. if cat_id c = i \<and> cat_user_id c = user
      then c\<lparr>cat_name := n\<rparr> else c) (t_categories d)\<rparr>)" for n
  proof -
    let ?f = "\<lambda>c. if cat_id c = i \<and> cat_user_id c = user then c\<lparr>cat_name := n\<rparr> else c"
    have f: "cat_id (?f c) = cat_id c" "cat_user_id (?f c) = cat_user_id c" for c by simp_all
    show ?thesis
      unfolding categories_used_def
    proof (intro ballI allI impI)
      fix x c
      assume "x \<in> set (t_images (d\<lparr>t_categories := map ?f (t_categories d)\<rparr>))" "im_category_id x = Some c"
      then obtain r where "r \<in> set (t_categories d)" "cat_id r = c" "cat_user_id r = im_user_id x"
        using u unfolding categories_used_def by auto
      then show "\<exists>r \<in> set (t_categories (d\<lparr>t_categories := map ?f (t_categories d)\<rparr>)).
          cat_id r = c \<and> cat_user_id r = im_user_id x"
        using f by (intro bexI [of _ "?f r"]) simp_all
    qed
  qed
  then show ?thesis using u by (auto simp: update_category_def Let_def split: sum.splits)
qed

lemma drop_used: "categories_used d \<Longrightarrow> categories_used (drop_categories ids d)"
  unfolding categories_used_def drop_categories_def
  by (auto split: option.splits if_splits)

lemma delete_keeps:
  assumes "forest_ok (t_categories d)" and "categories_used d"
  shows "forest_ok (t_categories (snd (delete_category g loc fails user i d))) \<and>
    categories_used (snd (delete_category g loc fails user i d))"
proof -
  obtain r d' where c: "delete_category g loc fails user i d = (r, d')" by fastforce
  from delete_cases [OF c] show ?thesis
    using assms drop_forest drop_used unfolding c by auto
qed

lemma category_step_keeps:
  assumes "category_step d d'" and "forest_ok (t_categories d)" and "categories_used d"
  shows "forest_ok (t_categories d') \<and> categories_used d'"
  using assms(1)
proof (cases rule: category_step.cases)
  case created
  then show ?thesis using assms(2,3) create_forest_ok create_used by blast
next
  case renamed
  then show ?thesis using assms(2,3) update_forest update_used by blast
next
  case deleted
  then show ?thesis using assms(2,3) delete_keeps by blast
qed

text \<open>
  Through any requests to the category routes, by any users, the categories stay a
  forest of two levels: ids are unique, the parent of a category exists, is a root and has the same
  owner; and an image is never left in a category that is gone or another user's.
\<close>

theorem category_forest_invariant:
  assumes "category_reachable d0 d" and "forest_ok (t_categories d0)" and "categories_used d0"
  shows "forest_ok (t_categories d) \<and> categories_used d"
  using assms by (induction rule: category_reachable.induct) (auto dest: category_step_keeps)

definition travel :: category_row where
  "travel = \<lparr>cat_id = 1, cat_user_id = 7, cat_name = ''travel'', cat_parent_id = None, cat_created_at = 0\<rparr>"

definition travel_db :: db where
  "travel_db = empty_db\<lparr>t_users := [demo_owner], t_categories := [travel]\<rparr>"

definition travel_db2 :: db where
  "travel_db2 = snd (create_category SqliteMode demo_locale En no_faults 5 2 7 ''alps'' (Some 1) travel_db)"

lemma travel_db2_rows: "map cat_id (t_categories travel_db2) = [1, 2]"
  by code_simp

theorem category_forest_invariant_witness:
  "map cat_id (t_categories travel_db2) = [1, 2] \<and> forest_ok (t_categories travel_db2)"
proof -
  have "category_reachable travel_db travel_db2"
    unfolding travel_db2_def by (rule category_reachable.step [OF category_reachable.start category_step.created])
  moreover have "forest_ok (t_categories travel_db)" "categories_used travel_db"
    by (simp_all add: travel_db_def travel_def forest_ok_iff categories_used_def empty_db_def)
  ultimately show ?thesis using category_forest_invariant travel_db2_rows by blast
qed

section \<open>The tree\<close>

fun tree_ids :: "category_tree_node \<Rightarrow> uuid list" where
  "tree_ids (CategoryTreeNode n ks) = cn_id n # concat (map tree_ids ks)"

lemma build_children_ids:
  "concat (map tree_ids (build_children p cats)) = map cat_id (filter (\<lambda>c. cat_parent_id c = Some p) cats)"
proof -
  have "map tree_ids (build_children p cats) = map (\<lambda>c. [cat_id c]) (filter (\<lambda>c. cat_parent_id c = Some p) cats)"
    by (simp add: build_children_def)
  then show ?thesis by (simp add: concat_map_singleton)
qed

text \<open>Grouping the children under their parents loses nothing when every parent is a root of the list.\<close>

lemma children_grouped:
  assumes "distinct (map cat_id roots)" and "\<forall>c \<in> set kids. \<exists>r \<in> set roots. cat_parent_id c = Some (cat_id r)"
  shows "mset (concat (map (\<lambda>r. filter (\<lambda>c. cat_parent_id c = Some (cat_id r)) kids) roots)) = mset kids"
  using assms
proof (induction roots arbitrary: kids)
  case Nil
  then show ?case by (cases kids) auto
next
  case (Cons r roots)
  let ?rest = "filter (\<lambda>c. cat_parent_id c \<noteq> Some (cat_id r)) kids"
  have "mset (concat (map (\<lambda>q. filter (\<lambda>c. cat_parent_id c = Some (cat_id q)) ?rest) roots)) = mset ?rest"
    using Cons.prems by (intro Cons.IH) auto
  moreover have "filter (\<lambda>c. cat_parent_id c = Some (cat_id q)) ?rest =
      filter (\<lambda>c. cat_parent_id c = Some (cat_id q)) kids" if "q \<in> set roots" for q
    using that Cons.prems(1) by (auto simp: image_iff intro!: filter_cong)
  ultimately have "mset (concat (map (\<lambda>q. filter (\<lambda>c. cat_parent_id c = Some (cat_id q)) kids) roots)) = mset ?rest"
    by (simp cong: map_cong)
  then show ?case by simp
qed

text \<open>
  Property C23. The category tree shows every category of the user exactly once and nothing else,
  roots at the top and every other category under its parent, whenever the table is a forest.
\<close>

theorem category_tree_complete:
  assumes "forest_ok (t_categories d)" and "list_categories g loc fails d user = Inr tree"
  shows "mset (concat (map tree_ids tree)) =
      mset (map cat_id (filter (\<lambda>c. cat_user_id c = user) (t_categories d))) \<and>
    distinct (concat (map tree_ids tree))"
proof -
  let ?own = "filter (\<lambda>c. cat_user_id c = user) (t_categories d)"
  let ?cats = "sort_key cat_created_at ?own"
  let ?roots = "filter (\<lambda>c. cat_parent_id c = None) ?cats"
  let ?kids = "filter (\<lambda>c. cat_parent_id c \<noteq> None) ?cats"
  let ?under = "\<lambda>r. filter (\<lambda>c. cat_parent_id c = Some (cat_id r)) ?cats"
  have tree: "tree = build_tree ?cats" using assms(2) by (auto simp: list_categories_def split: if_splits)
  have "map tree_ids tree = map (\<lambda>r. cat_id r # map cat_id (?under r)) ?roots"
    by (simp add: tree build_tree_def build_children_ids comp_def)
  then have ids: "mset (concat (map tree_ids tree)) =
      mset (map cat_id ?roots) + image_mset cat_id (mset (concat (map ?under ?roots)))"
  proof (simp only:)
    show "mset (concat (map (\<lambda>r. cat_id r # map cat_id (?under r)) xs)) =
      mset (map cat_id xs) + image_mset cat_id (mset (concat (map ?under xs)))" for xs
      by (induction xs) (simp_all add: ac_simps)
  qed
  have under: "?under r = filter (\<lambda>c. cat_parent_id c = Some (cat_id r)) ?kids" for r
    by (auto intro!: filter_cong)
  have dist: "distinct (map cat_id ?own)"
    using assms(1) by (simp add: forest_ok_iff distinct_map_filter)
  have "mset (map cat_id ?cats) = mset (map cat_id ?own)" by simp
  then have dist_cats: "distinct (map cat_id ?cats)" using dist mset_eq_imp_distinct_iff by blast
  have "\<forall>c \<in> set ?kids. \<exists>r \<in> set ?roots. cat_parent_id c = Some (cat_id r)"
    using assms(1) unfolding forest_ok_iff by fastforce
  then have "mset (concat (map ?under ?roots)) = mset ?kids"
    unfolding under using dist_cats by (intro children_grouped) (simp_all add: distinct_map_filter)
  then have "mset (concat (map tree_ids tree)) = image_mset cat_id (mset ?roots + mset ?kids)"
    unfolding ids by (simp only: mset_map image_mset_union)
  also have "mset ?roots + mset ?kids = mset ?own"
    by (simp only: mset_filter mset_sort flip: multiset_partition)
  finally have m: "mset (concat (map tree_ids tree)) = mset (map cat_id ?own)" by simp
  then show ?thesis using dist mset_eq_imp_distinct_iff by blast
qed

theorem category_tree_complete_witness:
  "\<exists>tree. list_categories demo_locale En no_faults travel_db2 7 = Inr tree \<and>
     mset (concat (map tree_ids tree)) = {#1, 2#}"
proof -
  have "forest_ok (t_categories travel_db2)"
    by code_simp
  moreover have "filter (\<lambda>c. cat_user_id c = 7) (t_categories travel_db2) = t_categories travel_db2" by code_simp
  ultimately show ?thesis
    using category_tree_complete [of travel_db2 demo_locale En no_faults 7] travel_db2_rows
    by (simp add: list_categories_def del: map_eq_Cons_conv)
qed

section \<open>Names\<close>

lemma char_count_le: "char_count s \<le> length s"
  by (simp add: char_count_def)

text \<open>
  Two categories of the same name under one parent are refused with 409, but nothing
  keeps two root categories of a user from having the same name: creating a root succeeds whatever
  roots there are.
\<close>

theorem root_names_not_unique:
  assumes "\<not> fails 0" and "trim name \<noteq> []" and "length (trim name) \<le> 128"
    and "user \<in> u_id ` set (t_users d)" and "new_id \<notin> cat_id ` set (t_categories d)"
  shows "is_ok (fst (create_category mode g loc fails now new_id user name None d)) \<and>
    (validate_depth g loc fails d user p 1 = Inr () \<longrightarrow>
     (\<exists>c \<in> set (t_categories d). cat_user_id c = user \<and> cat_name c = trim name \<and> cat_parent_id c = Some p) \<longrightarrow>
     create_category mode g loc fails now new_id user name (Some p) d =
       (Inl (error_json g loc 409 ''category.name_exists''), d))"
  using assms char_count_le [of "trim name"]
  by (auto simp: create_category_def Let_def name_taken_def categories_accept_def list_ex_iff)

theorem root_names_not_unique_witness:
  "map cat_name (t_categories (snd (create_category SqliteMode demo_locale En no_faults 6 3 7 ''travel'' None travel_db2))) =
     [''travel'', ''alps'', ''travel''] \<and>
   is_ok (fst (create_category SqliteMode demo_locale En no_faults 6 3 7 ''travel'' None travel_db2))"
proof -
  have "map cat_name (t_categories (snd (create_category SqliteMode demo_locale En no_faults 6 3 7 ''travel'' None travel_db2))) =
     [''travel'', ''alps'', ''travel'']" by code_simp
  moreover have "trim ''travel'' = ''travel''" "map u_id (t_users travel_db2) = [7]" by code_simp+
  then have "7 \<in> u_id ` set (t_users travel_db2)" by (metis list.set_intros(1) list.set_map)
  moreover have "3 \<notin> cat_id ` set (t_categories travel_db2)"
    using travel_db2_rows by (metis list.set_map list.set(1) list.set(2) insert_iff empty_iff numeral_eq_iff
        num.distinct numeral_One semiring_norm(86) semiring_norm(88))
  ultimately show ?thesis
    using root_names_not_unique [of no_faults "''travel''" 7 travel_db2 3 SqliteMode demo_locale En 6 1]
      \<open>trim ''travel'' = ''travel''\<close> by simp
qed

end
