(* ===== verification/Upload_Url.thy ===== *)
theory Upload_Url
  imports I18n "HOL-Library.Word"
begin

text \<open>
  Uploads by URL, \<open>pichost-api/src/services/upload_url.rs\<close>: the scheme, the addresses the host resolves
  to, and the download with its limits. URL parsing, name resolution, the HTTP client and the image
  sniffing are parameters (\<open>net_env\<close>) over a state \<open>'n\<close> of the network; the client follows up to
  \<open>max_redirects\<close> redirects by itself.
\<close>

unbundle bit_operations_syntax

definition max_redirects :: nat where "max_redirects = 5"

definition download_timeout_secs :: nat where "download_timeout_secs = 30"

definition max_body_size :: nat where "max_body_size = 52428800"

definition url_err :: "i18n \<Rightarrow> language \<Rightarrow> string \<Rightarrow> string list \<Rightarrow> api_error" where
  "url_err g loc key args =
     (if args = [] then error_json g loc 400 key else error_json_args g loc 400 key args)"

section \<open>Addresses\<close>

text \<open>The four octets of an IPv4 address, and an IPv6 address as its 128 bits.\<close>

type_synonym octets = "nat \<times> nat \<times> nat \<times> nat"

datatype ip_addr = V4 octets | V6 "128 word"

definition is_private_ip :: "octets \<Rightarrow> bool" where
  "is_private_ip ip =
     (case ip of (a, b, c, d) \<Rightarrow>
        if a = 0 then True
        else if a = 10 then True
        else if a = 127 then True
        else if a = 169 \<and> b = 254 then True
        else if a = 172 \<and> 16 \<le> b \<and> b \<le> 31 then True
        else if a = 192 \<and> b = 168 then True
        else if 224 \<le> a \<and> a \<le> 239 then True
        else if a = 255 \<and> b = 255 \<and> c = 255 \<and> d = 255 then True
        else if a = 100 \<and> 64 \<le> b \<and> b \<le> 127 then True
        else if a = 192 \<and> b = 0 \<and> c = 0 then True
        else if a = 192 \<and> b = 0 \<and> c = 2 then True
        else if a = 198 \<and> b = 51 \<and> c = 100 then True
        else if a = 203 \<and> b = 0 \<and> c = 113 then True
        else if a = 198 \<and> 18 \<le> b \<and> b \<le> 19 then True
        else False)"

text \<open>The first of the eight 16-bit segments; the standard library's tests on an IPv6 address.\<close>

definition segment0 :: "128 word \<Rightarrow> 128 word" where
  "segment0 w = drop_bit 112 w"

definition v6_is_loopback :: "128 word \<Rightarrow> bool" where "v6_is_loopback w = (w = 1)"

definition v6_is_unspecified :: "128 word \<Rightarrow> bool" where "v6_is_unspecified w = (w = 0)"

definition v6_is_multicast :: "128 word \<Rightarrow> bool" where "v6_is_multicast w = (drop_bit 120 w = 0xff)"

fun ip_is_private :: "ip_addr \<Rightarrow> bool" where
  "ip_is_private (V4 v4) = is_private_ip v4"
| "ip_is_private (V6 v6) =
     (v6_is_loopback v6 \<or> v6_is_multicast v6 \<or> v6_is_unspecified v6 \<or>
      segment0 v6 AND 0xfe00 = 0xfc00 \<or> segment0 v6 AND 0xffc0 = 0xfe80)"

section \<open>The network\<close>

record url =
  url_text :: string
  url_scheme :: string
  url_host :: "string option"
  url_segments :: "string list option"

datatype client_error = ClientTimeout | ClientConnect string | ClientRedirect | ClientOther string

record url_response =
  us_status :: nat
  us_reason :: "string option"
  us_content_length :: "nat option"
  us_bytes :: "string option"

text \<open>\<open>nv_send\<close> takes the redirect limit, the timeout and the URL.\<close>

record 'n net_env =
  nv_parse :: "string \<Rightarrow> string + url"
  nv_resolve :: "'n \<Rightarrow> string \<Rightarrow> (string + ip_addr list) \<times> 'n"
  nv_client_ok :: bool
  nv_send :: "'n \<Rightarrow> nat \<Rightarrow> nat \<Rightarrow> string \<Rightarrow> (client_error + url_response) \<times> 'n"
  nv_is_image :: "string \<Rightarrow> bool"

section \<open>Steps\<close>

definition validate_url_scheme :: "'n net_env \<Rightarrow> i18n \<Rightarrow> language \<Rightarrow> string \<Rightarrow> api_error + url" where
  "validate_url_scheme env g loc url_str =
     (case nv_parse env url_str of
        Inl e \<Rightarrow> Inl (url_err g loc ''url.invalid'' [e])
      | Inr parsed \<Rightarrow>
          (if url_scheme parsed = ''http'' \<or> url_scheme parsed = ''https'' then Inr parsed
           else Inl (url_err g loc ''url.unsupported_scheme'' [url_scheme parsed])))"

definition extract_filename_from_url_str :: "url \<Rightarrow> string" where
  "extract_filename_from_url_str u =
     (case url_segments u of
        None \<Rightarrow> ''image''
      | Some segs \<Rightarrow> if segs = [] \<or> last segs = [] then ''image'' else last segs)"

definition resolve_and_check_host ::
  "'n net_env \<Rightarrow> i18n \<Rightarrow> language \<Rightarrow> string \<Rightarrow> 'n \<Rightarrow> (api_error + unit) \<times> 'n" where
  "resolve_and_check_host env g loc host n =
     (case nv_resolve env n (host @ '':0'') of
        (Inl e, n') \<Rightarrow> (Inl (url_err g loc ''url.resolve_failed'' [e]), n')
      | (Inr addrs, n') \<Rightarrow>
          ((if addrs = [] then Inl (url_err g loc ''url.no_addresses'' [])
            else if list_ex ip_is_private addrs then Inl (url_err g loc ''url.ssrf_blocked'' [])
            else Inr ()), n'))"

definition build_download_client :: "'n net_env \<Rightarrow> i18n \<Rightarrow> language \<Rightarrow> api_error + nat \<times> nat" where
  "build_download_client env g loc =
     (if nv_client_ok env then Inr (max_redirects, download_timeout_secs)
      else Inl (url_err g loc ''url.client_failed'' [''builder error'']))"

fun send_error :: "i18n \<Rightarrow> language \<Rightarrow> client_error \<Rightarrow> api_error" where
  "send_error g loc ClientTimeout = url_err g loc ''url.timed_out'' []"
| "send_error g loc (ClientConnect m) = url_err g loc ''url.connect_failed'' [m]"
| "send_error g loc ClientRedirect = url_err g loc ''url.too_many_redirects'' []"
| "send_error g loc (ClientOther m) = url_err g loc ''url.download_failed'' [m]"

definition check_body :: "'n net_env \<Rightarrow> i18n \<Rightarrow> language \<Rightarrow> url_response \<Rightarrow> api_error + string" where
  "check_body env g loc response =
     (let content_length = opt_unwrap_or (us_content_length response) 0
      in if \<not> (200 \<le> us_status response \<and> us_status response < 300)
         then Inl (url_err g loc ''url.server_error''
                [nat_str (us_status response), opt_unwrap_or (us_reason response) ''unknown''])
         else if max_body_size < content_length
         then Inl (url_err g loc ''url.too_large'' [nat_str content_length])
         else
           (case us_bytes response of
              None \<Rightarrow> Inl (url_err g loc ''url.body_failed'' [''body error''])
            | Some bytes \<Rightarrow>
                (if max_body_size < length bytes
                 then Inl (url_err g loc ''url.too_large'' [nat_str (length bytes)])
                 else if \<not> nv_is_image env bytes then Inl (url_err g loc ''url.not_an_image'' [])
                 else Inr bytes)))"

definition fetch_remote_body ::
  "'n net_env \<Rightarrow> i18n \<Rightarrow> language \<Rightarrow> nat \<times> nat \<Rightarrow> string \<Rightarrow> 'n \<Rightarrow> (api_error + string) \<times> 'n" where
  "fetch_remote_body env g loc client u n =
     (case nv_send env n (fst client) (snd client) u of
        (Inl e, n') \<Rightarrow> (Inl (send_error g loc e), n')
      | (Inr response, n') \<Rightarrow> (check_body env g loc response, n'))"

definition fetch_image_from_url ::
  "'n net_env \<Rightarrow> i18n \<Rightarrow> language \<Rightarrow> string \<Rightarrow> 'n \<Rightarrow> (api_error + string \<times> string) \<times> 'n" where
  "fetch_image_from_url env g loc u n =
     (case validate_url_scheme env g loc u of
        Inl e \<Rightarrow> (Inl e, n)
      | Inr parsed \<Rightarrow>
          (case url_host parsed of
             None \<Rightarrow> (Inl (url_err g loc ''url.no_host'' []), n)
           | Some host \<Rightarrow>
               (case resolve_and_check_host env g loc host n of
                  (Inl e, n1) \<Rightarrow> (Inl e, n1)
                | (Inr _, n1) \<Rightarrow>
                    (case build_download_client env g loc of
                       Inl e \<Rightarrow> (Inl e, n1)
                     | Inr client \<Rightarrow>
                         (case fetch_remote_body env g loc client (url_text parsed) n1 of
                            (Inl e, n2) \<Rightarrow> (Inl e, n2)
                          | (Inr bytes, n2) \<Rightarrow> (Inr (bytes, extract_filename_from_url_str parsed), n2))))))"

section \<open>The blocked ranges\<close>

text \<open>The blocks of the comments, as base address and prefix length.\<close>

definition addr_of :: "octets \<Rightarrow> nat" where
  "addr_of ip = (case ip of (a, b, c, d) \<Rightarrow> a * 2 ^ 24 + b * 2 ^ 16 + c * 2 ^ 8 + d)"

definition in_block :: "nat \<Rightarrow> octets \<times> nat \<Rightarrow> bool" where
  "in_block x blk = (x div 2 ^ (32 - snd blk) = addr_of (fst blk) div 2 ^ (32 - snd blk))"

definition private_blocks :: "(octets \<times> nat) list" where
  "private_blocks =
     [((0, 0, 0, 0), 8), ((10, 0, 0, 0), 8), ((127, 0, 0, 0), 8), ((169, 254, 0, 0), 16),
      ((172, 16, 0, 0), 12), ((192, 168, 0, 0), 16), ((224, 0, 0, 0), 4), ((255, 255, 255, 255), 32),
      ((100, 64, 0, 0), 10), ((192, 0, 0, 0), 24), ((192, 0, 2, 0), 24), ((198, 51, 100, 0), 24),
      ((203, 0, 113, 0), 24), ((198, 18, 0, 0), 15)]"

text \<open>An address is in a block when its leading octets are, and the next one to the bit.\<close>

lemma addr_div_8: "b < 256 \<Longrightarrow> c < 256 \<Longrightarrow> d < 256 \<Longrightarrow> addr_of (a, b, c, d) div 16777216 = a"
  by (simp add: addr_of_def)

lemma addr_div_16: "c < 256 \<Longrightarrow> d < 256 \<Longrightarrow> addr_of (a, b, c, d) div 65536 = a * 256 + b"
  by (simp add: addr_of_def)

lemma addr_div_24: "d < 256 \<Longrightarrow> addr_of (a, b, c, d) div 256 = a * 65536 + b * 256 + c"
  by (simp add: addr_of_def)

lemma div_range: "0 < m \<Longrightarrow> (x div m = q) = (q * m \<le> x \<and> x < q * m + m)" for x m q :: nat
  using div_nat_eqI [of m q x] div_times_less_eq_dividend [of x m] dividend_less_div_times [of m x]
  by (auto simp: mult.commute)

lemma digits_range:
  fixes a b k lo hi :: nat
  assumes "b < 256" "hi \<le> 256"
  shows "(k * 256 + lo \<le> a * 256 + b \<and> a * 256 + b < k * 256 + hi) = (a = k \<and> lo \<le> b \<and> b < hi)"
proof (cases a k rule: linorder_cases)
  case less
  then have "Suc a \<le> k" by simp
  then have "Suc a * 256 \<le> k * 256" by (rule mult_le_mono1)
  with assms less show ?thesis by auto
next
  case greater
  then have "Suc k \<le> a" by simp
  then have "Suc k * 256 \<le> a * 256" by (rule mult_le_mono1)
  with assms greater show ?thesis by auto
qed auto

lemma digits_eq: "b < 256 \<Longrightarrow> l < 256 \<Longrightarrow> (a * 256 + b = k * 256 + l) = (a = k \<and> b = l)" for a b k l :: nat
  using digits_range [of b "l + 1" k l a] by auto

text \<open>
  Property C24. The ranges of \<open>is_private_ip\<close> are exactly the blocks its comments name: an IPv4 address
  is refused if and only if it lies in one of the fourteen CIDR blocks.
\<close>

theorem is_private_ip_blocks:
  assumes "a < 256" and "b < 256" and "c < 256" and "d < 256"
  shows "is_private_ip (a, b, c, d) = list_ex (in_block (addr_of (a, b, c, d))) private_blocks"
proof -
  let ?x = "addr_of (a, b, c, d)"
  note p8 = addr_div_8 [OF assms(2-4), of a] and p16 = addr_div_16 [OF assms(3,4), of a b]
    and p24 = addr_div_24 [OF assms(4), of a b c]
  have p4: "?x div 268435456 = a div 16" using p8 div_mult2_eq [of ?x 16777216 16] by simp
  have p12: "?x div 1048576 = (a * 256 + b) div 16" using p16 div_mult2_eq [of ?x 65536 16] by simp
  have p10: "?x div 4194304 = (a * 256 + b) div 64" using p16 div_mult2_eq [of ?x 65536 64] by simp
  have p15: "?x div 131072 = (a * 256 + b) div 2" using p16 div_mult2_eq [of ?x 65536 2] by simp
  have b8: "in_block ?x ((k, 0, 0, 0), 8) = (a = k)" for k
    by (simp add: in_block_def p8) (simp add: addr_of_def)
  have b4: "in_block ?x ((224, 0, 0, 0), 4) = (224 \<le> a \<and> a \<le> 239)"
    by (simp add: in_block_def p4) (auto simp: addr_of_def div_range)
  have b16: "in_block ?x ((k, l, 0, 0), 16) = (a = k \<and> b = l)" if "l < 256" for k l
    using digits_eq [OF assms(2) that, of a k] addr_div_16 [of 0 0 k l] by (simp add: in_block_def p16)
  have b12: "in_block ?x ((172, 16, 0, 0), 12) = (a = 172 \<and> 16 \<le> b \<and> b \<le> 31)"
    using digits_range [OF assms(2), of 32 172 16 a] by (simp add: in_block_def p12) (auto simp: addr_of_def div_range)
  have b10: "in_block ?x ((100, 64, 0, 0), 10) = (a = 100 \<and> 64 \<le> b \<and> b \<le> 127)"
    using digits_range [OF assms(2), of 128 100 64 a] by (simp add: in_block_def p10) (auto simp: addr_of_def div_range)
  have b15: "in_block ?x ((198, 18, 0, 0), 15) = (a = 198 \<and> 18 \<le> b \<and> b \<le> 19)"
    using digits_range [OF assms(2), of 20 198 18 a] by (simp add: in_block_def p15) (auto simp: addr_of_def div_range)
  have b24: "in_block ?x ((k, l, m, 0), 24) = (a = k \<and> b = l \<and> c = m)" if "l < 256" "m < 256" for k l m
    using digits_eq [OF assms(3) that(2), of "a * 256 + b" "k * 256 + l"] digits_eq [OF assms(2) that(1), of a k]
      addr_div_24 [of 0 k l m]
    by (simp add: in_block_def p24 add_mult_distrib mult.commute)
  have b32: "in_block ?x ((255, 255, 255, 255), 32) = (a = 255 \<and> b = 255 \<and> c = 255 \<and> d = 255)"
  proof
    assume "in_block ?x ((255, 255, 255, 255), 32)"
    then have "a * 16777216 + b * 65536 + c * 256 + d = 4294967295" by (simp add: in_block_def addr_of_def)
    with assms have "255 \<le> a" "255 \<le> b" "255 \<le> c" "255 \<le> d" by linarith+
    with assms show "a = 255 \<and> b = 255 \<and> c = 255 \<and> d = 255" by simp
  qed (simp add: in_block_def addr_of_def)
  show ?thesis
    by (auto simp: is_private_ip_def private_blocks_def b4 b8 b10 b12 b15 b16 b24 b32)
qed

theorem is_private_ip_blocks_witness:
  "is_private_ip (172, 31, 0, 1) = list_ex (in_block (addr_of (172, 31, 0, 1))) private_blocks \<and>
   is_private_ip (172, 31, 0, 1) \<and> \<not> is_private_ip (172, 32, 0, 1)"
  using is_private_ip_blocks [of 172 31 0 1] by (simp add: is_private_ip_def)

section \<open>What a download may reach\<close>

lemma resolve_and_check_Inr:
  "resolve_and_check_host env g loc host n = (Inr (), n') \<Longrightarrow>
   \<exists>addrs. nv_resolve env n (host @ '':0'') = (Inr addrs, n') \<and> addrs \<noteq> [] \<and>
     list_all (\<lambda>a. \<not> ip_is_private a) addrs"
  by (auto simp: resolve_and_check_host_def list_all_iff list_ex_iff split: prod.splits sum.splits if_splits)

lemma check_body_Inr:
  "check_body env g loc r = Inr bytes \<Longrightarrow> length bytes \<le> max_body_size \<and> nv_is_image env bytes"
  by (auto simp: check_body_def Let_def split: if_splits option.splits)


text \<open>A network of one host, at a public address, that serves one image.\<close>

definition demo_net :: "nat net_env" where
  "demo_net =
     \<lparr>nv_parse = (\<lambda>u. Inr \<lparr>url_text = u, url_scheme = ''http'', url_host = Some ''h'',
                           url_segments = Some [''a.png'']\<rparr>),
      nv_resolve = (\<lambda>n h. (Inr [V4 (93, 184, 216, 34)], n + 1)), nv_client_ok = True,
      nv_send = (\<lambda>n r t u. (Inr \<lparr>us_status = 200, us_reason = None, us_content_length = None,
                                us_bytes = Some ''PNG''\<rparr>, n + 1)),
      nv_is_image = (\<lambda>b. b = ''PNG'')\<rparr>"


text \<open>The IPv6 form of an IPv4 address: \<open>::ffff:a.b.c.d\<close>.\<close>

definition v4_mapped :: "nat \<Rightarrow> 128 word" where
  "v4_mapped x = word_of_nat (65535 * 2 ^ 32 + x)"

lemma unat_of_nat_48: "n < 2 ^ 48 \<Longrightarrow> unat (word_of_nat n :: 128 word) = n"
proof -
  assume "n < 2 ^ 48"
  moreover have "(2::nat)^48 < 2^LENGTH(128)" by simp
  ultimately have "n < 2^LENGTH(128)" by linarith
  then show ?thesis by (simp only: unat_of_nat mod_less)
qed

text \<open>
  The check of IPv6 addresses lets every IPv4-mapped address through: \<open>::ffff:127.0.0.1\<close>
  and the mapped form of every other private IPv4 address are not taken for private.
\<close>

theorem v4_mapped_not_blocked:
  assumes "x < 2 ^ 32"
  shows "\<not> ip_is_private (V6 (v4_mapped x))"
proof -
  let ?n = "65535 * 2 ^ 32 + x"
  have n: "?n < 2 ^ 48" using assms by simp
  have u: "unat (v4_mapped x) = ?n"
    unfolding v4_mapped_def by (rule unat_of_nat_48 [OF n])
  have "unat (drop_bit k (v4_mapped x)) = 0" if "48 \<le> k" for k
  proof -
    have "(2 :: nat) ^ 48 \<le> 2 ^ k" using that by (rule power_increasing) simp
    then have "?n < 2 ^ k" using n by linarith
    then show ?thesis by (simp only: unat_drop_bit_eq u) (simp only: drop_bit_eq_div div_less)
  qed
  then have d: "drop_bit 112 (v4_mapped x) = 0" "drop_bit 120 (v4_mapped x) = 0"
    by (simp_all add: unat_eq_zero)
  have "v4_mapped x \<noteq> 0" "v4_mapped x \<noteq> 1" using u by auto
  with d show ?thesis
    by (simp add: v6_is_loopback_def v6_is_unspecified_def v6_is_multicast_def segment0_def)
qed

theorem v4_mapped_not_blocked_witness:
  "addr_of (127, 0, 0, 1) = 2130706433 \<and> is_private_ip (127, 0, 0, 1) \<and>
   \<not> ip_is_private (V6 (v4_mapped (addr_of (127, 0, 0, 1))))"
  using v4_mapped_not_blocked [of "addr_of (127, 0, 0, 1)"] by (simp add: addr_of_def is_private_ip_def)

end
