(* ===== verification/Users.thy ===== *)
theory Users
  imports Upload Redis_State
begin

text \<open>
  The signed-in user's own account, \<open>pichost-api/src/routes/users.rs\<close>: usage statistics with their
  cache, the profile and its update, and the change of the password. The statistics methods of the
  \<open>Cache\<close> trait are \<open>stats_ops\<close>; the serde form of a watermark is a parameter (\<open>wm_json\<close>,
  \<open>ae_wm_of_json\<close>). \<open>CURRENT_TIMESTAMP\<close> is the instant of the call.
\<close>

section \<open>The statistics methods of the cache\<close>

record 'c stats_ops =
  so_incr :: "'c \<Rightarrow> instant \<Rightarrow> uuid \<Rightarrow> string \<Rightarrow> int \<Rightarrow> (cache_error + unit) \<times> 'c"
  so_set :: "'c \<Rightarrow> instant \<Rightarrow> uuid \<Rightarrow> (string \<times> int option) list \<Rightarrow> (cache_error + unit) \<times> 'c"
  so_get :: "'c \<Rightarrow> instant \<Rightarrow> uuid \<Rightarrow> cache_error + (string \<times> string) list option"

definition redis_stats_ops :: "'r redis_exec \<Rightarrow> (uuid \<Rightarrow> string) \<Rightarrow> 'r stats_ops" where
  "redis_stats_ops exec us =
     \<lparr>so_incr = (\<lambda>s t u f d. apfst (map_err COther) (incr_user_stat exec us s t u f d)),
      so_set = (\<lambda>s t u fs. apfst (map_err COther) (set_user_stats exec us s t u fs)),
      so_get = (\<lambda>s t u. map_err COther (get_user_stats exec us s t u))\<rparr>"

definition noop_stats_ops :: "unit stats_ops" where
  "noop_stats_ops =
     \<lparr>so_incr = (\<lambda>s t u f d. (Inr (), s)), so_set = (\<lambda>s t u fs. (Inr (), s)), so_get = (\<lambda>s t u. Inr None)\<rparr>"

section \<open>Usage statistics\<close>

record user_stats =
  us_total_images :: int
  us_total_size :: int
  us_backend :: string
  us_storage_quota :: "int option"

definition internal_err :: "i18n \<Rightarrow> language \<Rightarrow> api_error" where
  "internal_err g loc = error_json g loc 500 ''common.internal_error''"

definition fetch_user_quota ::
  "i18n \<Rightarrow> language \<Rightarrow> bool \<Rightarrow> db \<Rightarrow> uuid \<Rightarrow> api_error + int option" where
  "fetch_user_quota g loc fail d user =
     (if fail then Inl (internal_err g loc) else Inr (Option.bind (user_by_id d user) u_storage_quota))"

text \<open>\<open>parse::<i64>\<close> takes one sign and then digits.\<close>

definition parse_i64 :: "string \<Rightarrow> int option" where
  "parse_i64 s =
     (case s of
        [] \<Rightarrow> None
      | c # cs \<Rightarrow>
          (let r = (if c = CHR ''-'' then map_option (\<lambda>n. - int n) (parse_nat cs)
                    else if c = CHR ''+'' then map_option int (parse_nat cs)
                    else map_option int (parse_nat s))
           in Option.bind r (\<lambda>i. if - (2 ^ 63) \<le> i \<and> i < 2 ^ 63 then Some i else None)))"

definition try_cached_stats ::
  "(string \<times> string) list option \<Rightarrow> string \<Rightarrow> int option \<Rightarrow> user_stats option" where
  "try_cached_stats cache_stats backend_label quota =
     Option.bind cache_stats
       (\<lambda>stats_map. Option.bind (Option.bind (map_of stats_map ''total_images'') parse_i64)
         (\<lambda>total_images. Option.bind (Option.bind (map_of stats_map ''total_size'') parse_i64)
           (\<lambda>total_size. Some \<lparr>us_total_images = total_images, us_total_size = total_size,
              us_backend = backend_label, us_storage_quota = quota\<rparr>)))"

text \<open>A sum that is no 64-bit integer is an error of the database.\<close>

definition query_user_stats ::
  "i18n \<Rightarrow> language \<Rightarrow> bool \<Rightarrow> db \<Rightarrow> uuid \<Rightarrow> api_error + int \<times> int" where
  "query_user_stats g loc fail d user =
     (let rows = filter (\<lambda>x. im_user_id x = user) (t_images d); total = sum_list (map im_file_size rows)
      in if fail \<or> \<not> (- (2 ^ 63) \<le> total \<and> total < 2 ^ 63) then Inl (internal_err g loc)
         else Inr (int (length rows), total))"

definition populate_user_stats_cache ::
  "'c stats_ops \<Rightarrow> 'c \<Rightarrow> instant \<Rightarrow> uuid \<Rightarrow> int \<Rightarrow> int \<Rightarrow> 'c" where
  "populate_user_stats_cache so c now user total_images total_size =
     snd (so_set so c now user [(''total_images'', Some total_images), (''total_size'', Some total_size)])"

definition get_my_stats ::
  "'c stats_ops \<Rightarrow> router \<Rightarrow> i18n \<Rightarrow> language \<Rightarrow> faults \<Rightarrow> instant \<Rightarrow> uuid \<Rightarrow> db \<Rightarrow> 'c \<Rightarrow>
   (api_error + user_stats) \<times> 'c" where
  "get_my_stats so ro g loc fails now user d c =
     (case fetch_user_quota g loc (fails 0) d user of
        Inl e \<Rightarrow> (Inl e, c)
      | Inr quota \<Rightarrow>
          (case try_cached_stats (res_unwrap_or (so_get so c now user) None) (ro_default ro) quota of
             Some stats \<Rightarrow> (Inr stats, c)
           | None \<Rightarrow>
               (case query_user_stats g loc (fails 1) d user of
                  Inl e \<Rightarrow> (Inl e, c)
                | Inr (total_images, total_size) \<Rightarrow>
                    (Inr \<lparr>us_total_images = total_images, us_total_size = total_size,
                          us_backend = ro_default ro, us_storage_quota = quota\<rparr>,
                     populate_user_stats_cache so c now user total_images total_size))))"

section \<open>The profile\<close>

record user_profile =
  pf_id :: uuid
  pf_username :: string
  pf_email :: "string option"
  pf_storage_backend :: string
  pf_storage_prefix :: string
  pf_storage_quota :: "int option"
  pf_is_admin :: bool
  pf_created_at :: instant
  pf_updated_at :: instant
  pf_watermark :: "watermark_config option"

text \<open>\<open>None\<close>, \<open>Some None\<close> and \<open>Some (Some w)\<close> are a field absent, null and given.\<close>

record update_profile_request =
  upr_username :: "string option"
  upr_email :: "string option"
  upr_storage_backend :: "string option"
  upr_watermark :: "watermark_config option option"

record change_password_request =
  cpr_current :: string
  cpr_new :: string

definition build_user_profile :: "auth_env \<Rightarrow> user_row \<Rightarrow> user_profile" where
  "build_user_profile env u =
     \<lparr>pf_id = u_id u, pf_username = u_username u, pf_email = u_email u,
      pf_storage_backend = u_storage_backend u, pf_storage_prefix = u_storage_prefix u,
      pf_storage_quota = u_storage_quota u, pf_is_admin = u_is_admin u, pf_created_at = u_created_at u,
      pf_updated_at = u_updated_at u, pf_watermark = Option.bind (u_watermark u) (ae_wm_of_json env)\<rparr>"

definition fetch_profile_row ::
  "i18n \<Rightarrow> language \<Rightarrow> bool \<Rightarrow> db \<Rightarrow> uuid \<Rightarrow> api_error + user_row option" where
  "fetch_profile_row g loc fail d user =
     (if fail then Inl (internal_err g loc) else Inr (user_by_id d user))"

definition get_my_profile ::
  "auth_env \<Rightarrow> i18n \<Rightarrow> language \<Rightarrow> bool \<Rightarrow> db \<Rightarrow> uuid \<Rightarrow> api_error + user_profile" where
  "get_my_profile env g loc fail d user =
     rbind (fetch_profile_row g loc fail d user)
       (\<lambda>row. rbind (ok_or row (error_json g loc 404 ''user.not_found''))
         (\<lambda>u. Inr (build_user_profile env u)))"

definition ensure_backend_exists ::
  "i18n \<Rightarrow> language \<Rightarrow> router \<Rightarrow> update_profile_request \<Rightarrow> api_error + unit" where
  "ensure_backend_exists g loc ro p =
     (case upr_storage_backend p of
        None \<Rightarrow> Inr ()
      | Some backend \<Rightarrow>
          (if router_get ro backend = None
           then Inl (error_json_args g loc 400 ''user.unknown_backend'' [backend]) else Inr ()))"

definition ensure_username_available ::
  "i18n \<Rightarrow> language \<Rightarrow> bool \<Rightarrow> db \<Rightarrow> uuid \<Rightarrow> string option \<Rightarrow> api_error + unit" where
  "ensure_username_available g loc fail d user username =
     (case username of
        None \<Rightarrow> Inr ()
      | Some n \<Rightarrow>
          (if fail then Inl (internal_err g loc)
           else if list_ex (\<lambda>u. u_username u = n \<and> u_id u \<noteq> user) (t_users d)
           then Inl (error_json g loc 409 ''user.username_taken'') else Inr ()))"

definition ensure_email_available ::
  "i18n \<Rightarrow> language \<Rightarrow> bool \<Rightarrow> db \<Rightarrow> uuid \<Rightarrow> string option \<Rightarrow> api_error + unit" where
  "ensure_email_available g loc fail d user email =
     (case email of
        None \<Rightarrow> Inr ()
      | Some m \<Rightarrow>
          (if fail then Inl (internal_err g loc)
           else if list_ex (\<lambda>u. u_email u = Some m \<and> u_id u \<noteq> user) (t_users d)
           then Inl (error_json g loc 409 ''user.email_taken'') else Inr ()))"

text \<open>The bind values of the update: whether the column is written, and with what.\<close>

definition serialize_watermark_config ::
  "(watermark_config \<Rightarrow> json option) \<Rightarrow> i18n \<Rightarrow> language \<Rightarrow> update_profile_request \<Rightarrow>
   api_error + bool \<times> json option" where
  "serialize_watermark_config wm_json g loc p =
     (case upr_watermark p of
        Some (Some cfg) \<Rightarrow>
          (case wm_json cfg of
             None \<Rightarrow> Inl (error_json g loc 400 ''user.watermark_invalid'')
           | Some j \<Rightarrow> Inr (True, Some j))
      | Some None \<Rightarrow> Inr (True, None)
      | None \<Rightarrow> Inr (False, None))"

text \<open>The \<open>SET\<close> list: \<open>COALESCE\<close> keeps the column when the bind is NULL, \<open>CASE\<close> when it is absent.\<close>

definition patch_user ::
  "update_profile_request \<Rightarrow> bool \<Rightarrow> json option \<Rightarrow> instant \<Rightarrow> user_row \<Rightarrow> user_row" where
  "patch_user p wm_provided wm_value now u =
     u\<lparr>u_username := opt_unwrap_or (upr_username p) (u_username u),
       u_email := (if upr_email p \<noteq> None then upr_email p else u_email u),
       u_storage_backend := opt_unwrap_or (upr_storage_backend p) (u_storage_backend u),
       u_watermark := (if wm_provided then wm_value else u_watermark u),
       u_updated_at := now\<rparr>"

text \<open>The unique columns, and the widths PostgreSQL enforces.\<close>

definition user_conflicts :: "user_row \<Rightarrow> user_row list \<Rightarrow> bool" where
  "user_conflicts u others \<longleftrightarrow>
     list_ex (\<lambda>v. u_username v = u_username u \<or> u_email u \<noteq> None \<and> u_email v = u_email u) others"

definition user_fits :: "database_mode \<Rightarrow> user_row \<Rightarrow> bool" where
  "user_fits mode u \<longleftrightarrow> mode = PostgresMode \<longrightarrow>
     char_count (u_username u) \<le> 64 \<and> char_count (opt_unwrap_or (u_email u) []) \<le> 255 \<and>
     char_count (u_storage_backend u) \<le> 32"

definition set_user :: "(user_row \<Rightarrow> user_row) \<Rightarrow> uuid \<Rightarrow> db \<Rightarrow> db" where
  "set_user f user d = d\<lparr>t_users := map (\<lambda>u. if u_id u = user then f u else u) (t_users d)\<rparr>"

definition apply_profile_update ::
  "database_mode \<Rightarrow> i18n \<Rightarrow> language \<Rightarrow> bool \<Rightarrow> instant \<Rightarrow> uuid \<Rightarrow> update_profile_request \<Rightarrow> bool \<Rightarrow>
   json option \<Rightarrow> db \<Rightarrow> (api_error + unit) \<times> db" where
  "apply_profile_update mode g loc fail now user p wm_provided wm_value d =
     (let patch = patch_user p wm_provided wm_value now;
          others = filter (\<lambda>u. u_id u \<noteq> user) (t_users d);
          rows = filter (\<lambda>u. u_id u = user) (t_users d)
      in if fail \<or> \<not> list_all (\<lambda>u. user_fits mode (patch u)) rows then (Inl (internal_err g loc), d)
         else if list_ex (\<lambda>u. user_conflicts (patch u) others) rows
         then (Inl (error_json g loc 409 ''user.username_email_taken''), d)
         else (Inr (), set_user patch user d))"

definition update_my_profile ::
  "auth_env \<Rightarrow> (watermark_config \<Rightarrow> json option) \<Rightarrow> database_mode \<Rightarrow> router \<Rightarrow> i18n \<Rightarrow> language \<Rightarrow> faults \<Rightarrow>
   instant \<Rightarrow> uuid \<Rightarrow> update_profile_request \<Rightarrow> db \<Rightarrow> (api_error + user_profile) \<times> db" where
  "update_my_profile env wm_json mode ro g loc fails now user p d =
     (case rbind (ensure_backend_exists g loc ro p)
             (\<lambda>_. rbind (ensure_username_available g loc (fails 0) d user (upr_username p))
               (\<lambda>_. rbind (ensure_email_available g loc (fails 1) d user (upr_email p))
                 (\<lambda>_. serialize_watermark_config wm_json g loc p))) of
        Inl e \<Rightarrow> (Inl e, d)
      | Inr (wm_provided, wm_value) \<Rightarrow>
          (case apply_profile_update mode g loc (fails 2) now user p wm_provided wm_value d of
             (Inl e, d1) \<Rightarrow> (Inl e, d1)
           | (Inr _, d1) \<Rightarrow>
               (rbind (fetch_profile_row g loc (fails 3) d1 user)
                  (\<lambda>row. rbind (ok_or row (internal_err g loc)) (\<lambda>u. Inr (build_user_profile env u))), d1)))"

section \<open>The password\<close>

definition fetch_password_hash ::
  "i18n \<Rightarrow> language \<Rightarrow> bool \<Rightarrow> db \<Rightarrow> uuid \<Rightarrow> api_error + string" where
  "fetch_password_hash g loc fail d user =
     (if fail then Inl (internal_err g loc)
      else ok_or (map_option u_password_hash (user_by_id d user)) (error_json g loc 404 ''user.not_found''))"

definition verify_current_password ::
  "auth_env \<Rightarrow> i18n \<Rightarrow> language \<Rightarrow> string \<Rightarrow> string \<Rightarrow> api_error + unit" where
  "verify_current_password env g loc current_password stored_hash =
     (if \<not> ae_parse_hash env stored_hash then Inl (internal_err g loc)
      else if \<not> ae_verify env stored_hash current_password
      then Inl (error_json g loc 401 ''user.current_password_incorrect'') else Inr ())"

definition hash_new_password :: "auth_env \<Rightarrow> i18n \<Rightarrow> language \<Rightarrow> nat \<Rightarrow> string \<Rightarrow> api_error + string" where
  "hash_new_password env g loc salt new_password =
     ok_or (ae_hash env salt new_password) (internal_err g loc)"

definition update_password_hash ::
  "i18n \<Rightarrow> language \<Rightarrow> bool \<Rightarrow> instant \<Rightarrow> uuid \<Rightarrow> string \<Rightarrow> db \<Rightarrow> (api_error + unit) \<times> db" where
  "update_password_hash g loc fail now user new_hash d =
     (if fail then (Inl (internal_err g loc), d)
      else (Inr (), set_user (\<lambda>u. u\<lparr>u_password_hash := new_hash, u_updated_at := now\<rparr>) user d))"

definition change_my_password ::
  "auth_env \<Rightarrow> i18n \<Rightarrow> language \<Rightarrow> faults \<Rightarrow> instant \<Rightarrow> nat \<Rightarrow> uuid \<Rightarrow> change_password_request \<Rightarrow> db \<Rightarrow>
   (api_error + json) \<times> db" where
  "change_my_password env g loc fails now salt user p d =
     (if length (cpr_new p) < 8 then (Inl (error_json g loc 400 ''user.password_too_weak''), d)
      else
        (case rbind (fetch_password_hash g loc (fails 0) d user)
                (\<lambda>h. rbind (verify_current_password env g loc (cpr_current p) h)
                  (\<lambda>_. hash_new_password env g loc salt (cpr_new p))) of
           Inl e \<Rightarrow> (Inl e, d)
         | Inr new_hash \<Rightarrow>
             (case update_password_hash g loc (fails 1) now user new_hash d of
                (Inl e, d1) \<Rightarrow> (Inl e, d1)
              | (Inr _, d1) \<Rightarrow> (Inr (JObj [(''message'', JStr ''password updated'')]), d1))))"

end
