(* ===== verification/Users_Props.thy ===== *)
theory Users_Props
  imports Users Auth_Props Redis_Props
begin

text \<open>
  Facts on the account routes: a profile update writes the caller's row only and keeps the unique
  columns unique; a password change is what the next login checks; the statistics are the counts of
  the database or, for five minutes, the cached ones.
\<close>

section \<open>One row changed\<close>

lemma set_map_filter_iff: "y \<in> set (List.map_filter g xs) \<longleftrightarrow> (\<exists>x \<in> set xs. g x = Some y)"
  by (induction xs) (auto simp: List.map_filter_def)

lemma map_filter_Cons:
  "List.map_filter g (x # xs) = (case g x of None \<Rightarrow> List.map_filter g xs | Some y \<Rightarrow> y # List.map_filter g xs)"
  by (simp add: List.map_filter_def split: option.splits)

lemma map_as_map_filter: "map k xs = List.map_filter (\<lambda>x. Some (k x)) xs"
  by (induction xs) (simp_all add: List.map_filter_def)

text \<open>A unique column stays unique when the one row of an id takes a value no other row has.\<close>

lemma distinct_update_row:
  assumes "distinct (map i us)" and "distinct (List.map_filter g us)"
    and "\<And>u v. u \<in> set us \<Longrightarrow> i u = a \<Longrightarrow> v \<in> set us \<Longrightarrow> i v \<noteq> a \<Longrightarrow> g (f u) \<noteq> None \<Longrightarrow> g v \<noteq> g (f u)"
  shows "distinct (List.map_filter g (map (\<lambda>u. if i u = a then f u else u) us))"
  using assms
proof (induction us)
  case Nil
  then show ?case by (simp add: List.map_filter_def)
next
  case (Cons x us)
  have d: "distinct (List.map_filter g us)"
    using Cons.prems(2) by (auto simp: map_filter_Cons split: option.splits)
  show ?case
  proof (cases "i x = a")
    case True
    then have rest: "map (\<lambda>u. if i u = a then f u else u) us = us"
      using Cons.prems(1) by (intro map_idI) (auto simp: rev_image_eqI)
    have "y \<notin> set (List.map_filter g us)" if "g (f x) = Some y" for y
    proof
      assume "y \<in> set (List.map_filter g us)"
      then obtain v where v: "v \<in> set us" "g v = Some y" by (auto simp: set_map_filter_iff)
      have "i v \<in> i ` set us" using v(1) by (rule imageI)
      then have "i v \<noteq> a" using True Cons.prems(1) by auto
      then show False using Cons.prems(3) [of x v] v True that by simp
    qed
    then show ?thesis using True d by (simp add: rest map_filter_Cons split: option.split)
  next
    case False
    have IH: "distinct (List.map_filter g (map (\<lambda>u. if i u = a then f u else u) us))"
      using Cons.prems d by (intro Cons.IH) auto
    have "y \<notin> set (List.map_filter g (map (\<lambda>u. if i u = a then f u else u) us))" if y: "g x = Some y" for y
    proof
      assume "y \<in> set (List.map_filter g (map (\<lambda>u. if i u = a then f u else u) us))"
      then obtain v where v: "v \<in> set us" "g (if i v = a then f v else v) = Some y"
        by (auto simp: set_map_filter_iff)
      show False
      proof (cases "i v = a")
        case True
        then show False using Cons.prems(3) [of v x] v False y by simp
      next
        case n: False
        then have "y \<in> set (List.map_filter g us)" using v by (auto simp: set_map_filter_iff)
        then show False using Cons.prems(2) y by (simp add: map_filter_Cons)
      qed
    qed
    then show ?thesis using IH False by (simp add: map_filter_Cons split: option.split)
  qed
qed

lemma user_by_id_set_user:
  assumes "\<And>u. u_id (f u) = u_id u"
  shows "user_by_id (set_user f i d) j = map_option (\<lambda>u. if u_id u = i then f u else u) (user_by_id d j)"
  unfolding user_by_id_def set_user_def using assms by (simp add: find_map_key)

lemma set_user_rest:
  "t_images (set_user f i d) = t_images d" "t_configs (set_user f i d) = t_configs d"
  by (simp_all add: set_user_def)

section \<open>The profile\<close>

lemma patch_user_sel [simp]:
  "u_id (patch_user p b w now u) = u_id u"
  "u_username (patch_user p b w now u) = opt_unwrap_or (upr_username p) (u_username u)"
  "u_email (patch_user p b w now u) = (if upr_email p \<noteq> None then upr_email p else u_email u)"
  "u_password_hash (patch_user p b w now u) = u_password_hash u"
  "u_is_admin (patch_user p b w now u) = u_is_admin u"
  "u_storage_quota (patch_user p b w now u) = u_storage_quota u"
  by (simp_all add: patch_user_def)

lemma users_unique_set:
  assumes "users_unique us" and "\<And>u. u_id (f u) = u_id u"
    and "\<not> list_ex (\<lambda>u. user_conflicts (f u) (filter (\<lambda>u. u_id u \<noteq> user) us))
          (filter (\<lambda>u. u_id u = user) us)"
  shows "users_unique (map (\<lambda>u. if u_id u = user then f u else u) us)"
proof -
  let ?us = "map (\<lambda>u. if u_id u = user then f u else u) us"
  note u = assms(1) [unfolded users_unique_def]
  have c: "u_username v \<noteq> u_username (f u) \<and> (u_email (f u) \<noteq> None \<longrightarrow> u_email v \<noteq> u_email (f u))"
    if "u \<in> set us" "u_id u = user" "v \<in> set us" "u_id v \<noteq> user" for u v
  proof -
    have "\<not> user_conflicts (f u) (filter (\<lambda>u. u_id u \<noteq> user) us)"
      using assms(3) that(1,2) by (auto simp: list_ex_iff)
    then show ?thesis using that(3,4) by (auto simp: user_conflicts_def list_ex_iff)
  qed
  have "map u_id ?us = map u_id us" using assms(2) by simp
  moreover have "distinct (List.map_filter (\<lambda>u. Some (u_username u)) ?us)"
  proof (rule distinct_update_row)
    show "Some (u_username v) \<noteq> Some (u_username (f u))"
      if "u \<in> set us" "u_id u = user" "v \<in> set us" "u_id v \<noteq> user" for u v using c [OF that] by simp
  qed (use u in \<open>simp_all add: map_as_map_filter [symmetric]\<close>)
  moreover have "distinct (List.map_filter u_email ?us)"
  proof (rule distinct_update_row)
    show "u_email v \<noteq> u_email (f u)"
      if "u \<in> set us" "u_id u = user" "v \<in> set us" "u_id v \<noteq> user" "u_email (f u) \<noteq> None" for u v
      using c [OF that(1-4)] that(5) by blast
  qed (use u in simp_all)
  ultimately show ?thesis
    using u by (simp only: users_unique_def map_as_map_filter [of u_username])
qed

lemma users_unique_patch:
  assumes "users_unique us"
    and "\<not> list_ex (\<lambda>u. user_conflicts (patch_user p b w now u) (filter (\<lambda>u. u_id u \<noteq> user) us))
          (filter (\<lambda>u. u_id u = user) us)"
  shows "users_unique (map (\<lambda>u. if u_id u = user then patch_user p b w now u else u) us)"
  using assms by (intro users_unique_set) simp_all

lemma apply_update_cases:
  "apply_profile_update mode g loc fail now user p b w d = (x, d') \<Longrightarrow>
   (\<exists>e. x = Inl e \<and> d' = d) \<or>
   (x = Inr () \<and> d' = set_user (patch_user p b w now) user d \<and>
    \<not> list_ex (\<lambda>u. user_conflicts (patch_user p b w now u) (filter (\<lambda>u. u_id u \<noteq> user) (t_users d)))
        (filter (\<lambda>u. u_id u = user) (t_users d)))"
  by (auto simp: apply_profile_update_def Let_def split: if_splits)

lemma update_profile_cases:
  assumes "update_my_profile env wm_json mode ro g loc fails now user p d = (r, d')"
  obtains e where "r = Inl e" "d' = d"
  | w where "serialize_watermark_config wm_json g loc p = Inr w"
      "apply_profile_update mode g loc (fails 2) now user p (fst w) (snd w) d = (Inr (), d')"
      "r = rbind (fetch_profile_row g loc (fails 3) d' user)
         (\<lambda>row. rbind (ok_or row (internal_err g loc)) (\<lambda>u. Inr (build_user_profile env u)))"
proof -
  let ?pre = "rbind (ensure_backend_exists g loc ro p)
             (\<lambda>_. rbind (ensure_username_available g loc (fails 0) d user (upr_username p))
               (\<lambda>_. rbind (ensure_email_available g loc (fails 1) d user (upr_email p))
                 (\<lambda>_. serialize_watermark_config wm_json g loc p)))"
  show ?thesis
  proof (cases ?pre)
    case (Inl e)
    then have "r = Inl e" "d' = d" using assms by (auto simp: update_my_profile_def)
    then show ?thesis by (rule that(1))
  next
    case (Inr w)
    then have s: "serialize_watermark_config wm_json g loc p = Inr w" by (auto simp: rbind_eq_Inr)
    obtain x d1 where a: "apply_profile_update mode g loc (fails 2) now user p (fst w) (snd w) d = (x, d1)" by fastforce
    from apply_update_cases [OF a] show ?thesis
      using assms Inr s a that(1) that(2) [of w] by (auto simp: update_my_profile_def split_beta)
  qed
qed


definition demo_patch :: update_profile_request where
  "demo_patch = \<lparr>upr_username = Some ''eve'', upr_email = None, upr_storage_backend = None, upr_watermark = Some None\<rparr>"


section \<open>The password\<close>

lemma password_changed:
  assumes "change_my_password env g loc fails now salt user p d = (r, d')"
  shows "(\<not> is_ok r \<and> d' = d) \<or>
    (\<exists>u h. user_by_id d user = Some u \<and> 8 \<le> length (cpr_new p) \<and>
       ae_verify env (u_password_hash u) (cpr_current p) \<and> ae_hash env salt (cpr_new p) = Some h \<and>
       d' = set_user (\<lambda>u. u\<lparr>u_password_hash := h, u_updated_at := now\<rparr>) user d)"
proof (cases "user_by_id d user")
  case None
  then show ?thesis
    using assms by (auto simp: change_my_password_def fetch_password_hash_def split: if_splits)
next
  case (Some u)
  then show ?thesis
    using assms
    by (cases "ae_hash env salt (cpr_new p)")
      (auto simp: change_my_password_def fetch_password_hash_def verify_current_password_def
        hash_new_password_def update_password_hash_def split: if_splits)
qed

text \<open>
  A password change needs the current password and a new one of at least eight
  characters, and takes effect: the user can log in with the new password, and with no password that
  its hash does not verify; a refused change leaves every row as it was.
\<close>

theorem password_change_takes_effect:
  assumes "change_my_password env g loc fails now salt user p d = (r, d')"
    and "env_laws env" and "users_unique (t_users d)" and "user_by_id d user = Some u"
  shows "if is_ok r
    then 8 \<le> length (cpr_new p) \<and> ae_verify env (u_password_hash u) (cpr_current p) \<and>
      (\<exists>h. ae_hash env salt (cpr_new p) = Some h \<and>
        (\<forall>pw. is_ok (login env cfg g loc False t dr \<lparr>lg_username = u_username u, lg_password = pw\<rparr> d') \<longleftrightarrow>
           ae_verify env h pw \<and>
           generate_tokens env (cf_auth cfg) t (dr_access dr) (dr_refresh dr) user (u_is_admin u) \<noteq> None) \<and>
        ae_verify env h (cpr_new p))
    else d' = d"
proof (cases "is_ok r")
  case True
  let ?f = "\<lambda>h u. u\<lparr>u_password_hash := h, u_updated_at := now\<rparr>"
  obtain h where h: "8 \<le> length (cpr_new p)" "ae_verify env (u_password_hash u) (cpr_current p)"
    "ae_hash env salt (cpr_new p) = Some h" "d' = set_user (?f h) user d"
    using password_changed [OF assms(1)] True assms(4) by auto
  have i: "u \<in> set (t_users d)" "u_id u = user"
    using find_SomeD assms(4) by (fastforce simp: user_by_id_def)+
  have n: "user_by_name d (u_username u) = Some u"
    using find_key_unique [of u_username "t_users d" u] assms(3) i(1)
    by (simp add: user_by_name_def users_unique_def)
  have n': "user_by_name d' (u_username u) = Some (?f h u)"
    using n i(2) by (simp add: user_by_name_def h(4) set_user_def find_map_key)
  have "ae_parse_hash env h" "ae_verify env h (cpr_new p)"
    using assms(2) h(3) unfolding env_laws_def by blast+
  then show ?thesis
    using True h(1-3) i(2) n' by (auto simp: login_def split: option.split)
next
  case False
  then show ?thesis using password_changed [OF assms(1)] assms(1) by (auto simp: change_my_password_def
      fetch_password_hash_def update_password_hash_def split: if_splits sum.splits)
qed

definition demo_change :: change_password_request where
  "demo_change = \<lparr>cpr_current = ''secret1'', cpr_new = ''secret-two''\<rparr>"

theorem password_change_takes_effect_witness:
  "is_ok (fst (change_my_password demo_env demo_i18n En no_faults 9 0 7 demo_change demo_db)) \<and>
   is_ok (login demo_env default_app_config demo_i18n En False 10 demo_draws
     \<lparr>lg_username = ''bob'', lg_password = ''secret-two''\<rparr>
     (snd (change_my_password demo_env demo_i18n En no_faults 9 0 7 demo_change demo_db))) \<and>
   \<not> is_ok (login demo_env default_app_config demo_i18n En False 10 demo_draws
     \<lparr>lg_username = ''bob'', lg_password = ''secret1''\<rparr>
     (snd (change_my_password demo_env demo_i18n En no_faults 9 0 7 demo_change demo_db)))"
proof -
  let ?r = "change_my_password demo_env demo_i18n En no_faults 9 0 7 demo_change demo_db"
  have ok: "is_ok (fst ?r)" by code_simp
  obtain r d' where r: "?r = (r, d')" by fastforce
  have u: "users_unique (t_users demo_db)" by (simp add: users_unique_def List.map_filter_def)
  have b: "user_by_id demo_db 7 = Some demo_user" by (simp add: user_by_id_def)
  have c: "cpr_new demo_change = ''secret-two''" by (simp add: demo_change_def)
  have isok: "is_ok r" using ok unfolding r by simp
  obtain h where h: "ae_hash demo_env 0 (cpr_new demo_change) = Some h"
    and l: "\<forall>pw. is_ok (login demo_env default_app_config demo_i18n En False 10 demo_draws
        \<lparr>lg_username = u_username demo_user, lg_password = pw\<rparr> d') \<longleftrightarrow>
      ae_verify demo_env h pw \<and> generate_tokens demo_env (cf_auth default_app_config) 10 (dr_access demo_draws)
        (dr_refresh demo_draws) 7 (u_is_admin demo_user) \<noteq> None"
    using password_change_takes_effect [OF r demo_env_laws u b, of default_app_config 10 demo_draws] isok
    by (simp only: if_True) blast
  have g: "generate_tokens demo_env (cf_auth default_app_config) 10 (dr_access demo_draws)
        (dr_refresh demo_draws) 7 (u_is_admin demo_user) \<noteq> None"
    using demo_generate_is_Some by blast
  have "h = ''$secret-two''" using h unfolding c by simp
  then have v: "ae_verify demo_env h ''secret-two''" "\<not> ae_verify demo_env h ''secret1''" by simp_all
  have "is_ok (login demo_env default_app_config demo_i18n En False 10 demo_draws
      \<lparr>lg_username = u_username demo_user, lg_password = ''secret-two''\<rparr> d')"
    by (rule iffD2 [OF spec [OF l] conjI [OF v(1) g]])
  moreover have "\<not> is_ok (login demo_env default_app_config demo_i18n En False 10 demo_draws
      \<lparr>lg_username = u_username demo_user, lg_password = ''secret1''\<rparr> d')"
    by (rule notI, drule iffD1 [OF spec [OF l]], drule conjunct1, rule notE [OF v(2)])
  ultimately show ?thesis
    using isok unfolding r demo_sel(2) fst_conv snd_conv by (intro conjI)
qed

text \<open>
  Changing the password ends no session: whatever a change answers, every access token
  and every refresh token is good afterwards exactly when it was before, for the same answers.
\<close>

theorem password_change_keeps_sessions:
  assumes "change_my_password env g loc fails now salt user p d = (r, d')"
  shows "require_auth env bl (cf_auth cfg) g' fail t d' b lang authorization =
      require_auth env bl (cf_auth cfg) g' fail t d b lang authorization \<and>
    refresh env bl cfg g' loc' fail t dr token d' b = refresh env bl cfg g' loc' fail t dr token d b"
proof -
  have same: "map_option (\<lambda>u. (u_id u, u_username u, u_email u, u_is_admin u, u_storage_quota u, u_watermark u))
      (user_by_id d' i) =
    map_option (\<lambda>u. (u_id u, u_username u, u_email u, u_is_admin u, u_storage_quota u, u_watermark u))
      (user_by_id d i)" for i
    using password_changed [OF assms]
    by (cases "user_by_id d i") (auto simp: user_by_id_set_user)
  have q: "check_blacklist_and_quota env bl g' l fail t d' b c = check_blacklist_and_quota env bl g' l fail t d b c"
    for l c
  proof (cases "ae_uuid_parse env (acl_sub c)")
    case (Some i)
    then show ?thesis using same [of i]
      by (auto simp: check_blacklist_and_quota_def split: option.splits)
  qed (simp add: check_blacklist_and_quota_def)
  have k: "refresh env bl cfg g' loc' fail t dr token d' b = refresh env bl cfg g' loc' fail t dr token d b"
  proof (cases "jw_decode_refresh (ae_jwt env) (ac_jwt_secret (cf_auth cfg)) True t token")
    case (Some c)
    show ?thesis
    proof (cases "ae_uuid_parse env (rcl_sub c)")
      case i: (Some i)
      then show ?thesis using Some same [of i]
        by (cases "user_by_id d i"; cases "user_by_id d' i")
          (auto simp: refresh_def lookup_user_for_refresh_def split: option.split prod.split)
    qed (simp add: refresh_def Some lookup_user_for_refresh_def)
  qed (simp add: refresh_def)
  show ?thesis by (simp add: require_auth_def Let_def q k)
qed

theorem password_change_keeps_sessions_witness:
  "is_ok (fst (refresh demo_env (lite_blacklist_ops (pad_nat 17)) default_app_config demo_i18n En False 0 demo_draws
     (the (demo_encode_refresh [] demo_rclaims))
     (snd (change_my_password demo_env demo_i18n En no_faults 9 0 7 demo_change demo_db)) [])) \<and>
   is_ok (fst (change_my_password demo_env demo_i18n En no_faults 9 0 7 demo_change demo_db))"
proof -
  have ok: "is_ok (fst (change_my_password demo_env demo_i18n En no_faults 9 0 7 demo_change demo_db))" by code_simp
  obtain r d' where c: "change_my_password demo_env demo_i18n En no_faults 9 0 7 demo_change demo_db = (r, d')"
    by fastforce
  obtain x b' where "refresh demo_env (lite_blacklist_ops (pad_nat 17)) default_app_config demo_i18n En False 0
    demo_draws (the (demo_encode_refresh [] demo_rclaims)) demo_db [] = (Inr x, b')"
    using demo_refresh by blast
  then have "refresh demo_env (lite_blacklist_ops (pad_nat 17)) default_app_config demo_i18n En False 0
    demo_draws (the (demo_encode_refresh [] demo_rclaims)) d' [] = (Inr x, b')"
    by (rule trans [OF conjunct2 [OF password_change_keeps_sessions [OF c]]])
  then show ?thesis using ok by (simp add: c)
qed

section \<open>Usage statistics\<close>

declare pipe.simps [simp del]

lemma parse_i64_int_str:
  assumes "- (2 ^ 63) \<le> i" and "i < 2 ^ 63"
  shows "parse_i64 (int_str i) = Some i"
proof (cases "i < 0")
  case True
  then show ?thesis using assms by (simp add: parse_i64_def int_str_def)
next
  case False
  obtain c cs where e: "nat_str (nat i) = c # cs" by (cases "nat_str (nat i)") auto
  have "is_digit c" using nat_str_digits [of "nat i"] by (simp add: e)
  then have "c \<noteq> CHR ''-''" "c \<noteq> CHR ''+''" by (auto simp: is_digit_def)
  then show ?thesis
    using False assms parse_nat_nat_str [of "nat i"] unfolding e by (simp add: parse_i64_def int_str_def e)
qed

definition stats_hash :: "int \<Rightarrow> int \<Rightarrow> (string \<times> string) list" where
  "stats_hash a b = [(''total_size'', int_str b), (''total_images'', int_str a)]"

lemma stats_written:
  assumes "live k t (stats_key us u) = None"
  shows "snd (set_user_stats redis_server us k t u [(''total_images'', Some a), (''total_size'', Some b)])
      (stats_key us u) = Some (VHash (stats_hash a b), Some (t + secs 300))"
  using assms
  by (simp add: set_user_stats_def hash_of_def Let_def split_beta store_keep_def deadline_def stats_hash_def
      secs_def nanos_per_sec_def)

lemma stats_read:
  assumes "live k t (stats_key us u) = Some (VHash (stats_hash a b))"
  shows "get_user_stats redis_server us k t u = Inr (Some (stats_hash a b))"
  using assms by (simp add: get_user_stats_def query_server hash_of_def stats_hash_def)

lemma get_user_stats_up:
  "redis_up exec ks \<Longrightarrow> get_user_stats exec us s t u = get_user_stats redis_server us (ks s) t u"
  by (simp add: get_user_stats_def query_up_fst)

lemma set_user_stats_up:
  "redis_up exec ks \<Longrightarrow> ks (snd (set_user_stats exec us s t u fs)) = snd (set_user_stats redis_server us (ks s) t u fs)"
  by (simp only: set_user_stats_def pipe_up_snd)

lemma stats_cold:
  assumes "live k t (stats_key us u) = None"
  shows "get_user_stats redis_server us k t u = Inr (Some [])"
  unfolding get_user_stats_def query_server documented.simps assms by (simp add: hash_of_def)

text \<open>
  Statistics are counted once in five minutes: with nothing cached they are the number
  and the total size of the caller's images, and for the next 300 seconds every request answers the
  same two numbers, whatever was uploaded or deleted since; the quota is read afresh each time.
\<close>

theorem stats_stay_five_minutes:
  assumes "redis_up exec ks" and "live (ks s) t (stats_key us user) = None"
    and "get_my_stats (redis_stats_ops exec us) ro g loc fails t user d s = (Inr st, s1)"
    and "ks s2 (stats_key us user) = ks s1 (stats_key us user)" and "t' < t + secs 300" and "\<not> fails' 0"
    and "length (t_images d) < 2 ^ 63"
  shows "us_total_images st = int (length (filter (\<lambda>x. im_user_id x = user) (t_images d))) \<and>
    us_total_size st = sum_list (map im_file_size (filter (\<lambda>x. im_user_id x = user) (t_images d))) \<and>
    get_my_stats (redis_stats_ops exec us) ro g loc fails' t' user d2 s2 =
      (Inr (st\<lparr>us_storage_quota := Option.bind (user_by_id d2 user) u_storage_quota\<rparr>), s2)"
proof -
  let ?n = "int (length (filter (\<lambda>x. im_user_id x = user) (t_images d)))"
    and ?z = "sum_list (map im_file_size (filter (\<lambda>x. im_user_id x = user) (t_images d)))"
  let ?q = "Option.bind (user_by_id d user) u_storage_quota"
  have miss: "try_cached_stats (res_unwrap_or (so_get (redis_stats_ops exec us) s t user) None) lbl q = None" for lbl q
    using stats_cold [OF assms(2)]
    by (simp add: redis_stats_ops_def get_user_stats_up [OF assms(1)] try_cached_stats_def)
  have st: "st = \<lparr>us_total_images = ?n, us_total_size = ?z, us_backend = ro_default ro, us_storage_quota = ?q\<rparr>"
    and s1: "s1 = snd (set_user_stats exec us s t user [(''total_images'', Some ?n), (''total_size'', Some ?z)])"
    and z: "- (2 ^ 63) \<le> ?z" "?z < 2 ^ 63"
    using assms(3) miss
    by (auto simp: get_my_stats_def fetch_user_quota_def query_user_stats_def populate_user_stats_cache_def
        redis_stats_ops_def Let_def split: if_splits)
  have "ks s1 (stats_key us user) = Some (VHash (stats_hash ?n ?z), Some (t + secs 300))"
    unfolding s1 set_user_stats_up [OF assms(1)] by (rule stats_written [OF assms(2)])
  then have "live (ks s2) t' (stats_key us user) = Some (VHash (stats_hash ?n ?z))"
    using assms(4,5) by (simp add: live_def)
  then have hit: "get_user_stats exec us s2 t' user = Inr (Some (stats_hash ?n ?z))"
    by (simp add: get_user_stats_up [OF assms(1)] stats_read)
  have "length (filter (\<lambda>x. im_user_id x = user) (t_images d)) < 2 ^ 63"
    using length_filter_le [of "\<lambda>x. im_user_id x = user" "t_images d"] assms(7) by (rule le_less_trans)
  then have n: "parse_i64 (int_str ?n) = Some ?n"
    by (intro parse_i64_int_str) simp_all
  show ?thesis
    using hit z assms(6) n parse_i64_int_str [of ?z]
    by (simp add: st get_my_stats_def fetch_user_quota_def redis_stats_ops_def try_cached_stats_def stats_hash_def)
qed

text \<open>The statistics of \<open>bob\<close>, asked at an instant of the Redis server's state.\<close>

definition demo_stats :: "instant \<Rightarrow> db \<Rightarrow> key_space \<Rightarrow> (api_error + user_stats) \<times> key_space" where
  "demo_stats t d s = get_my_stats (redis_stats_ops redis_server nat_str)
     \<lparr>ro_backends = [], ro_default = ''local''\<rparr> demo_i18n En no_faults t 7 d s"

definition demo_no_images :: user_stats where
  "demo_no_images = \<lparr>us_total_images = 0, us_total_size = 0, us_backend = ''local'', us_storage_quota = Some 100\<rparr>"

definition demo_one_image :: db where
  "demo_one_image = demo_db\<lparr>t_images :=
     [new_image_row 8 1 7 ''k'' ''n'' ''s'' ''local'' ''image/png'' 5 None None ''h'' ''u'' None]\<rparr>"

theorem stats_stay_five_minutes_witness:
  "fst (demo_stats 8 demo_db (\<lambda>_. None)) = Inr demo_no_images \<and>
   demo_stats 9 demo_one_image (snd (demo_stats 8 demo_db (\<lambda>_. None))) =
     (Inr demo_no_images, snd (demo_stats 8 demo_db (\<lambda>_. None)))"
proof -
  obtain r s1 where r: "demo_stats 8 demo_db (\<lambda>_. None) = (r, s1)" by fastforce
  have cold: "live (\<lambda>_. None) 8 (stats_key nat_str 7) = None" by (simp add: live_def)
  have "r = Inr demo_no_images"
    using r stats_cold [OF cold]
    by (auto simp: demo_stats_def get_my_stats_def fetch_user_quota_def redis_stats_ops_def try_cached_stats_def
        query_user_stats_def demo_no_images_def user_by_id_def demo_db_def empty_db_def)
  moreover from this have "get_my_stats (redis_stats_ops redis_server nat_str)
     \<lparr>ro_backends = [], ro_default = ''local''\<rparr> demo_i18n En no_faults 8 7 demo_db (\<lambda>_. None) = (Inr demo_no_images, s1)"
    using r by (simp add: demo_stats_def)
  note stats_stay_five_minutes [OF redis_server_up cold this, of s1 9 no_faults demo_one_image]
  ultimately show ?thesis
    by (simp add: r) (simp add: demo_stats_def demo_no_images_def user_by_id_def demo_one_image_def demo_db_def
        empty_db_def secs_def nanos_per_sec_def)
qed

end
