(* ===== verification/Storage_Configs.thy ===== *)
theory Storage_Configs
  imports Upload
begin

text \<open>
  A user's storage configurations, \<open>pichost-api/src/routes/storage_configs.rs\<close>, with the table of
  \<open>migrations/0008_user_storage_configs.sql\<close>. The HTTP client that verifies a repository and the
  cipher are the parameters of \<open>Storage\<close> and \<open>Crypto\<close>; the nonce, the new row's id and the time are
  arguments. A handler's answer is \<open>None\<close> when it panics.
\<close>

section \<open>Requests and answers\<close>

record create_config_request =
  cc_name :: string
  cc_provider :: string
  cc_token :: string
  cc_repo :: string
  cc_branch :: "string option"
  cc_path_prefix :: "string option"
  cc_is_default :: "bool option"

record update_config_request =
  uc_name :: "string option"
  uc_token :: "string option"
  uc_repo :: "string option"
  uc_branch :: "string option"
  uc_path_prefix :: "string option"

record config_response =
  cr_id :: uuid
  cr_name :: string
  cr_provider :: string
  cr_repo :: string
  cr_branch :: string
  cr_path_prefix :: "string option"
  cr_is_default :: bool
  cr_token_masked :: string
  cr_created_at :: instant
  cr_updated_at :: instant

text \<open>Indexing a JSON value that has no such key reads null.\<close>

definition json_str :: "json \<Rightarrow> string \<Rightarrow> string option" where
  "json_str v k = Option.bind (obj_get v k) as_str"

definition build_response :: "config_row \<Rightarrow> config_response option" where
  "build_response c =
     (let detail = sc_config c;
          repo = opt_unwrap_or (json_str detail ''repo'') [];
          branch = opt_unwrap_or (json_str detail ''branch'') ''main'';
          path_prefix = json_str detail ''path_prefix'';
          token = opt_unwrap_or (json_str detail ''token_encrypted'') []
      in map_option
           (\<lambda>masked. \<lparr>cr_id = sc_id c, cr_name = sc_name c, cr_provider = sc_provider c, cr_repo = repo,
              cr_branch = branch, cr_path_prefix = path_prefix, cr_is_default = sc_is_default c,
              cr_token_masked = masked, cr_created_at = sc_created_at c, cr_updated_at = sc_updated_at c\<rparr>)
           (mask_token token))"

section \<open>Helpers\<close>

definition config_err :: "i18n \<Rightarrow> language \<Rightarrow> api_error" where
  "config_err g loc = error_json g loc 500 ''common.internal_error''"

definition user_configs :: "db \<Rightarrow> uuid \<Rightarrow> config_row list" where
  "user_configs d user = filter (\<lambda>c. sc_user_id c = user) (t_configs d)"

definition check_config_limit ::
  "nat option \<Rightarrow> i18n \<Rightarrow> language \<Rightarrow> bool \<Rightarrow> db \<Rightarrow> uuid \<Rightarrow> api_error + unit" where
  "check_config_limit max_configs g loc fail d user =
     (let max = opt_unwrap_or max_configs 5
      in if fail then Inl (config_err g loc)
         else if max \<le> length (user_configs d user)
         then Inl (error_json_args g loc 400 ''storage_config.limit'' [nat_str max]) else Inr ())"

definition check_name_unique ::
  "i18n \<Rightarrow> language \<Rightarrow> bool \<Rightarrow> db \<Rightarrow> uuid \<Rightarrow> string \<Rightarrow> api_error + unit" where
  "check_name_unique g loc fail d user name =
     (if fail then Inl (config_err g loc)
      else if list_ex (\<lambda>c. sc_name c = name) (user_configs d user)
      then Inl (error_json g loc 409 ''storage_config.name_exists'') else Inr ())"

definition clear_defaults :: "uuid \<Rightarrow> db \<Rightarrow> db" where
  "clear_defaults user d =
     d\<lparr>t_configs := map (\<lambda>c. if sc_user_id c = user then c\<lparr>sc_is_default := False\<rparr> else c) (t_configs d)\<rparr>"

definition unset_other_defaults ::
  "i18n \<Rightarrow> language \<Rightarrow> bool \<Rightarrow> uuid \<Rightarrow> db \<Rightarrow> (api_error + unit) \<times> db" where
  "unset_other_defaults g loc fail user d =
     (if fail then (Inl (config_err g loc), d)
      else (Inr (), clear_defaults user d))"

definition fetch_user_config ::
  "i18n \<Rightarrow> language \<Rightarrow> bool \<Rightarrow> db \<Rightarrow> uuid \<Rightarrow> uuid \<Rightarrow> api_error + config_row" where
  "fetch_user_config g loc fail d i user =
     (if fail then Inl (config_err g loc)
      else ok_or (find (\<lambda>c. sc_id c = i \<and> sc_user_id c = user) (t_configs d))
             (error_json g loc 404 ''storage_config.not_found''))"

definition encrypt_token_from_config ::
  "crypto_lib \<Rightarrow> string \<Rightarrow> string \<Rightarrow> string \<Rightarrow> app_error + string" where
  "encrypt_token_from_config cl nonce token encryption_key =
     (case rbind (decode_key cl encryption_key) (encrypt_token cl nonce token) of
        Inl e \<Rightarrow> Inl (app_error_from_crypto e)
      | Inr c \<Rightarrow> Inr c)"

definition build_config_json :: "create_config_request \<Rightarrow> string \<Rightarrow> json" where
  "build_config_json req encrypted =
     JObj [(''token_encrypted'', JStr encrypted), (''repo'', JStr (cc_repo req)),
           (''branch'', JStr (opt_unwrap_or (cc_branch req) ''main'')),
           (''path_prefix'', case cc_path_prefix req of None \<Rightarrow> JNull | Some p \<Rightarrow> JStr p)]"

text \<open>Assigning to a key makes an object of null and panics on any other value but an object.\<close>

definition json_assign :: "string \<Rightarrow> string option \<Rightarrow> json \<Rightarrow> json option" where
  "json_assign k v j =
     (case v of
        None \<Rightarrow> Some j
      | Some s \<Rightarrow>
          (case j of
             JNull \<Rightarrow> Some (JObj [(k, JStr s)])
           | JObj kvs \<Rightarrow> Some (JObj (AList.update k (JStr s) kvs))
           | _ \<Rightarrow> None))"

definition merge_config_detail :: "json \<Rightarrow> update_config_request \<Rightarrow> string option \<Rightarrow> json option" where
  "merge_config_detail detail req encrypted_token =
     Option.bind (json_assign ''repo'' (uc_repo req) detail)
       (\<lambda>d1. Option.bind (json_assign ''branch'' (uc_branch req) d1)
         (\<lambda>d2. Option.bind (json_assign ''path_prefix'' (uc_path_prefix req) d2)
           (json_assign ''token_encrypted'' encrypted_token)))"

definition api_base_for_provider :: "string \<Rightarrow> string option" where
  "api_base_for_provider provider =
     (if provider = ''github'' then Some ''https://api.github.com''
      else if provider = ''gitcode'' then Some ''https://api.gitcode.com/api/v5'' else None)"

definition verify_repo_access ::
  "'h http_client \<Rightarrow> i18n \<Rightarrow> language \<Rightarrow> string \<Rightarrow> string \<Rightarrow> string \<Rightarrow> 'h \<Rightarrow> (api_error + unit) \<times> 'h" where
  "verify_repo_access http g loc provider token repo h =
     (case api_base_for_provider provider of
        None \<Rightarrow> (Inl (error_json g loc 400 ''storage_config.unsupported_type''), h)
      | Some api_base \<Rightarrow>
          (case http h \<lparr>hq_method = ''GET'', hq_url = api_base @ ''/repos/'' @ repo,
                        hq_authorization = ''Bearer '' @ token, hq_query = [], hq_body = None\<rparr> of
             (None, h') \<Rightarrow> (Inl (error_json_args g loc 400 ''storage_config.repo_unreachable'' [''request failed'']), h')
           | (Some resp, h') \<Rightarrow>
               (let code = hs_status resp
                in if code = 200 \<or> code = 302 then (Inr (), h')
                   else if code = 401 \<or> code = 403
                   then (Inl (error_json g loc 400 ''storage_config.token_invalid''), h')
                   else if code = 404 then (Inl (error_json g loc 400 ''storage_config.repo_not_found''), h')
                   else (Inl (error_json_args g loc 400 ''storage_config.repo_verify_failed''
                           [nat_str code, opt_unwrap_or (hs_body resp) []]), h'))))"

section \<open>Handlers\<close>

definition list_configs ::
  "i18n \<Rightarrow> language \<Rightarrow> bool \<Rightarrow> db \<Rightarrow> uuid \<Rightarrow> (api_error + config_response list) option" where
  "list_configs g loc fail d user =
     (if fail then Some (Inl (config_err g loc))
      else map_option Inr
             (those (map build_response (sort_key sc_created_at (user_configs d user)))))"

text \<open>The constraints of the table: widths (PostgreSQL), key, owner, name and the one default.\<close>

definition configs_accept :: "database_mode \<Rightarrow> db \<Rightarrow> config_row \<Rightarrow> bool" where
  "configs_accept mode d c \<longleftrightarrow>
     (mode = PostgresMode \<longrightarrow> char_count (sc_name c) \<le> 64 \<and> char_count (sc_provider c) \<le> 16) \<and>
     sc_id c \<notin> set (map sc_id (t_configs d)) \<and> sc_user_id c \<in> set (map u_id (t_users d)) \<and>
     \<not> list_ex (\<lambda>b. sc_name b = sc_name c \<or> sc_is_default b \<and> sc_is_default c) (user_configs d (sc_user_id c))"

definition insert_config ::
  "database_mode \<Rightarrow> i18n \<Rightarrow> language \<Rightarrow> bool \<Rightarrow> config_row \<Rightarrow> db \<Rightarrow> (api_error + config_row) \<times> db" where
  "insert_config mode g loc fail c d =
     (if fail \<or> \<not> configs_accept mode d c then (Inl (config_err g loc), d)
      else (Inr c, d\<lparr>t_configs := t_configs d @ [c]\<rparr>))"

definition config_from_request ::
  "instant \<Rightarrow> uuid \<Rightarrow> uuid \<Rightarrow> create_config_request \<Rightarrow> string \<Rightarrow> config_row" where
  "config_from_request now new_id user req encrypted =
     \<lparr>sc_id = new_id, sc_user_id = user, sc_name = cc_name req, sc_provider = cc_provider req,
      sc_is_default = opt_unwrap_or (cc_is_default req) False, sc_config = build_config_json req encrypted,
      sc_created_at = now, sc_updated_at = now\<rparr>"

text \<open>What precedes the writes of \<open>create_config\<close>; its result is the encrypted token.\<close>

definition prepare_config ::
  "'h http_client \<Rightarrow> crypto_lib \<Rightarrow> app_config \<Rightarrow> i18n \<Rightarrow> language \<Rightarrow> faults \<Rightarrow> string \<Rightarrow> uuid \<Rightarrow>
   create_config_request \<Rightarrow> db \<Rightarrow> 'h \<Rightarrow> (api_error + string) \<times> 'h" where
  "prepare_config http cl cfg g loc fails nonce user req d h =
     (if cc_provider req \<notin> {''github'', ''gitcode''}
      then (Inl (error_json g loc 400 ''storage_config.unsupported_provider''), h)
      else
        (case rbind (check_config_limit (cf_storage_max_user_configs cfg) g loc (fails 0) d user)
                (\<lambda>_. check_name_unique g loc (fails 1) d user (cc_name req)) of
           Inl e \<Rightarrow> (Inl e, h)
         | Inr _ \<Rightarrow>
             (case verify_repo_access http g loc (cc_provider req) (cc_token req) (cc_repo req) h of
                (Inl e, h') \<Rightarrow> (Inl e, h')
              | (Inr _, h') \<Rightarrow>
                  (rbind (ok_or (cf_token_encryption_key cfg)
                            (error_json g loc 500 ''storage_config.encryption_key_missing''))
                     (\<lambda>key. case encrypt_token_from_config cl nonce (cc_token req) key of
                              Inl e \<Rightarrow> Inl (config_err g loc) | Inr c \<Rightarrow> Inr c), h'))))"

definition create_config ::
  "'h http_client \<Rightarrow> crypto_lib \<Rightarrow> app_config \<Rightarrow> i18n \<Rightarrow> language \<Rightarrow> faults \<Rightarrow> instant \<Rightarrow> uuid \<Rightarrow> string \<Rightarrow> uuid \<Rightarrow>
   create_config_request \<Rightarrow> db \<Rightarrow> 'h \<Rightarrow> (api_error + status_code \<times> config_response) option \<times> db \<times> 'h" where
  "create_config http cl cfg g loc fails now new_id nonce user req d h =
     (case prepare_config http cl cfg g loc fails nonce user req d h of
        (Inl e, h') \<Rightarrow> (Some (Inl e), d, h')
      | (Inr encrypted, h') \<Rightarrow>
          (let c = config_from_request now new_id user req encrypted
           in case (if sc_is_default c then unset_other_defaults g loc (fails 2) user d else (Inr (), d)) of
                (Inl e, d1) \<Rightarrow> (Some (Inl e), d1, h')
              | (Inr _, d1) \<Rightarrow>
                  (case insert_config (dc_mode (cf_database cfg)) g loc (fails 3) c d1 of
                     (Inl e, d2) \<Rightarrow> (Some (Inl e), d2, h')
                   | (Inr row, d2) \<Rightarrow>
                       (map_option (\<lambda>r. Inr (201, r)) (build_response row), d2, h'))))"

definition get_config ::
  "i18n \<Rightarrow> language \<Rightarrow> bool \<Rightarrow> db \<Rightarrow> uuid \<Rightarrow> uuid \<Rightarrow> (api_error + config_response) option" where
  "get_config g loc fail d user i =
     (case fetch_user_config g loc fail d i user of
        Inl e \<Rightarrow> Some (Inl e)
      | Inr config \<Rightarrow> map_option Inr (build_response config))"

definition set_config :: "(config_row \<Rightarrow> config_row) \<Rightarrow> uuid \<Rightarrow> uuid \<Rightarrow> db \<Rightarrow> db" where
  "set_config f i user d =
     d\<lparr>t_configs := map (\<lambda>c. if sc_id c = i \<and> sc_user_id c = user then f c else c) (t_configs d)\<rparr>"

definition update_config ::
  "crypto_lib \<Rightarrow> app_config \<Rightarrow> i18n \<Rightarrow> language \<Rightarrow> faults \<Rightarrow> instant \<Rightarrow> string \<Rightarrow> uuid \<Rightarrow> uuid \<Rightarrow>
   update_config_request \<Rightarrow> db \<Rightarrow> (api_error + config_response) option \<times> db" where
  "update_config cl cfg g loc fails now nonce user i req d =
     (case fetch_user_config g loc (fails 0) d i user of
        Inl e \<Rightarrow> (Some (Inl e), d)
      | Inr existing \<Rightarrow>
          (let new_name = opt_unwrap_or (uc_name req) (sc_name existing)
           in case rbind (if new_name \<noteq> sc_name existing
                          then check_name_unique g loc (fails 1) d user new_name else Inr ())
                     (\<lambda>_. case uc_token req of
                            None \<Rightarrow> Inr None
                          | Some token \<Rightarrow>
                              rbind (ok_or (cf_token_encryption_key cfg)
                                       (error_json g loc 500 ''storage_config.encryption_key_missing''))
                                (\<lambda>key. case encrypt_token_from_config cl nonce token key of
                                         Inl e \<Rightarrow> Inl (config_err g loc) | Inr c \<Rightarrow> Inr (Some c))) of
                Inl e \<Rightarrow> (Some (Inl e), d)
              | Inr encrypted_token \<Rightarrow>
                  (case merge_config_detail (sc_config existing) req encrypted_token of
                     None \<Rightarrow> (None, d)
                   | Some detail \<Rightarrow>
                       (let f = (\<lambda>c. c\<lparr>sc_name := new_name, sc_config := detail, sc_updated_at := now\<rparr>);
                            others = filter (\<lambda>c. sc_id c \<noteq> i) (user_configs d user)
                        in if fails 2 \<or> (dc_mode (cf_database cfg) = PostgresMode \<and> 64 < char_count new_name) \<or>
                              list_ex (\<lambda>c. sc_name c = new_name) others
                           then (Some (Inl (config_err g loc)), d)
                           else (map_option Inr (build_response (f existing)), set_config f i user d)))))"

text \<open>The count is of the caller's images; the foreign key of \<open>images\<close> restricts whose ever they are.\<close>

definition delete_config ::
  "i18n \<Rightarrow> language \<Rightarrow> faults \<Rightarrow> uuid \<Rightarrow> uuid \<Rightarrow> db \<Rightarrow> (api_error + status_code) \<times> db" where
  "delete_config g loc fails user i d =
     (case fetch_user_config g loc (fails 0) d i user of
        Inl e \<Rightarrow> (Inl e, d)
      | Inr existing \<Rightarrow>
          (if fails 1 then (Inl (config_err g loc), d)
           else if list_ex (\<lambda>x. im_storage_config_id x = Some i \<and> im_user_id x = user) (t_images d)
           then (Inl (error_json g loc 409 ''storage_config.in_use''), d)
           else if fails 2 \<or> list_ex (\<lambda>x. im_storage_config_id x = Some i) (t_images d)
           then (Inl (config_err g loc), d)
           else (Inr 204, d\<lparr>t_configs := filter (\<lambda>c. \<not> (sc_id c = i \<and> sc_user_id c = user)) (t_configs d)\<rparr>)))"

definition set_default ::
  "i18n \<Rightarrow> language \<Rightarrow> faults \<Rightarrow> instant \<Rightarrow> uuid \<Rightarrow> uuid \<Rightarrow> db \<Rightarrow> (api_error + config_response) option \<times> db" where
  "set_default g loc fails now user i d =
     (case fetch_user_config g loc (fails 0) d i user of
        Inl e \<Rightarrow> (Some (Inl e), d)
      | Inr existing \<Rightarrow>
          (case unset_other_defaults g loc (fails 1) user d of
             (Inl e, d1) \<Rightarrow> (Some (Inl e), d1)
           | (Inr _, d1) \<Rightarrow>
               (if fails 2 then (Some (Inl (config_err g loc)), d1)
                else
                  (let f = (\<lambda>c. c\<lparr>sc_is_default := True, sc_updated_at := now\<rparr>)
                   in (map_option Inr (build_response (f existing)), set_config f i user d1)))))"

section \<open>Sequences of requests\<close>

text \<open>
  One request to the routes of the module, as a step of the database: the strings of a request are
  UTF-8, the nonce has its twelve bytes, and the remote service may answer anything.
\<close>

inductive config_step :: "crypto_lib \<Rightarrow> app_config \<Rightarrow> db \<Rightarrow> db \<Rightarrow> bool" for cl cfg where
  created: "length nonce = 12 \<Longrightarrow> cl_utf8 cl (cc_token req) \<Longrightarrow>
    create_config http cl cfg g loc fails now new_id nonce user req d (h :: unit) = (r, d', h') \<Longrightarrow>
    config_step cl cfg d d'"
| updated: "length nonce = 12 \<Longrightarrow> (\<forall>t. uc_token ureq = Some t \<longrightarrow> cl_utf8 cl t) \<Longrightarrow>
    update_config cl cfg g loc fails now nonce user i ureq d = (ru, d') \<Longrightarrow> config_step cl cfg d d'"
| deleted: "delete_config g loc fails user i d = (rd, d') \<Longrightarrow> config_step cl cfg d d'"
| defaulted: "set_default g loc fails now user i d = (ru, d') \<Longrightarrow> config_step cl cfg d d'"

inductive config_reachable :: "crypto_lib \<Rightarrow> app_config \<Rightarrow> db \<Rightarrow> db \<Rightarrow> bool" for cl cfg d0 where
  config_start: "config_reachable cl cfg d0 d0"
| config_next: "config_reachable cl cfg d0 d \<Longrightarrow> config_step cl cfg d d' \<Longrightarrow> config_reachable cl cfg d0 d'"

end
