(* ===== verification/Storage_Configs_Props.thy ===== *)
theory Storage_Configs_Props
  imports Storage_Configs Upload_Props
begin

text \<open>
  Facts on the storage configurations: what every sequence of requests keeps of the table, and what
  it means for uploads, which ask for a local configuration that no request can make, and for the
  router, which no request tells of a change.
\<close>

section \<open>Unique rows\<close>

lemma distinct_map_filter_iff:
  "distinct xs \<Longrightarrow> distinct (map f (filter P xs)) \<longleftrightarrow>
     (\<forall>a \<in> set xs. \<forall>b \<in> set xs. P a \<and> P b \<and> f a = f b \<longrightarrow> a = b)"
  by (auto simp: distinct_map inj_on_def)

lemma configs_unique_iff:
  "configs_unique cs \<longleftrightarrow> distinct (map sc_id cs) \<and>
     (\<forall>a \<in> set cs. \<forall>b \<in> set cs. sc_user_id a = sc_user_id b \<and>
        (sc_name a = sc_name b \<or> sc_is_default a \<and> sc_is_default b) \<longrightarrow> sc_id a = sc_id b)"
proof (cases "distinct (map sc_id cs)")
  case True
  then have d: "distinct cs" and e: "a = b" if "a \<in> set cs" "b \<in> set cs" "sc_id a = sc_id b" for a b
    using that by (auto simp: distinct_map dest: inj_onD)
  have "distinct cs" using True by (simp add: distinct_map)
  then show ?thesis
    using True e distinct_map_filter_iff [of cs "\<lambda>c. (sc_user_id c, sc_name c)" "\<lambda>_. True"]
      distinct_map_filter_iff [of cs sc_user_id sc_is_default]
    unfolding configs_unique_def by (simp; blast)
qed (simp add: configs_unique_def)

text \<open>Rows rewritten one by one, with the ids and owners kept.\<close>

lemma configs_unique_map:
  assumes "configs_unique cs" and "\<And>c. sc_id (f c) = sc_id c" and "\<And>c. sc_user_id (f c) = sc_user_id c"
    and "\<And>a b. a \<in> set cs \<Longrightarrow> b \<in> set cs \<Longrightarrow> sc_user_id a = sc_user_id b \<Longrightarrow> sc_id a \<noteq> sc_id b \<Longrightarrow>
      sc_name (f a) \<noteq> sc_name (f b) \<and> \<not> (sc_is_default (f a) \<and> sc_is_default (f b))"
  shows "configs_unique (map f cs)"
proof -
  have "map sc_id (map f cs) = map sc_id cs" using assms(2) by simp
  then have d: "distinct (map sc_id (map f cs))" using assms(1) unfolding configs_unique_iff by metis
  show ?thesis
    unfolding configs_unique_iff
  proof (intro conjI d ballI impI)
    fix a b
    assume "a \<in> set (map f cs)" "b \<in> set (map f cs)"
    then obtain x y where xy: "x \<in> set cs" "y \<in> set cs" "a = f x" "b = f y" unfolding set_map by blast
    assume "sc_user_id a = sc_user_id b \<and> (sc_name a = sc_name b \<or> sc_is_default a \<and> sc_is_default b)"
    then show "sc_id a = sc_id b" using assms(4) [OF xy(1,2)] unfolding xy(3,4) assms(2,3) by blast
  qed
qed

lemma configs_uniqueD:
  "configs_unique cs \<Longrightarrow> a \<in> set cs \<Longrightarrow> b \<in> set cs \<Longrightarrow> sc_user_id a = sc_user_id b \<Longrightarrow> sc_id a \<noteq> sc_id b \<Longrightarrow>
   sc_name a \<noteq> sc_name b \<and> \<not> (sc_is_default a \<and> sc_is_default b)"
  unfolding configs_unique_iff by blast

section \<open>What a row holds\<close>

text \<open>A git configuration whose detail reads as \<open>GitConfigDetail\<close> and whose token decrypts.\<close>

definition config_typed :: "crypto_lib \<Rightarrow> string \<Rightarrow> config_row \<Rightarrow> bool" where
  "config_typed cl key c \<longleftrightarrow> sc_provider c \<in> {''github'', ''gitcode''} \<and>
     (\<exists>detail. git_config_of_json (sc_config c) = Some detail \<and>
        is_ok (decrypt_token cl (gd_token_encrypted detail) key))"

definition configs_ok :: "crypto_lib \<Rightarrow> string \<Rightarrow> nat \<Rightarrow> db \<Rightarrow> bool" where
  "configs_ok cl key limit d \<longleftrightarrow> configs_unique (t_configs d) \<and>
     (\<forall>c \<in> set (t_configs d). config_typed cl key c) \<and> (\<forall>u. length (user_configs d u) \<le> limit)"

lemma git_detail_assign:
  assumes "git_config_of_json (JObj kvs) = Some det"
  shows "git_config_of_json (JObj (AList.update ''repo'' (JStr s) kvs)) = Some (det\<lparr>gd_repo := s\<rparr>)"
    and "git_config_of_json (JObj (AList.update ''branch'' (JStr s) kvs)) = Some (det\<lparr>gd_branch := s\<rparr>)"
    and "git_config_of_json (JObj (AList.update ''path_prefix'' (JStr s) kvs)) = Some (det\<lparr>gd_path_prefix := Some s\<rparr>)"
    and "git_config_of_json (JObj (AList.update ''token_encrypted'' (JStr s) kvs)) = Some (det\<lparr>gd_token_encrypted := s\<rparr>)"
  using assms
  by (auto simp: git_config_of_json_def update_conv' split: option.splits json.splits)

lemma git_detail_object: "git_config_of_json v = Some det \<Longrightarrow> \<exists>kvs. v = JObj kvs"
  by (cases v) (auto simp: git_config_of_json_def obj_get_def)

lemma assign_typed:
  assumes "git_config_of_json v = Some det" and "json_assign k s v = Some v'"
    and "k \<in> {''repo'', ''branch'', ''path_prefix''}"
  shows "\<exists>det'. git_config_of_json v' = Some det' \<and> gd_token_encrypted det' = gd_token_encrypted det"
  using assms git_detail_object [OF assms(1)] git_detail_assign
  by (cases s) (auto simp: json_assign_def)

lemma merge_typed:
  assumes "git_config_of_json v = Some det" and "merge_config_detail v req enc = Some v'"
  shows "\<exists>det'. git_config_of_json v' = Some det' \<and>
    gd_token_encrypted det' = opt_unwrap_or enc (gd_token_encrypted det)"
proof -
  obtain v1 v2 v3 where v: "json_assign ''repo'' (uc_repo req) v = Some v1"
    "json_assign ''branch'' (uc_branch req) v1 = Some v2" "json_assign ''path_prefix'' (uc_path_prefix req) v2 = Some v3"
    "json_assign ''token_encrypted'' enc v3 = Some v'"
    using assms(2) by (auto simp: merge_config_detail_def bind_eq_Some_conv)
  obtain det3 where d3: "git_config_of_json v3 = Some det3" "gd_token_encrypted det3 = gd_token_encrypted det"
    using assign_typed [OF assms(1) v(1)] assign_typed [OF _ v(2)] assign_typed [OF _ v(3)] by fastforce
  show ?thesis
    using v(4) d3 git_detail_object [OF d3(1)] git_detail_assign(4)
    by (cases enc) (auto simp: json_assign_def)
qed

text \<open>The token of a new row decrypts under the key of the server.\<close>

lemma encrypted_decrypts:
  assumes "crypto_laws cl" and "decode_key cl e = Inr key" and "length nonce = 12" and "cl_utf8 cl token"
    and "encrypt_token_from_config cl nonce token e = Inr enc"
  shows "is_ok (decrypt_token cl enc key)"
proof -
  have "encrypt_token cl nonce token key = Inr enc"
    using assms(2,5) by (auto simp: encrypt_token_from_config_def split: sum.splits)
  from decrypt_encrypted [OF assms(1-4) this] show ?thesis by simp
qed

lemma new_config_typed:
  assumes "cc_provider req \<in> {''github'', ''gitcode''}" and "is_ok (decrypt_token cl enc key)"
  shows "config_typed cl key (config_from_request now i user req enc)"
  using assms
  by (auto simp: config_typed_def config_from_request_def build_config_json_def git_config_of_json_def
      split: option.split)

section \<open>What each request does to the table\<close>

lemma clear_defaults_configs:
  "t_configs (clear_defaults user d) =
     map (\<lambda>c. if sc_user_id c = user then c\<lparr>sc_is_default := False\<rparr> else c) (t_configs d)"
  by (simp add: clear_defaults_def)

lemma no_default_left:
  assumes "c \<in> set (t_configs (clear_defaults user d))" and "sc_user_id c = user"
  shows "\<not> sc_is_default c"
proof -
  obtain b where b: "c = (if sc_user_id b = user then b\<lparr>sc_is_default := False\<rparr> else b)"
    using assms(1) unfolding clear_defaults_configs set_map by (elim imageE)
  show ?thesis using assms(2) unfolding b by (cases "sc_user_id b = user") simp_all
qed

lemma user_configs_map:
  "(\<And>c. sc_user_id (f c) = sc_user_id c) \<Longrightarrow>
   user_configs (d\<lparr>t_configs := map f (t_configs d)\<rparr>) u = map f (user_configs d u)"
  by (simp add: user_configs_def filter_map o_def)

text \<open>A request that rewrites rows keeps the table in order.\<close>

lemma configs_ok_map:
  assumes "configs_ok cl key limit d"
    and "\<And>c. sc_id (f c) = sc_id c" and "\<And>c. sc_user_id (f c) = sc_user_id c"
    and "\<And>c. c \<in> set (t_configs d) \<Longrightarrow> config_typed cl key (f c)"
    and "\<And>a b. a \<in> set (t_configs d) \<Longrightarrow> b \<in> set (t_configs d) \<Longrightarrow> sc_user_id a = sc_user_id b \<Longrightarrow>
      sc_id a \<noteq> sc_id b \<Longrightarrow> sc_name (f a) \<noteq> sc_name (f b) \<and> \<not> (sc_is_default (f a) \<and> sc_is_default (f b))"
  shows "configs_ok cl key limit (d\<lparr>t_configs := map f (t_configs d)\<rparr>)"
proof -
  have "configs_unique (map f (t_configs d))"
    using assms(1) unfolding configs_ok_def by (intro configs_unique_map assms(2-5)) auto
  moreover have "length (user_configs (d\<lparr>t_configs := map f (t_configs d)\<rparr>) u) \<le> limit" for u
    using assms(1) by (simp add: user_configs_map assms(3) configs_ok_def)
  ultimately show ?thesis using assms(4) by (simp add: configs_ok_def)
qed

lemma config_typed_default: "config_typed cl key (c\<lparr>sc_is_default := b\<rparr>) = config_typed cl key c"
  by (simp add: config_typed_def)

lemma configs_okD:
  assumes "configs_ok cl key limit d" and "a \<in> set (t_configs d)"
  shows "config_typed cl key a"
    and "b \<in> set (t_configs d) \<Longrightarrow> sc_user_id a = sc_user_id b \<Longrightarrow> sc_id a \<noteq> sc_id b \<Longrightarrow>
      sc_name a \<noteq> sc_name b \<and> \<not> (sc_is_default a \<and> sc_is_default b)"
  using assms configs_uniqueD [of "t_configs d" a b] by (auto simp: configs_ok_def)

lemma configs_ok_clear: "configs_ok cl key limit d \<Longrightarrow> configs_ok cl key limit (clear_defaults user d)"
  unfolding clear_defaults_def
  by (rule configs_ok_map) (auto simp: config_typed_default dest: configs_okD)

lemma fetch_user_config_Inr:
  "fetch_user_config g loc fail d i user = Inr c \<Longrightarrow>
   c \<in> set (t_configs d) \<and> sc_id c = i \<and> sc_user_id c = user \<and>
   find (\<lambda>c. sc_id c = i \<and> sc_user_id c = user) (t_configs d) = Some c"
  by (auto simp: fetch_user_config_def ok_or_def split: if_splits option.splits dest: find_SomeD)

lemma set_default_cases:
  assumes "set_default g loc fails now user i d = (r, d')"
  shows "d' = d \<or> d' = clear_defaults user d \<or>
    (\<exists>c. fetch_user_config g loc (fails 0) d i user = Inr c \<and>
       r = map_option Inr (build_response (c\<lparr>sc_is_default := True, sc_updated_at := now\<rparr>)) \<and>
       d' = set_config (\<lambda>c. c\<lparr>sc_is_default := True, sc_updated_at := now\<rparr>) i user (clear_defaults user d))"
  using assms by (auto simp: set_default_def unset_other_defaults_def Let_def split: sum.splits if_splits)

lemma configs_ok_default:
  assumes "configs_ok cl key limit d"
  shows "configs_ok cl key limit
    (set_config (\<lambda>c. c\<lparr>sc_is_default := True, sc_updated_at := now\<rparr>) i user (clear_defaults user d))"
proof -
  let ?d = "clear_defaults user d"
  let ?f = "\<lambda>c. if sc_id c = i \<and> sc_user_id c = user then c\<lparr>sc_is_default := True, sc_updated_at := now\<rparr> else c"
  note ok = configs_ok_clear [OF assms, of user]
  have sel: "sc_id (?f c) = sc_id c" "sc_user_id (?f c) = sc_user_id c" "sc_name (?f c) = sc_name c"
    "sc_is_default (?f c) = (sc_id c = i \<and> sc_user_id c = user \<or> sc_is_default c)"
    "config_typed cl key (?f c) = config_typed cl key c" for c
    by (auto simp: config_typed_def)
  note off = no_default_left [of _ user d]
  have "configs_ok cl key limit (?d\<lparr>t_configs := map ?f (t_configs ?d)\<rparr>)"
  proof (rule configs_ok_map [OF ok sel(1,2)])
    show "config_typed cl key (?f c)" if "c \<in> set (t_configs ?d)" for c
      unfolding sel(5) using ok that by (rule configs_okD(1))
    show "sc_name (?f a) \<noteq> sc_name (?f b) \<and> \<not> (sc_is_default (?f a) \<and> sc_is_default (?f b))"
      if ab: "a \<in> set (t_configs ?d)" "b \<in> set (t_configs ?d)" "sc_user_id a = sc_user_id b" "sc_id a \<noteq> sc_id b"
      for a b
      unfolding sel(3,4) using configs_okD(2) [OF ok ab] off [OF ab(1)] off [OF ab(2)] ab(3,4) by metis
  qed
  then show ?thesis by (simp only: set_config_def)
qed

lemma configs_ok_filter:
  assumes "configs_ok cl key limit d"
  shows "configs_ok cl key limit (d\<lparr>t_configs := filter P (t_configs d)\<rparr>)"
proof -
  have "length (filter (\<lambda>c. sc_user_id c = u) (filter P (t_configs d))) \<le> limit" for u
  proof -
    have "filter (\<lambda>c. sc_user_id c = u) (filter P (t_configs d)) = filter P (user_configs d u)"
      by (simp add: user_configs_def conj_commute)
    then show ?thesis using assms length_filter_le [of P "user_configs d u"] unfolding configs_ok_def
      by (metis le_trans)
  qed
  then show ?thesis
    using assms unfolding configs_ok_def configs_unique_iff user_configs_def
    by (simp add: distinct_map_filter)
qed

lemma configs_ok_delete:
  assumes "configs_ok cl key limit d" and "delete_config g loc fails user i d = (r, d')"
  shows "configs_ok cl key limit d'"
proof -
  have "d' = d \<or> d' = d\<lparr>t_configs := filter (\<lambda>c. \<not> (sc_id c = i \<and> sc_user_id c = user)) (t_configs d)\<rparr>"
    using assms(2) by (auto simp: delete_config_def split: sum.splits if_splits)
  then show ?thesis using assms(1) configs_ok_filter [OF assms(1)] by auto
qed

lemma prepare_config_Inr:
  assumes "prepare_config http cl cfg g loc fails nonce user req d h = (Inr enc, h')"
  obtains e where "cc_provider req \<in> {''github'', ''gitcode''}" "cf_token_encryption_key cfg = Some e"
    "length (user_configs d user) < opt_unwrap_or (cf_storage_max_user_configs cfg) 5"
    "encrypt_token_from_config cl nonce (cc_token req) e = Inr enc"
  using assms
  by (cases "cf_token_encryption_key cfg")
    (auto simp: prepare_config_def rbind_eq_Inr check_config_limit_def Let_def not_le
      split: if_splits sum.splits prod.splits)

lemma create_config_cases:
  assumes "create_config http cl cfg g loc fails now new_id nonce user req d h = (r, d', h')"
  shows "d' = d \<or> d' = clear_defaults user d \<or>
    (\<exists>enc h1 d1. prepare_config http cl cfg g loc fails nonce user req d h = (Inr enc, h1) \<and>
       d1 = (if opt_unwrap_or (cc_is_default req) False then clear_defaults user d else d) \<and>
       configs_accept (dc_mode (cf_database cfg)) d1 (config_from_request now new_id user req enc) \<and>
       d' = d1\<lparr>t_configs := t_configs d1 @ [config_from_request now new_id user req enc]\<rparr>)"
proof -
  obtain x h1 where p: "prepare_config http cl cfg g loc fails nonce user req d h = (x, h1)" by fastforce
  show ?thesis
  proof (cases x)
    case (Inl e)
    then show ?thesis using assms p by (simp add: create_config_def)
  next
    case (Inr enc)
    have s: "sc_is_default (config_from_request now new_id user req enc) = opt_unwrap_or (cc_is_default req) False"
      by (simp add: config_from_request_def)
    show ?thesis
      using assms p Inr s
      by (cases "opt_unwrap_or (cc_is_default req) False")
        (auto simp: create_config_def Let_def unset_other_defaults_def insert_config_def split: if_splits)
  qed
qed

lemma configs_ok_append:
  assumes "configs_ok cl key limit d" and "config_typed cl key c" and "configs_accept mode d c"
    and "length (user_configs d (sc_user_id c)) < limit"
  shows "configs_ok cl key limit (d\<lparr>t_configs := t_configs d @ [c]\<rparr>)"
proof -
  have new: "sc_name b \<noteq> sc_name c \<and> \<not> (sc_is_default b \<and> sc_is_default c)"
    if "b \<in> set (t_configs d)" "sc_user_id b = sc_user_id c" for b
    using assms(3) that unfolding configs_accept_def list_ex_iff user_configs_def by auto
  have i: "sc_id c \<notin> set (map sc_id (t_configs d))" using assms(3) unfolding configs_accept_def by blast
  have u: "distinct (map sc_id (t_configs d))" using assms(1) by (simp only: configs_ok_def configs_unique_def)
  have "configs_unique (t_configs d @ [c])"
    unfolding configs_unique_iff
  proof (intro conjI ballI impI)
    fix a b
    assume ab: "a \<in> set (t_configs d @ [c])" "b \<in> set (t_configs d @ [c])"
      "sc_user_id a = sc_user_id b \<and> (sc_name a = sc_name b \<or> sc_is_default a \<and> sc_is_default b)"
    show "sc_id a = sc_id b"
    proof (cases "a = c \<or> b = c")
      case True
      then show ?thesis using ab new [of a] new [of b] by auto
    next
      case False
      then show ?thesis using ab configs_okD(2) [OF assms(1), of a b] by auto
    qed
  qed (use i u in simp)
  then show ?thesis
    using assms(1,2,4) by (auto simp: configs_ok_def user_configs_def)
qed

lemma configs_ok_create:
  assumes "configs_ok cl key (opt_unwrap_or (cf_storage_max_user_configs cfg) 5) d"
    and "crypto_laws cl" and "cf_token_encryption_key cfg = Some e" and "decode_key cl e = Inr key"
    and "length nonce = 12" and "cl_utf8 cl (cc_token req)"
    and "create_config http cl cfg g loc fails now new_id nonce user req d h = (r, d', h')"
  shows "configs_ok cl key (opt_unwrap_or (cf_storage_max_user_configs cfg) 5) d'"
  using create_config_cases [OF assms(7)]
proof (elim disjE exE conjE)
  fix enc h1 d1
  assume p: "prepare_config http cl cfg g loc fails nonce user req d h = (Inr enc, h1)"
    and d1: "d1 = (if opt_unwrap_or (cc_is_default req) False then clear_defaults user d else d)"
    and acc: "configs_accept (dc_mode (cf_database cfg)) d1 (config_from_request now new_id user req enc)"
    and d': "d' = d1\<lparr>t_configs := t_configs d1 @ [config_from_request now new_id user req enc]\<rparr>"
  obtain e' where e': "cc_provider req \<in> {''github'', ''gitcode''}" "cf_token_encryption_key cfg = Some e'"
    "length (user_configs d user) < opt_unwrap_or (cf_storage_max_user_configs cfg) 5"
    "encrypt_token_from_config cl nonce (cc_token req) e' = Inr enc"
    using prepare_config_Inr [OF p] by metis
  have "is_ok (decrypt_token cl enc key)"
    using encrypted_decrypts [OF assms(2,4,5,6)] e'(2,4) assms(3) by simp
  note typed = new_config_typed [OF e'(1) this]
  have ok: "configs_ok cl key (opt_unwrap_or (cf_storage_max_user_configs cfg) 5) d1"
    using assms(1) by (simp add: d1 configs_ok_clear)
  have "length (user_configs d1 user) = length (user_configs d user)"
    by (simp add: d1 clear_defaults_def user_configs_map)
  then have "length (user_configs d1 (sc_user_id (config_from_request now new_id user req enc))) <
      opt_unwrap_or (cf_storage_max_user_configs cfg) 5"
    using e'(3) by (simp add: config_from_request_def)
  from configs_ok_append [OF ok typed acc this] show ?thesis by (simp only: d')
qed (use assms(1) in \<open>simp_all add: configs_ok_clear\<close>)

lemma update_config_cases:
  assumes "update_config cl cfg g loc fails now nonce user i req d = (r, d')"
  shows "d' = d \<or>
    (\<exists>old enc detail. fetch_user_config g loc (fails 0) d i user = Inr old \<and>
       (case uc_token req of
          None \<Rightarrow> enc = None
        | Some t \<Rightarrow> \<exists>e x. cf_token_encryption_key cfg = Some e \<and> enc = Some x \<and>
            encrypt_token_from_config cl nonce t e = Inr x) \<and>
       merge_config_detail (sc_config old) req enc = Some detail \<and>
       \<not> list_ex (\<lambda>c. sc_name c = opt_unwrap_or (uc_name req) (sc_name old))
          (filter (\<lambda>c. sc_id c \<noteq> i) (user_configs d user)) \<and>
       d' = set_config (\<lambda>c. c\<lparr>sc_name := opt_unwrap_or (uc_name req) (sc_name old), sc_config := detail,
              sc_updated_at := now\<rparr>) i user d)"
proof (cases "fetch_user_config g loc (fails 0) d i user")
  case (Inl e)
  then show ?thesis using assms by (simp add: update_config_def)
next
  case (Inr old)
  let ?n = "opt_unwrap_or (uc_name req) (sc_name old)"
  let ?enc = "case uc_token req of
      None \<Rightarrow> Inr None
    | Some token \<Rightarrow> rbind (ok_or (cf_token_encryption_key cfg)
           (error_json g loc 500 ''storage_config.encryption_key_missing''))
        (\<lambda>key. case encrypt_token_from_config cl nonce token key of
             Inl e \<Rightarrow> Inl (config_err g loc) | Inr c \<Rightarrow> Inr (Some c))"
  show ?thesis
  proof (cases "rbind (if ?n \<noteq> sc_name old then check_name_unique g loc (fails 1) d user ?n else Inr ()) (\<lambda>_. ?enc)")
    case (Inl e)
    then show ?thesis using assms Inr by (simp add: update_config_def Let_def)
  next
    case pre: (Inr enc)
    then have "?enc = Inr enc" by (simp add: rbind_eq_Inr)
    then have enc: "case uc_token req of
          None \<Rightarrow> enc = None
        | Some t \<Rightarrow> \<exists>e x. cf_token_encryption_key cfg = Some e \<and> enc = Some x \<and>
            encrypt_token_from_config cl nonce t e = Inr x"
      by (cases "uc_token req"; cases "cf_token_encryption_key cfg") (auto split: sum.splits)
    show ?thesis
    proof (cases "merge_config_detail (sc_config old) req enc")
      case None
      then show ?thesis using assms Inr pre by (simp add: update_config_def Let_def)
    next
      case (Some detail)
      then show ?thesis using assms Inr pre enc by (auto simp: update_config_def Let_def split: if_splits)
    qed
  qed
qed

lemma configs_ok_update:
  assumes "configs_ok cl key limit d" and "crypto_laws cl" and "cf_token_encryption_key cfg = Some e"
    and "decode_key cl e = Inr key" and "length nonce = 12" and "\<forall>t. uc_token req = Some t \<longrightarrow> cl_utf8 cl t"
    and "update_config cl cfg g loc fails now nonce user i req d = (r, d')"
  shows "configs_ok cl key limit d'"
  using update_config_cases [OF assms(7)]
proof (elim disjE exE conjE)
  fix old :: config_row and enc :: "string option" and detail :: json
  let ?n = "opt_unwrap_or (uc_name req) (sc_name old)"
  let ?f = "\<lambda>c. if sc_id c = i \<and> sc_user_id c = user
     then c\<lparr>sc_name := ?n, sc_config := detail, sc_updated_at := now\<rparr> else c"
  assume f: "fetch_user_config g loc (fails 0) d i user = Inr old"
    and enc: "case uc_token req of
          None \<Rightarrow> enc = None
        | Some t \<Rightarrow> \<exists>e x. cf_token_encryption_key cfg = Some e \<and> enc = Some x \<and>
            encrypt_token_from_config cl nonce t e = Inr x"
    and m: "merge_config_detail (sc_config old) req enc = Some detail"
    and n: "\<not> list_ex (\<lambda>c. sc_name c = ?n) (filter (\<lambda>c. sc_id c \<noteq> i) (user_configs d user))"
    and d': "d' = set_config (\<lambda>c. c\<lparr>sc_name := ?n, sc_config := detail, sc_updated_at := now\<rparr>) i user d"
  note old = fetch_user_config_Inr [OF f]
  have enc_ok: "is_ok (decrypt_token cl x key)" if "enc = Some x" for x
    using that enc assms(3,6) encrypted_decrypts [OF assms(2,4,5)] by (auto split: option.splits)
  obtain det where det: "git_config_of_json (sc_config old) = Some det"
    "is_ok (decrypt_token cl (gd_token_encrypted det) key)" "sc_provider old \<in> {''github'', ''gitcode''}"
    using configs_okD(1) [OF assms(1)] old unfolding config_typed_def by blast
  obtain det' where det': "git_config_of_json detail = Some det'"
    "gd_token_encrypted det' = opt_unwrap_or enc (gd_token_encrypted det)"
    using merge_typed [OF det(1) m] by blast
  have dec: "is_ok (decrypt_token cl (gd_token_encrypted det') key)"
    using det(2) enc_ok unfolding det'(2) by (cases enc) auto
  have sel: "sc_id (?f c) = sc_id c" "sc_user_id (?f c) = sc_user_id c" "sc_provider (?f c) = sc_provider c"
    "sc_is_default (?f c) = sc_is_default c" for c by simp_all
  have typed: "config_typed cl key (?f c)" if "c \<in> set (t_configs d)" for c
    using configs_okD(1) [OF assms(1) that] det'(1) dec by (auto simp: config_typed_def)
  have names: "sc_name (?f a) \<noteq> sc_name (?f b) \<and> \<not> (sc_is_default (?f a) \<and> sc_is_default (?f b))"
    if "a \<in> set (t_configs d)" "b \<in> set (t_configs d)" "sc_user_id a = sc_user_id b" "sc_id a \<noteq> sc_id b" for a b
  proof -
    have fresh: "sc_name c \<noteq> ?n" if "c \<in> set (t_configs d)" "sc_user_id c = user" "sc_id c \<noteq> i" for c
      using n that by (auto simp: list_ex_iff user_configs_def)
    show ?thesis
      using configs_okD(2) [OF assms(1) that] that fresh [of a] fresh [of b] unfolding sel by auto
  qed
  have "configs_ok cl key limit (d\<lparr>t_configs := map ?f (t_configs d)\<rparr>)"
    using assms(1) sel(1,2) typed names by (rule configs_ok_map)
  then show ?thesis unfolding d' set_config_def .
qed (use assms(1) in simp)

lemma config_step_ok:
  assumes "config_step cl cfg d d'" and "crypto_laws cl" and "cf_token_encryption_key cfg = Some e"
    and "decode_key cl e = Inr key" and "configs_ok cl key (opt_unwrap_or (cf_storage_max_user_configs cfg) 5) d"
  shows "configs_ok cl key (opt_unwrap_or (cf_storage_max_user_configs cfg) 5) d'"
  using assms(1)
proof cases
  case created
  then show ?thesis by (rule configs_ok_create [OF assms(5,2,3,4)])
next
  case updated
  then show ?thesis by (rule configs_ok_update [OF assms(5,2,3,4)])
next
  case deleted
  then show ?thesis by (rule configs_ok_delete [OF assms(5)])
next
  case defaulted
  then show ?thesis
    using set_default_cases configs_ok_clear [OF assms(5)] configs_ok_default [OF assms(5)] assms(5) by metis
qed

text \<open>
  Property C27. Whatever requests are sent to the routes of storage configurations, the table stays
  well typed: every row has a git provider, a detail that reads as one and a token that decrypts
  under the key of the server; ids are unique, names are unique per user, a user has at most one
  default and no more configurations than the limit.
\<close>

theorem storage_configs_well_typed:
  assumes "config_reachable cl cfg d0 d" and "crypto_laws cl" and "cf_token_encryption_key cfg = Some e"
    and "decode_key cl e = Inr key" and "configs_ok cl key (opt_unwrap_or (cf_storage_max_user_configs cfg) 5) d0"
  shows "configs_ok cl key (opt_unwrap_or (cf_storage_max_user_configs cfg) 5) d"
  using assms by (induction rule: config_reachable.induct) (auto intro: config_step_ok)

text \<open>The first configuration of \<open>demo_owner\<close>, with a GitHub that knows every repository.\<close>

definition demo_github :: "unit http_client" where
  "demo_github = (\<lambda>h q. (Some \<lparr>hs_status = 200, hs_retry_after = None, hs_body = None, hs_json = None\<rparr>, ()))"

definition keyed_config :: app_config where
  "keyed_config = lite_config\<lparr>cf_token_encryption_key := Some demo_key\<rparr>"

definition demo_create :: create_config_request where
  "demo_create = \<lparr>cc_name = ''g'', cc_provider = ''github'', cc_token = ''ghp'', cc_repo = ''o/r'', cc_branch = None,
     cc_path_prefix = None, cc_is_default = Some True\<rparr>"

definition owner_db :: db where "owner_db = empty_db\<lparr>t_users := [demo_owner]\<rparr>"

definition git_row :: config_row where
  "git_row = config_from_request 1 5 7 demo_create (demo_nonce @ ''ghp'' @ demo_tag)"

definition git_db :: db where "git_db = owner_db\<lparr>t_configs := [git_row]\<rparr>"

lemma keyed_sel [simp]:
  "cf_token_encryption_key keyed_config = Some demo_key" "dc_mode (cf_database keyed_config) = SqliteMode"
  "cf_storage_max_user_configs keyed_config = cf_storage_max_user_configs lite_config"
  "cf_upload keyed_config = cf_upload lite_config"
  by (simp_all add: keyed_config_def)

lemma demo_decode_key [simp]: "decode_key demo_crypto demo_key = Inr demo_key"
  by (simp add: decode_key_def demo_crypto_def)

lemma demo_prepared:
  "prepare_config demo_github demo_crypto keyed_config demo_locale En no_faults demo_nonce 7 demo_create owner_db () =
     (Inr (demo_nonce @ ''ghp'' @ demo_tag), ())"
  by (simp add: prepare_config_def check_config_limit_def check_name_unique_def user_configs_def owner_db_def
      empty_db_def demo_create_def verify_repo_access_def api_base_for_provider_def demo_github_def
      encrypt_token_from_config_def encrypt_token_def lite_config_def default_app_config_def)
    (simp add: demo_crypto_def)

lemma demo_config_created:
  "snd (create_config demo_github demo_crypto keyed_config demo_locale En no_faults 1 5 demo_nonce 7 demo_create
     owner_db ()) = (git_db, ())"
  unfolding create_config_def demo_prepared
  by (simp add: Let_def git_db_def git_row_def config_from_request_def demo_create_def
      unset_other_defaults_def clear_defaults_def insert_config_def configs_accept_def user_configs_def
      owner_db_def empty_db_def demo_owner_def)

lemma demo_config_reachable: "config_reachable demo_crypto keyed_config owner_db git_db"
proof (rule config_next [OF config_start])
  obtain r where "create_config demo_github demo_crypto keyed_config demo_locale En no_faults 1 5 demo_nonce 7
      demo_create owner_db () = (r, git_db, ())"
    using demo_config_created by (metis prod.collapse)
  then show "config_step demo_crypto keyed_config owner_db git_db"
    by (rule created [rotated 2]) (simp_all add: demo_crypto_def)
qed

lemma configs_ok_empty: "t_configs d = [] \<Longrightarrow> configs_ok cl key limit d"
  by (simp add: configs_ok_def configs_unique_def user_configs_def)

theorem storage_configs_well_typed_witness:
  "configs_ok demo_crypto demo_key 5 git_db \<and> t_configs git_db = [git_row]"
  using storage_configs_well_typed [OF demo_config_reachable demo_crypto_laws keyed_sel(1) demo_decode_key
      configs_ok_empty]
  by (simp add: git_db_def owner_db_def empty_db_def lite_config_def default_app_config_def)

section \<open>Uploads\<close>

text \<open>
  A configuration made through the API is never uploaded to: an upload asks for a local
  configuration among the ones it names or the default one, and every row the routes can make is a
  git one. So an upload that names configurations fails, and so does every upload of a user who has
  set a default.
\<close>

theorem no_upload_to_created_configs:
  assumes "config_reachable (se_crypto (ue_storage env)) cfg d0 (ap_db app)" and "t_configs d0 = []"
    and "crypto_laws (se_crypto (ue_storage env))" and "cf_token_encryption_key cfg = Some e"
    and "decode_key (se_crypto (ue_storage env)) e = Inr key"
    and "ids \<noteq> None \<or> (\<exists>c \<in> set (t_configs (ap_db app)). sc_user_id c = au_id user \<and> sc_is_default c)"
  shows "\<exists>err. process_upload env cfg g loc fails bfails swap now drs user bytes name ids app = Some (Inl err, app)"
proof -
  have "configs_ok (se_crypto (ue_storage env)) key (opt_unwrap_or (cf_storage_max_user_configs cfg) 5) (ap_db app)"
    using assms(1)
    by (induction rule: config_reachable.induct)
      (auto intro: config_step_ok [OF _ assms(3-5)] configs_ok_empty assms(2))
  then have git: "sc_provider c \<noteq> ''local''" if "c \<in> set (t_configs (ap_db app))" for c
    using that configs_okD(1) unfolding config_typed_def by fastforce
  have refused: "\<exists>x. validate_upload_configs g loc configs = Inl x" if "set configs \<subseteq> set (t_configs (ap_db app))" for configs
    using that git by (auto simp: validate_upload_configs_def list_ex_iff)
  have "set configs \<subseteq> set (t_configs (ap_db app))"
    if r: "resolve_upload_configs g loc (fails 1) now (ap_db app) (au_id user) ids = Inr configs" for configs
  proof (cases ids)
    case None
    then have "find (\<lambda>c. sc_user_id c = au_id user \<and> sc_is_default c) (t_configs (ap_db app)) \<noteq> None"
      using assms(6) by (auto simp: find_None_iff)
    then show ?thesis using r None
      by (auto simp: resolve_upload_configs_def fetch_default_config_def split: if_splits dest: find_SomeD)
  next
    case (Some xs)
    then show ?thesis using r
      by (auto simp: resolve_upload_configs_def fetch_configs_by_ids_def Let_def split: if_splits)
  qed
  then have "(\<exists>x. resolve_upload_configs g loc (fails 1) now (ap_db app) (au_id user) ids = Inl x) \<or>
    (\<exists>configs x. resolve_upload_configs g loc (fails 1) now (ap_db app) (au_id user) ids = Inr configs \<and>
       validate_upload_configs g loc configs = Inl x)"
    using refused by (cases "resolve_upload_configs g loc (fails 1) now (ap_db app) (au_id user) ids") blast+
  then show ?thesis
    by (elim disjE exE conjE) (simp_all add: process_upload_def split: sum.split)
qed

theorem no_upload_to_created_configs_witness:
  "\<exists>err. process_upload demo_upload_env keyed_config demo_locale En no_faults (\<lambda>_. no_faults) False 0
     demo_updraws demo_uploader ''png'' ''a.png'' None (demo_app []\<lparr>ap_db := git_db\<rparr>) =
     Some (Inl err, demo_app []\<lparr>ap_db := git_db\<rparr>)"
proof -
  have c: "se_crypto (ue_storage demo_upload_env) = demo_crypto"
    by (simp add: demo_upload_env_def demo_storage_env_def)
  have "config_reachable (se_crypto (ue_storage demo_upload_env)) keyed_config owner_db
      (ap_db (demo_app []\<lparr>ap_db := git_db\<rparr>))"
    using demo_config_reachable by (simp add: c)
  then show ?thesis
    by (rule no_upload_to_created_configs [where e = demo_key and key = demo_key])
      (simp_all add: c demo_crypto_laws owner_db_def empty_db_def git_db_def git_row_def config_from_request_def
        demo_create_def)
qed

section \<open>The default\<close>

lemma other_users_rows:
  assumes "u \<noteq> user" and "\<And>c. sc_user_id (f c) = sc_user_id c"
  shows "filter (\<lambda>c. sc_user_id c = u) (map (\<lambda>c. if sc_user_id c = user then f c else c) cs) =
    filter (\<lambda>c. sc_user_id c = u) cs"
  using assms by (induction cs) auto

lemma rows_marked:
  assumes "\<And>c. sc_user_id (f c) = sc_user_id c"
  shows "filter (\<lambda>c. sc_user_id c = u) (map (\<lambda>c. if sc_id c = i \<and> sc_user_id c = user then f c else c) cs) =
    (if u = user then map (\<lambda>c. if sc_id c = i then f c else c) (filter (\<lambda>c. sc_user_id c = u) cs)
     else filter (\<lambda>c. sc_user_id c = u) cs)"
  using assms by (induction cs) auto

lemma filter_key_unique:
  "distinct (map k xs) \<Longrightarrow> x \<in> set xs \<Longrightarrow> k x = i \<Longrightarrow> map k (filter (\<lambda>x. k x = i) xs) = [i]"
  by (induction xs) (auto simp: filter_empty_conv rev_image_eqI)

lemma find_hd_filter: "filter P xs = x # ys \<Longrightarrow> find P xs = Some x"
  by (induction xs) (auto split: if_splits)

text \<open>Among the rows of a user that are no defaults, marking the row of one id.\<close>

lemma marked_row:
  assumes "distinct (map sc_id cs)" and "x \<in> set cs" and "sc_id x = i" and "\<And>c. c \<in> set cs \<Longrightarrow> \<not> sc_is_default c"
    and "\<And>c. sc_id (f c) = sc_id c" and "\<And>c. sc_is_default (f c)"
  shows "map sc_id (filter sc_is_default (map (\<lambda>c. if sc_id c = i then f c else c) cs)) = [i]"
proof -
  have "map sc_id (filter sc_is_default (map (\<lambda>c. if sc_id c = i then f c else c) cs)) =
      map sc_id (filter (\<lambda>c. sc_id c = i) cs)"
    using assms(4-6) by (induction cs) auto
  then show ?thesis using filter_key_unique [OF assms(1-3)] by simp
qed

text \<open>
  Choosing a default is exclusive: on success the configuration is the one default of
  its owner and the one his plain uploads resolve to; when the second statement fails he is left
  without any, and nothing changes otherwise. The rows of other users stay as they are.
\<close>

theorem set_default_exclusive:
  assumes "set_default g loc fails now user i d = (r, d')" and "configs_unique (t_configs d)"
  shows "(\<forall>u. u \<noteq> user \<longrightarrow> user_configs d' u = user_configs d u) \<and>
    (if is_ok (fetch_user_config g loc (fails 0) d i user) \<and> \<not> fails 1
     then (if fails 2 then fetch_default_config g loc False d' user = Inr None
           else \<exists>c. fetch_default_config g loc False d' user = Inr (Some c) \<and> sc_id c = i \<and>
             map sc_id (filter sc_is_default (user_configs d' user)) = [i])
     else d' = d)"
proof (cases "is_ok (fetch_user_config g loc (fails 0) d i user) \<and> \<not> fails 1")
  case False
  then have "d' = d"
    using assms(1) by (auto simp: set_default_def unset_other_defaults_def is_ok_def split: sum.splits)
  then show ?thesis using False by auto
next
  case True
  then obtain old where old: "fetch_user_config g loc (fails 0) d i user = Inr old"
    by (auto simp: is_ok_def split: sum.splits)
  have others: "user_configs (clear_defaults user d) u = user_configs d u" if "u \<noteq> user" for u
    unfolding user_configs_def clear_defaults_configs using that by (rule other_users_rows) simp
  show ?thesis
  proof (cases "fails 2")
    case f2: True
    then have d': "d' = clear_defaults user d"
      using assms(1) old True by (simp add: set_default_def unset_other_defaults_def)
    have "find (\<lambda>c. sc_user_id c = user \<and> sc_is_default c) (t_configs (clear_defaults user d)) = None"
      using no_default_left by (fastforce simp: find_None_iff)
    then show ?thesis using True f2 others by (simp add: d' fetch_default_config_def)
  next
    case f2: False
    let ?f = "\<lambda>c. c\<lparr>sc_is_default := True, sc_updated_at := now\<rparr>"
    let ?d = "clear_defaults user d"
    have d': "d' = set_config ?f i user ?d"
      using assms(1) old True f2 by (simp add: set_default_def unset_other_defaults_def Let_def)
    have old': "old \<in> set (t_configs d)" "sc_id old = i" "sc_user_id old = user"
      using fetch_user_config_Inr [OF old] by auto
    have mine: "user_configs d' user = map (\<lambda>c. if sc_id c = i then ?f c else c) (user_configs ?d user)"
      unfolding d' set_config_def user_configs_def by (simp add: rows_marked)
    have "map sc_id (t_configs ?d) = map sc_id (t_configs d)" by (simp add: clear_defaults_configs)
    then have ids: "distinct (map sc_id (user_configs ?d user))"
      using assms(2) unfolding configs_unique_def user_configs_def by (metis distinct_map_filter)
    have "old\<lparr>sc_is_default := False\<rparr> \<in> set (user_configs ?d user)"
      unfolding user_configs_def clear_defaults_configs using old' by force
    then have only: "map sc_id (filter sc_is_default (user_configs d' user)) = [i]"
      unfolding mine using ids old' no_default_left
      by (intro marked_row [where x = "old\<lparr>sc_is_default := False\<rparr>"]) (auto simp: user_configs_def)
    then obtain c where c: "filter sc_is_default (user_configs d' user) = [c]" "sc_id c = i" by auto
    have "find (\<lambda>c. sc_user_id c = user \<and> sc_is_default c) (t_configs d') = Some c"
      using c(1) unfolding user_configs_def filter_filter by (intro find_hd_filter) (simp add: conj_commute)
    moreover have "user_configs d' u = user_configs d u" if "u \<noteq> user" for u
    proof -
      have "user_configs d' u = user_configs ?d u"
        unfolding user_configs_def d' set_config_def using that by (simp add: rows_marked)
      then show ?thesis using others that by simp
    qed
    ultimately show ?thesis using True f2 only c(2) by (simp add: fetch_default_config_def)
  qed
qed

definition two_git_db :: db where
  "two_git_db = owner_db\<lparr>t_configs := [git_row, git_row\<lparr>sc_id := 6, sc_name := ''h'', sc_is_default := False\<rparr>]\<rparr>"

theorem set_default_exclusive_witness:
  "map sc_id (filter sc_is_default (user_configs two_git_db 7)) = [5] \<and>
   map sc_id (filter sc_is_default (user_configs
     (snd (set_default demo_locale En no_faults 2 7 6 two_git_db)) 7)) = [6]"
proof -
  have g: "sc_id git_row = 5" "sc_user_id git_row = 7" "sc_is_default git_row" "sc_name git_row = ''g''"
    by (simp_all add: git_row_def config_from_request_def demo_create_def)
  then have u: "configs_unique (t_configs two_git_db)" and t: "t_configs two_git_db =
      [git_row, git_row\<lparr>sc_id := 6, sc_name := ''h'', sc_is_default := False\<rparr>]"
    by (simp_all add: two_git_db_def configs_unique_def)
  obtain r d' where r: "set_default demo_locale En no_faults 2 7 6 two_git_db = (r, d')" by fastforce
  have "is_ok (fetch_user_config demo_locale En False two_git_db 6 7)"
    by (simp add: fetch_user_config_def t g)
  then have "map sc_id (filter sc_is_default (user_configs d' 7)) = [6]"
    using set_default_exclusive [OF r u] by (simp only: if_True if_False simp_thms) blast
  then show ?thesis by (simp add: r user_configs_def t g)
qed

end
