(* ===== verification/Admin.thy ===== *)
theory Admin
  imports Categories Users
begin

text \<open>
  The administration of users, statistics and invites, \<open>pichost-api/src/routes/admin.rs\<close>. Every route
  of the module is behind \<open>require_admin\<close> (theory \<open>Auth\<close>); the acting administrator is an argument.
  The routes on the configuration file are in \<open>System_Config\<close>. \<open>None\<close> as the result of a handler is
  the panic of a router without backends.
\<close>

definition internal_error :: "i18n \<Rightarrow> language \<Rightarrow> api_error" where
  "internal_error g loc = error_json g loc 500 ''common.internal_error''"

section \<open>Requests and answers\<close>

record update_user_body =
  ub_username :: "string option"
  ub_email :: "string option"
  ub_password :: "string option"
  ub_is_admin :: "bool option"
  ub_storage_backend :: "string option"
  ub_storage_quota :: "int option"
  ub_watermark :: "json option option"

record list_users_response =
  lu_users :: "user_info list"
  lu_total :: int

record backend_stats =
  bs_total_images :: int
  bs_total_size :: int

record admin_stats =
  as_total_users :: int
  as_total_images :: int
  as_total_size :: int
  as_active_users_24h :: int
  as_total_quota :: "int option"
  as_storage_backends :: "(string \<times> backend_stats) list"

record stats_cache_params =
  sp_total_users :: int
  sp_total_images :: int
  sp_total_size :: int
  sp_active_users_24h :: int
  sp_total_quota :: "int option"
  sp_local_images :: int
  sp_local_size :: int
  sp_rustfs_size :: int

definition map_user_rows :: "user_row list \<Rightarrow> user_info list" where
  "map_user_rows rows =
     map (\<lambda>u. \<lparr>ui_id = u_id u, ui_username = u_username u, ui_email = u_email u, ui_is_admin = u_is_admin u,
               ui_storage_quota = u_storage_quota u\<rparr>) rows"

section \<open>Users\<close>

text \<open>
  \<open>OFFSET\<close> before \<open>LIMIT\<close> is PostgreSQL's syntax; in SQLite \<open>OFFSET\<close> may only follow \<open>LIMIT\<close> and the
  statement does not parse.
\<close>

definition list_users ::
  "database_mode \<Rightarrow> i18n \<Rightarrow> language \<Rightarrow> faults \<Rightarrow> int option \<Rightarrow> int option \<Rightarrow> db \<Rightarrow> api_error + list_users_response" where
  "list_users mode g loc fails req_offset req_limit d =
     (let offset = max (opt_unwrap_or req_offset 0) 0;
          limit = min (max (opt_unwrap_or req_limit 50) 1) 200
      in if fails 0 then Inl (internal_error g loc)
         else if fails 1 \<or> mode = SqliteMode then Inl (internal_error g loc)
         else Inr \<lparr>lu_users = map_user_rows (take (nat limit) (drop (nat offset)
                      (sort_key (\<lambda>u. - int (u_created_at u)) (t_users d)))),
                   lu_total = int (length (t_users d))\<rparr>)"

definition hash_password_if_provided ::
  "auth_env \<Rightarrow> i18n \<Rightarrow> language \<Rightarrow> nat \<Rightarrow> string option \<Rightarrow> api_error + string option" where
  "hash_password_if_provided env g loc salt password =
     (case password of
        None \<Rightarrow> Inr None
      | Some pw \<Rightarrow>
          (if length pw < 8 then Inl (error_json g loc 400 ''admin.password_too_weak'')
           else (case ae_hash env salt pw of
                   None \<Rightarrow> Inl (internal_error g loc) | Some h \<Rightarrow> Inr (Some h))))"

definition fetch_user_fields ::
  "i18n \<Rightarrow> language \<Rightarrow> bool \<Rightarrow> db \<Rightarrow> uuid \<Rightarrow> api_error + user_row" where
  "fetch_user_fields g loc fail d user_id =
     (if fail then Inl (internal_error g loc)
      else ok_or (user_by_id d user_id) (error_json g loc 404 ''user.not_found''))"

text \<open>The six fields of the tuple, in a copy of the row.\<close>

definition merge_user_fields :: "update_user_body \<Rightarrow> user_row \<Rightarrow> user_row" where
  "merge_user_fields body u =
     u\<lparr>u_username := opt_unwrap_or (ub_username body) (u_username u),
       u_email := (if ub_email body \<noteq> None then ub_email body else u_email u),
       u_is_admin := opt_unwrap_or (ub_is_admin body) (u_is_admin u),
       u_storage_backend := opt_unwrap_or (ub_storage_backend body) (u_storage_backend u),
       u_storage_quota := (if ub_storage_quota body = Some 0 then None
                           else if ub_storage_quota body \<noteq> None then ub_storage_quota body
                           else u_storage_quota u),
       u_watermark := opt_unwrap_or (ub_watermark body) (u_watermark u)\<rparr>"

definition fetch_and_merge_user_fields ::
  "i18n \<Rightarrow> language \<Rightarrow> bool \<Rightarrow> db \<Rightarrow> uuid \<Rightarrow> update_user_body \<Rightarrow> api_error + user_row" where
  "fetch_and_merge_user_fields g loc fail d user_id body =
     rbind (fetch_user_fields g loc fail d user_id) (\<lambda>u. Inr (merge_user_fields body u))"

definition assign_user_fields :: "user_row \<Rightarrow> string option \<Rightarrow> user_row \<Rightarrow> user_row" where
  "assign_user_fields n password_hash u =
     u\<lparr>u_username := u_username n, u_email := u_email n, u_is_admin := u_is_admin n,
       u_storage_backend := u_storage_backend n,
       u_password_hash := opt_unwrap_or password_hash (u_password_hash u),
       u_storage_quota := u_storage_quota n, u_watermark := u_watermark n\<rparr>"

text \<open>A unique violation is an error like any other here.\<close>

definition execute_user_update ::
  "database_mode \<Rightarrow> i18n \<Rightarrow> language \<Rightarrow> bool \<Rightarrow> uuid \<Rightarrow> user_row \<Rightarrow> string option \<Rightarrow> db \<Rightarrow> (api_error + unit) \<times> db" where
  "execute_user_update mode g loc fail user_id n password_hash d =
     (let f = assign_user_fields n password_hash;
          others = filter (\<lambda>u. u_id u \<noteq> user_id) (t_users d);
          rows = filter (\<lambda>u. u_id u = user_id) (t_users d)
      in if fail \<or> \<not> list_all (\<lambda>u. user_fits mode (f u)) rows \<or> list_ex (\<lambda>u. user_conflicts (f u) others) rows
         then (Inl (internal_error g loc), d)
         else (Inr (), set_user f user_id d))"

definition update_user ::
  "auth_env \<Rightarrow> database_mode \<Rightarrow> i18n \<Rightarrow> language \<Rightarrow> faults \<Rightarrow> nat \<Rightarrow> auth_user \<Rightarrow> uuid \<Rightarrow> update_user_body \<Rightarrow> db \<Rightarrow>
   (api_error + user_info) \<times> db" where
  "update_user env mode g loc fails salt current_user user_id body d =
     (if ub_is_admin body = Some False \<and> au_id current_user = user_id
      then (Inl (error_json g loc 400 ''admin.cannot_demote_self''), d)
      else
        (case rbind (fetch_and_merge_user_fields g loc (fails 0) d user_id body)
                (\<lambda>n. rbind (hash_password_if_provided env g loc salt (ub_password body)) (\<lambda>h. Inr (n, h))) of
           Inl e \<Rightarrow> (Inl e, d)
         | Inr (n, password_hash) \<Rightarrow>
             (case execute_user_update mode g loc (fails 1) user_id n password_hash d of
                (Inl e, d1) \<Rightarrow> (Inl e, d1)
              | (Inr _, d1) \<Rightarrow>
                  (Inr \<lparr>ui_id = user_id, ui_username = u_username n, ui_email = u_email n,
                        ui_is_admin = u_is_admin n, ui_storage_quota = u_storage_quota n\<rparr>, d1))))"

section \<open>Deleting a user\<close>

definition images_of :: "db \<Rightarrow> uuid \<Rightarrow> image_row list" where
  "images_of d user_id = filter (\<lambda>x. im_user_id x = user_id) (t_images d)"

text \<open>Every file is deleted from the default backend, whatever backend the row names.\<close>

fun delete_files ::
  "('h, 's) storage_env \<Rightarrow> faults \<Rightarrow> backend \<Rightarrow> image_row list \<Rightarrow> ('h, 's) world \<Rightarrow> ('h, 's) world" where
  "delete_files env fails b [] w = w"
| "delete_files env fails b (x # xs) w =
     delete_files env fails b xs
       (fold (delete_file env (\<lambda>n. fails (3 * length xs + n)) b)
          [(0, Some (im_storage_key x)), (1, im_thumbnail_key x), (2, im_webp_key x)] w)"

definition collect_and_cleanup_storage_files ::
  "('h, 's) storage_env \<Rightarrow> i18n \<Rightarrow> language \<Rightarrow> faults \<Rightarrow> router \<Rightarrow> db \<Rightarrow> uuid \<Rightarrow> ('h, 's) world \<Rightarrow>
   ((api_error + nat) \<times> ('h, 's) world) option" where
  "collect_and_cleanup_storage_files env g loc fails ro d user_id w =
     (if fails 0 then Some (Inl (internal_error g loc), w)
      else
        (let image_keys = images_of d user_id
         in map_option (\<lambda>b. (Inr (length image_keys), delete_files env (\<lambda>n. fails (1 + n)) b image_keys w))
              (default_backend ro)))"

text \<open>
  \<open>DELETE FROM users\<close>: configurations, categories and linked accounts go with the row, images lose a
  deleted category, and an image of another user that uses one of the configurations forbids it.
\<close>

definition delete_user_row :: "uuid \<Rightarrow> db \<Rightarrow> db option" where
  "delete_user_row user_id d =
     (let configs = map sc_id (filter (\<lambda>c. sc_user_id c = user_id) (t_configs d));
          cats = map cat_id (filter (\<lambda>c. cat_user_id c = user_id) (t_categories d))
      in if list_ex (\<lambda>x. case im_storage_config_id x of None \<Rightarrow> False | Some c \<Rightarrow> c \<in> set configs) (t_images d)
         then None
         else Some (drop_categories (cascade (t_categories d) cats)
                (d\<lparr>t_users := filter (\<lambda>u. u_id u \<noteq> user_id) (t_users d),
                   t_configs := filter (\<lambda>c. sc_user_id c \<noteq> user_id) (t_configs d),
                   t_oauth := filter (\<lambda>a. oa_user_id a \<noteq> user_id) (t_oauth d)\<rparr>)))"

definition delete_user_from_db ::
  "i18n \<Rightarrow> language \<Rightarrow> faults \<Rightarrow> uuid \<Rightarrow> db \<Rightarrow> (api_error + unit) \<times> db" where
  "delete_user_from_db g loc fails user_id d =
     (if fails 0 then (Inl (internal_error g loc), d)
      else
        (let d1 = delete_rows (map im_id (images_of d user_id)) d
         in if fails 1 then (Inl (internal_error g loc), d1)
            else (case delete_user_row user_id d1 of
                    None \<Rightarrow> (Inl (internal_error g loc), d1) | Some d2 \<Rightarrow> (Inr (), d2))))"

definition verify_user_exists :: "i18n \<Rightarrow> language \<Rightarrow> bool \<Rightarrow> db \<Rightarrow> uuid \<Rightarrow> api_error + unit" where
  "verify_user_exists g loc fail d user_id =
     (if fail then Inl (internal_error g loc)
      else if user_by_id d user_id = None then Inl (error_json g loc 404 ''user.not_found'') else Inr ())"

text \<open>Statements 0 (exists), 1 and 2 (the deletes), 3 (the keys), then the storage.\<close>

definition delete_user ::
  "('h, 's) storage_env \<Rightarrow> i18n \<Rightarrow> language \<Rightarrow> faults \<Rightarrow> auth_user \<Rightarrow> uuid \<Rightarrow> ('q, 'h, 's) app \<Rightarrow>
   ((api_error + status_code \<times> json) \<times> ('q, 'h, 's) app) option" where
  "delete_user env g loc fails current_user user_id app =
     (if au_id current_user = user_id
      then Some (Inl (error_json g loc 400 ''admin.cannot_delete_self''), app)
      else
        (case verify_user_exists g loc (fails 0) (ap_db app) user_id of
           Inl e \<Rightarrow> Some (Inl e, app)
         | Inr _ \<Rightarrow>
             (case collect_and_cleanup_storage_files env g loc (\<lambda>n. fails (3 + n)) (ap_router app) (ap_db app)
                     user_id (ap_world app) of
                None \<Rightarrow> None
              | Some (Inl e, w) \<Rightarrow> Some (Inl e, app\<lparr>ap_world := w\<rparr>)
              | Some (Inr _, w) \<Rightarrow>
                  (case delete_user_from_db g loc (\<lambda>n. fails (1 + n)) user_id (ap_db app) of
                     (Inl e, d) \<Rightarrow> Some (Inl e, app\<lparr>ap_world := w, ap_db := d\<rparr>)
                   | (Inr _, d) \<Rightarrow>
                       Some (Inr (204, JObj [(''message'', JStr ''user deleted'')]),
                             app\<lparr>ap_world := w, ap_db := d\<rparr>)))))"

section \<open>Statistics\<close>

text \<open>A sum cast to \<open>BIGINT\<close>: \<open>None\<close> is the database's overflow error.\<close>

definition db_sum :: "int list \<Rightarrow> int option" where
  "db_sum xs = (let s = sum_list xs in if - (2 ^ 63) \<le> s \<and> s < 2 ^ 63 then Some s else None)"

definition query_total_users :: "i18n \<Rightarrow> language \<Rightarrow> bool \<Rightarrow> db \<Rightarrow> api_error + int" where
  "query_total_users g loc fail d =
     (if fail then Inl (internal_error g loc) else Inr (int (length (t_users d))))"

definition query_total_quota :: "i18n \<Rightarrow> language \<Rightarrow> bool \<Rightarrow> db \<Rightarrow> api_error + int option" where
  "query_total_quota g loc fail d =
     (let quotas = List.map_filter u_storage_quota (t_users d)
      in if fail then Inl (internal_error g loc)
         else if quotas = [] then Inr None
         else (case db_sum quotas of None \<Rightarrow> Inl (internal_error g loc) | Some s \<Rightarrow> Inr (Some s)))"

definition query_image_stats :: "i18n \<Rightarrow> language \<Rightarrow> bool \<Rightarrow> db \<Rightarrow> api_error + int \<times> int" where
  "query_image_stats g loc fail d =
     (if fail then Inl (internal_error g loc)
      else (case db_sum (map im_file_size (t_images d)) of
              None \<Rightarrow> Inl (internal_error g loc) | Some s \<Rightarrow> Inr (int (length (t_images d)), s)))"

definition query_active_users_24h :: "bool \<Rightarrow> instant \<Rightarrow> db \<Rightarrow> int" where
  "query_active_users_24h fail now d =
     (if fail then 0
      else int (length (remdups (map im_user_id
             (filter (\<lambda>x. int now - int (secs 86400) \<le> int (im_created_at x)) (t_images d))))))"

definition query_backend_stats ::
  "i18n \<Rightarrow> language \<Rightarrow> bool \<Rightarrow> db \<Rightarrow> string \<Rightarrow> api_error + backend_stats" where
  "query_backend_stats g loc fail d name =
     (let rows = filter (\<lambda>x. im_storage_backend x = name) (t_images d)
      in if fail then Inl (internal_error g loc)
         else (case db_sum (map im_file_size rows) of
                 None \<Rightarrow> Inl (internal_error g loc)
               | Some s \<Rightarrow> Inr \<lparr>bs_total_images = int (length rows), bs_total_size = s\<rparr>))"

definition build_backends_map :: "backend_stats \<Rightarrow> backend_stats \<Rightarrow> (string \<times> backend_stats) list" where
  "build_backends_map local rustfs = [(''local'', local), (''rustfs'', rustfs)]"

definition try_parse_cached_stats :: "(string \<times> string) list \<Rightarrow> admin_stats option" where
  "try_parse_cached_stats m =
     (let field = (\<lambda>k. Option.bind (map_of m k) parse_i64);
          fallback = (\<lambda>k v. opt_unwrap_or (field k) v)
      in Option.bind (field ''total_users'')
           (\<lambda>total_users. Option.bind (field ''total_images'')
             (\<lambda>total_images. Option.bind (field ''total_size'')
               (\<lambda>total_size. Option.bind (map_of m ''total_quota'')
                 (\<lambda>quota. Some
                    \<lparr>as_total_users = total_users, as_total_images = total_images, as_total_size = total_size,
                     as_active_users_24h = fallback ''active_users_24h'' 0,
                     as_total_quota = (if quota = [] then None else parse_i64 quota),
                     as_storage_backends =
                       [(''local'', \<lparr>bs_total_images = fallback ''local_images'' total_images,
                                     bs_total_size = fallback ''local_size'' total_size\<rparr>),
                        (''rustfs'', \<lparr>bs_total_images = fallback ''rustfs_images'' 0,
                                      bs_total_size = fallback ''rustfs_size'' 0\<rparr>)]\<rparr>)))))"

definition populate_stats_cache :: "'c stats_ops \<Rightarrow> 'c \<Rightarrow> instant \<Rightarrow> stats_cache_params \<Rightarrow> 'c" where
  "populate_stats_cache so c now p =
     snd (so_set so c now nil_uuid
       [(''total_users'', Some (sp_total_users p)), (''total_images'', Some (sp_total_images p)),
        (''total_size'', Some (sp_total_size p)), (''active_users_24h'', Some (sp_active_users_24h p)),
        (''total_quota'', sp_total_quota p), (''local_images'', Some (sp_local_images p)),
        (''local_size'', Some (sp_local_size p)), (''rustfs_size'', Some (sp_rustfs_size p))])"

definition count_admin_stats ::
  "i18n \<Rightarrow> language \<Rightarrow> faults \<Rightarrow> instant \<Rightarrow> db \<Rightarrow> api_error + admin_stats" where
  "count_admin_stats g loc fails now d =
     rbind (query_total_users g loc (fails 0) d)
       (\<lambda>total_users. rbind (query_image_stats g loc (fails 1) d)
         (\<lambda>(total_images, total_size). rbind (query_total_quota g loc (fails 3) d)
           (\<lambda>total_quota. rbind (query_backend_stats g loc (fails 4) d ''local'')
             (\<lambda>local_stats. rbind (query_backend_stats g loc (fails 5) d ''rustfs'')
               (\<lambda>rustfs_stats. Inr
                  \<lparr>as_total_users = total_users, as_total_images = total_images, as_total_size = total_size,
                   as_active_users_24h = query_active_users_24h (fails 2) now d,
                   as_total_quota = total_quota,
                   as_storage_backends = build_backends_map local_stats rustfs_stats\<rparr>)))))"

definition get_admin_stats ::
  "'c stats_ops \<Rightarrow> i18n \<Rightarrow> language \<Rightarrow> faults \<Rightarrow> instant \<Rightarrow> db \<Rightarrow> 'c \<Rightarrow> (api_error + admin_stats) \<times> 'c" where
  "get_admin_stats so g loc fails now d c =
     (case Option.bind (res_unwrap_or (so_get so c now nil_uuid) None) try_parse_cached_stats of
        Some stats \<Rightarrow> (Inr stats, c)
      | None \<Rightarrow>
          (case count_admin_stats g loc fails now d of
             Inl e \<Rightarrow> (Inl e, c)
           | Inr s \<Rightarrow>
               (let local = the (map_of (as_storage_backends s) ''local'');
                    rustfs = the (map_of (as_storage_backends s) ''rustfs'')
                in (Inr s, populate_stats_cache so c now
                      \<lparr>sp_total_users = as_total_users s, sp_total_images = as_total_images s,
                       sp_total_size = as_total_size s, sp_active_users_24h = as_active_users_24h s,
                       sp_total_quota = as_total_quota s, sp_local_images = bs_total_images local,
                       sp_local_size = bs_total_size local, sp_rustfs_size = bs_total_size rustfs\<rparr>))))"

section \<open>Invites\<close>

text \<open>The body is the days asked for; the code is the text of a fresh UUID without its dashes.\<close>

definition create_invite ::
  "'i invite_ops \<Rightarrow> (uuid \<Rightarrow> string) \<Rightarrow> i18n \<Rightarrow> language \<Rightarrow> instant \<Rightarrow> uuid \<Rightarrow> auth_user \<Rightarrow> nat option \<Rightarrow> 'i \<Rightarrow>
   (api_error + string \<times> int) \<times> 'i" where
  "create_invite io us g loc now fresh admin req_days s =
     (let ttl_days = min (max (opt_unwrap_or req_days 7) 1) 90;
          ttl_secs = ttl_days * 86400;
          code = filter (\<lambda>ch. ch \<noteq> CHR ''-'') (us fresh)
      in case io_create io s now code (au_id admin) ttl_secs of
           (Inl e, s') \<Rightarrow> (Inl (internal_error g loc), s')
         | (Inr _, s') \<Rightarrow> (Inr (code, int (timestamp now) + int ttl_secs), s'))"

definition list_invites ::
  "'i invite_ops \<Rightarrow> i18n \<Rightarrow> language \<Rightarrow> instant \<Rightarrow> 'i \<Rightarrow> (api_error + redis_invite_info list) \<times> 'i" where
  "list_invites io g loc now s =
     (case io_list io s now of
        (Inl e, s') \<Rightarrow> (Inl (internal_error g loc), s')
      | (Inr codes, s') \<Rightarrow>
          (Inr (map (\<lambda>c. \<lparr>ri_code = ic_code c, ri_created_by = opt_unwrap_or (ic_created_by c) nil_uuid,
                          ri_expires_at = (case ic_expires_at c of None \<Rightarrow> 0 | Some t \<Rightarrow> int (timestamp t)),
                          ri_used_by = ic_used_by c, ri_created_at = int (timestamp (ic_created_at c))\<rparr>) codes), s'))"

end
