(* ===== verification/Admin_Props.thy ===== *)
theory Admin_Props
  imports Admin Categories_Props Users_Props
begin

text \<open>
  Facts on the administration routes: deleting a user leaves no row of his and touches no other row,
  an administrator cannot take the role from himself but two can take it from each other, and the
  cached statistics are the counted ones but for the images of the second backend.
\<close>

section \<open>Deleting a user\<close>

lemma delete_user_from_db_cases:
  "delete_user_from_db g loc fails user d = (y, d') \<Longrightarrow>
   (\<exists>e. y = Inl e \<and> t_users d' = t_users d) \<or>
   (y = Inr () \<and> delete_user_row user (delete_rows (map im_id (images_of d user)) d) = Some d')"
  by (auto simp: delete_user_from_db_def Let_def delete_rows_def split: if_splits option.splits)

lemma delete_user_cases:
  assumes "delete_user env g loc fails cu user app = Some (r, app')"
  obtains e where "r = Inl e" "t_users (ap_db app') = t_users (ap_db app)"
  | d2 b where "au_id cu \<noteq> user" "user_by_id (ap_db app) user \<noteq> None"
      "r = Inr (204, b)" "ap_db app' = d2"
      "delete_user_row user (delete_rows (map im_id (images_of (ap_db app) user)) (ap_db app)) = Some d2"
proof (cases "au_id cu = user \<or> fails 0 \<or> user_by_id (ap_db app) user = None")
  case True
  then have "\<exists>e. r = Inl e" "app' = app"
    using assms by (auto simp: delete_user_def verify_user_exists_def split: if_splits)
  then show ?thesis using that(1) by auto
next
  case False
  then obtain x w where x: "collect_and_cleanup_storage_files env g loc (\<lambda>n. fails (3 + n)) (ap_router app) (ap_db app)
                     user (ap_world app) = Some (x, w)"
    using assms by (auto simp: delete_user_def verify_user_exists_def split: option.splits)
  show ?thesis
  proof (cases x)
    case (Inl e)
    then have "r = Inl e" "app' = app\<lparr>ap_world := w\<rparr>"
      using assms False x by (auto simp: delete_user_def verify_user_exists_def)
    then show ?thesis using that(1) by simp
  next
    case (Inr n)
    obtain y d where y: "delete_user_from_db g loc (\<lambda>n. fails (1 + n)) user (ap_db app) = (y, d)" by fastforce
    have r: "(r, app') = (case y of Inl e \<Rightarrow> (Inl e, app\<lparr>ap_world := w, ap_db := d\<rparr>)
        | Inr _ \<Rightarrow> (Inr (204, JObj [(''message'', JStr ''user deleted'')]), app\<lparr>ap_world := w, ap_db := d\<rparr>))"
      using assms False x Inr y
      by (auto simp: delete_user_def verify_user_exists_def split: prod.splits sum.splits)
    from delete_user_from_db_cases [OF y] show ?thesis
    proof (elim disjE exE conjE)
      fix e
      assume "y = Inl e" "t_users d = t_users (ap_db app)"
      then show ?thesis using that(1) [of e] r by simp
    next
      assume "y = Inr ()" "delete_user_row user (delete_rows (map im_id (images_of (ap_db app) user)) (ap_db app)) = Some d"
      then show ?thesis using that(2) [of _ d] r False by simp
    qed
  qed
qed

lemma images_without_owner:
  assumes "distinct (map im_id ims)"
  shows "filter (\<lambda>x. im_id x \<notin> im_id ` set (filter (\<lambda>x. im_user_id x = user) ims)) ims =
    filter (\<lambda>x. im_user_id x \<noteq> user) ims"
  using assms by (intro filter_cong) (auto simp: image_iff dest: distinct_map_eqD)

lemma cascade_of_owner:
  assumes "forest_ok cats"
  shows "set (cascade cats (map cat_id (filter (\<lambda>c. cat_user_id c = user) cats))) =
    cat_id ` {c \<in> set cats. cat_user_id c = user}"
proof (cases "cats = []")
  case True
  then show ?thesis by (simp add: cascade_def)
next
  case False
  have "cat_id c \<in> cat_id ` {c \<in> set cats. cat_user_id c = user}"
    if c: "c \<in> set cats" "cat_parent_id c = Some (cat_id k)" and k: "k \<in> set cats" "cat_user_id k = user" for c k
  proof -
    obtain r where r: "r \<in> set cats" "cat_id r = cat_id k" "cat_user_id r = cat_user_id c"
      using assms c unfolding forest_ok_iff by blast
    then have "r = k" using assms k(1) unfolding forest_ok_iff by (metis distinct_map_eqD)
    then show ?thesis using r(3) k(2) c(1) by auto
  qed
  then show ?thesis
    unfolding set_cascade [OF assms False] set_with_children by auto
qed

lemma drop_categories_of_owner:
  assumes "forest_ok (t_categories d)" and "categories_used d" and "\<forall>x \<in> set (t_images e). im_user_id x \<noteq> user"
    and "set (t_images e) \<subseteq> set (t_images d)" and "t_categories e = t_categories d"
  shows "drop_categories (cascade (t_categories d) (map cat_id (filter (\<lambda>c. cat_user_id c = user) (t_categories d)))) e =
    e\<lparr>t_categories := filter (\<lambda>c. cat_user_id c \<noteq> user) (t_categories d)\<rparr>"
proof -
  let ?D = "cat_id ` {c \<in> set (t_categories d). cat_user_id c = user}"
  have "filter (\<lambda>c. cat_id c \<notin> ?D) (t_categories d) = filter (\<lambda>c. cat_user_id c \<noteq> user) (t_categories d)"
    using assms(1) by (intro filter_cong) (auto simp: forest_ok_iff dest: distinct_map_eqD)
  moreover have "c \<notin> ?D" if x: "x \<in> set (t_images e)" "im_category_id x = Some c" for x c
  proof
    assume "c \<in> ?D"
    then obtain k where k: "k \<in> set (t_categories d)" "cat_user_id k = user" "cat_id k = c" by blast
    obtain r where "r \<in> set (t_categories d)" "cat_id r = c" "cat_user_id r = im_user_id x"
      using assms(2,4) x unfolding categories_used_def by blast
    moreover from this k have "r = k" using assms(1) unfolding forest_ok_iff by (metis distinct_map_eqD)
    ultimately show False using k assms(3) x by auto
  qed
  then have "map (\<lambda>x. case im_category_id x of None \<Rightarrow> x
      | Some c \<Rightarrow> if c \<in> ?D then x\<lparr>im_category_id := None\<rparr> else x) (t_images e) = t_images e"
    by (intro map_idI) (simp split: option.split)
  ultimately show ?thesis
    unfolding drop_categories_def cascade_of_owner [OF assms(1)] by (simp add: assms(5))
qed

text \<open>
  Property C28. After a user was deleted the database is the old one without his rows: his account,
  images, upload tasks, storage configurations, categories and linked logins are gone, and every row
  of every other user is as it was. No administrator deletes his own account.
\<close>

theorem deleted_user_leaves_nothing:
  assumes "delete_user env g loc fails cu user app = Some (Inr r, app')"
    and "forest_ok (t_categories (ap_db app))" and "categories_used (ap_db app)"
    and "distinct (map im_id (t_images (ap_db app)))"
  shows "au_id cu \<noteq> user \<and> ap_db app' =
    \<lparr>t_users = filter (\<lambda>u. u_id u \<noteq> user) (t_users (ap_db app)),
     t_images = filter (\<lambda>x. im_user_id x \<noteq> user) (t_images (ap_db app)),
     t_configs = filter (\<lambda>c. sc_user_id c \<noteq> user) (t_configs (ap_db app)),
     t_categories = filter (\<lambda>c. cat_user_id c \<noteq> user) (t_categories (ap_db app)),
     t_upload_tasks = filter (\<lambda>t. \<forall>x \<in> set (t_images (ap_db app)). im_id x = ut_image_id t \<longrightarrow> im_user_id x \<noteq> user)
       (t_upload_tasks (ap_db app)),
     t_oauth = filter (\<lambda>a. oa_user_id a \<noteq> user) (t_oauth (ap_db app))\<rparr>"
  using assms(1)
proof (cases rule: delete_user_cases)
  case (2 d2 b)
  let ?d = "ap_db app"
  let ?ids = "map im_id (images_of ?d user)"
  let ?e = "(delete_rows ?ids ?d)\<lparr>t_users := filter (\<lambda>u. u_id u \<noteq> user) (t_users ?d),
     t_configs := filter (\<lambda>c. sc_user_id c \<noteq> user) (t_configs ?d),
     t_oauth := filter (\<lambda>a. oa_user_id a \<noteq> user) (t_oauth ?d)\<rparr>"
  have ims: "t_images ?e = filter (\<lambda>x. im_user_id x \<noteq> user) (t_images ?d)"
    using images_without_owner [OF assms(4)] by (simp add: delete_rows_def images_of_def)
  have tasks: "t_upload_tasks ?e = filter (\<lambda>t. \<forall>x \<in> set (t_images ?d). im_id x = ut_image_id t \<longrightarrow> im_user_id x \<noteq> user)
       (t_upload_tasks ?d)"
    using assms(4) by (auto simp: delete_rows_def images_of_def image_iff intro!: filter_cong dest: distinct_map_eqD)
  have "d2 = drop_categories (cascade (t_categories ?d)
      (map cat_id (filter (\<lambda>c. cat_user_id c = user) (t_categories ?d)))) ?e"
    using 2(5) unfolding delete_user_row_def Let_def by (auto simp: delete_rows_def split: if_splits)
  also have "\<dots> = ?e\<lparr>t_categories := filter (\<lambda>c. cat_user_id c \<noteq> user) (t_categories ?d)\<rparr>"
    using assms(2,3) ims by (intro drop_categories_of_owner) (auto simp: delete_rows_def)
  finally show ?thesis
    using 2(1,4) ims tasks by (simp add: delete_rows_def)
qed simp

definition demo_admin :: "uuid \<Rightarrow> user_row" where
  "demo_admin i = demo_user\<lparr>u_id := i, u_username := nat_str i, u_is_admin := True\<rparr>"

definition admin_token :: "uuid \<Rightarrow> auth_user" where
  "admin_token i = \<lparr>au_id = i, au_is_admin = True, au_storage_quota = None, au_watermark = None\<rparr>"

definition admins_app :: "(task_payload list, unit, unit) app" where
  "admins_app = (demo_app [new_image_row 8 1 7 ''k'' ''n'' ''s'' ''local'' ''image/png'' 5 None None ''h'' ''u'' None])
     \<lparr>ap_db := empty_db\<lparr>t_users := [demo_user, demo_admin 1, demo_admin 2],
        t_images := [new_image_row 8 1 7 ''k'' ''n'' ''s'' ''local'' ''image/png'' 5 None None ''h'' ''u'' None]\<rparr>\<rparr>"

theorem deleted_user_leaves_nothing_witness:
  "\<exists>r app'. delete_user demo_storage_env demo_i18n En no_faults (admin_token 1) 7 admins_app = Some (Inr r, app') \<and>
     map u_id (t_users (ap_db app')) = [1, 2] \<and> t_images (ap_db app') = []"
proof -
  have "case delete_user demo_storage_env demo_i18n En no_faults (admin_token 1) 7 admins_app of
      Some (Inr r, app') \<Rightarrow> True | _ \<Rightarrow> False"
    by code_simp
  then obtain r app' where r: "delete_user demo_storage_env demo_i18n En no_faults (admin_token 1) 7 admins_app =
      Some (Inr r, app')"
    by (auto split: option.splits sum.splits)
  have rows: "map u_id (t_users (ap_db admins_app)) = [7, 1, 2]" "forest_ok (t_categories (ap_db admins_app))"
    "categories_used (ap_db admins_app)" "distinct (map im_id (t_images (ap_db admins_app)))"
    "map im_user_id (t_images (ap_db admins_app)) = [7]"
    by (simp_all add: admins_app_def demo_admin_def forest_ok_iff categories_used_def empty_db_def new_image_row_def)
  show ?thesis
    using deleted_user_leaves_nothing [OF r rows(2-4)] r rows(1,5)
    by (intro exI [of _ r] exI [of _ app']) (auto simp: filter_map [symmetric] comp_def map_eq_Cons_conv)
qed

section \<open>The administrators\<close>

lemma assigned_sel [simp]:
  "u_id (assign_user_fields n h u) = u_id u"
  "u_username (assign_user_fields n h u) = u_username n"
  "u_email (assign_user_fields n h u) = u_email n"
  "u_is_admin (assign_user_fields n h u) = u_is_admin n"
  "u_is_admin (merge_user_fields body u) = opt_unwrap_or (ub_is_admin body) (u_is_admin u)"
  by (simp_all add: assign_user_fields_def merge_user_fields_def)

lemma update_user_cases:
  assumes "update_user env mode g loc fails salt cu user body d = (r, d')"
  obtains e where "r = Inl e" "d' = d"
  | u h where "\<not> (ub_is_admin body = Some False \<and> au_id cu = user)" "user_by_id d user = Some u"
      "d' = set_user (assign_user_fields (merge_user_fields body u) h) user d"
proof (cases "ub_is_admin body = Some False \<and> au_id cu = user")
  case True
  then have "r = Inl (error_json g loc 400 ''admin.cannot_demote_self'')" "d' = d"
    using assms by (simp_all add: update_user_def)
  then show ?thesis by (rule that(1))
next
  case False
  let ?pre = "rbind (fetch_and_merge_user_fields g loc (fails 0) d user body)
                (\<lambda>n. rbind (hash_password_if_provided env g loc salt (ub_password body)) (\<lambda>h. Inr (n, h)))"
  show ?thesis
  proof (cases ?pre)
    case (Inl e)
    then have "r = Inl e" "d' = d" using assms unfolding update_user_def if_not_P [OF False] Inl by simp_all
    then show ?thesis by (rule that(1))
  next
    case (Inr p)
    obtain n h where p: "p = (n, h)" by fastforce
    then obtain u where u: "user_by_id d user = Some u" "n = merge_user_fields body u"
      using Inr by (cases "user_by_id d user"; cases "fails 0"; cases "hash_password_if_provided env g loc salt (ub_password body)")
        (simp_all add: fetch_and_merge_user_fields_def fetch_user_fields_def)
    obtain y e where y: "execute_user_update mode g loc (fails 1) user n h d = (y, e)" by fastforce
    have r: "(r, d') = (case y of Inl x \<Rightarrow> (Inl x, e)
              | Inr _ \<Rightarrow> (Inr \<lparr>ui_id = user, ui_username = u_username n, ui_email = u_email n,
                        ui_is_admin = u_is_admin n, ui_storage_quota = u_storage_quota n\<rparr>, e))"
      using assms unfolding update_user_def if_not_P [OF False] Inr p by (simp add: y [unfolded One_nat_def] split: sum.split)
    have "(\<exists>x. y = Inl x) \<and> e = d \<or> (\<exists>x. y = Inr x) \<and> e = set_user (assign_user_fields n h) user d"
      using y unfolding execute_user_update_def Let_def by (auto split: if_splits)
    then show ?thesis
    proof (elim disjE conjE exE)
      fix x
      assume "y = Inl x" "e = d"
      then have "r = Inl x" "d' = d" using r by simp_all
      then show ?thesis by (rule that(1))
    next
      fix x
      assume "y = Inr x" "e = set_user (assign_user_fields n h) user d"
      then have "d' = set_user (assign_user_fields (merge_user_fields body u) h) user d" using r u(2) by simp
      with False u(1) show ?thesis by (rule that(2))
    qed
  qed
qed

text \<open>
  Property C29. No request takes the last administrator away by himself: whatever account an
  administrator updates or deletes, and with whatever body, his own account is still there afterwards
  and still an administrator's.
\<close>

theorem admin_keeps_himself:
  assumes "user_by_id (ap_db app) (au_id cu) = Some a" and "u_is_admin a"
  shows "(\<exists>b. user_by_id (snd (update_user env mode g loc fails salt cu user body (ap_db app))) (au_id cu) = Some b \<and>
      u_is_admin b) \<and>
    (\<forall>r app'. delete_user senv g loc fails cu user app = Some (r, app') \<longrightarrow>
      user_by_id (ap_db app') (au_id cu) = Some a)"
proof
  obtain r d' where c: "update_user env mode g loc fails salt cu user body (ap_db app) = (r, d')" by fastforce
  from c show "\<exists>b. user_by_id (snd (update_user env mode g loc fails salt cu user body (ap_db app))) (au_id cu) = Some b \<and>
      u_is_admin b"
  proof (cases rule: update_user_cases)
    case (1 e)
    then show ?thesis using assms c by simp
  next
    case (2 u h)
    have "u_id a = au_id cu" using assms(1) by (auto simp: user_by_id_def dest: find_SomeD)
    then show ?thesis
      using 2 assms unfolding c
      by (cases "ub_is_admin body"; cases "au_id cu = user") (auto simp: user_by_id_set_user)
  qed
next
  show "\<forall>r app'. delete_user senv g loc fails cu user app = Some (r, app') \<longrightarrow>
      user_by_id (ap_db app') (au_id cu) = Some a"
  proof (intro allI impI)
    fix r app'
    assume "delete_user senv g loc fails cu user app = Some (r, app')"
    then show "user_by_id (ap_db app') (au_id cu) = Some a"
    proof (cases rule: delete_user_cases)
      case (1 e)
      then show ?thesis using assms(1) by (simp add: user_by_id_def)
    next
      case (2 d2 b)
      have rows: "t_users d2 = filter (\<lambda>u. u_id u \<noteq> user) (t_users (ap_db app))"
        using 2(5) unfolding delete_user_row_def Let_def
        by (auto simp: delete_rows_def drop_categories_def split: if_splits)
      have "(\<lambda>u. u_id u = au_id cu \<and> u_id u \<noteq> user) = (\<lambda>u. u_id u = au_id cu)"
        using 2(1) by auto
      then have "find (\<lambda>u. u_id u = au_id cu \<and> u_id u \<noteq> user) us = find (\<lambda>u. u_id u = au_id cu) us" for us
        by (rule arg_cong)
      then show ?thesis using assms(1) unfolding 2(4) user_by_id_def rows find_filter by (rule trans)
    qed
  qed
qed

definition demotion :: update_user_body where
  "demotion = \<lparr>ub_username = None, ub_email = None, ub_password = None, ub_is_admin = Some False,
     ub_storage_backend = None, ub_storage_quota = None, ub_watermark = None\<rparr>"

lemma admins_app_users [simp]: "t_users (ap_db admins_app) = [demo_user, demo_admin 1, demo_admin 2]"
  by (simp add: admins_app_def)

lemma demo_admin_sel [simp]:
  "u_id (demo_admin i) = i" "u_is_admin (demo_admin i)" "u_username (demo_admin i) = nat_str i"
  "u_email (demo_admin i) = None"
  by (simp_all add: demo_admin_def)

lemma admin_token_sel [simp]: "au_id (admin_token i) = i"
  by (simp add: admin_token_def)

theorem admin_keeps_himself_witness:
  "\<exists>b. user_by_id (snd (update_user demo_env SqliteMode demo_i18n En no_faults 0 (admin_token 1) 2 demotion
      (ap_db admins_app))) 1 = Some b \<and> u_is_admin b"
proof -
  have "user_by_id (ap_db admins_app) (au_id (admin_token 1)) = Some (demo_admin 1)"
    by (simp add: user_by_id_def)
  from conjunct1 [OF admin_keeps_himself [OF this]] show ?thesis by simp
qed

lemma demoted_rows:
  assumes "update_user env mode g loc fails salt cu j demotion d = (Inr x, d')"
  shows "\<exists>f. d' = set_user f j d \<and> (\<forall>u. u_id (f u) = u_id u \<and> \<not> u_is_admin (f u))"
  using assms
proof (cases rule: update_user_cases)
  case (2 u h)
  then show ?thesis
    by (intro exI [of _ "assign_user_fields (merge_user_fields demotion u) h"]) (simp add: demotion_def)
qed simp

lemma check_other_db:
  assumes "check_blacklist_and_quota env bl g loc fail t d b c = Inr u"
  shows "\<exists>v. check_blacklist_and_quota env bl g loc fail t d' b c = Inr v \<and> au_id v = au_id u \<and>
    au_is_admin v = au_is_admin u"
  using assms unfolding check_blacklist_and_quota_def
  by (cases "ae_uuid_parse env (acl_sub c)") (auto simp: Let_def split: if_splits option.splits prod.splits)

lemma require_auth_other_db:
  assumes "require_auth env bl cfg g fail t d b lang authorization = Inr u"
  shows "\<exists>v. require_auth env bl cfg g fail t d' b lang authorization = Inr v \<and> au_id v = au_id u \<and>
    au_is_admin v = au_is_admin u"
proof -
  let ?loc = "locale_from_header lang (i_language g)"
  obtain token where e: "extract_bearer_token g ?loc authorization = Inr token"
    using assms by (cases "extract_bearer_token g ?loc authorization") (simp_all add: require_auth_def Let_def)
  obtain c where c: "decode_and_validate_jwt env g ?loc t token (ac_jwt_secret cfg) = Inr c"
    using assms e by (cases "decode_and_validate_jwt env g ?loc t token (ac_jwt_secret cfg)")
      (simp_all add: require_auth_def Let_def)
  have "check_blacklist_and_quota env bl g ?loc fail t d b c = Inr u"
    using assms e c by (simp add: require_auth_def Let_def)
  from check_other_db [OF this, of d'] show ?thesis using e c by (simp add: require_auth_def Let_def)
qed

text \<open>
  Property C30. A demotion does not reach the sessions of the demoted, and so two administrators can
  demote each other: the token of the demoted one is still an administrator's, his demotion of the
  other one, when it succeeds, leaves the system without any administrator.
\<close>

theorem admins_demote_each_other:
  assumes "\<forall>u \<in> set (t_users d). u_is_admin u \<longrightarrow> u_id u = i \<or> u_id u = j"
    and "require_auth env bl cfg g fail t d b lang authorization = Inr ub" and "au_id ub = j" and "au_is_admin ub"
    and "update_user env' mode g loc fails salt ua j demotion d = (Inr x, d1)"
  shows "\<exists>vb. require_auth env bl cfg g fail t d1 b lang authorization = Inr vb \<and> au_id vb = j \<and>
    require_admin g lang (Some vb) = Inr vb \<and>
    (\<forall>y d2. update_user env' mode g loc' fails' salt' vb i demotion d1 = (Inr y, d2) \<longrightarrow>
       (\<forall>u \<in> set (t_users d2). \<not> u_is_admin u))"
proof -
  obtain vb where vb: "require_auth env bl cfg g fail t d1 b lang authorization = Inr vb" "au_id vb = j" "au_is_admin vb"
    using require_auth_other_db [OF assms(2)] assms(3,4) by blast
  obtain f where f: "d1 = set_user f j d" "\<forall>u. u_id (f u) = u_id u \<and> \<not> u_is_admin (f u)"
    using demoted_rows [OF assms(5)] by blast
  have "\<not> u_is_admin u"
    if y: "update_user env' mode g loc' fails' salt' vb i demotion d1 = (Inr y, d2)" and u: "u \<in> set (t_users d2)" for y d2 u
  proof -
    obtain h where h: "d2 = set_user h i d1" "\<forall>u. u_id (h u) = u_id u \<and> \<not> u_is_admin (h u)"
      using demoted_rows [OF y] by blast
    obtain w where w: "w \<in> set (t_users d1)" "u = (if u_id w = i then h w else w)"
      using u unfolding h(1) set_user_def by auto
    obtain v where v: "v \<in> set (t_users d)" "w = (if u_id v = j then f v else v)"
      using w(1) unfolding f(1) set_user_def by auto
    show ?thesis
      using assms(1) v w(2) f(2) h(2) by (cases "u_id v = j"; cases "u_id w = i") auto
  qed
  then show ?thesis using vb by (intro exI [of _ vb]) (auto simp: require_admin_def)
qed

definition admin_two_claims :: access_claims where
  "admin_two_claims = demo_claims\<lparr>acl_sub := nat_str 2\<rparr>"

definition one_left :: db where
  "one_left = snd (update_user demo_env SqliteMode demo_i18n En no_faults 0 (admin_token 1) 2 demotion (ap_db admins_app))"

lemma demotions_succeed:
  "is_ok (fst (update_user demo_env SqliteMode demo_i18n En no_faults 0 (admin_token 1) 2 demotion (ap_db admins_app)))"
  "is_ok (fst (update_user demo_env SqliteMode demo_i18n En no_faults 0 (admin_token 2) 1 demotion one_left))"
  by code_simp+

theorem admins_demote_each_other_witness:
  "(\<exists>v. require_auth demo_env (lite_blacklist_ops (pad_nat 17)) (cf_auth default_app_config) demo_i18n False 0
      one_left [] None (Some (bearer (the (demo_encode_access [] admin_two_claims)))) = Inr v \<and>
    require_admin demo_i18n None (Some v) = Inr v \<and> au_id v = 2) \<and>
   is_ok (fst (update_user demo_env SqliteMode demo_i18n En no_faults 0 (admin_token 2) 1 demotion one_left))"
proof -
  have tok: "jw_encode_access (ae_jwt demo_env) k admin_two_claims = Some (the (demo_encode_access k admin_two_claims))" for k
    by (simp add: demo_encode_access_def)
  have dec: "jw_decode_access (ae_jwt demo_env) (ac_jwt_secret (cf_auth default_app_config)) True 0
      (the (demo_encode_access [] admin_two_claims)) = Some admin_two_claims"
    unfolding demo_default_sel access_token_decodes [OF demo_env_laws tok]
    by (simp add: token_expired_def timestamp_def admin_two_claims_def)
  have auth: "require_auth demo_env (lite_blacklist_ops (pad_nat 17)) (cf_auth default_app_config) demo_i18n False 0
      (ap_db admins_app) [] None (Some (bearer (the (demo_encode_access [] admin_two_claims)))) =
    Inr \<lparr>au_id = 2, au_is_admin = True, au_storage_quota = Some 100, au_watermark = None\<rparr>"
    unfolding require_auth_decoded [OF dec]
    by (simp add: check_blacklist_and_quota_def lite_blacklist_ops_def sqlite_blacklist_check_def admin_two_claims_def
        user_by_id_def demo_admin_def demo_user_def)
  obtain x where "update_user demo_env SqliteMode demo_i18n En no_faults 0 (admin_token 1) 2 demotion (ap_db admins_app) =
      (Inr x, one_left)"
    using demotions_succeed(1) unfolding one_left_def
    by (cases "update_user demo_env SqliteMode demo_i18n En no_faults 0 (admin_token 1) 2 demotion (ap_db admins_app)")
      (auto simp: is_ok_def split: sum.splits)
  from admins_demote_each_other [OF _ auth _ _ this, of 1]
  have "\<exists>v. require_auth demo_env (lite_blacklist_ops (pad_nat 17)) (cf_auth default_app_config) demo_i18n False 0
      one_left [] None (Some (bearer (the (demo_encode_access [] admin_two_claims)))) = Inr v \<and>
    require_admin demo_i18n None (Some v) = Inr v \<and> au_id v = 2"
    by (simp del: One_nat_def) metis
  then show ?thesis using demotions_succeed(2) by blast
qed

section \<open>The statistics\<close>

declare pipe.simps [simp del]

text \<open>The hash a counted answer is cached as; redis keeps the fields in the order written last first.\<close>

definition admin_hash :: "admin_stats \<Rightarrow> (string \<times> string) list" where
  "admin_hash s =
     (let local = the (map_of (as_storage_backends s) ''local'');
          rustfs = the (map_of (as_storage_backends s) ''rustfs'')
      in [(''rustfs_size'', int_str (bs_total_size rustfs)), (''local_size'', int_str (bs_total_size local)),
          (''local_images'', int_str (bs_total_images local)),
          (''total_quota'', case as_total_quota s of None \<Rightarrow> [] | Some q \<Rightarrow> int_str q),
          (''active_users_24h'', int_str (as_active_users_24h s)), (''total_size'', int_str (as_total_size s)),
          (''total_images'', int_str (as_total_images s)), (''total_users'', int_str (as_total_users s))])"

definition stats_params :: "admin_stats \<Rightarrow> stats_cache_params" where
  "stats_params s =
     (let local = the (map_of (as_storage_backends s) ''local'');
          rustfs = the (map_of (as_storage_backends s) ''rustfs'')
      in \<lparr>sp_total_users = as_total_users s, sp_total_images = as_total_images s,
          sp_total_size = as_total_size s, sp_active_users_24h = as_active_users_24h s,
          sp_total_quota = as_total_quota s, sp_local_images = bs_total_images local,
          sp_local_size = bs_total_size local, sp_rustfs_size = bs_total_size rustfs\<rparr>)"

definition hset :: "string \<times> string \<Rightarrow> (string \<times> string) list \<Rightarrow> (string \<times> string) list" where
  "hset p h = p # filter (\<lambda>q. fst q \<noteq> fst p) h"

lemma snd_pipe_Cons:
  "snd (pipe redis_server ks t (c # cs)) = snd (pipe redis_server (snd (documented c t ks)) t cs)"
  by (simp add: split_beta split: redis_reply.split)

lemma pipe_hset:
  assumes "hash_of (live k t key) = Some h" and "live k t key \<noteq> None \<or> fs \<noteq> []"
  shows "snd (pipe redis_server k t (map (\<lambda>(f, v). CHSet key f (enc v)) fs @ [CExpire key 300])) key =
    Some (VHash (fold hset (map (apsnd enc) fs) h), Some (t + secs 300))"
  using assms
proof (induction fs arbitrary: k h)
  case Nil
  then show ?case
    by (cases "live k t key") (auto simp: hash_of_def snd_pipe_Cons secs_def split: redis_value.splits)
next
  case (Cons p fs)
  obtain f v where p: "p = (f, v)" by fastforce
  let ?k = "store_keep k t key (VHash ((f, enc v) # filter (\<lambda>q. fst q \<noteq> f) h))"
  have "snd (pipe redis_server ?k t (map (\<lambda>(f, v). CHSet key f (enc v)) fs @ [CExpire key 300])) key =
    Some (VHash (fold hset (map (apsnd enc) fs) ((f, enc v) # filter (\<lambda>q. fst q \<noteq> f) h)), Some (t + secs 300))"
    by (rule Cons.IH) (simp_all add: hash_of_def)
  moreover have "hset (f, enc v) h = (f, enc v) # filter (\<lambda>q. fst q \<noteq> f) h" by (simp add: hset_def)
  ultimately show ?case
    using Cons.prems(1) by (simp add: p snd_pipe_Cons del: pipe_server_Cons)
qed

lemma admin_stats_written:
  assumes "redis_up exec ks" and "live (ks c) t (stats_key us nil_uuid) = None"
  shows "ks (populate_stats_cache (redis_stats_ops exec us) c t (stats_params s)) (stats_key us nil_uuid) =
    Some (VHash (admin_hash s), Some (t + secs 300))"
proof -
  have "hash_of (live (ks c) t (stats_key us nil_uuid)) = Some []" using assms(2) by (simp add: hash_of_def)
  note w = pipe_hset [OF this, where enc = "\<lambda>v. case v of None \<Rightarrow> [] | Some i \<Rightarrow> int_str i"]
  show ?thesis
    unfolding populate_stats_cache_def redis_stats_ops_def stats_ops.select_convs snd_apfst
      set_user_stats_up [OF assms(1)]
    unfolding set_user_stats_def
    by (subst w) (simp_all add: admin_hash_def stats_params_def Let_def hset_def)
qed

lemma admin_stats_read:
  assumes "redis_up exec ks" and "live (ks c) t (stats_key us nil_uuid) = Some (VHash (admin_hash s))"
  shows "so_get (redis_stats_ops exec us) c t nil_uuid = Inr (Some (admin_hash s))"
proof -
  have "get_user_stats redis_server us (ks c) t nil_uuid = Inr (Some (admin_hash s))"
    using assms(2) unfolding get_user_stats_def query_server documented.simps
    by (simp add: hash_of_def admin_hash_def Let_def)
  then show ?thesis
    unfolding redis_stats_ops_def stats_ops.select_convs get_user_stats_up [OF assms(1)] by simp
qed

definition i64s :: "admin_stats \<Rightarrow> int list" where
  "i64s s = [as_total_users s, as_total_images s, as_total_size s, as_active_users_24h s] @
     (case as_total_quota s of None \<Rightarrow> [] | Some q \<Rightarrow> [q]) @
     concat (map (\<lambda>(n, b). [bs_total_images b, bs_total_size b]) (as_storage_backends s))"

lemma int_str_ne [simp]: "int_str i \<noteq> []"
  by (simp add: int_str_def)

lemma cached_admin_stats:
  assumes "as_storage_backends s = [(''local'', l), (''rustfs'', r)]"
    and "\<forall>i \<in> set (i64s s). - (2 ^ 63) \<le> i \<and> i < 2 ^ 63"
  shows "try_parse_cached_stats (admin_hash s) =
    Some (s\<lparr>as_storage_backends := [(''local'', l), (''rustfs'', r\<lparr>bs_total_images := 0\<rparr>)]\<rparr>)"
proof -
  have "parse_i64 (int_str i) = Some i" if "i \<in> set (i64s s)" for i
    using assms(2) that by (intro parse_i64_int_str) auto
  then show ?thesis
    using assms(1)
    by (cases "as_total_quota s")
      (simp_all add: i64s_def try_parse_cached_stats_def admin_hash_def Let_def)
qed

lemma int_length_bound: "length xs < 2 ^ 63 \<Longrightarrow> - (2 ^ 63) \<le> int (length xs) \<and> int (length xs) < 2 ^ 63"
  by simp

lemma db_sum_bound: "db_sum xs = Some q \<Longrightarrow> - (2 ^ 63) \<le> q \<and> q < 2 ^ 63"
  by (auto simp: db_sum_def Let_def split: if_splits)

lemma query_stats_Inr:
  "query_total_users g loc fail d = Inr n \<Longrightarrow> n = int (length (t_users d))"
  "query_image_stats g loc fail d = Inr p \<Longrightarrow>
     fst p = int (length (t_images d)) \<and> - (2 ^ 63) \<le> snd p \<and> snd p < 2 ^ 63"
  "query_total_quota g loc fail d = Inr q \<Longrightarrow> \<forall>i. q = Some i \<longrightarrow> - (2 ^ 63) \<le> i \<and> i < 2 ^ 63"
  "query_backend_stats g loc fail d name = Inr b \<Longrightarrow>
     bs_total_images b = int (length (filter (\<lambda>x. im_storage_backend x = name) (t_images d))) \<and>
     - (2 ^ 63) \<le> bs_total_size b \<and> bs_total_size b < 2 ^ 63"
  by (auto simp: query_total_users_def query_image_stats_def query_total_quota_def query_backend_stats_def Let_def
      dest!: db_sum_bound split: if_splits option.splits)

lemma active_users_bound:
  assumes "length (t_images d) < 2 ^ 63"
  shows "- (2 ^ 63) \<le> query_active_users_24h fail now d \<and> query_active_users_24h fail now d < 2 ^ 63"
proof -
  have "length (remdups (map im_user_id (filter P (t_images d)))) \<le> length (t_images d)" for P
    using order_trans [OF length_remdups_leq [of "map im_user_id (filter P (t_images d))"],
        unfolded length_map, OF length_filter_le] .
  then have "length (remdups (map im_user_id (filter P (t_images d)))) < 2 ^ 63" for P
    using assms by (rule le_less_trans)
  from int_length_bound [OF this] show ?thesis by (simp add: query_active_users_24h_def)
qed

lemma counted_stats:
  assumes "count_admin_stats g loc fails now d = Inr s" and "length (t_users d) < 2 ^ 63" and "length (t_images d) < 2 ^ 63"
  shows "\<exists>l r. as_storage_backends s = [(''local'', l), (''rustfs'', r)] \<and>
      bs_total_images r = int (length (filter (\<lambda>x. im_storage_backend x = ''rustfs'') (t_images d)))"
    and "\<forall>i \<in> set (i64s s). - (2 ^ 63) \<le> i \<and> i < 2 ^ 63"
proof -
  obtain n where n: "query_total_users g loc (fails 0) d = Inr n"
    using assms(1) by (cases "query_total_users g loc (fails 0) d") (simp_all add: count_admin_stats_def)
  obtain p where p: "query_image_stats g loc (fails 1) d = Inr p"
    using assms(1) n by (cases "query_image_stats g loc (fails 1) d") (simp_all add: count_admin_stats_def)
  obtain q where q: "query_total_quota g loc (fails 3) d = Inr q"
    using assms(1) n p by (cases "query_total_quota g loc (fails 3) d") (simp_all add: count_admin_stats_def split_beta)
  obtain l where l: "query_backend_stats g loc (fails 4) d ''local'' = Inr l"
    using assms(1) n p q by (cases "query_backend_stats g loc (fails 4) d ''local''")
      (simp_all add: count_admin_stats_def split_beta)
  obtain r where r: "query_backend_stats g loc (fails 5) d ''rustfs'' = Inr r"
    using assms(1) n p q l by (cases "query_backend_stats g loc (fails 5) d ''rustfs''")
      (simp_all add: count_admin_stats_def split_beta)
  have s: "s = \<lparr>as_total_users = n, as_total_images = fst p, as_total_size = snd p,
      as_active_users_24h = query_active_users_24h (fails 2) now d, as_total_quota = q,
      as_storage_backends = [(''local'', l), (''rustfs'', r)]\<rparr>"
    using assms(1) n p q l r by (simp add: count_admin_stats_def split_beta build_backends_map_def)
  have le: "length (filter P (t_images d)) < 2 ^ 63" for P
    using length_filter_le [of P "t_images d"] assms(3) by (rule le_less_trans)
  show "\<exists>l r. as_storage_backends s = [(''local'', l), (''rustfs'', r)] \<and>
      bs_total_images r = int (length (filter (\<lambda>x. im_storage_backend x = ''rustfs'') (t_images d)))"
    using query_stats_Inr(4) [OF r] by (simp add: s)
  show "\<forall>i \<in> set (i64s s). - (2 ^ 63) \<le> i \<and> i < 2 ^ 63"
    using query_stats_Inr(1) [OF n] query_stats_Inr(2) [OF p] query_stats_Inr(3) [OF q] query_stats_Inr(4) [OF l]
      query_stats_Inr(4) [OF r] active_users_bound [OF assms(3), of "fails 2" now] int_length_bound [OF assms(2)]
      int_length_bound [OF assms(3)] int_length_bound [OF le]
    by (cases q) (simp_all add: s i64s_def)
qed

text \<open>
  The statistics of the whole system are cached for five minutes without the number of
  images of the second backend: an answer counted from the database is repeated for the next 300
  seconds with every figure as it was, except that the count of \<open>rustfs\<close> images has become zero
  while their size is still there.
\<close>

theorem cached_admin_stats_lose_rustfs_images:
  assumes "redis_up exec ks" and "live (ks c) t (stats_key us nil_uuid) = None"
    and "get_admin_stats (redis_stats_ops exec us) g loc fails t d c = (Inr s, c1)"
    and "ks c2 (stats_key us nil_uuid) = ks c1 (stats_key us nil_uuid)" and "t' < t + secs 300"
    and "length (t_users d) < 2 ^ 63" and "length (t_images d) < 2 ^ 63"
  shows "\<exists>l r. as_storage_backends s = [(''local'', l), (''rustfs'', r)] \<and>
    bs_total_images r = int (length (filter (\<lambda>x. im_storage_backend x = ''rustfs'') (t_images d))) \<and>
    get_admin_stats (redis_stats_ops exec us) g loc fails' t' d2 c2 =
      (Inr (s\<lparr>as_storage_backends := [(''local'', l), (''rustfs'', r\<lparr>bs_total_images := 0\<rparr>)]\<rparr>), c2)"
proof -
  have "so_get (redis_stats_ops exec us) c t nil_uuid = Inr (Some [])"
    using stats_cold [OF assms(2)] by (simp add: redis_stats_ops_def get_user_stats_up [OF assms(1)])
  then have cnt: "count_admin_stats g loc fails t d = Inr s"
    and c1: "c1 = populate_stats_cache (redis_stats_ops exec us) c t (stats_params s)"
    using assms(3) by (auto simp: get_admin_stats_def try_parse_cached_stats_def stats_params_def Let_def split: sum.splits)
  have "live (ks c2) t' (stats_key us nil_uuid) = Some (VHash (admin_hash s))"
    using admin_stats_written [OF assms(1,2), of s] assms(4,5) unfolding c1 by (simp add: live_def)
  then have hit: "so_get (redis_stats_ops exec us) c2 t' nil_uuid = Inr (Some (admin_hash s))"
    by (rule admin_stats_read [OF assms(1)])
  obtain l r where lr: "as_storage_backends s = [(''local'', l), (''rustfs'', r)]"
    "bs_total_images r = int (length (filter (\<lambda>x. im_storage_backend x = ''rustfs'') (t_images d)))"
    using counted_stats(1) [OF cnt assms(6,7)] by blast
  have "get_admin_stats (redis_stats_ops exec us) g loc fails' t' d2 c2 =
      (Inr (s\<lparr>as_storage_backends := [(''local'', l), (''rustfs'', r\<lparr>bs_total_images := 0\<rparr>)]\<rparr>), c2)"
    using cached_admin_stats [OF lr(1) counted_stats(2) [OF cnt assms(6,7)]] hit
    by (simp add: get_admin_stats_def)
  then show ?thesis using lr by blast
qed

definition rustfs_db :: db where
  "rustfs_db = empty_db\<lparr>t_users := [demo_user],
     t_images := [new_image_row 8 1 7 ''k'' ''n'' ''s'' ''rustfs'' ''image/png'' 5 None None ''h'' ''u'' None]\<rparr>"

definition ask_admin_stats :: "instant \<Rightarrow> db \<Rightarrow> key_space \<Rightarrow> (api_error + admin_stats) \<times> key_space" where
  "ask_admin_stats t d s = get_admin_stats (redis_stats_ops redis_server nat_str) demo_i18n En no_faults t d s"

theorem cached_admin_stats_lose_rustfs_images_witness:
  "\<exists>s s'. fst (ask_admin_stats 8 rustfs_db (\<lambda>_. None)) = Inr s \<and>
    map (bs_total_images o snd) (as_storage_backends s) = [0, 1] \<and>
    fst (ask_admin_stats 9 rustfs_db (snd (ask_admin_stats 8 rustfs_db (\<lambda>_. None)))) = Inr s' \<and>
    map (bs_total_images o snd) (as_storage_backends s') = [0, 0]"
proof -
  have cold: "live (\<lambda>_. None) 8 (stats_key nat_str nil_uuid) = None" by (simp add: live_def)
  obtain s where cnt: "count_admin_stats demo_i18n En no_faults 8 rustfs_db = Inr s"
    and l: "map (bs_total_images o snd) (as_storage_backends s) = [0, 1]"
    by (simp add: count_admin_stats_def query_total_users_def query_image_stats_def query_total_quota_def
        query_backend_stats_def build_backends_map_def rustfs_db_def empty_db_def new_image_row_def db_sum_def
        map_filter_Cons)
  have g: "get_admin_stats (redis_stats_ops redis_server nat_str) demo_i18n En no_faults 8 rustfs_db (\<lambda>_. None) =
      (Inr s, snd (ask_admin_stats 8 rustfs_db (\<lambda>_. None)))"
    using stats_cold [OF cold] cnt
    by (simp add: ask_admin_stats_def get_admin_stats_def try_parse_cached_stats_def redis_stats_ops_def Let_def)
  have small: "length (t_users rustfs_db) < 2 ^ 63" "length (t_images rustfs_db) < 2 ^ 63" "(9::nat) < 8 + secs 300"
    by (simp_all add: rustfs_db_def empty_db_def secs_def nanos_per_sec_def)
  obtain b r where "as_storage_backends s = [(''local'', b), (''rustfs'', r)]"
    and "get_admin_stats (redis_stats_ops redis_server nat_str) demo_i18n En no_faults 9 rustfs_db
        (snd (ask_admin_stats 8 rustfs_db (\<lambda>_. None))) =
      (Inr (s\<lparr>as_storage_backends := [(''local'', b), (''rustfs'', r\<lparr>bs_total_images := 0\<rparr>)]\<rparr>),
       snd (ask_admin_stats 8 rustfs_db (\<lambda>_. None)))"
    using cached_admin_stats_lose_rustfs_images
        [OF redis_server_up cold g, of "snd (ask_admin_stats 8 rustfs_db (\<lambda>_. None))" 9 no_faults rustfs_db,
         OF refl small(3,1,2)] by blast
  moreover have "fst (ask_admin_stats 8 rustfs_db (\<lambda>_. None)) = Inr s"
    using arg_cong [OF g, of fst] by (simp add: ask_admin_stats_def)
  ultimately show ?thesis
    using l by (intro exI [of _ s]
        exI [of _ "s\<lparr>as_storage_backends := [(''local'', b), (''rustfs'', r\<lparr>bs_total_images := 0\<rparr>)]\<rparr>"])
      (simp add: ask_admin_stats_def)
qed

end
