(* ===== verification/Oauth.thy ===== *)
theory Oauth
  imports Upload
begin

text \<open>
  Signing in with GitHub and Google, \<open>pichost-api/src/routes/oauth.rs\<close>. The oauth2 crate is the record
  \<open>oauth_lib\<close>: the check of a URL, the authorization URL of a client, and the exchange of a code for an
  access token. The requests for the user's data go to \<open>http_client\<close>, whose requests do not record the
  \<open>User-Agent\<close> header. \<open>None\<close> as the result of a handler is a panic of an \<open>expect\<close>.
\<close>

section \<open>Clients\<close>

datatype oauth_client_error = MissingClientId string | MissingClientSecret string

record oauth_client =
  oc_client_id :: string
  oc_client_secret :: string
  oc_auth_url :: string
  oc_token_url :: string
  oc_redirect_url :: string

record 'h oauth_lib =
  ol_url_ok :: "string \<Rightarrow> bool"
  ol_authorize_url :: "oauth_client \<Rightarrow> string \<Rightarrow> string list \<Rightarrow> string"
  ol_client_builds :: bool
  ol_exchange_code :: "'h \<Rightarrow> oauth_client \<Rightarrow> string \<Rightarrow> string option \<times> 'h"
  ol_http :: "'h http_client"

definition oauth_client ::
  "(string \<Rightarrow> bool) \<Rightarrow> app_config \<Rightarrow> string option \<Rightarrow> string option \<Rightarrow> string \<Rightarrow> string \<Rightarrow> string \<Rightarrow>
   (oauth_client_error + oauth_client) option" where
  "oauth_client url_ok cfg client_id client_secret auth_url token_url provider =
     (case client_id of
        None \<Rightarrow> Some (Inl (MissingClientId provider))
      | Some cid \<Rightarrow>
          (case client_secret of
             None \<Rightarrow> Some (Inl (MissingClientSecret provider))
           | Some csec \<Rightarrow>
               (let redirect = sv_public_url (cf_server cfg) @ ''/api/v1/auth/oauth/'' @ provider @ ''/callback''
                in if url_ok auth_url \<and> url_ok token_url \<and> url_ok redirect
                   then Some (Inr \<lparr>oc_client_id = cid, oc_client_secret = csec, oc_auth_url = auth_url,
                                   oc_token_url = token_url, oc_redirect_url = redirect\<rparr>)
                   else None)))"

definition make_github_client :: "(string \<Rightarrow> bool) \<Rightarrow> app_config \<Rightarrow> (oauth_client_error + oauth_client) option" where
  "make_github_client url_ok cfg =
     oauth_client url_ok cfg (ac_github_client_id (cf_auth cfg)) (ac_github_client_secret (cf_auth cfg))
       ''https://github.com/login/oauth/authorize'' ''https://github.com/login/oauth/access_token'' ''github''"

definition make_google_client :: "(string \<Rightarrow> bool) \<Rightarrow> app_config \<Rightarrow> (oauth_client_error + oauth_client) option" where
  "make_google_client url_ok cfg =
     oauth_client url_ok cfg (ac_google_client_id (cf_auth cfg)) (ac_google_client_secret (cf_auth cfg))
       ''https://accounts.google.com/o/oauth2/v2/auth'' ''https://oauth2.googleapis.com/token'' ''google''"

definition client_error_response :: "i18n \<Rightarrow> language \<Rightarrow> oauth_client_error \<Rightarrow> api_error" where
  "client_error_response g loc e =
     (let (key, provider) =
            (case e of MissingClientId p \<Rightarrow> (''auth.oauth_not_configured'', p)
                     | MissingClientSecret p \<Rightarrow> (''auth.oauth_secret_not_configured'', p))
      in error_json_args g loc 400 key [provider])"

section \<open>The redirects\<close>

text \<open>The random CSRF token goes into the URL and is then dropped.\<close>

definition github_redirect ::
  "'h oauth_lib \<Rightarrow> app_config \<Rightarrow> i18n \<Rightarrow> language \<Rightarrow> string \<Rightarrow> (api_error + string) option" where
  "github_redirect lib cfg g loc csrf_token =
     (case make_github_client (ol_url_ok lib) cfg of
        None \<Rightarrow> None
      | Some (Inl e) \<Rightarrow> Some (Inl (client_error_response g loc e))
      | Some (Inr client) \<Rightarrow>
          Some (Inr (ol_authorize_url lib client csrf_token [''read:user'', ''user:email''])))"

definition google_redirect ::
  "'h oauth_lib \<Rightarrow> app_config \<Rightarrow> i18n \<Rightarrow> language \<Rightarrow> string \<Rightarrow> (api_error + string) option" where
  "google_redirect lib cfg g loc csrf_token =
     (case make_google_client (ol_url_ok lib) cfg of
        None \<Rightarrow> None
      | Some (Inl e) \<Rightarrow> Some (Inl (client_error_response g loc e))
      | Some (Inr client) \<Rightarrow>
          Some (Inr (ol_authorize_url lib client csrf_token [''openid'', ''email'', ''profile''])))"

section \<open>The user's data\<close>

record oauth_user_info =
  oi_provider_user_id :: string
  oi_email :: "string option"
  oi_login :: "string option"

definition as_u64 :: "json option \<Rightarrow> nat option" where
  "as_u64 v = (case v of Some (JInt i) \<Rightarrow> (if 0 \<le> i \<and> i < 2 ^ 64 then Some (nat i) else None) | _ \<Rightarrow> None)"

definition userinfo_request :: "string \<Rightarrow> string \<Rightarrow> http_request" where
  "userinfo_request url token =
     \<lparr>hq_method = ''GET'', hq_url = url, hq_authorization = ''Bearer '' @ token, hq_query = [], hq_body = None\<rparr>"

text \<open>The status of the answer is not looked at. \<open>None\<close> is a failed request or a body that is not JSON.\<close>

definition fetch_github_user :: "'h http_client \<Rightarrow> 'h \<Rightarrow> string \<Rightarrow> oauth_user_info option \<times> 'h" where
  "fetch_github_user http h token =
     (let (resp, h') = http h (userinfo_request ''https://api.github.com/user'' token)
      in (map_option
            (\<lambda>v. \<lparr>oi_provider_user_id = nat_str (opt_unwrap_or (as_u64 (obj_get v ''id'')) 0),
                  oi_email = Option.bind (obj_get v ''email'') as_str,
                  oi_login = Option.bind (obj_get v ''login'') as_str\<rparr>)
            (Option.bind resp hs_json), h'))"

definition fetch_google_user :: "'h http_client \<Rightarrow> 'h \<Rightarrow> string \<Rightarrow> oauth_user_info option \<times> 'h" where
  "fetch_google_user http h token =
     (let (resp, h') = http h (userinfo_request ''https://www.googleapis.com/oauth2/v2/userinfo'' token)
      in (map_option
            (\<lambda>v. \<lparr>oi_provider_user_id = opt_unwrap_or (Option.bind (obj_get v ''id'') as_str) ''0'',
                  oi_email = Option.bind (obj_get v ''email'') as_str,
                  oi_login = Option.bind (obj_get v ''name'') as_str\<rparr>)
            (Option.bind resp hs_json), h'))"

definition oauth_exchange_and_fetch_user ::
  "'h oauth_lib \<Rightarrow> app_config \<Rightarrow> i18n \<Rightarrow> language \<Rightarrow> string \<Rightarrow> string \<Rightarrow> 'h \<Rightarrow>
   ((api_error + oauth_user_info) \<times> 'h) option" where
  "oauth_exchange_and_fetch_user lib cfg g loc provider code h =
     (let made = (if provider = ''github'' then
                    map_option (map_err (client_error_response g loc)) (make_github_client (ol_url_ok lib) cfg)
                  else if provider = ''google'' then
                    map_option (map_err (client_error_response g loc)) (make_google_client (ol_url_ok lib) cfg)
                  else Some (Inl (error_json g loc 400 ''auth.unknown_provider'')))
      in case made of
           None \<Rightarrow> None
         | Some (Inl e) \<Rightarrow> Some (Inl e, h)
         | Some (Inr client) \<Rightarrow>
             (if \<not> ol_client_builds lib then Some (Inl (error_json g loc 500 ''auth.internal_error''), h)
              else
                (case ol_exchange_code lib h client code of
                   (None, h1) \<Rightarrow> Some (Inl (error_json g loc 400 ''auth.invalid_oauth_code''), h1)
                 | (Some access_token, h1) \<Rightarrow>
                     (let (info, h2) = (if provider = ''github'' then fetch_github_user (ol_http lib) h1 access_token
                                        else fetch_google_user (ol_http lib) h1 access_token)
                      in Some (ok_or info (error_json g loc 500 ''auth.oauth_userinfo_failed''), h2)))))"

section \<open>Signing in\<close>

definition oauth_account :: "db \<Rightarrow> string \<Rightarrow> string \<Rightarrow> oauth_row option" where
  "oauth_account d provider provider_user_id =
     find (\<lambda>a. oa_provider a = provider \<and> oa_provider_user_id a = provider_user_id) (t_oauth d)"

definition lookup_oauth_user ::
  "i18n \<Rightarrow> language \<Rightarrow> faults \<Rightarrow> db \<Rightarrow> string \<Rightarrow> string \<Rightarrow> api_error + user_row" where
  "lookup_oauth_user g loc fails d provider provider_user_id =
     (if fails 0 then Inl (error_json g loc 500 ''auth.internal_error'')
      else
        rbind (ok_or (oauth_account d provider provider_user_id) (error_json g loc 404 ''auth.oauth_no_link''))
          (\<lambda>a. if fails 1 then Inl (error_json g loc 500 ''auth.internal_error'')
               else ok_or (user_by_id d (oa_user_id a)) (error_json g loc 404 ''auth.user_not_found'')))"

text \<open>The query is the pair of the code and the state; the state is not used.\<close>

definition oauth_callback ::
  "'h oauth_lib \<Rightarrow> auth_env \<Rightarrow> app_config \<Rightarrow> i18n \<Rightarrow> language \<Rightarrow> faults \<Rightarrow> instant \<Rightarrow> draws \<Rightarrow> string \<times> string \<Rightarrow>
   string \<Rightarrow> db \<Rightarrow> 'h \<Rightarrow> ((api_error + auth_response) \<times> 'h) option" where
  "oauth_callback lib env cfg g loc fails now dr query provider d h =
     (case oauth_exchange_and_fetch_user lib cfg g loc provider (fst query) h of
        None \<Rightarrow> None
      | Some (Inl e, h1) \<Rightarrow> Some (Inl e, h1)
      | Some (Inr user_info, h1) \<Rightarrow>
          Some (rbind (lookup_oauth_user g loc fails d provider (oi_provider_user_id user_info))
                 (\<lambda>u. case generate_tokens env (cf_auth cfg) now (dr_access dr) (dr_refresh dr) (u_id u)
                              (u_is_admin u) of
                        None \<Rightarrow> Inl (error_json g loc 500 ''auth.internal_error'')
                      | Some (acc_t, ref_t, ac, rc) \<Rightarrow>
                          Inr \<lparr>ar_access_token = acc_t, ar_refresh_token = ref_t,
                               ar_user = \<lparr>ui_id = u_id u, ui_username = u_username u, ui_email = u_email u,
                                          ui_is_admin = u_is_admin u, ui_storage_quota = u_storage_quota u\<rparr>\<rparr>),
                h1))"

definition github_callback ::
  "'h oauth_lib \<Rightarrow> auth_env \<Rightarrow> app_config \<Rightarrow> i18n \<Rightarrow> language \<Rightarrow> faults \<Rightarrow> instant \<Rightarrow> draws \<Rightarrow> string \<times> string \<Rightarrow>
   db \<Rightarrow> 'h \<Rightarrow> ((api_error + auth_response) \<times> 'h) option" where
  "github_callback lib env cfg g loc fails now dr query d h =
     oauth_callback lib env cfg g loc fails now dr query ''github'' d h"

definition google_callback ::
  "'h oauth_lib \<Rightarrow> auth_env \<Rightarrow> app_config \<Rightarrow> i18n \<Rightarrow> language \<Rightarrow> faults \<Rightarrow> instant \<Rightarrow> draws \<Rightarrow> string \<times> string \<Rightarrow>
   db \<Rightarrow> 'h \<Rightarrow> ((api_error + auth_response) \<times> 'h) option" where
  "google_callback lib env cfg g loc fails now dr query d h =
     oauth_callback lib env cfg g loc fails now dr query ''google'' d h"

section \<open>Linking\<close>

text \<open>The foreign key, the lengths of PostgreSQL's columns, and \<open>ON CONFLICT DO NOTHING\<close>.\<close>

definition insert_oauth_account ::
  "database_mode \<Rightarrow> bool \<Rightarrow> oauth_row \<Rightarrow> db \<Rightarrow> db option" where
  "insert_oauth_account mode fail a d =
     (if fail \<or> mode = PostgresMode \<and> (32 < char_count (oa_provider a) \<or> 128 < char_count (oa_provider_user_id a))
      then None
      else if oauth_account d (oa_provider a) (oa_provider_user_id a) \<noteq> None then Some d
      else if user_by_id d (oa_user_id a) = None then None
      else Some (d\<lparr>t_oauth := t_oauth d @ [a]\<rparr>))"

definition oauth_link ::
  "'h oauth_lib \<Rightarrow> database_mode \<Rightarrow> app_config \<Rightarrow> i18n \<Rightarrow> language \<Rightarrow> bool \<Rightarrow> auth_user \<Rightarrow> string \<Rightarrow> string \<Rightarrow> db \<Rightarrow> 'h \<Rightarrow>
   ((api_error + json) \<times> db \<times> 'h) option" where
  "oauth_link lib mode cfg g loc fail user provider code d h =
     (case oauth_exchange_and_fetch_user lib cfg g loc provider code h of
        None \<Rightarrow> None
      | Some (Inl e, h1) \<Rightarrow> Some (Inl e, d, h1)
      | Some (Inr user_info, h1) \<Rightarrow>
          Some (case insert_oauth_account mode fail
                       \<lparr>oa_user_id = au_id user, oa_provider = provider,
                        oa_provider_user_id = oi_provider_user_id user_info\<rparr> d of
                  None \<Rightarrow> (Inl (error_json g loc 500 ''auth.internal_error''), d, h1)
                | Some d' \<Rightarrow> (Inr (JObj [(''message'', JStr ''account linked successfully'')]), d', h1)))"

end
