(* ===== verification/Oauth_Props.thy ===== *)
theory Oauth_Props
  imports Oauth Auth_Props Upload_Props
begin

text \<open>
  Facts on signing in with a provider: only a linked account signs in, and gets tokens of the user it is
  linked to; the first link of an account is never changed; and the accounts of all answers without an
  id are one account.
\<close>

section \<open>Only linked accounts sign in\<close>

lemma oauth_callback_Inr:
  assumes "oauth_callback lib env cfg g loc fails now dr query provider d h = Some (Inr r, h')"
  obtains i a u ac rc where
    "oauth_exchange_and_fetch_user lib cfg g loc provider (fst query) h = Some (Inr i, h')"
    "oauth_account d provider (oi_provider_user_id i) = Some a" "user_by_id d (oa_user_id a) = Some u"
    "generate_tokens env (cf_auth cfg) now (dr_access dr) (dr_refresh dr) (u_id u) (u_is_admin u) =
       Some (ar_access_token r, ar_refresh_token r, ac, rc)"
    "ui_id (ar_user r) = u_id u" "ui_is_admin (ar_user r) = u_is_admin u"
  using assms
  by (auto simp: oauth_callback_def lookup_oauth_user_def rbind_eq_Inr ok_or_def
      split: option.splits sum.splits if_splits)

text \<open>
  Property C31. Signing in with a provider succeeds only for an account of the provider that was linked
  before, and the access token it returns is the linked user's: until it expires or is revoked the
  middleware accepts it and hands the handlers the id, admin flag and quota of that user.
\<close>

theorem oauth_sign_in_is_linked_user:
  assumes "env_laws env" and "oauth_callback lib env cfg g loc fails now dr query provider d h = Some (Inr r, h')"
    and "\<not> token_expired (timestamp now + ac_access_token_ttl (cf_auth cfg)) now'"
    and "\<not> refused bl b now' (ae_uuid_str env (dr_access dr))"
  shows "\<exists>i a u. oauth_exchange_and_fetch_user lib cfg g loc provider (fst query) h = Some (Inr i, h') \<and>
    a \<in> set (t_oauth d) \<and> oa_provider a = provider \<and> oa_provider_user_id a = oi_provider_user_id i \<and>
    u \<in> set (t_users d) \<and> u_id u = oa_user_id a \<and>
    require_auth env bl (cf_auth cfg) g False now' d b al (Some (bearer (ar_access_token r))) =
      Inr \<lparr>au_id = u_id u, au_is_admin = u_is_admin u, au_storage_quota = u_storage_quota u,
           au_watermark = Option.bind (u_watermark u) (ae_wm_of_json env)\<rparr>"
proof (rule oauth_callback_Inr [OF assms(2)])
  fix i a u ac rc
  assume i: "oauth_exchange_and_fetch_user lib cfg g loc provider (fst query) h = Some (Inr i, h')"
    and a: "oauth_account d provider (oi_provider_user_id i) = Some a"
    and u: "user_by_id d (oa_user_id a) = Some u"
    and gt: "generate_tokens env (cf_auth cfg) now (dr_access dr) (dr_refresh dr) (u_id u) (u_is_admin u) =
       Some (ar_access_token r, ar_refresh_token r, ac, rc)"
  note tk = issued_tokens [OF assms(1) gt]
  have dec: "jw_decode_access (ae_jwt env) (ac_jwt_secret (cf_auth cfg)) True now' (ar_access_token r) = Some ac"
    unfolding tk(1) using assms(3) by simp
  have rows: "u \<in> set (t_users d)" "u_id u = oa_user_id a" "a \<in> set (t_oauth d)" "oa_provider a = provider"
    "oa_provider_user_id a = oi_provider_user_id i"
    using u a by (auto simp: user_by_id_def oauth_account_def dest!: find_SomeD)
  show ?thesis
    using i rows u check_blacklist_passes [OF _ tk(8), of bl b now'] assms(4) tk(4,6)
    by (intro exI [of _ i] exI [of _ a] exI [of _ u]) (simp add: require_auth_decoded [OF dec])
qed

text \<open>A provider that answers \<open>body\<close> to whoever asks for the user's data.\<close>

definition demo_oauth :: "json \<Rightarrow> unit oauth_lib" where
  "demo_oauth body =
     \<lparr>ol_url_ok = (\<lambda>_. True), ol_authorize_url = (\<lambda>c st sc. oc_auth_url c @ ''?state='' @ st), ol_client_builds = True,
      ol_exchange_code = (\<lambda>h c code. (if code = [] then None else Some (''t'' @ code), h)),
      ol_http = (\<lambda>h q. (Some \<lparr>hs_status = 200, hs_retry_after = None, hs_body = None, hs_json = Some body\<rparr>, h))\<rparr>"

definition oauth_config :: app_config where
  "oauth_config = default_app_config\<lparr>cf_auth := (cf_auth default_app_config)
     \<lparr>ac_github_client_id := Some ''id'', ac_github_client_secret := Some ''secret''\<rparr>\<rparr>"

lemma oauth_config_sel [simp]:
  "ac_github_client_id (cf_auth oauth_config) = Some ''id''"
  "ac_github_client_secret (cf_auth oauth_config) = Some ''secret''"
  "ac_jwt_secret (cf_auth oauth_config) = []"
  "ac_access_token_ttl (cf_auth oauth_config) = 900" "ac_refresh_token_ttl (cf_auth oauth_config) = 2592000"
  by (simp_all add: oauth_config_def default_app_config_def)

lemma demo_exchange:
  "code \<noteq> [] \<Longrightarrow> oauth_exchange_and_fetch_user (demo_oauth body) oauth_config g loc ''github'' code () =
    Some (Inr \<lparr>oi_provider_user_id = nat_str (opt_unwrap_or (as_u64 (obj_get body ''id'')) 0),
               oi_email = Option.bind (obj_get body ''email'') as_str,
               oi_login = Option.bind (obj_get body ''login'') as_str\<rparr>, ())"
  by (simp add: oauth_exchange_and_fetch_user_def make_github_client_def oauth_client_def demo_oauth_def
      fetch_github_user_def Let_def)

definition linked_db :: db where
  "linked_db = demo_db\<lparr>t_oauth := [\<lparr>oa_user_id = 7, oa_provider = ''github'', oa_provider_user_id = nat_str 42\<rparr>]\<rparr>"

lemma demo_sign_in:
  assumes "user_by_id d 7 = Some demo_user" and "code \<noteq> []"
    and "oauth_account d ''github'' (nat_str (opt_unwrap_or (as_u64 (obj_get body ''id'')) 0)) =
      Some \<lparr>oa_user_id = 7, oa_provider = ''github'', oa_provider_user_id = x\<rparr>"
  shows "\<exists>r. oauth_callback (demo_oauth body) demo_env oauth_config demo_i18n En no_faults 0 demo_draws (code, st)
    ''github'' d () = Some (Inr r, ()) \<and> ui_id (ar_user r) = 7"
proof -
  have "generate_tokens demo_env (cf_auth oauth_config) 0 21 22 7 False \<noteq> None"
    by (simp add: generate_tokens_def make_claims_def Let_def demo_encode_access_def demo_encode_refresh_def)
  then show ?thesis
    using assms by (auto simp: oauth_callback_def demo_exchange lookup_oauth_user_def)
qed

theorem oauth_sign_in_is_linked_user_witness:
  "\<exists>r. oauth_callback (demo_oauth (JObj [(''id'', JInt 42)])) demo_env oauth_config demo_i18n En no_faults 0 demo_draws
      (''c'', ''s'') ''github'' linked_db () = Some (Inr r, ()) \<and>
    require_auth demo_env (lite_blacklist_ops (pad_nat 17)) (cf_auth oauth_config) demo_i18n False 0 linked_db []
      None (Some (bearer (ar_access_token r))) =
    Inr \<lparr>au_id = 7, au_is_admin = False, au_storage_quota = Some 100, au_watermark = None\<rparr>"
proof -
  have u: "user_by_id linked_db 7 = Some demo_user" by (simp add: user_by_id_def linked_db_def)
  have "oauth_account linked_db ''github'' (nat_str (opt_unwrap_or (as_u64 (obj_get (JObj [(''id'', JInt 42)]) ''id'')) 0)) =
      Some \<lparr>oa_user_id = 7, oa_provider = ''github'', oa_provider_user_id = nat_str 42\<rparr>"
    by (simp add: oauth_account_def linked_db_def as_u64_def)
  from demo_sign_in [OF u _ this, of "''c''" "''s''"] obtain r
    where r: "oauth_callback (demo_oauth (JObj [(''id'', JInt 42)])) demo_env oauth_config demo_i18n En no_faults 0
      demo_draws (''c'', ''s'') ''github'' linked_db () = Some (Inr r, ())" by auto
  have "\<not> refused (lite_blacklist_ops (pad_nat 17)) [] 0 (ae_uuid_str demo_env (dr_access demo_draws))"
    by (simp add: refused_def lite_blacklist_ops_def sqlite_blacklist_check_def)
  from oauth_sign_in_is_linked_user [OF demo_env_laws r _ this, of None]
  have "require_auth demo_env (lite_blacklist_ops (pad_nat 17)) (cf_auth oauth_config) demo_i18n False 0 linked_db []
      None (Some (bearer (ar_access_token r))) =
    Inr \<lparr>au_id = 7, au_is_admin = False, au_storage_quota = Some 100, au_watermark = None\<rparr>"
    by (auto simp: linked_db_def token_expired_def timestamp_def)
  then show ?thesis using r by blast
qed

section \<open>Links\<close>

lemma oauth_link_cases:
  assumes "oauth_link lib mode cfg g loc fail user provider code d h = Some (r, d', h')"
  shows "d' = d \<or> (\<exists>i. oauth_exchange_and_fetch_user lib cfg g loc provider code h = Some (Inr i, h') \<and>
    oauth_account d provider (oi_provider_user_id i) = None \<and> is_ok r \<and>
    d' = d\<lparr>t_oauth := t_oauth d @ [\<lparr>oa_user_id = au_id user, oa_provider = provider,
      oa_provider_user_id = oi_provider_user_id i\<rparr>]\<rparr>)"
  using assms
  by (auto simp: oauth_link_def insert_oauth_account_def split: option.splits sum.splits if_splits)

definition oauth_unique :: "oauth_row list \<Rightarrow> bool" where
  "oauth_unique as \<longleftrightarrow> distinct (map (\<lambda>a. (oa_provider a, oa_provider_user_id a)) as)"

text \<open>
  A link is for good: whatever anybody links, an account of a provider belongs to one user
  at most, one that is linked stays with its user, and linking it to another user changes nothing,
  although that request is answered as a success when the database works.
\<close>

theorem oauth_first_link_stays:
  assumes "oauth_link lib mode cfg g loc fail user provider code d h = Some (r, d', h')" and "oauth_unique (t_oauth d)"
  shows "oauth_unique (t_oauth d') \<and>
    (\<forall>p i a. oauth_account d p i = Some a \<longrightarrow> oauth_account d' p i = Some a) \<and>
    (\<forall>i a. oauth_exchange_and_fetch_user lib cfg g loc provider code h = Some (Inr i, h') \<and>
       oauth_account d provider (oi_provider_user_id i) = Some a \<and> \<not> fail \<and> mode = SqliteMode \<longrightarrow>
       d' = d \<and> is_ok r)"
proof (intro conjI)
  show "oauth_unique (t_oauth d')"
    using oauth_link_cases [OF assms(1)] assms(2)
    by (fastforce simp: oauth_unique_def oauth_account_def find_None_iff)
  show "\<forall>p i a. oauth_account d p i = Some a \<longrightarrow> oauth_account d' p i = Some a"
    using oauth_link_cases [OF assms(1)] by (auto simp: oauth_account_def find_append)
  show "\<forall>i a. oauth_exchange_and_fetch_user lib cfg g loc provider code h = Some (Inr i, h') \<and>
       oauth_account d provider (oi_provider_user_id i) = Some a \<and> \<not> fail \<and> mode = SqliteMode \<longrightarrow>
       d' = d \<and> is_ok r"
    using assms(1) by (auto simp: oauth_link_def insert_oauth_account_def)
qed

definition demo_visitor :: auth_user where
  "demo_visitor = \<lparr>au_id = 8, au_is_admin = False, au_storage_quota = None, au_watermark = None\<rparr>"

theorem oauth_first_link_stays_witness:
  "\<exists>r. oauth_link (demo_oauth (JObj [(''id'', JInt 42)])) SqliteMode oauth_config demo_i18n En False demo_visitor
      ''github'' ''c'' linked_db () = Some (r, linked_db, ()) \<and> is_ok r"
proof -
  let ?l = "oauth_link (demo_oauth (JObj [(''id'', JInt 42)])) SqliteMode oauth_config demo_i18n En False demo_visitor
      ''github'' ''c'' linked_db ()"
  obtain x where "?l = Some x" by (simp add: oauth_link_def demo_exchange)
  then obtain r d' where l: "?l = Some (r, d', ())" by (cases x) auto
  have u: "oauth_unique (t_oauth linked_db)" by (simp add: linked_db_def oauth_unique_def)
  have "d' = linked_db \<and> is_ok r"
    using oauth_first_link_stays [OF l u]
    by (simp add: demo_exchange as_u64_def oauth_account_def linked_db_def)
  then show ?thesis using l by simp
qed

lemma nat_str_0: "nat_str 0 = ''0''"
  by code_simp

lemma github_exchange:
  "oauth_exchange_and_fetch_user lib cfg g loc ''github'' code h = Some (Inr i, h') \<Longrightarrow>
   \<exists>h1 t. fetch_github_user (ol_http lib) h1 t = (Some i, h')"
  by (auto simp: oauth_exchange_and_fetch_user_def Let_def ok_or_def split: option.splits sum.splits if_splits prod.splits)

text \<open>
  An answer of GitHub without a numeric id, such as the body of an error, whose status is
  not looked at, counts as the account with id 0: once a user was linked under such an answer, everybody
  whose sign-in gets such an answer receives tokens of that user.
\<close>

theorem oauth_error_answers_share_account:
  assumes "oauth_link lib mode cfg g loc fail user ''github'' code d h = Some (Inr r, d', h')"
    and "oauth_account d ''github'' ''0'' = None" and "user_by_id d (au_id user) = Some u"
    and "\<And>h q. \<exists>resp j. fst (ol_http lib h q) = Some resp \<and> hs_json resp = Some j \<and> as_u64 (obj_get j ''id'') = None"
    and "\<And>c. ol_exchange_code lib h2 c code2 = (Some token, h3)"
    and "generate_tokens env (cf_auth cfg) now (dr_access dr) (dr_refresh dr) (u_id u) (u_is_admin u) \<noteq> None"
  shows "\<exists>a h4. github_callback lib env cfg g loc no_faults now dr (code2, state) d' h2 = Some (Inr a, h4) \<and>
    ui_id (ar_user a) = au_id user"
proof -
  have zero: "\<exists>i k. fetch_github_user (ol_http lib) x t = (Some i, k) \<and> oi_provider_user_id i = ''0''" for x t
  proof -
    obtain resp j where "fst (ol_http lib x (userinfo_request ''https://api.github.com/user'' t)) = Some resp"
      "hs_json resp = Some j" "as_u64 (obj_get j ''id'') = None" using assms(4) by blast
    then show ?thesis by (simp add: fetch_github_user_def split_beta nat_str_0)
  qed
  have made: "\<exists>client. make_github_client (ol_url_ok lib) cfg = Some (Inr client) \<and> ol_client_builds lib"
    using assms(1) unfolding oauth_link_def oauth_exchange_and_fetch_user_def
    by (auto simp: Let_def map_err_def split: option.splits sum.splits if_splits)
  have linked: "oauth_account d' ''github'' ''0'' =
      Some \<lparr>oa_user_id = au_id user, oa_provider = ''github'', oa_provider_user_id = ''0''\<rparr> \<and> t_users d' = t_users d"
  proof -
    obtain i where i: "oauth_exchange_and_fetch_user lib cfg g loc ''github'' code h = Some (Inr i, h')"
      "insert_oauth_account mode fail \<lparr>oa_user_id = au_id user, oa_provider = ''github'',
        oa_provider_user_id = oi_provider_user_id i\<rparr> d = Some d'"
      using assms(1) by (auto simp: oauth_link_def split: option.splits sum.splits)
    obtain x t where "fetch_github_user (ol_http lib) x t = (Some i, h')" using github_exchange [OF i(1)] by blast
    with zero [of x t] have "oi_provider_user_id i = ''0''" by auto
    then show ?thesis
      using i(2) assms(2) by (auto simp: insert_oauth_account_def oauth_account_def find_append split: if_splits)
  qed
  obtain i h4 where i: "oauth_exchange_and_fetch_user lib cfg g loc ''github'' code2 h2 = Some (Inr i, h4)"
    "oi_provider_user_id i = ''0''"
    using made zero [of h3 token] assms(5)
    by (auto simp: oauth_exchange_and_fetch_user_def)
  have "user_by_id d' (au_id user) = Some u" using linked assms(3) by (simp add: user_by_id_def)
  moreover have "u_id u = au_id user" using assms(3) by (auto simp: user_by_id_def dest: find_SomeD)
  ultimately show ?thesis
    using i linked assms(6) by (auto simp: github_callback_def oauth_callback_def lookup_oauth_user_def)
qed

definition rate_limited :: json where
  "rate_limited = JObj [(''message'', JStr ''API rate limit exceeded'')]"

definition stray_db :: db where
  "stray_db = (case oauth_link (demo_oauth rate_limited) SqliteMode oauth_config demo_i18n En False demo_uploader ''github''
     ''c'' demo_db () of Some (r, d', h) \<Rightarrow> d' | None \<Rightarrow> demo_db)"

theorem oauth_error_answers_share_account_witness:
  "\<exists>a. github_callback (demo_oauth rate_limited) demo_env oauth_config demo_i18n En no_faults 0 demo_draws
      (''somebody'', ''s'') stray_db () = Some (Inr a, ()) \<and> ui_id (ar_user a) = 7"
proof -
  have u: "user_by_id demo_db (au_id demo_uploader) = Some demo_user" by (simp add: user_by_id_def)
  have n: "oauth_account demo_db ''github'' ''0'' = None"
    by (simp add: oauth_account_def demo_db_def empty_db_def)
  have l: "\<exists>r. oauth_link (demo_oauth rate_limited) SqliteMode oauth_config demo_i18n En False demo_uploader ''github''
     ''c'' demo_db () = Some (Inr r, stray_db, ())"
    using u n by (simp add: oauth_link_def demo_exchange stray_db_def rate_limited_def as_u64_def
        insert_oauth_account_def nat_str_0)
  then obtain r where r: "oauth_link (demo_oauth rate_limited) SqliteMode oauth_config demo_i18n En False demo_uploader
     ''github'' ''c'' demo_db () = Some (Inr r, stray_db, ())" by blast
  have "\<exists>a h4. github_callback (demo_oauth rate_limited) demo_env oauth_config demo_i18n En no_faults 0 demo_draws
      (''somebody'', ''s'') stray_db () = Some (Inr a, h4) \<and> ui_id (ar_user a) = au_id demo_uploader"
    by (rule oauth_error_answers_share_account [OF r n u, where token = "''tsomebody''"])
      (simp_all add: demo_oauth_def rate_limited_def as_u64_def generate_tokens_def make_claims_def Let_def
        demo_encode_access_def demo_encode_refresh_def)
  then show ?thesis by simp
qed

end
