(* ===== verification/System_Config.thy ===== *)
theory System_Config
  imports Admin
begin

text \<open>
  The configuration file: \<open>pichost-api/src/services/config.rs\<close> and the administration routes on it
  (\<open>pichost-api/src/routes/admin.rs\<close>). toml\_edit is the record \<open>toml_lib\<close>: parser and printer of a
  document, whose sections are tables, inline tables or anything else. The file system is the list of
  the known paths with their nodes, paths as they are handed to it; \<open>fails n\<close> says that the n-th access
  of a call fails, a write that fails then changed nothing. \<open>None\<close> as a result is a panic.
\<close>

section \<open>Documents\<close>

datatype toml_value = TomlStr string | TomlOther string

datatype toml_item =
    TomlTable "(string \<times> toml_value) list"
  | TomlInline "(string \<times> toml_value) list"
  | TomlRest string

type_synonym toml_doc = "(string \<times> toml_item) list"

record toml_lib =
  tl_parse :: "string \<Rightarrow> string + toml_doc"
  tl_print :: "toml_doc \<Rightarrow> string"
  tl_io_msg :: string
  tl_timestamp :: "instant \<Rightarrow> string"
  tl_embedded :: "language \<Rightarrow> catalog"
  tl_read_locale :: "string \<Rightarrow> string option"
  tl_parse_catalog :: "string \<Rightarrow> catalog"

record system_config =
  sy_database_url :: "string option"
  sy_redis_url :: "string option"
  sy_jwt_secret :: "string option"
  sy_token_encryption_key :: "string option"
  sy_public_url :: "string option"
  sy_default_backend :: "string option"
  sy_local_base_path :: "string option"
  sy_i18n_language :: "string option"
  sy_i18n_locales_dir :: "string option"

definition empty_config :: system_config where
  "empty_config = \<lparr>sy_database_url = None, sy_redis_url = None, sy_jwt_secret = None,
     sy_token_encryption_key = None, sy_public_url = None, sy_default_backend = None,
     sy_local_base_path = None, sy_i18n_language = None, sy_i18n_locales_dir = None\<rparr>"

definition from_effective :: "app_config \<Rightarrow> system_config" where
  "from_effective cfg =
     \<lparr>sy_database_url = Some (dc_url (cf_database cfg)), sy_redis_url = Some (rc_url (cf_redis cfg)),
      sy_jwt_secret = None, sy_token_encryption_key = None,
      sy_public_url = Some (sv_public_url (cf_server cfg)),
      sy_default_backend = Some (st_default_backend (cf_storage cfg)),
      sy_local_base_path = Some (st_local_base_path (cf_storage cfg)),
      sy_i18n_language = Some (ic_language (cf_i18n cfg)),
      sy_i18n_locales_dir = ic_locales_dir (cf_i18n cfg)\<rparr>"

datatype config_error = CeIo string | CeParse string | CeConnection string

fun config_error_display :: "config_error \<Rightarrow> string" where
  "config_error_display (CeIo m) = ''IO error: '' @ m"
| "config_error_display (CeParse m) = ''Parse error: '' @ m"
| "config_error_display (CeConnection m) = ''Connection error: '' @ m"

section \<open>The file system\<close>

datatype file_node = FileNode string | DirNode

type_synonym file_system = "(string \<times> file_node) list"

definition path_exists :: "file_system \<Rightarrow> string \<Rightarrow> bool" where
  "path_exists fs p \<longleftrightarrow> map_of fs p \<noteq> None"

definition read_to_string :: "toml_lib \<Rightarrow> bool \<Rightarrow> file_system \<Rightarrow> string \<Rightarrow> config_error + string" where
  "read_to_string lib fail fs p =
     (case map_of fs p of
        Some (FileNode c) \<Rightarrow> (if fail then Inl (CeIo (tl_io_msg lib)) else Inr c)
      | _ \<Rightarrow> Inl (CeIo (tl_io_msg lib)))"

definition write_file ::
  "toml_lib \<Rightarrow> bool \<Rightarrow> file_system \<Rightarrow> string \<Rightarrow> string \<Rightarrow> (config_error + unit) \<times> file_system" where
  "write_file lib fail fs p c =
     (if fail \<or> map_of fs p = Some DirNode then (Inl (CeIo (tl_io_msg lib)), fs)
      else (Inr (), AList.update p (FileNode c) fs))"

definition copy_file ::
  "toml_lib \<Rightarrow> bool \<Rightarrow> file_system \<Rightarrow> string \<Rightarrow> string \<Rightarrow> (config_error + unit) \<times> file_system" where
  "copy_file lib fail fs src dst =
     (case read_to_string lib fail fs src of
        Inl e \<Rightarrow> (Inl e, fs) | Inr c \<Rightarrow> write_file lib False fs dst c)"

text \<open>\<open>Path::join\<close>: an absolute path replaces the directory.\<close>

definition dir_join :: "string \<Rightarrow> string \<Rightarrow> string" where
  "dir_join dir p = (if starts_with p ''/'' then p else dir @ ''/'' @ p)"

definition config_file_path :: "string \<Rightarrow> string" where
  "config_file_path cwd = dir_join cwd ''config.toml''"

section \<open>Reading and writing\<close>

definition get_str :: "toml_doc \<Rightarrow> string \<Rightarrow> string \<Rightarrow> string option" where
  "get_str doc section_name key =
     Option.bind (map_of doc section_name)
       (\<lambda>t. Option.bind (case t of TomlTable kv \<Rightarrow> map_of kv key | TomlInline kv \<Rightarrow> map_of kv key | TomlRest s \<Rightarrow> None)
          (\<lambda>v. case v of TomlStr s \<Rightarrow> Some s | TomlOther s \<Rightarrow> None))"

definition config_of_doc :: "toml_doc \<Rightarrow> system_config" where
  "config_of_doc doc =
     \<lparr>sy_database_url = get_str doc ''database'' ''url'', sy_redis_url = get_str doc ''redis'' ''url'',
      sy_jwt_secret = get_str doc ''auth'' ''jwt_secret'', sy_token_encryption_key = None,
      sy_public_url = get_str doc ''server'' ''public_url'',
      sy_default_backend = get_str doc ''storage'' ''default_backend'',
      sy_local_base_path = get_str doc ''storage'' ''local_base_path'',
      sy_i18n_language = get_str doc ''i18n'' ''language'',
      sy_i18n_locales_dir = get_str doc ''i18n'' ''locales_dir''\<rparr>"

definition read_config_toml :: "toml_lib \<Rightarrow> bool \<Rightarrow> file_system \<Rightarrow> string \<Rightarrow> config_error + system_config" where
  "read_config_toml lib fail fs path =
     (if \<not> path_exists fs path then Inr empty_config
      else rbind (read_to_string lib fail fs path)
             (\<lambda>content. rbind (map_err CeParse (tl_parse lib content)) (\<lambda>doc. Inr (config_of_doc doc))))"

text \<open>
  Indexing creates a missing section as an inline table and panics on a section that is no table;
  removing works on tables only.
\<close>

definition set_nested :: "string \<Rightarrow> string \<Rightarrow> string option \<Rightarrow> toml_doc \<Rightarrow> toml_doc option" where
  "set_nested section_name key val doc =
     (case val of
        Some v \<Rightarrow>
          (case map_of doc section_name of
             None \<Rightarrow> Some (AList.update section_name (TomlInline [(key, TomlStr v)]) doc)
           | Some (TomlTable kv) \<Rightarrow> Some (AList.update section_name (TomlTable (AList.update key (TomlStr v) kv)) doc)
           | Some (TomlInline kv) \<Rightarrow> Some (AList.update section_name (TomlInline (AList.update key (TomlStr v) kv)) doc)
           | Some (TomlRest s) \<Rightarrow> None)
      | None \<Rightarrow>
          (case map_of doc section_name of
             Some (TomlTable kv) \<Rightarrow> Some (AList.update section_name (TomlTable (AList.delete key kv)) doc)
           | _ \<Rightarrow> Some doc))"

definition config_keys :: "system_config \<Rightarrow> (string \<times> string \<times> string option) list" where
  "config_keys c =
     [(''database'', ''url'', sy_database_url c), (''redis'', ''url'', sy_redis_url c),
      (''server'', ''public_url'', sy_public_url c), (''storage'', ''default_backend'', sy_default_backend c),
      (''storage'', ''local_base_path'', sy_local_base_path c), (''i18n'', ''language'', sy_i18n_language c),
      (''i18n'', ''locales_dir'', sy_i18n_locales_dir c)]"

fun set_all :: "(string \<times> string \<times> string option) list \<Rightarrow> toml_doc \<Rightarrow> toml_doc option" where
  "set_all [] doc = Some doc"
| "set_all ((s, k, v) # xs) doc = Option.bind (set_nested s k v doc) (set_all xs)"

definition write_config_toml ::
  "toml_lib \<Rightarrow> faults \<Rightarrow> file_system \<Rightarrow> string \<Rightarrow> system_config \<Rightarrow> ((config_error + unit) \<times> file_system) option" where
  "write_config_toml lib fails fs path c =
     (case (if path_exists fs path
            then rbind (read_to_string lib (fails 0) fs path) (\<lambda>content. map_err CeParse (tl_parse lib content))
            else Inr []) of
        Inl e \<Rightarrow> Some (Inl e, fs)
      | Inr doc \<Rightarrow> map_option (\<lambda>doc'. write_file lib (fails 1) fs path (tl_print lib doc')) (set_all (config_keys c) doc))"

section \<open>Backups\<close>

definition backup_name :: "toml_lib \<Rightarrow> instant \<Rightarrow> string" where
  "backup_name lib now = ''config.toml.'' @ tl_timestamp lib now @ ''.bak''"

definition backup_config ::
  "toml_lib \<Rightarrow> bool \<Rightarrow> instant \<Rightarrow> file_system \<Rightarrow> string \<Rightarrow> (config_error + string) \<times> file_system" where
  "backup_config lib fail now fs cwd =
     (let path = config_file_path cwd
      in if \<not> path_exists fs path then (Inl (CeIo ''config.toml not found''), fs)
         else (case copy_file lib fail fs path (dir_join cwd (backup_name lib now)) of
                 (Inl e, fs') \<Rightarrow> (Inl e, fs') | (Inr _, fs') \<Rightarrow> (Inr (backup_name lib now), fs')))"

fun insert_newest :: "string \<Rightarrow> string list \<Rightarrow> string list" where
  "insert_newest x [] = [x]"
| "insert_newest x (y # ys) = (if str_less x y then y # insert_newest x ys else x # y # ys)"

definition entry_name :: "string \<Rightarrow> string \<Rightarrow> string option" where
  "entry_name dir p =
     (case strip_prefix p (dir @ ''/'') of
        None \<Rightarrow> None | Some n \<Rightarrow> (if n \<noteq> [] \<and> CHR ''/'' \<notin> set n then Some n else None))"

definition list_backups :: "toml_lib \<Rightarrow> bool \<Rightarrow> file_system \<Rightarrow> string \<Rightarrow> config_error + string list" where
  "list_backups lib fail fs dir =
     (if fail \<or> (case map_of fs dir of Some (FileNode c) \<Rightarrow> True | _ \<Rightarrow> False) then Inl (CeIo (tl_io_msg lib))
      else Inr (foldr insert_newest
             (filter (\<lambda>n. starts_with n ''config.toml.'' \<and> ends_with n ''.bak'')
               (remdups (List.map_filter (entry_name dir) (map fst fs)))) []))"

definition restore_config ::
  "toml_lib \<Rightarrow> bool \<Rightarrow> file_system \<Rightarrow> string \<Rightarrow> string \<Rightarrow> (config_error + unit) \<times> file_system" where
  "restore_config lib fail fs cwd backup_file =
     (let backup_path = dir_join cwd backup_file
      in if \<not> path_exists fs backup_path then (Inl (CeIo (''Backup not found: '' @ backup_file)), fs)
         else copy_file lib fail fs backup_path (config_file_path cwd))"

section \<open>Connection tests\<close>

text \<open>
  \<open>connect\<close> answers the time a connection takes and then its error or the pool's answer to the
  query; \<open>ping\<close> gives the client's error or the reply to \<open>PING\<close>.
\<close>

definition test_database_connection ::
  "(string \<Rightarrow> nat \<times> (string + (string + unit))) \<Rightarrow> string \<Rightarrow> config_error + unit" where
  "test_database_connection connect url =
     (case connect url of
        (time, r) \<Rightarrow>
          (if secs 5 \<le> time then Inl (CeConnection ''timed out (5s)'')
           else (case r of Inl e \<Rightarrow> Inl (CeConnection e) | Inr q \<Rightarrow> map_err CeConnection q)))"

definition test_redis_connection :: "(string \<Rightarrow> string + string) \<Rightarrow> string \<Rightarrow> config_error + unit" where
  "test_redis_connection ping url =
     (case ping url of
        Inl e \<Rightarrow> Inl (CeConnection e)
      | Inr r \<Rightarrow> (if r = ''PONG'' then Inr () else Inl (CeConnection (''unexpected PING: '' @ r))))"

section \<open>Masked URLs\<close>

text \<open>The first match of \<open>://([^:]*):([^@]*)@\<close>; \<open>mask_here\<close> matches after the slashes.\<close>

definition mask_here :: "string \<Rightarrow> string option" where
  "mask_here s =
     (case split_once (CHR '':'') s of
        None \<Rightarrow> None
      | Some (user, r) \<Rightarrow>
          (case split_once (CHR ''@'') r of
             None \<Rightarrow> None | Some (password, tail) \<Rightarrow> Some (''://'' @ user @ '':***@'' @ tail)))"

fun mask_url :: "string \<Rightarrow> string" where
  "mask_url [] = []"
| "mask_url (c # cs) =
     (case Option.bind (strip_prefix (c # cs) ''://'') mask_here of
        Some m \<Rightarrow> m | None \<Rightarrow> c # mask_url cs)"

section \<open>The routes\<close>

record admin_config_response =
  cp_database_url :: string
  cp_redis_url :: string
  cp_jwt_secret :: string
  cp_token_encryption_key :: string
  cp_public_url :: string
  cp_default_backend :: string
  cp_local_base_path :: string
  cp_config_path :: string
  cp_language :: string
  cp_locales_dir :: string

definition get_admin_config ::
  "toml_lib \<Rightarrow> i18n \<Rightarrow> language \<Rightarrow> bool \<Rightarrow> string \<Rightarrow> file_system \<Rightarrow> api_error + admin_config_response" where
  "get_admin_config lib g loc fail cwd fs =
     (let path = config_file_path cwd
      in case read_config_toml lib fail fs path of
           Inl e \<Rightarrow> Inl (internal_error g loc)
         | Inr c \<Rightarrow>
             Inr \<lparr>cp_database_url = opt_unwrap_or (map_option mask_url (sy_database_url c)) ''not set'',
                  cp_redis_url = opt_unwrap_or (map_option mask_url (sy_redis_url c)) ''not set'',
                  cp_jwt_secret = ''********'',
                  cp_token_encryption_key = (if sy_token_encryption_key c \<noteq> None then ''********'' else ''not set''),
                  cp_public_url = opt_unwrap_or (sy_public_url c) ''not set'',
                  cp_default_backend = opt_unwrap_or (sy_default_backend c) ''local'',
                  cp_local_base_path = opt_unwrap_or (sy_local_base_path c) ''./storage-local'',
                  cp_config_path = path,
                  cp_language = opt_unwrap_or (sy_i18n_language c) ''en'',
                  cp_locales_dir = opt_unwrap_or (sy_i18n_locales_dir c) ''not set''\<rparr>)"

record update_config_body =
  uc_database_url :: "string option"
  uc_redis_url :: "string option"
  uc_public_url :: "string option"
  uc_default_backend :: "string option"
  uc_local_base_path :: "string option"
  uc_i18n :: "(string option \<times> string option) option"

definition or_else :: "'a option \<Rightarrow> 'a option \<Rightarrow> 'a option" where
  "or_else a b = (case a of None \<Rightarrow> b | Some x \<Rightarrow> Some x)"

definition merge_config :: "app_config \<Rightarrow> update_config_body \<Rightarrow> system_config \<Rightarrow> system_config" where
  "merge_config cfg body existing =
     \<lparr>sy_database_url = or_else (uc_database_url body) (sy_database_url existing),
      sy_redis_url = or_else (uc_redis_url body) (sy_redis_url existing),
      sy_jwt_secret = None, sy_token_encryption_key = None,
      sy_public_url = or_else (uc_public_url body) (sy_public_url existing),
      sy_default_backend = or_else (uc_default_backend body) (sy_default_backend existing),
      sy_local_base_path = or_else (uc_local_base_path body) (sy_local_base_path existing),
      sy_i18n_language = or_else (or_else (Option.bind (uc_i18n body) fst) (sy_i18n_language existing))
        (Some (ic_language (cf_i18n cfg))),
      sy_i18n_locales_dir = or_else (or_else (Option.bind (uc_i18n body) snd) (sy_i18n_locales_dir existing))
        (ic_locales_dir (cf_i18n cfg))\<rparr>"

definition reload_global :: "toml_lib \<Rightarrow> instant \<Rightarrow> system_config \<Rightarrow> i18n" where
  "reload_global lib now c =
     i18n_load (tl_embedded lib) (tl_read_locale lib) (tl_parse_catalog lib) now
       (from_str_opt (opt_unwrap_or (sy_i18n_language c) ''en'')) (sy_i18n_locales_dir c)"

text \<open>Accesses 0 (backup), 1 (read), 2 and 3 (write), 4 (the answer). The catalog in force is part of the result.\<close>

definition update_admin_config ::
  "toml_lib \<Rightarrow> app_config \<Rightarrow> i18n \<Rightarrow> language \<Rightarrow> faults \<Rightarrow> instant \<Rightarrow> string \<Rightarrow> update_config_body \<Rightarrow> file_system \<Rightarrow>
   ((api_error + admin_config_response) \<times> file_system \<times> i18n) option" where
  "update_admin_config lib cfg g loc fails now cwd body fs =
     (let path = config_file_path cwd;
          fs1 = snd (backup_config lib (fails 0) now fs cwd);
          existing = res_unwrap_or (read_config_toml lib (fails 1) fs1 path) empty_config;
          c = merge_config cfg body existing
      in case write_config_toml lib (\<lambda>n. fails (2 + n)) fs1 path c of
           None \<Rightarrow> None
         | Some (Inl e, fs2) \<Rightarrow>
             Some (Inl (error_json_args g loc 500 ''config.write_failed'' [config_error_display e]), fs2, g)
         | Some (Inr _, fs2) \<Rightarrow>
             (let g' = reload_global lib now c
              in Some (get_admin_config lib g' loc (fails 4) cwd fs2, fs2, g')))"

record test_config_result =
  tr_database :: "string option"
  tr_redis :: "string option"

definition test_text :: "config_error + unit \<Rightarrow> string" where
  "test_text r = (case r of Inl e \<Rightarrow> ''fail: '' @ config_error_display e | Inr _ \<Rightarrow> ''ok'')"

definition test_admin_config ::
  "(string \<Rightarrow> nat \<times> (string + (string + unit))) \<Rightarrow> (string \<Rightarrow> string + string) \<Rightarrow>
   string option \<Rightarrow> string option \<Rightarrow> test_config_result" where
  "test_admin_config connect ping database_url redis_url =
     \<lparr>tr_database = map_option (\<lambda>u. test_text (test_database_connection connect u)) database_url,
      tr_redis = map_option (\<lambda>u. test_text (test_redis_connection ping u)) redis_url\<rparr>"

definition backup_admin_config ::
  "toml_lib \<Rightarrow> app_config \<Rightarrow> i18n \<Rightarrow> language \<Rightarrow> faults \<Rightarrow> instant \<Rightarrow> string \<Rightarrow> file_system \<Rightarrow>
   ((api_error + string) \<times> file_system) option" where
  "backup_admin_config lib cfg g loc fails now cwd fs =
     (let path = config_file_path cwd
      in case (if path_exists fs path then Some (Inr (), fs)
               else write_config_toml lib (\<lambda>n. fails (1 + n)) fs path (from_effective cfg)) of
           None \<Rightarrow> None
         | Some (Inl e, fs1) \<Rightarrow>
             Some (Inl (error_json_args g loc 500 ''config.materialize_failed'' [config_error_display e]), fs1)
         | Some (Inr _, fs1) \<Rightarrow>
             (case backup_config lib (fails 0) now fs1 cwd of
                (Inl e, fs2) \<Rightarrow> Some (Inl (internal_error g loc), fs2)
              | (Inr filename, fs2) \<Rightarrow> Some (Inr filename, fs2)))"

definition list_config_backups ::
  "toml_lib \<Rightarrow> i18n \<Rightarrow> language \<Rightarrow> bool \<Rightarrow> string \<Rightarrow> file_system \<Rightarrow> api_error + string list" where
  "list_config_backups lib g loc fail cwd fs =
     (case list_backups lib fail fs cwd of Inl e \<Rightarrow> Inl (internal_error g loc) | Inr backups \<Rightarrow> Inr backups)"

definition restore_error :: "i18n \<Rightarrow> language \<Rightarrow> config_error \<Rightarrow> api_error" where
  "restore_error g loc e =
     (case e of
        CeIo m \<Rightarrow> (if starts_with m ''Backup not found''
                    then error_json_args g loc 500 ''config.backup_not_found'' [m] else internal_error g loc)
      | _ \<Rightarrow> internal_error g loc)"

definition restore_admin_config ::
  "toml_lib \<Rightarrow> i18n \<Rightarrow> language \<Rightarrow> faults \<Rightarrow> instant \<Rightarrow> string \<Rightarrow> string \<Rightarrow> file_system \<Rightarrow>
   (api_error + json) \<times> file_system \<times> i18n" where
  "restore_admin_config lib g loc fails now cwd backup_file fs =
     (case restore_config lib (fails 0) fs cwd backup_file of
        (Inl e, fs1) \<Rightarrow> (Inl (restore_error g loc e), fs1, g)
      | (Inr _, fs1) \<Rightarrow>
          (let restored = res_unwrap_or (read_config_toml lib (fails 1) fs1 (config_file_path cwd)) empty_config
           in (Inr (JObj [(''status'', JStr ''restored''), (''from'', JStr backup_file)]), fs1,
               reload_global lib now restored)))"

end
