(* ===== verification/System_Config_Props.thy ===== *)
theory System_Config_Props
  imports System_Config Auth_Props Redis_Props "HOL-Library.Countable"
begin

text \<open>
  Facts on the configuration routes: an update of the file keeps everything it was not given, a backup
  brings the file back, and a masked URL does not contain the password.
\<close>

section \<open>Values of a document\<close>

fun item_value :: "toml_item \<Rightarrow> string \<Rightarrow> toml_value option" where
  "item_value (TomlTable kv) k = map_of kv k"
| "item_value (TomlInline kv) k = map_of kv k"
| "item_value (TomlRest s) k = None"

definition doc_value :: "toml_doc \<Rightarrow> string \<Rightarrow> string \<Rightarrow> toml_value option" where
  "doc_value doc s k = Option.bind (map_of doc s) (\<lambda>t. item_value t k)"

definition str_value :: "toml_value option \<Rightarrow> string option" where
  "str_value v = (case v of Some (TomlStr s) \<Rightarrow> Some s | _ \<Rightarrow> None)"

lemma get_str_value: "get_str doc s k = str_value (doc_value doc s k)"
  by (cases "map_of doc s"; cases "the (map_of doc s)")
    (auto simp: get_str_def doc_value_def str_value_def split: option.split toml_value.split)

text \<open>
  What is relied on of toml\_edit: a document that was parsed and then changed, once printed, is read
  back with the same sections and values, in whatever order.
\<close>

inductive toml_edited :: "toml_lib \<Rightarrow> toml_doc \<Rightarrow> bool" for lib where
  parsed: "tl_parse lib text = Inr doc \<Longrightarrow> toml_edited lib doc"
| new: "toml_edited lib []"
| edited: "toml_edited lib doc \<Longrightarrow> set_nested s k v doc = Some doc' \<Longrightarrow> toml_edited lib doc'"

definition toml_laws :: "toml_lib \<Rightarrow> bool" where
  "toml_laws lib \<longleftrightarrow> (\<forall>doc. toml_edited lib doc \<longrightarrow>
     (\<exists>doc'. tl_parse lib (tl_print lib doc) = Inr doc' \<and> doc_value doc' = doc_value doc))"

lemma map_of_update: "map_of (AList.update k v al) = (map_of al)(k \<mapsto> v)"
  by (simp add: update_conv')

lemma map_of_delete: "map_of (AList.delete k al) = (map_of al)(k := None)"
  by (simp add: delete_conv')

lemma doc_value_update:
  "doc_value (AList.update s t doc) s' k = (if s' = s then item_value t k else doc_value doc s' k)"
  by (simp add: doc_value_def map_of_update)

lemma set_nested_values:
  assumes "set_nested s k v doc = Some doc'"
  shows "(s', k') \<noteq> (s, k) \<Longrightarrow> doc_value doc' s' k' = doc_value doc s' k'"
    and "v = Some x \<Longrightarrow> get_str doc' s k = Some x"
    and "v = None \<Longrightarrow> get_str doc s k = None \<Longrightarrow> get_str doc' s k = None"
  using assms
  by (auto simp: set_nested_def doc_value_update get_str_value str_value_def doc_value_def map_of_update map_of_delete
      split: option.splits toml_item.splits)

lemma set_all_values:
  assumes "set_all xs doc = Some doc'" and "distinct (map (\<lambda>(s, k, v). (s, k)) xs)"
    and "\<And>s k. (s, k, None) \<in> set xs \<Longrightarrow> get_str doc s k = None"
  shows "(\<forall>(s, k, v) \<in> set xs. get_str doc' s k = v) \<and>
    (\<forall>s k. (s, k) \<notin> (\<lambda>(s, k, v). (s, k)) ` set xs \<longrightarrow> doc_value doc' s k = doc_value doc s k)"
  using assms
proof (induction xs arbitrary: doc)
  case Nil
  then show ?case by simp
next
  case (Cons x xs)
  obtain s k v where x: "x = (s, k, v)" by (cases x) auto
  obtain doc1 where d1: "set_nested s k v doc = Some doc1" "set_all xs doc1 = Some doc'"
    using Cons.prems(1) by (auto simp: x Option.bind_eq_Some_conv)
  note sn = set_nested_values [OF d1(1)]
  have fresh: "(s, k) \<notin> (\<lambda>(s, k, v). (s, k)) ` set xs" using Cons.prems(2) by (auto simp: x)
  have none: "get_str doc1 s' k' = None" if "(s', k', None) \<in> set xs" for s' k'
  proof -
    have "(s', k') \<noteq> (s, k)" using fresh that by force
    then show ?thesis using Cons.prems(3) [of s' k'] that sn(1) by (simp add: get_str_value)
  qed
  have IH: "(\<forall>(s, k, v) \<in> set xs. get_str doc' s k = v) \<and>
    (\<forall>s k. (s, k) \<notin> (\<lambda>(s, k, v). (s, k)) ` set xs \<longrightarrow> doc_value doc' s k = doc_value doc1 s k)"
    using Cons.prems(2) none by (intro Cons.IH [OF d1(2)]) auto
  have "get_str doc1 s k = v" using Cons.prems(3) [of s k] sn(2,3) by (cases v) (auto simp: x)
  then have "get_str doc' s k = v" using IH fresh by (simp add: get_str_value)
  moreover have "doc_value doc' s' k' = doc_value doc s' k'"
    if "(s', k') \<notin> (\<lambda>(s, k, v). (s, k)) ` set (x # xs)" for s' k'
    using that IH sn(1) [of s' k'] by (auto simp: x)
  ultimately show ?case using IH by (auto simp: x)
qed

lemma set_all_edited: "toml_edited lib doc \<Longrightarrow> set_all xs doc = Some doc' \<Longrightarrow> toml_edited lib doc'"
proof (induction xs arbitrary: doc)
  case (Cons x xs)
  obtain s k v where x: "x = (s, k, v)" by (cases x) auto
  then obtain doc1 where "set_nested s k v doc = Some doc1" "set_all xs doc1 = Some doc'"
    using Cons.prems(2) by (auto simp: Option.bind_eq_Some_conv)
  then show ?case using Cons.IH toml_edited.edited [OF Cons.prems(1)] by blast
qed simp

section \<open>Updating the file\<close>

lemma backup_path_other [simp]:
  "dir_join cwd (backup_name lib now) \<noteq> config_file_path cwd" "config_file_path cwd \<noteq> dir_join cwd (backup_name lib now)"
  by (auto simp: dir_join_def config_file_path_def backup_name_def starts_with_def)

lemma written_config:
  assumes "toml_laws lib" and "toml_edited lib d0" and "set_all (config_keys c) d0 = Some d1"
    and "\<And>s k. (s, k, None) \<in> set (config_keys c) \<Longrightarrow> get_str d0 s k = None"
  shows "\<exists>d2. tl_parse lib (tl_print lib d1) = Inr d2 \<and>
    config_of_doc d2 = c\<lparr>sy_jwt_secret := get_str d0 ''auth'' ''jwt_secret'', sy_token_encryption_key := None\<rparr> \<and>
    (\<forall>s k. (s, k) \<notin> (\<lambda>(s, k, v). (s, k)) ` set (config_keys c) \<longrightarrow> doc_value d2 s k = doc_value d0 s k)"
proof -
  obtain d2 where d2: "tl_parse lib (tl_print lib d1) = Inr d2" "doc_value d2 = doc_value d1"
    using assms(1) set_all_edited [OF assms(2,3)] unfolding toml_laws_def by blast
  have "distinct (map (\<lambda>(s, k, v). (s, k)) (config_keys c))" by (simp add: config_keys_def)
  from set_all_values [OF assms(3) this assms(4)]
  have v: "\<forall>(s, k, v) \<in> set (config_keys c). get_str d2 s k = v"
    and o: "\<forall>s k. (s, k) \<notin> (\<lambda>(s, k, v). (s, k)) ` set (config_keys c) \<longrightarrow> doc_value d2 s k = doc_value d0 s k"
    by (simp_all add: get_str_value d2(2))
  have "get_str d2 ''auth'' ''jwt_secret'' = get_str d0 ''auth'' ''jwt_secret''"
    using o by (simp add: get_str_value config_keys_def)
  then have "config_of_doc d2 = c\<lparr>sy_jwt_secret := get_str d0 ''auth'' ''jwt_secret'', sy_token_encryption_key := None\<rparr>"
    using v by (simp add: config_of_doc_def config_keys_def)
  then show ?thesis using d2(1) o by blast
qed

lemma None_or_else: "None = or_else a b \<longleftrightarrow> None = a \<and> None = b"
  by (cases a) (simp_all add: or_else_def)

lemma merged_none:
  "(s, k, None) \<in> set (config_keys (merge_config cfg body c)) \<Longrightarrow> (s, k, None) \<in> set (config_keys c)"
  unfolding config_keys_def merge_config_def system_config.select_convs list.set insert_iff empty_iff prod.inject
  unfolding None_or_else by (elim disjE conjE) simp_all

lemma config_of_doc_keys: "(s, k, v) \<in> set (config_keys (config_of_doc d)) \<Longrightarrow> get_str d s k = v"
  unfolding config_keys_def config_of_doc_def system_config.select_convs list.set insert_iff empty_iff prod.inject
  by (elim disjE conjE) simp_all

lemma write_config_Inr:
  assumes "write_config_toml lib fails fs path c = Some (Inr u, fs')" and "map_of fs path = Some (FileNode text)"
    and "tl_parse lib text = Inr d0"
  shows "\<exists>d1. set_all (config_keys c) d0 = Some d1 \<and> fs' = AList.update path (FileNode (tl_print lib d1)) fs"
  using assms
  by (auto simp: write_config_toml_def path_exists_def read_to_string_def write_file_def split: if_splits)

lemma update_admin_config_Inr:
  assumes "update_admin_config lib cfg g loc fails now cwd body fs = Some (Inr r, fs', g')"
  shows "\<exists>u. write_config_toml lib (\<lambda>n. fails (2 + n)) (snd (backup_config lib (fails 0) now fs cwd))
      (config_file_path cwd) (merge_config cfg body (res_unwrap_or (read_config_toml lib (fails 1)
        (snd (backup_config lib (fails 0) now fs cwd)) (config_file_path cwd)) empty_config)) = Some (Inr u, fs')"
  using assms unfolding update_admin_config_def Let_def by (auto split: option.splits sum.splits prod.splits)


text \<open>Documents are countable, so a number can be the text of one.\<close>

instance toml_value :: countable by countable_datatype
instance toml_item :: countable by countable_datatype

definition demo_toml :: toml_lib where
  "demo_toml =
     \<lparr>tl_parse = (\<lambda>s. case parse_nat s of None \<Rightarrow> Inl ''no document'' | Some n \<Rightarrow> Inr (from_nat n)),
      tl_print = (\<lambda>doc. nat_str (to_nat doc)), tl_io_msg = ''io'', tl_timestamp = nat_str,
      tl_embedded = (\<lambda>_ _. None), tl_read_locale = (\<lambda>_. None), tl_parse_catalog = (\<lambda>_ _. None)\<rparr>"

lemma demo_toml_parse [simp]: "tl_parse demo_toml (tl_print demo_toml doc) = Inr doc"
  by (simp add: demo_toml_def parse_nat_nat_str)

lemma demo_toml_laws: "toml_laws demo_toml"
  by (simp add: toml_laws_def)

definition secret_doc :: toml_doc where
  "secret_doc = [(''auth'', TomlTable [(''jwt_secret'', TomlStr ''s'')]), (''redis'', TomlTable [(''url'', TomlStr ''r'')])]"

definition secret_files :: file_system where
  "secret_files = [(''/w/config.toml'', FileNode (tl_print demo_toml secret_doc))]"

definition url_update :: update_config_body where
  "url_update = \<lparr>uc_database_url = Some ''d'', uc_redis_url = None, uc_public_url = None, uc_default_backend = None,
     uc_local_base_path = None, uc_i18n = None\<rparr>"

lemma secret_path: "config_file_path ''/w'' = ''/w/config.toml''"
  "map_of secret_files (config_file_path ''/w'') = Some (FileNode (tl_print demo_toml secret_doc))"
  "map_of secret_files (dir_join ''/w'' (backup_name demo_toml 5)) \<noteq> Some DirNode"
  by (simp_all add: config_file_path_def dir_join_def starts_with_def secret_files_def)

lemma secret_update:
  "\<exists>r fs'. update_admin_config demo_toml default_app_config demo_i18n En no_faults 5 ''/w'' url_update secret_files =
    Some (Inr r, fs', i18n_load (\<lambda>_ _. None) (\<lambda>_. None) (\<lambda>_ _. None) 5 En None)"
proof -
  let ?fs = "snd (backup_config demo_toml False 5 secret_files ''/w'')"
  have p: "map_of ?fs (config_file_path ''/w'') = Some (FileNode (tl_print demo_toml secret_doc))"
    using secret_path(2,3)
    by (simp add: backup_config_def Let_def path_exists_def copy_file_def read_to_string_def write_file_def map_of_update)
  have rd: "read_config_toml demo_toml False ?fs (config_file_path ''/w'') = Inr (config_of_doc secret_doc)"
    using p by (simp add: read_config_toml_def path_exists_def read_to_string_def)
  let ?c = "merge_config default_app_config url_update (config_of_doc secret_doc)"
  have "set_all (config_keys ?c) secret_doc \<noteq> None"
    by (simp add: config_keys_def merge_config_def url_update_def config_of_doc_def secret_doc_def set_nested_def or_else_def
        get_str_def default_app_config_def default_i18n_config_def)
  then obtain d where d: "set_all (config_keys ?c) secret_doc = Some d" by blast
  have lang: "reload_global demo_toml 5 ?c = i18n_load (\<lambda>_ _. None) (\<lambda>_. None) (\<lambda>_ _. None) 5 En None"
    by (simp add: reload_global_def demo_toml_def merge_config_def url_update_def config_of_doc_def secret_doc_def or_else_def
        get_str_def default_app_config_def default_i18n_config_def from_str_opt_def to_ascii_lowercase_def ascii_lower_char_def)
  show ?thesis
    using p d lang
    by (simp add: update_admin_config_def Let_def rd write_config_toml_def path_exists_def read_to_string_def
        write_file_def get_admin_config_def read_config_toml_def map_of_update)
qed


section \<open>Backups\<close>

lemma copy_file_Inr:
  "copy_file lib fail fs src dst = (Inr u, fs') \<Longrightarrow>
   \<exists>c. map_of fs src = Some (FileNode c) \<and> fs' = AList.update dst (FileNode c) fs"
  by (auto simp: copy_file_def read_to_string_def write_file_def split: option.splits file_node.splits if_splits)

lemma copy_file_ok:
  "map_of fs src = Some (FileNode c) \<Longrightarrow> map_of fs dst \<noteq> Some DirNode \<Longrightarrow>
   copy_file lib False fs src dst = (Inr (), AList.update dst (FileNode c) fs)"
  by (simp add: copy_file_def read_to_string_def write_file_def)

lemma backup_admin_config_Inr:
  assumes "backup_admin_config lib cfg g loc fails now cwd fs = Some (Inr n, fs1)"
  shows "n = backup_name lib now \<and> (\<exists>c. map_of fs1 (config_file_path cwd) = Some (FileNode c) \<and>
    map_of fs1 (dir_join cwd n) = Some (FileNode c) \<and>
    (path_exists fs (config_file_path cwd) \<longrightarrow> map_of fs (config_file_path cwd) = Some (FileNode c)))"
proof -
  let ?path = "config_file_path cwd"
  obtain fs0 where b: "backup_config lib (fails 0) now fs0 cwd = (Inr n, fs1)" and f0: "path_exists fs ?path \<longrightarrow> fs0 = fs"
    using assms unfolding backup_admin_config_def Let_def
    by (cases "path_exists fs ?path") (auto split: option.splits sum.splits prod.splits)
  then have n: "n = backup_name lib now"
    by (auto simp: backup_config_def Let_def split: if_splits sum.splits prod.splits)
  obtain u where "copy_file lib (fails 0) fs0 ?path (dir_join cwd n) = (Inr u, fs1)"
    using b n by (auto simp: backup_config_def Let_def split: if_splits sum.splits prod.splits)
  then obtain c where c: "map_of fs0 ?path = Some (FileNode c)" "fs1 = AList.update (dir_join cwd n) (FileNode c) fs0"
    using copy_file_Inr by blast
  have "?path \<noteq> dir_join cwd n" unfolding n by simp
  then show ?thesis using n c f0 by (auto simp: map_of_update)
qed

text \<open>
  Property C33. A backup brings the file back: after a backup and whatever else happened to the files,
  as long as the backup itself is still there, restoring it makes \<open>config.toml\<close> what it was at the
  time of the backup, changes no other file, and puts the language of the restored file in force.
\<close>

theorem backup_restores_config:
  assumes "backup_admin_config lib cfg g loc fails now cwd fs = Some (Inr n, fs1)"
    and "map_of fs2 (dir_join cwd n) = map_of fs1 (dir_join cwd n)"
    and "map_of fs2 (config_file_path cwd) \<noteq> Some DirNode" and "\<not> fails' 0" and "\<not> fails' 1"
  shows "\<exists>r fs3. restore_admin_config lib g2 loc fails' t cwd n fs2 =
      (Inr r, fs3, reload_global lib t (res_unwrap_or (read_config_toml lib False fs1 (config_file_path cwd)) empty_config)) \<and>
    map_of fs3 (config_file_path cwd) = map_of fs1 (config_file_path cwd) \<and>
    (path_exists fs (config_file_path cwd) \<longrightarrow> map_of fs3 (config_file_path cwd) = map_of fs (config_file_path cwd)) \<and>
    (\<forall>p. p \<noteq> config_file_path cwd \<longrightarrow> map_of fs3 p = map_of fs2 p)"
proof -
  let ?path = "config_file_path cwd"
  obtain c where c: "map_of fs1 ?path = Some (FileNode c)" "map_of fs1 (dir_join cwd n) = Some (FileNode c)"
    "path_exists fs ?path \<longrightarrow> map_of fs ?path = Some (FileNode c)"
    using backup_admin_config_Inr [OF assms(1)] by blast
  have cp: "copy_file lib False fs2 (dir_join cwd n) ?path = (Inr (), AList.update ?path (FileNode c) fs2)"
    using c(2) assms(2,3) by (intro copy_file_ok) simp_all
  have rd: "read_config_toml lib False (AList.update ?path (FileNode c) fs2) ?path = read_config_toml lib False fs1 ?path"
    using c(1) by (simp add: read_config_toml_def path_exists_def read_to_string_def map_of_update)
  show ?thesis
    using assms(2,4,5) c cp rd
    by (auto simp: restore_admin_config_def restore_config_def Let_def path_exists_def map_of_update)
qed

theorem backup_restores_config_witness:
  "\<exists>n fs1 r fs3 g'. backup_admin_config demo_toml default_app_config demo_i18n En no_faults 5 ''/w'' secret_files =
      Some (Inr n, fs1) \<and>
    restore_admin_config demo_toml demo_i18n En no_faults 9 ''/w'' n
      (AList.update ''/w/config.toml'' (FileNode ''broken'') fs1) = (Inr r, fs3, g') \<and>
    map_of fs3 ''/w/config.toml'' = map_of secret_files ''/w/config.toml''"
proof -
  obtain n fs1 where b: "backup_admin_config demo_toml default_app_config demo_i18n En no_faults 5 ''/w'' secret_files =
      Some (Inr n, fs1)"
    using secret_path(2,3)
    by (simp add: backup_admin_config_def Let_def path_exists_def backup_config_def copy_file_def read_to_string_def
        write_file_def)
  have n: "config_file_path ''/w'' \<noteq> dir_join ''/w'' n"
    using backup_admin_config_Inr [OF b] by simp
  have "path_exists secret_files (config_file_path ''/w'')"
    using secret_path(2) by (simp add: path_exists_def)
  then show ?thesis
    using b backup_restores_config [OF b, of "AList.update (config_file_path ''/w'') (FileNode ''broken'') fs1" no_faults
        demo_i18n 9] n
    unfolding secret_path(1) by (fastforce simp: map_of_update)
qed

section \<open>Masked URLs\<close>

lemma mask_url_user_info:
  assumes "CHR '':'' \<notin> set scheme" and "CHR '':'' \<notin> set user" and "CHR ''@'' \<notin> set password"
  shows "mask_url (scheme @ ''://'' @ user @ '':'' @ password @ ''@'' @ rest) = scheme @ ''://'' @ user @ '':***@'' @ rest"
  using assms(1)
proof (induction scheme)
  case Nil
  have "split_once (CHR '':'') (user @ '':'' @ password @ ''@'' @ rest) = Some (user, password @ ''@'' @ rest)"
    "split_once (CHR ''@'') (password @ ''@'' @ rest) = Some (password, rest)"
    using assms(2,3) by (simp_all add: split_once_Some)
  then have "mask_here (user @ '':'' @ password @ ''@'' @ rest) = Some (''://'' @ user @ '':***@'' @ rest)"
    by (simp add: mask_here_def)
  moreover have "strip_prefix (''://'' @ user @ '':'' @ password @ ''@'' @ rest) ''://'' =
      Some (user @ '':'' @ password @ ''@'' @ rest)" by (rule strip_prefix_append)
  ultimately show ?case by simp
next
  case (Cons c scheme)
  have "strip_prefix (c # scheme @ ''://'' @ user @ '':'' @ password @ ''@'' @ rest) ''://'' = None"
    using Cons.prems by (auto simp: strip_prefix_None_iff starts_with_iff)
  then show ?case using Cons by simp
qed

text \<open>
  What the administrator is shown of the configuration holds no secret: the JWT secret is
  replaced by a constant, and a database URL with user and password is shown with asterisks for the
  password, provided the password has no at sign; of one that has, only the part before the first at
  sign is hidden.
\<close>

theorem config_answer_hides_secrets:
  assumes "get_admin_config lib g loc fail cwd fs = Inr r"
    and "read_config_toml lib fail fs (config_file_path cwd) = Inr c"
    and "sy_database_url c = Some (scheme @ ''://'' @ user @ '':'' @ password @ ''@'' @ rest)"
    and "CHR '':'' \<notin> set scheme" and "CHR '':'' \<notin> set user" and "CHR ''@'' \<notin> set password"
  shows "cp_jwt_secret r = ''********'' \<and> cp_database_url r = scheme @ ''://'' @ user @ '':***@'' @ rest"
  using assms(1,2,3) mask_url_user_info [OF assms(4-6), of rest] by (auto simp: get_admin_config_def Let_def)

definition url_files :: file_system where
  "url_files = [(''/w/config.toml'', FileNode (tl_print demo_toml
     [(''database'', TomlTable [(''url'', TomlStr ''pg://bob:p1@p2@h/d'')])]))]"

theorem config_answer_hides_secrets_witness:
  "\<exists>r. get_admin_config demo_toml demo_i18n En False ''/w'' url_files = Inr r \<and>
    cp_database_url r = ''pg://bob:***@p2@h/d'' \<and> cp_jwt_secret r = ''********''"
proof -
  let ?c = "config_of_doc [(''database'', TomlTable [(''url'', TomlStr ''pg://bob:p1@p2@h/d'')])]"
  have c: "read_config_toml demo_toml False url_files (config_file_path ''/w'') = Inr ?c"
    by (simp add: secret_path(1) url_files_def read_config_toml_def path_exists_def read_to_string_def)
  then obtain r where r: "get_admin_config demo_toml demo_i18n En False ''/w'' url_files = Inr r"
    by (simp add: get_admin_config_def)
  have "sy_database_url ?c = Some (''pg'' @ ''://'' @ ''bob'' @ '':'' @ ''p1'' @ ''@'' @ ''p2@h/d'')"
    by (simp add: config_of_doc_def get_str_def)
  from config_answer_hides_secrets [OF r c this] show ?thesis using r by simp
qed

end
