(* ===== verification/Setup.thy ===== *)
theory Setup
  imports Auth Upload
begin

text \<open>
  The first start: the command line (\<open>pichost-api/src/cli.rs\<close>) and the setup wizard
  (\<open>pichost-api/src/setup/\<close>: \<open>mod.rs\<close>, \<open>admin.rs\<close>, \<open>env_writer.rs\<close>, \<open>prompts.rs\<close>). The terminal is the
  list of the replies it will give, as in \<open>MockPrompts\<close>; the environment and the files are
  association lists, a file with its permission bits. The URL parser (the scheme of a URL) and
  \<open>load_config\<close> (figment) are parameters. \<open>fails n\<close> says that the n-th access of a call fails.
\<close>

section \<open>The command line\<close>

datatype cli_command = CliRun | CliSetup | CliInstallService | CliUninstallService | CliService | CliHelp

definition usage :: string where
  "usage = ''Usage: pichost-api [--setup|--install-service|--uninstall-service|--service]''"

definition parse_cli_args :: "string list \<Rightarrow> string + cli_command" where
  "parse_cli_args args =
     (case args of
        [] \<Rightarrow> Inr CliRun
      | [flag] \<Rightarrow>
          (if flag = ''--setup'' then Inr CliSetup
           else if flag = ''--install-service'' then Inr CliInstallService
           else if flag = ''--uninstall-service'' then Inr CliUninstallService
           else if flag = ''--service'' then Inr CliService
           else if flag = ''-h'' \<or> flag = ''--help'' then Inr CliHelp
           else Inl usage)
      | _ \<Rightarrow> Inl usage)"

section \<open>The environment file\<close>

text \<open>\<open>str::replace\<close> of two underscores by one, and \<open>str::lines\<close>.\<close>

fun single_underscore :: "string \<Rightarrow> string" where
  "single_underscore (c # d # cs) =
     (if c = CHR ''_'' \<and> d = CHR ''_'' then CHR ''_'' # single_underscore cs
      else c # single_underscore (d # cs))"
| "single_underscore cs = cs"

definition newline :: char where "newline = CHR 0x0A"
definition carriage_return :: char where "carriage_return = CHR 0x0D"

definition strip_cr :: "string \<Rightarrow> string" where
  "strip_cr s = (if s \<noteq> [] \<and> last s = carriage_return then butlast s else s)"

definition content_lines :: "string \<Rightarrow> string list" where
  "content_lines s =
     (let ls = split_on newline s
      in map strip_cr (butlast ls) @ (if last ls = [] then [] else [last ls]))"

definition line_key :: "string \<Rightarrow> string" where
  "line_key l = hd (split_on (CHR ''='') l)"

definition line_replaced :: "(string \<times> string) list \<Rightarrow> string \<Rightarrow> bool" where
  "line_replaced updates l \<longleftrightarrow>
     list_ex (\<lambda>(k, v). line_key l = k \<or> line_key l = single_underscore k) updates"

definition end_line :: "string \<Rightarrow> string" where "end_line l = l @ [newline]"

definition upsert_env :: "string \<Rightarrow> (string \<times> string) list \<Rightarrow> string" where
  "upsert_env content updates =
     concat (map end_line (filter (\<lambda>l. \<not> line_replaced updates l) (content_lines content))) @
     concat (map (\<lambda>(k, v). end_line (k @ ''='' @ v)) updates)"

datatype env_node = EnvFile nat string | EnvDir

type_synonym env_files = "(string \<times> env_node) list"

definition sub_path :: "string \<Rightarrow> string \<Rightarrow> string" where
  "sub_path dir p = (if starts_with p ''/'' then p else dir @ ''/'' @ p)"

definition probe_env_path :: "env_files \<Rightarrow> string option \<Rightarrow> string \<Rightarrow> string \<Rightarrow> string option" where
  "probe_env_path fs explicit system_dir cwd =
     (case explicit of
        Some p \<Rightarrow> Some p
      | None \<Rightarrow>
          (let system = sub_path system_dir ''.env''; here = sub_path cwd ''.env''
           in if map_of fs system \<noteq> None then Some system
              else if map_of fs here \<noteq> None then Some here else None))"

definition validate_jwt_secret :: "string \<Rightarrow> bool" where
  "validate_jwt_secret secret \<longleftrightarrow> 32 \<le> length secret"

definition validate_public_url :: "(string \<Rightarrow> string option) \<Rightarrow> string \<Rightarrow> bool" where
  "validate_public_url url_scheme url =
     (case url_scheme url of None \<Rightarrow> False | Some s \<Rightarrow> s = ''http'' \<or> s = ''https'')"

definition generate_jwt_secret :: "nat list \<Rightarrow> string" where
  "generate_jwt_secret bytes = concat (map (pad_hex 2) bytes)"

text \<open>
  The name of a path and what is before it; a stem ends at the last dot, but for a dot at the start of the
  name. Paths end in a name.
\<close>

definition split_name :: "string \<Rightarrow> string \<times> string" where
  "split_name p =
     (let name = rev (takeWhile (\<lambda>c. c \<noteq> CHR ''/'') (rev p)) in (take (length p - length name) p, name))"

definition file_stem :: "string \<Rightarrow> string" where
  "file_stem name =
     (let tail = takeWhile (\<lambda>c. c \<noteq> CHR ''.'') (rev name); n = length name - length tail
      in if n \<le> 1 then name else take (n - 1) name)"

definition with_tmp_extension :: "string \<Rightarrow> string" where
  "with_tmp_extension p =
     (case split_name p of (dir, name) \<Rightarrow>
        (if name = [] \<or> name = ''..'' then p else dir @ file_stem name @ ''.tmp''))"

definition parent_dir :: "string \<Rightarrow> string" where
  "parent_dir p = (let dir = fst (split_name p) in if length dir \<le> 1 then dir else butlast dir)"

definition create_dir_all :: "bool \<Rightarrow> string \<Rightarrow> env_files \<Rightarrow> bool \<times> env_files" where
  "create_dir_all fail dir fs =
     (if dir = [] then (True, fs)
      else if fail then (False, fs)
      else (case map_of fs dir of
              None \<Rightarrow> (True, AList.update dir EnvDir fs)
            | Some EnvDir \<Rightarrow> (True, fs)
            | Some (EnvFile m c) \<Rightarrow> (False, fs)))"

definition remove_file :: "bool \<Rightarrow> string \<Rightarrow> env_files \<Rightarrow> env_files" where
  "remove_file fail p fs = (if fail \<or> map_of fs p = Some EnvDir then fs else AList.delete p fs)"

text \<open>
  \<open>create_new\<close> refuses an existing file. A write that fails leaves a part of the content, whose
  length is \<open>part\<close>. Permissions are octal 600.
\<close>

definition write_env_tmp :: "faults \<Rightarrow> nat \<Rightarrow> string \<Rightarrow> string \<Rightarrow> env_files \<Rightarrow> bool \<times> env_files" where
  "write_env_tmp fails part tmp content fs =
     (if fails 0 \<or> map_of fs tmp \<noteq> None then (False, fs)
      else if fails 1 then (False, AList.update tmp (EnvFile 384 (take part content)) fs)
      else (True, AList.update tmp (EnvFile 384 content) fs))"

definition rename_file :: "bool \<Rightarrow> string \<Rightarrow> string \<Rightarrow> env_files \<Rightarrow> bool \<times> env_files" where
  "rename_file fail src dst fs =
     (case map_of fs src of
        Some (EnvFile m c) \<Rightarrow>
          (if fail \<or> map_of fs dst = Some EnvDir then (False, fs)
           else (True, AList.update dst (EnvFile m c) (AList.delete src fs)))
      | _ \<Rightarrow> (False, fs))"

text \<open>Accesses 0 (read), 1 (directory), 2 (stale file), 3 and 4 (write), 5 (rename), 6 (clean up).\<close>

definition apply_env_file ::
  "faults \<Rightarrow> nat \<Rightarrow> string \<Rightarrow> (string \<times> string) list \<Rightarrow> env_files \<Rightarrow> (string + unit) \<times> env_files" where
  "apply_env_file fails part path updates fs =
     (case (case map_of fs path of
              None \<Rightarrow> Some []
            | Some EnvDir \<Rightarrow> None
            | Some (EnvFile m c) \<Rightarrow> (if fails 0 then None else Some c)) of
        None \<Rightarrow> (Inl ''read failed'', fs)
      | Some content \<Rightarrow>
          (let new_content = upsert_env content updates;
               tmp = with_tmp_extension path;
               (dir_ok, fs1) = create_dir_all (fails 1) (parent_dir path) fs
           in if \<not> dir_ok then (Inl ''no directory'', fs1)
              else
                (let fs2 = remove_file (fails 2) tmp fs1;
                     (written, fs3) = write_env_tmp (\<lambda>n. fails (3 + n)) part tmp new_content fs2
                 in if \<not> written then (Inl ''write failed'', remove_file (fails 6) tmp fs3)
                    else
                      (let (renamed, fs4) = rename_file (fails 5) tmp path fs3
                       in if \<not> renamed then (Inl ''rename failed'', remove_file (fails 6) tmp fs4)
                          else (Inr (), fs4)))))"

section \<open>Prompts\<close>

datatype mock_reply = ReplySelect nat | ReplyInput string | ReplyPassword string | ReplyConfirm bool

definition prompt_select :: "mock_reply list \<Rightarrow> (nat \<times> mock_reply list) option" where
  "prompt_select rs = (case rs of ReplySelect i # rest \<Rightarrow> Some (i, rest) | _ \<Rightarrow> None)"

definition prompt_input :: "mock_reply list \<Rightarrow> (string \<times> mock_reply list) option" where
  "prompt_input rs = (case rs of ReplyInput s # rest \<Rightarrow> Some (s, rest) | _ \<Rightarrow> None)"

text \<open>With a confirmation a second reply is taken.\<close>

definition prompt_password :: "mock_reply list \<Rightarrow> (string \<times> mock_reply list) option" where
  "prompt_password rs = (case rs of ReplyPassword s # rest \<Rightarrow> Some (s, drop 1 rest) | _ \<Rightarrow> None)"

definition prompt_confirm :: "mock_reply list \<Rightarrow> (bool \<times> mock_reply list) option" where
  "prompt_confirm rs = (case rs of ReplyConfirm b # rest \<Rightarrow> Some (b, rest) | _ \<Rightarrow> None)"

section \<open>The administrator\<close>

text \<open>What one attempt does: asks again, gives up with an error, or ends.\<close>

datatype attempt = Again "mock_reply list" | GiveUp string | Created db

definition exhausted :: string where "exhausted = ''mock prompt queue exhausted''"

definition admin_attempt ::
  "auth_env \<Rightarrow> app_config \<Rightarrow> faults \<Rightarrow> instant \<Rightarrow> uuid \<times> nat \<Rightarrow> mock_reply list \<Rightarrow> db \<Rightarrow> attempt" where
  "admin_attempt env cfg fails now draw rs d =
     (case prompt_input rs of
        None \<Rightarrow> GiveUp exhausted
      | Some (username, rs1) \<Rightarrow>
          (if username = [] \<or> 64 < length username then Again rs1
           else
             (case prompt_password rs1 of
                None \<Rightarrow> GiveUp exhausted
              | Some (password, rs2) \<Rightarrow>
                  (if length password < 8 then Again rs2
                   else
                     (case prompt_input rs2 of
                        None \<Rightarrow> GiveUp exhausted
                      | Some (email_raw, rs3) \<Rightarrow>
                          (if email_raw \<noteq> [] \<and> CHR ''@'' \<notin> set email_raw then Again rs3
                           else
                             (case ae_hash env (snd draw) password of
                                None \<Rightarrow> GiveUp ''password hashing failed''
                              | Some hash \<Rightarrow>
                                  (let default_quota = up_storage_quota_default (cf_upload cfg);
                                       quota = (if 0 < default_quota then Some (as_i64 (int default_quota)) else None);
                                       email = (if email_raw = [] then None else Some email_raw)
                                   in case insert_user (fails 0) (fst draw) now username email hash True quota (t_users d) of
                                        (Inr i, us) \<Rightarrow>
                                          Created
                                            (if fails 1 then d\<lparr>t_users := us\<rparr>
                                             else set_storage_prefix i (''users/'' @ ae_uuid_str env i)
                                                    (d\<lparr>t_users := us\<rparr>))
                                      | (Inl e, us) \<Rightarrow>
                                          (if db_error_kind e = UniqueViolation then Again rs3
                                           else GiveUp ''database error'')))))))))"

lemma prompt_shorter:
  "prompt_input rs = Some (s, rs') \<Longrightarrow> length rs' < length rs"
  "prompt_password rs = Some (s, rs') \<Longrightarrow> length rs' < length rs"
  by (auto simp: prompt_input_def prompt_password_def split: list.splits mock_reply.splits)

lemma attempt_shorter: "admin_attempt env cfg fails now draw rs d = Again rs' \<Longrightarrow> length rs' < length rs"
  unfolding admin_attempt_def
  by (auto simp: Let_def dest!: prompt_shorter split: option.splits if_splits sum.splits prod.splits)

text \<open>\<open>draws n\<close> is the fresh id and the salt of the n-th attempt; its two statements have the faults 2n, 2n+1.\<close>

function admin_loop ::
  "auth_env \<Rightarrow> app_config \<Rightarrow> faults \<Rightarrow> instant \<Rightarrow> (nat \<Rightarrow> uuid \<times> nat) \<Rightarrow> nat \<Rightarrow> mock_reply list \<Rightarrow> db \<Rightarrow> string + db" where
  "admin_loop env cfg fails now draws n rs d =
     (case admin_attempt env cfg (\<lambda>k. fails (2 * n + k)) now (draws n) rs d of
        Again rs' \<Rightarrow> admin_loop env cfg fails now draws (Suc n) rs' d
      | GiveUp e \<Rightarrow> Inl e
      | Created d' \<Rightarrow> Inr d')"
  by pat_completeness auto
termination
  by (relation "measure (\<lambda>(env, cfg, fails, now, draws, n, rs, d). length rs)") (auto dest: attempt_shorter)

declare admin_loop.simps [simp del]

definition create_admin_flow ::
  "auth_env \<Rightarrow> app_config \<Rightarrow> faults \<Rightarrow> instant \<Rightarrow> (nat \<Rightarrow> uuid \<times> nat) \<Rightarrow> mock_reply list \<Rightarrow> db \<Rightarrow>
   string + bool \<times> db" where
  "create_admin_flow env cfg fails now draws rs d =
     (case prompt_confirm rs of
        None \<Rightarrow> Inl exhausted
      | Some (False, rs') \<Rightarrow> Inr (False, d)
      | Some (True, rs') \<Rightarrow> rbind (admin_loop env cfg fails now draws 0 rs' d) (\<lambda>d'. Inr (True, d')))"

section \<open>The wizard\<close>

datatype tty_decision = TtyRun | TtySkipWarn | TtyForcedError

definition decide_tty :: "bool \<Rightarrow> bool \<Rightarrow> string + tty_decision" where
  "decide_tty forced is_tty =
     (if is_tty then Inr TtyRun
      else if forced then Inl ''--setup requires an interactive terminal'' else Inr TtySkipWarn)"

definition should_run_wizard :: "int \<Rightarrow> bool \<Rightarrow> bool" where
  "should_run_wizard user_count forced \<longleftrightarrow> forced \<or> user_count = 0"

definition choose_language :: "app_config \<Rightarrow> language" where
  "choose_language cfg = from_str_opt (ic_language (cf_i18n cfg))"

text \<open>What the wizard reads of the machine, and the state it changes.\<close>

record setup_env =
  st_auth :: auth_env
  st_url_scheme :: "string \<Rightarrow> string option"
  st_load_config :: "(string \<times> string) list \<Rightarrow> string + app_config"
  st_cwd :: "string option"
  st_random :: "nat list"
  st_draws :: "nat \<Rightarrow> uuid \<times> nat"
  st_part :: nat

record setup_state =
  su_vars :: "(string \<times> string) list"
  su_files :: env_files
  su_db :: db

fun ask_public_url :: "(string \<Rightarrow> string option) \<Rightarrow> mock_reply list \<Rightarrow> (string \<times> mock_reply list) option" where
  "ask_public_url url_scheme (ReplyInput url # rs) =
     (if validate_public_url url_scheme url then Some (url, rs) else ask_public_url url_scheme rs)"
| "ask_public_url url_scheme rs = None"

definition resolve_env_path ::
  "setup_env \<Rightarrow> setup_state \<Rightarrow> mock_reply list \<Rightarrow> (string \<times> mock_reply list) option" where
  "resolve_env_path se st rs =
     Option.bind (st_cwd se)
       (\<lambda>cwd. case probe_env_path (su_files st) (map_of (su_vars st) ''PICHOST_ENV_FILE'') ''/etc/pichost'' cwd of
                Some p \<Rightarrow> Some (p, rs)
              | None \<Rightarrow> prompt_input rs)"

definition phase1_config ::
  "setup_env \<Rightarrow> faults \<Rightarrow> app_config \<Rightarrow> language \<Rightarrow> mock_reply list \<Rightarrow> setup_state \<Rightarrow>
   (string + mock_reply list) \<times> setup_state" where
  "phase1_config se fails cfg lang rs st =
     (let u1 = [(''PICHOST_I18N_LANGUAGE'', language_as_str lang)];
          u2 = (if validate_jwt_secret (ac_jwt_secret (cf_auth cfg)) then u1
                else u1 @ [(''PICHOST_AUTH__JWT_SECRET'', generate_jwt_secret (st_random se))])
      in case (if map_of (su_vars st) ''PICHOST_SERVER__PUBLIC_URL'' \<noteq> None then Some (u2, rs)
               else map_option (\<lambda>(url, rs'). (u2 @ [(''PICHOST_SERVER__PUBLIC_URL'', url)], rs'))
                      (ask_public_url (st_url_scheme se) rs)) of
           None \<Rightarrow> (Inl exhausted, st)
         | Some (updates, rs1) \<Rightarrow>
             (case resolve_env_path se st rs1 of
                None \<Rightarrow> (Inl exhausted, st)
              | Some (path, rs2) \<Rightarrow>
                  (case apply_env_file fails (st_part se) path updates (su_files st) of
                     (Inl e, fs) \<Rightarrow> (Inl e, st\<lparr>su_files := fs\<rparr>)
                   | (Inr _, fs) \<Rightarrow>
                       (Inr rs2, st\<lparr>su_files := fs, su_vars := fold (\<lambda>(k, v). AList.update k v) updates (su_vars st)\<rparr>))))"

text \<open>Accesses 0 to 6 belong to the file, 7 is the count, the others the attempts.\<close>

definition run_wizard ::
  "setup_env \<Rightarrow> faults \<Rightarrow> instant \<Rightarrow> app_config \<Rightarrow> language \<Rightarrow> mock_reply list \<Rightarrow> setup_state \<Rightarrow>
   (string + app_config option) \<times> setup_state" where
  "run_wizard se fails now cfg lang rs st =
     (case phase1_config se fails cfg lang rs st of
        (Inl e, st1) \<Rightarrow> (Inl e, st1)
      | (Inr rs1, st1) \<Rightarrow>
          (case st_load_config se (su_vars st1) of
             Inl e \<Rightarrow> (Inl e, st1)
           | Inr new_config \<Rightarrow>
               (case count_users (fails 7) (t_users (su_db st1)) of
                  Inl e \<Rightarrow> (Inl ''database error'', st1)
                | Inr n \<Rightarrow>
                    (if n = 0
                     then (case create_admin_flow (st_auth se) new_config (\<lambda>k. fails (8 + k)) now (st_draws se) rs1
                                  (su_db st1) of
                             Inl e \<Rightarrow> (Inl e, st1)
                           | Inr (b, d) \<Rightarrow> (Inr (Some new_config), st1\<lparr>su_db := d\<rparr>))
                     else (Inr (Some new_config), st1)))))"

definition maybe_run ::
  "setup_env \<Rightarrow> bool \<Rightarrow> faults \<Rightarrow> instant \<Rightarrow> app_config \<Rightarrow> bool \<Rightarrow> bool \<Rightarrow> mock_reply list \<Rightarrow> setup_state \<Rightarrow>
   (string + app_config option) \<times> setup_state" where
  "maybe_run se fail fails now cfg forced is_tty rs st =
     (case count_users fail (t_users (su_db st)) of
        Inl e \<Rightarrow> (Inl ''database error'', st)
      | Inr n \<Rightarrow>
          (if \<not> should_run_wizard n forced then (Inr None, st)
           else
             (case decide_tty forced is_tty of
                Inl e \<Rightarrow> (Inl e, st)
              | Inr TtySkipWarn \<Rightarrow> (Inr None, st)
              | Inr TtyForcedError \<Rightarrow> (Inl ''--setup requires an interactive terminal'', st)
              | Inr TtyRun \<Rightarrow>
                  (case prompt_select rs of
                     None \<Rightarrow> (Inl exhausted, st)
                   | Some (choice, rs1) \<Rightarrow>
                       run_wizard se fails now cfg (if choice = 0 then En else ZhCN) rs1 st))))"

end
