(* ===== verification/Setup_Props.thy ===== *)
theory Setup_Props
  imports Setup Auth_Props
begin

text \<open>
  Facts on the first start: what a rewrite of the environment file keeps and replaces, that it is
  all or nothing whatever fails, and that the wizard makes one administrator, who can sign in, on an
  installation without users and changes no account on any other.
\<close>

section \<open>The lines of the environment file\<close>

lemma split_on_end_line [simp]:
  assumes "newline \<notin> set l"
  shows "split_on newline (l @ newline # s) = l # split_on newline s"
  using assms by (induction l) (auto split: list.splits)

lemma content_lines_end:
  assumes "\<forall>l \<in> set ls. newline \<notin> set l \<and> carriage_return \<notin> set l"
  shows "content_lines (concat (map end_line ls)) = ls"
proof -
  have "split_on newline (concat (map end_line ls)) = ls @ [[]]"
    using assms by (induction ls) (auto simp: end_line_def)
  moreover have "map strip_cr ls = ls"
    using assms by (induction ls) (auto simp: strip_cr_def dest: last_in_set)
  ultimately show ?thesis by (simp add: content_lines_def Let_def)
qed

lemma content_line_clean:
  assumes "l \<in> set (content_lines c)" and "carriage_return \<notin> set c"
  shows "newline \<notin> set l \<and> carriage_return \<notin> set l"
proof -
  have sub: "set w \<subseteq> set s" if "w \<in> set (split_on ch s)" for w ch s
    using that
  proof (induction s arbitrary: w)
    case (Cons x s)
    obtain y ys where "split_on ch s = y # ys" by (cases "split_on ch s") simp_all
    with Cons show ?case by (fastforce split: if_splits)
  qed simp
  have cr: "strip_cr w = w" if "w \<in> set (split_on newline c)" for w
    using sub [OF that] assms(2) by (auto simp: strip_cr_def dest: last_in_set)
  have "l \<in> set (split_on newline c)"
    using assms(1) cr by (force simp: content_lines_def Let_def dest: in_set_butlastD split: if_splits)
  then show ?thesis using sub [of l newline c] assms(2) split_on_pieces by blast
qed

text \<open>The line of an update, and the updates that make one line each.\<close>

definition update_line :: "string \<times> string \<Rightarrow> string" where
  "update_line u = fst u @ ''='' @ snd u"

definition plain_update :: "string \<times> string \<Rightarrow> bool" where
  "plain_update u \<longleftrightarrow> newline \<notin> set (fst u @ snd u) \<and> carriage_return \<notin> set (fst u @ snd u) \<and>
     CHR ''='' \<notin> set (fst u)"

lemma line_key_update [simp]: "plain_update u \<Longrightarrow> line_key (update_line u) = fst u"
proof -
  have "hd (split_on ch (k @ ch # v)) = k" if "ch \<notin> set k" for ch k v
    using that by (induction k) (auto split: list.splits)
  then show "plain_update u \<Longrightarrow> line_key (update_line u) = fst u"
    by (simp add: line_key_def update_line_def plain_update_def)
qed

lemma upsert_env_lines:
  "upsert_env c u = concat (map end_line (filter (\<lambda>l. \<not> line_replaced u l) (content_lines c) @ map update_line u))"
  by (simp add: upsert_env_def update_line_def case_prod_unfold comp_def)

lemma upsert_env_content:
  assumes "carriage_return \<notin> set c" and "list_all plain_update u"
  shows "content_lines (upsert_env c u) = filter (\<lambda>l. \<not> line_replaced u l) (content_lines c) @ map update_line u"
proof -
  have "newline \<noteq> CHR ''=''" "carriage_return \<noteq> CHR ''=''" by (simp_all add: newline_def carriage_return_def)
  then have "\<forall>l \<in> set (filter (\<lambda>l. \<not> line_replaced u l) (content_lines c) @ map update_line u).
     newline \<notin> set l \<and> carriage_return \<notin> set l"
    using content_line_clean [OF _ assms(1)] assms(2)
    by (auto simp: list_all_iff plain_update_def update_line_def)
  then show ?thesis unfolding upsert_env_lines by (rule content_lines_end)
qed

lemma update_line_replaced:
  "list_all plain_update u \<Longrightarrow> x \<in> set u \<Longrightarrow> line_replaced u (update_line x)"
  unfolding line_replaced_def list_ex_iff by (rule bexI [of _ x]) (simp_all add: list_all_iff case_prod_unfold)

lemma upsert_env_again:
  assumes "carriage_return \<notin> set c" and "list_all plain_update u"
  shows "upsert_env (upsert_env c u) u = upsert_env c u"
proof -
  have "filter (\<lambda>l. \<not> line_replaced u l) (map update_line u) = []"
    using update_line_replaced [OF assms(2)] by (simp add: filter_empty_conv)
  then show ?thesis
    unfolding upsert_env_lines [of "upsert_env c u"] upsert_env_content [OF assms]
    unfolding upsert_env_lines by simp
qed

lemma updated_keys_once:
  assumes "list_all plain_update u" and "distinct (map fst u)" and "(k, v) \<in> set u"
  shows "filter (\<lambda>l. line_key l = k) (filter (\<lambda>l. \<not> line_replaced u l) ls @ map update_line u) = [update_line (k, v)]"
proof -
  have "filter (\<lambda>l. line_key l = k) (filter (\<lambda>l. \<not> line_replaced u l) ls) = []"
    using assms(3) by (force simp: filter_empty_conv line_replaced_def list_ex_iff)
  moreover have "filter (\<lambda>l. line_key l = k) (map update_line u) = [update_line (k, v)]"
    using assms
  proof (induction u)
    case (Cons x u)
    show ?case
    proof (cases "x = (k, v)")
      case True
      with Cons.prems show ?thesis by (force simp: filter_empty_conv list_all_iff)
    next
      case False
      with Cons.prems have "(k, v) \<in> set u" by simp
      then have "k \<in> set (map fst u)" by force
      with Cons.prems have "fst x \<noteq> k" by auto
      then show ?thesis using Cons.IH Cons.prems \<open>(k, v) \<in> set u\<close> by simp
    qed
  qed simp
  ultimately show ?thesis by simp
qed

text \<open>
  Property C34. Writing settings into the environment file (content without carriage returns, settings
  without line ends and with distinct keys) keeps every line of another key, in order, drops the lines
  of the keys it sets and of their spellings with one underscore, and appends one line per setting; each
  key it sets then stands on exactly one line, with the new value; writing the same settings again
  changes nothing.
\<close>

theorem env_update_exact:
  assumes "carriage_return \<notin> set c" and "list_all plain_update u" and "distinct (map fst u)"
  shows "content_lines (upsert_env c u) = filter (\<lambda>l. \<not> line_replaced u l) (content_lines c) @ map update_line u \<and>
    map (\<lambda>x. filter (\<lambda>l. line_key l = fst x) (content_lines (upsert_env c u))) u = map (\<lambda>x. [update_line x]) u \<and>
    upsert_env (upsert_env c u) u = upsert_env c u"
proof -
  have "filter (\<lambda>l. line_key l = fst x) (content_lines (upsert_env c u)) = [update_line x]" if "x \<in> set u" for x
    using updated_keys_once [OF assms(2,3), of "fst x" "snd x"] that
    unfolding upsert_env_content [OF assms(1,2)] by simp
  then show ?thesis using upsert_env_content [OF assms(1,2)] upsert_env_again [OF assms(1,2)] by simp
qed

definition demo_env_file :: string where
  "demo_env_file = end_line ''A=1'' @ end_line ''PICHOST_AUTH_JWT=old'' @ ''B=2''"

theorem env_update_exact_witness:
  "content_lines (upsert_env demo_env_file [(''PICHOST_AUTH__JWT'', ''new'')]) =
     [''A=1'', ''B=2'', ''PICHOST_AUTH__JWT=new'']"
proof -
  have cr: "carriage_return \<notin> set demo_env_file" by code_simp
  have lines: "filter (\<lambda>l. \<not> line_replaced [(''PICHOST_AUTH__JWT'', ''new'')] l) (content_lines demo_env_file) =
    [''A=1'', ''B=2'']" by code_simp
  have plain: "list_all plain_update [(''PICHOST_AUTH__JWT'', ''new'')]" by code_simp
  show ?thesis
    using env_update_exact [OF cr plain] lines by (simp add: update_line_def)
qed

section \<open>The rewrite of the file\<close>

lemma create_dir_all_others:
  "create_dir_all fail dir fs = (b, fs') \<Longrightarrow> q \<noteq> dir \<Longrightarrow> map_of fs' q = map_of fs q"
  by (auto simp: create_dir_all_def update_conv' split: if_splits option.splits env_node.splits)

lemma remove_file_others: "q \<noteq> p \<Longrightarrow> map_of (remove_file fail p fs) q = map_of fs q"
  by (simp add: remove_file_def delete_conv')

lemma write_env_tmp_others:
  "write_env_tmp fails part tmp c fs = (b, fs') \<Longrightarrow> q \<noteq> tmp \<Longrightarrow> map_of fs' q = map_of fs q"
  by (auto simp: write_env_tmp_def update_conv' split: if_splits)

lemma write_env_tmp_done:
  "write_env_tmp fails part tmp c fs = (True, fs') \<Longrightarrow> map_of fs' tmp = Some (EnvFile 384 c)"
  by (auto simp: write_env_tmp_def update_conv' split: if_splits)

lemma rename_file_spec:
  assumes "rename_file fail src dst fs = (b, fs')" and "src \<noteq> dst"
  shows "if b then map_of fs' dst = map_of fs src \<and> map_of fs' src = None \<and>
       (\<forall>q. q \<noteq> src \<and> q \<noteq> dst \<longrightarrow> map_of fs' q = map_of fs q) else fs' = fs"
  using assms by (auto simp: rename_file_def update_conv' delete_conv' split: option.splits env_node.splits if_splits)

text \<open>The content that the rewrite starts from.\<close>

definition old_content :: "env_files \<Rightarrow> string \<Rightarrow> string" where
  "old_content fs path = (case map_of fs path of Some (EnvFile m c) \<Rightarrow> c | _ \<Rightarrow> [])"

lemma parent_dir_shorter: "snd (split_name p) \<noteq> [] \<Longrightarrow> parent_dir p \<noteq> p"
proof
  assume ne: "snd (split_name p) \<noteq> []" and eq: "parent_dir p = p"
  have "length (fst (split_name p)) < length p"
    using ne length_takeWhile_le [of "\<lambda>c. c \<noteq> CHR ''/''" "rev p"]
    by (cases p) (auto simp: split_name_def Let_def)
  moreover have "length (parent_dir p) \<le> length (fst (split_name p))"
    by (simp add: parent_dir_def Let_def)
  ultimately show False using eq by simp
qed

lemma apply_env_file_outcome:
  assumes "apply_env_file fails part path updates fs = (r, fs')"
    and "with_tmp_extension path \<noteq> path" and "snd (split_name path) \<noteq> []"
  shows "(if is_ok r then map_of fs' path = Some (EnvFile 384 (upsert_env (old_content fs path) updates)) \<and>
             map_of fs' (with_tmp_extension path) = None
          else map_of fs' path = map_of fs path) \<and>
    (\<forall>q. q \<noteq> path \<and> q \<noteq> with_tmp_extension path \<and> q \<noteq> parent_dir path \<longrightarrow> map_of fs' q = map_of fs q)"
proof -
  let ?tmp = "with_tmp_extension path"
  define start where "start = (case map_of fs path of None \<Rightarrow> Some [] | Some EnvDir \<Rightarrow> None
    | Some (EnvFile m c) \<Rightarrow> (if fails 0 then None else Some c))"
  note dir_ne = parent_dir_shorter [OF assms(3)]
  show ?thesis
  proof (cases start)
    case None
    then have "r = Inl ''read failed''" "fs' = fs"
      using assms(1) unfolding apply_env_file_def start_def [symmetric] by simp_all
    then show ?thesis by simp
  next
    case (Some content)
    then have content: "old_content fs path = content"
      by (auto simp: start_def old_content_def split: option.splits env_node.splits if_splits)
    obtain b1 fs1 where c: "create_dir_all (fails 1) (parent_dir path) fs = (b1, fs1)" by fastforce
    obtain b2 fs3 where w: "write_env_tmp (\<lambda>n. fails (3 + n)) part ?tmp (upsert_env content updates)
       (remove_file (fails 2) ?tmp fs1) = (b2, fs3)" by fastforce
    obtain b3 fs4 where m: "rename_file (fails 5) ?tmp path fs3 = (b3, fs4)" by fastforce
    have o1: "map_of fs1 q = map_of fs q" if "q \<noteq> parent_dir path" for q
      using c that by (rule create_dir_all_others)
    have o3: "map_of fs3 q = map_of fs1 q" if "q \<noteq> ?tmp" for q
      using write_env_tmp_others [OF w that] remove_file_others [OF that] by simp
    note mv = rename_file_spec [OF m assms(2)]
    note run = assms(1) [unfolded apply_env_file_def start_def [symmetric] Some option.case Let_def c w m prod.case]
    show ?thesis
      using run mv o1 o3 dir_ne assms(2) content write_env_tmp_done [of "\<lambda>n. fails (3 + n)" part ?tmp _ _ fs3] w
      by (auto simp: remove_file_others split: if_splits)
  qed
qed


definition demo_env_path :: string where "demo_env_path = ''/etc/pichost/.env''"

definition demo_env_files :: env_files where
  "demo_env_files = [(demo_env_path, EnvFile 420 demo_env_file), (''/etc/hosts'', EnvFile 420 ''x'')]"


text \<open>The temporary name of a file whose extension is \<open>tmp\<close> is the file itself, so its rewrite can lose it.\<close>

theorem env_file_named_tmp_lost:
  "apply_env_file (\<lambda>n. n = 3) 0 ''/etc/env.tmp'' [(''C'', ''3'')] [(''/etc/env.tmp'', EnvFile 420 ''A=1'')] =
     (Inl ''write failed'', [(''/etc'', EnvDir)])"
  by code_simp

section \<open>The administrator\<close>

text \<open>What the account that the wizard makes is.\<close>

definition wizard_admin :: "auth_env \<Rightarrow> user_row \<Rightarrow> string \<Rightarrow> bool" where
  "wizard_admin env u pw \<longleftrightarrow> u_is_admin u \<and> 8 \<le> length pw \<and> u_username u \<noteq> [] \<and> length (u_username u) \<le> 64 \<and>
     ae_parse_hash env (u_password_hash u) \<and> ae_verify env (u_password_hash u) pw"

lemma admin_attempt_first:
  assumes "env_laws env" and "t_users d = []" and "admin_attempt env cfg fails now draw rs d = Created d'"
  shows "\<exists>u pw. d' = d\<lparr>t_users := [u]\<rparr> \<and> wizard_admin env u pw"
proof -
  have hash: "ae_parse_hash env h \<and> ae_verify env h pw" if "ae_hash env salt pw = Some h" for salt h pw
    using assms(1) that by (auto simp: env_laws_def)
  show ?thesis
    using assms(2,3) unfolding admin_attempt_def
    by (auto simp: Let_def insert_user_def set_storage_prefix_def wizard_admin_def dest!: hash
        split: option.splits if_splits sum.splits prod.splits)
      (rule exI, rule conjI, rule refl, force)+
qed

lemma admin_loop_first:
  assumes "env_laws env" and "t_users d = []" and "admin_loop env cfg fails now draws n rs d = Inr d'"
  shows "\<exists>u pw. d' = d\<lparr>t_users := [u]\<rparr> \<and> wizard_admin env u pw"
  using assms
proof (induction env cfg fails now draws n rs d rule: admin_loop.induct)
  case (1 env cfg fails now draws n rs d)
  show ?case
  proof (cases "admin_attempt env cfg (\<lambda>k. fails (2 * n + k)) now (draws n) rs d")
    case (Again rs')
    with 1 show ?thesis by (simp add: admin_loop.simps [of env cfg fails now draws n])
  next
    case (GiveUp e)
    with 1 show ?thesis by (simp add: admin_loop.simps [of env cfg fails now draws n])
  next
    case (Created d2)
    with 1 have "d2 = d'" by (simp add: admin_loop.simps [of env cfg fails now draws n])
    with admin_attempt_first [OF 1(2,3)] Created show ?thesis by simp
  qed
qed

lemma phase1_config_db: "su_db (snd (phase1_config se fails cfg lang rs st)) = su_db st"
  by (auto simp: phase1_config_def Let_def split: option.splits sum.splits prod.splits)

lemma create_admin_flow_db:
  assumes "create_admin_flow env cfg fails now draws rs d = Inr (b, d')"
  shows "d' = d \<or> (\<exists>rs'. admin_loop env cfg fails now draws 0 rs' d = Inr d')"
proof (cases "prompt_confirm rs")
  case (Some x)
  then show ?thesis using assms
    by (cases x; cases "fst x") (auto simp: create_admin_flow_def rbind_eq_Inr)
qed (use assms in \<open>simp add: create_admin_flow_def\<close>)

lemma run_wizard_db:
  assumes "run_wizard se fails now cfg lang rs st = (r, st')"
  shows "su_db st' = su_db st \<or>
    t_users (su_db st) = [] \<and> (\<exists>cfg' rs1 k. admin_loop (st_auth se) cfg' k now (st_draws se) 0 rs1 (su_db st) = Inr (su_db st'))"
proof -
  obtain r1 st1 where p: "phase1_config se fails cfg lang rs st = (r1, st1)" by fastforce
  then have db: "su_db st1 = su_db st" using phase1_config_db [of se fails cfg lang rs st] by simp
  note run = assms [unfolded run_wizard_def p prod.case]
  show ?thesis
  proof (cases "\<exists>rs1 c. r1 = Inr rs1 \<and> st_load_config se (su_vars st1) = Inr c \<and> \<not> fails 7 \<and> t_users (su_db st) = []")
    case True
    then obtain rs1 c where c: "r1 = Inr rs1" "st_load_config se (su_vars st1) = Inr c" "\<not> fails 7"
      "t_users (su_db st) = []" by blast
    let ?flow = "create_admin_flow (st_auth se) c (\<lambda>k. fails (8 + k)) now (st_draws se) rs1 (su_db st)"
    show ?thesis
    proof (cases ?flow)
      case (Inl e)
      then show ?thesis using run c db by (simp add: count_users_def)
    next
      case (Inr y)
      obtain b d where y: "y = (b, d)" by fastforce
      then have "su_db st' = d" using run c db Inr by (auto simp: count_users_def)
      then show ?thesis using create_admin_flow_db [of _ _ _ _ _ _ _ b d] Inr c(4) unfolding y by blast
    qed
  next
    case False
    then show ?thesis using run db by (auto simp: count_users_def split: sum.splits if_splits)
  qed
qed

lemma maybe_run_db:
  assumes "maybe_run se fail fails now cfg forced is_tty rs st = (r, st')"
  shows "su_db st' = su_db st \<or>
    t_users (su_db st) = [] \<and> (\<exists>cfg' rs1 k. admin_loop (st_auth se) cfg' k now (st_draws se) 0 rs1 (su_db st) = Inr (su_db st'))"
  using assms
  by (auto simp: maybe_run_def dest!: run_wizard_db split: sum.splits if_splits tty_decision.splits option.splits)

lemma wizard_admin_signs_in:
  assumes "env_laws env" and "t_users d = [u]" and "wizard_admin env u pw"
    and "generate_tokens env (cf_auth cfg) t (dr_access dr) (dr_refresh dr) (u_id u) True \<noteq> None"
    and "\<not> token_expired (timestamp t + ac_access_token_ttl (cf_auth cfg)) t'"
    and "\<not> refused bl b t' (ae_uuid_str env (dr_access dr))"
  shows "\<exists>res au. login env cfg g loc False t dr \<lparr>lg_username = u_username u, lg_password = pw\<rparr> d = Inr (200, res) \<and>
    require_auth env bl (cf_auth cfg) g False t' d b al (Some (bearer (ar_access_token res))) = Inr au \<and>
    au_id au = u_id u \<and> require_admin g al (Some au) = Inr au"
proof -
  let ?p = "\<lparr>lg_username = u_username u, lg_password = pw\<rparr>"
  have name: "user_by_name d (u_username u) = Some u" using assms(2) by (simp add: user_by_name_def)
  have adm: "u_is_admin u" using assms(3) by (simp add: wizard_admin_def)
  have uq: "users_unique (t_users d)" by (simp add: assms(2) users_unique_def List.map_filter_def split: option.splits)
  have "\<exists>res. login env cfg g loc False t dr ?p d = Inr (200, res)"
    using assms(3,4) name adm by (auto simp: login_def wizard_admin_def split: option.splits)
  then obtain res where res: "login env cfg g loc False t dr ?p d = Inr (200, res)" by blast
  from login_token_authenticates [OF assms(1) uq res assms(5,6), of al] res adm name
  show ?thesis by (auto simp: require_admin_def Let_def ok_or_def)
qed


text \<open>A start without users: English, a secret is drawn, the administrator is ann.\<close>

definition demo_random :: "nat list" where "demo_random = replicate 32 7"

definition demo_setup :: setup_env where
  "demo_setup = \<lparr>st_auth = demo_env, st_url_scheme = (\<lambda>_. Some ''https''), st_load_config = (\<lambda>_. Inr default_app_config),
     st_cwd = Some ''/srv'', st_random = demo_random, st_draws = (\<lambda>n. (n + 1, 0)), st_part = 0\<rparr>"

definition fresh_start :: setup_state where
  "fresh_start = \<lparr>su_vars = [(''PICHOST_SERVER__PUBLIC_URL'', ''u''), (''PICHOST_ENV_FILE'', ''/srv/.env'')],
     su_files = [], su_db = empty_db\<rparr>"

definition ann_replies :: "mock_reply list" where
  "ann_replies = [ReplySelect 0, ReplyConfirm True, ReplyInput ''ann'', ReplyPassword ''password'',
     ReplyPassword ''password'', ReplyInput []]"

definition ann_row :: user_row where
  "ann_row = \<lparr>u_id = 1, u_username = ''ann'', u_email = None, u_password_hash = ''$password'',
     u_storage_backend = ''local'', u_storage_prefix = ''users/1'', u_storage_quota = Some 1073741824,
     u_is_admin = True, u_created_at = 0, u_updated_at = 0, u_watermark = None\<rparr>"

lemma fresh_start_users: "t_users (su_db fresh_start) = []"
  by (simp add: fresh_start_def empty_db_def)

lemma demo_phase1:
  "\<exists>fs vars. phase1_config demo_setup no_faults default_app_config En (drop 1 ann_replies) fresh_start =
     (Inr (drop 1 ann_replies), fresh_start\<lparr>su_files := fs, su_vars := vars\<rparr>)"
proof -
  let ?u = "[(''PICHOST_I18N_LANGUAGE'', ''en''), (''PICHOST_AUTH__JWT_SECRET'', generate_jwt_secret demo_random)]"
  have "is_ok (fst (apply_env_file no_faults 0 ''/srv/.env'' ?u []))" by code_simp
  then obtain fs where fs: "apply_env_file no_faults 0 ''/srv/.env'' ?u [] = (Inr (), fs)"
    by (cases "apply_env_file no_faults 0 ''/srv/.env'' ?u []") (auto simp: is_ok_def split: sum.splits)
  have "phase1_config demo_setup no_faults default_app_config En (drop 1 ann_replies) fresh_start =
     (Inr (drop 1 ann_replies), fresh_start\<lparr>su_files := fs,
        su_vars := fold (\<lambda>(k, v). AList.update k v) ?u (su_vars fresh_start)\<rparr>)"
    using fs by (simp add: phase1_config_def resolve_env_path_def demo_setup_def fresh_start_def probe_env_path_def
        validate_jwt_secret_def )
  then show ?thesis by blast
qed

lemma demo_first_start:
  "\<exists>st'. maybe_run demo_setup False no_faults 0 default_app_config False True ann_replies fresh_start =
     (Inr (Some default_app_config), st') \<and> su_db st' = empty_db\<lparr>t_users := [ann_row]\<rparr>"
proof -
  obtain fs vars where p: "phase1_config demo_setup no_faults default_app_config En (drop 1 ann_replies) fresh_start =
     (Inr (drop 1 ann_replies), fresh_start\<lparr>su_files := fs, su_vars := vars\<rparr>)" using demo_phase1 by blast
  have d: "su_db fresh_start = empty_db" by (simp add: fresh_start_def)
  have one: "nat_str (Suc 0) = ''1''" by code_simp
  have loop: "admin_loop demo_env default_app_config (\<lambda>k. no_faults (8 + k)) 0 (\<lambda>n. (n + 1, 0)) 0
      (drop 2 ann_replies) empty_db = Inr (empty_db\<lparr>t_users := [ann_row]\<rparr>)"
    by (simp add: admin_loop.simps admin_attempt_def ann_replies_def prompt_input_def prompt_password_def
        insert_user_def set_storage_prefix_def empty_db_def ann_row_def as_i64_def one)
  have "run_wizard demo_setup no_faults 0 default_app_config En (drop 1 ann_replies) fresh_start =
     (Inr (Some default_app_config), fresh_start\<lparr>su_files := fs, su_vars := vars, su_db := empty_db\<lparr>t_users := [ann_row]\<rparr>\<rparr>)"
    using loop unfolding run_wizard_def p
    by (simp add: demo_setup_def d count_users_def empty_db_def create_admin_flow_def ann_replies_def prompt_confirm_def)
  then show ?thesis
    by (simp add: maybe_run_def count_users_def d empty_db_def should_run_wizard_def decide_tty_def
        ann_replies_def prompt_select_def)
qed


end
