(* ===== verification/Routes.thy ===== *)
theory Routes
  imports Prelude
begin

text \<open>
  The routing table of the API server, \<open>build_router\<close> of \<open>pichost-api/src/app.rs\<close>: the groups of routes
  with the guards (middlewares) each puts before its handlers, and how a request finds its route.
  A route names its handler by the module and the function under \<open>pichost-api/src/routes/\<close>. The
  matcher that selects a path pattern is axum's and a parameter, with \<open>matcher_laws\<close>.
\<close>

section \<open>Routes\<close>

datatype http_method = GET | HEAD | POST | PUT | PATCH | DELETE

datatype guard = RequireAuth | RequireAdmin | LimitAuth | LimitUpload | LimitGeneral | LimitPublic

type_synonym handler = "string \<times> string"

text \<open>Guards are listed in the order in which a request meets them.\<close>

record route =
  rt_method :: http_method
  rt_path :: string
  rt_guards :: "guard list"
  rt_handler :: handler

text \<open>\<open>Router::route\<close> with a method router; \<open>route_layer\<close>, whose last call is the outermost; \<open>nest\<close>.\<close>

definition on_path :: "string \<Rightarrow> (http_method \<times> string \<times> string) list \<Rightarrow> route list" where
  "on_path p hs =
     map (\<lambda>(m, f, h). \<lparr>rt_method = m, rt_path = p, rt_guards = [], rt_handler = (f, h)\<rparr>) hs"

definition route_layer :: "guard \<Rightarrow> route list \<Rightarrow> route list" where
  "route_layer g rs = map (\<lambda>r. r\<lparr>rt_guards := g # rt_guards r\<rparr>) rs"

definition nest :: "string \<Rightarrow> route list \<Rightarrow> route list" where
  "nest prefix rs =
     map (\<lambda>r. r\<lparr>rt_path := (if rt_path r = ''/'' then prefix else prefix @ rt_path r)\<rparr>) rs"

section \<open>The groups\<close>

definition auth_routes :: "route list" where
  "auth_routes =
     route_layer LimitAuth
       (on_path ''/register'' [(POST, ''auth'', ''register'')] @
        on_path ''/login'' [(POST, ''auth'', ''login'')] @
        on_path ''/refresh'' [(POST, ''auth'', ''refresh'')] @
        on_path ''/logout'' [(POST, ''auth'', ''logout'')] @
        on_path ''/oauth/github'' [(GET, ''oauth'', ''github_redirect'')] @
        on_path ''/oauth/github/callback'' [(GET, ''oauth'', ''github_callback'')] @
        on_path ''/oauth/google'' [(GET, ''oauth'', ''google_redirect'')] @
        on_path ''/oauth/google/callback'' [(GET, ''oauth'', ''google_callback'')])"

definition upload_routes :: "route list" where
  "upload_routes =
     route_layer RequireAuth
       (route_layer LimitUpload
         (on_path ''/'' [(POST, ''images'', ''upload_handler'')] @
          on_path ''/upload-url'' [(POST, ''images'', ''url_upload_handler'')]))"

definition image_routes :: "route list" where
  "image_routes =
     route_layer RequireAuth
       (route_layer LimitGeneral
         (on_path ''/'' [(GET, ''images'', ''list_images'')] @
          on_path ''/batch-delete'' [(POST, ''images'', ''batch_delete'')] @
          on_path ''/batch-move'' [(POST, ''images'', ''batch_move_images'')] @
          on_path ''/{id}/links'' [(GET, ''images'', ''get_image_links'')] @
          on_path ''/{id}''
            [(GET, ''images'', ''get_image''), (PATCH, ''images'', ''rename_image''),
             (DELETE, ''images'', ''delete_image'')] @
          on_path ''/{id}/move'' [(POST, ''images'', ''move_image'')]))"

definition user_routes :: "route list" where
  "user_routes =
     route_layer RequireAuth
       (route_layer LimitGeneral
         (on_path ''/me''
            [(GET, ''users'', ''get_my_profile''), (PATCH, ''users'', ''update_my_profile'')] @
          on_path ''/me/stats'' [(GET, ''users'', ''get_my_stats'')] @
          on_path ''/me/password'' [(POST, ''users'', ''change_my_password'')] @
          on_path ''/me/storage-configs''
            [(GET, ''storage_configs'', ''list_configs''), (POST, ''storage_configs'', ''create_config'')] @
          on_path ''/me/storage-configs/{id}''
            [(GET, ''storage_configs'', ''get_config''), (PATCH, ''storage_configs'', ''update_config''),
             (DELETE, ''storage_configs'', ''delete_config'')] @
          on_path ''/me/storage-configs/{id}/default'' [(POST, ''storage_configs'', ''set_default'')] @
          on_path ''/oauth/link'' [(POST, ''oauth'', ''oauth_link'')]))"

definition category_routes :: "route list" where
  "category_routes =
     route_layer RequireAuth
       (route_layer LimitGeneral
         (on_path ''/''
            [(GET, ''categories'', ''list_categories''), (POST, ''categories'', ''create_category'')] @
          on_path ''/{id}''
            [(GET, ''categories'', ''get_category''), (PATCH, ''categories'', ''update_category''),
             (DELETE, ''categories'', ''delete_category'')]))"

definition admin_routes :: "route list" where
  "admin_routes =
     route_layer RequireAuth
       (route_layer RequireAdmin
         (route_layer LimitGeneral
           (on_path ''/stats'' [(GET, ''admin'', ''get_admin_stats'')] @
            on_path ''/users'' [(GET, ''admin'', ''list_users'')] @
            on_path ''/users/{id}'' [(PATCH, ''admin'', ''update_user''), (DELETE, ''admin'', ''delete_user'')] @
            on_path ''/invites'' [(GET, ''admin'', ''list_invites''), (POST, ''admin'', ''create_invite'')] @
            on_path ''/config'' [(GET, ''admin'', ''get_admin_config''), (PUT, ''admin'', ''update_admin_config'')] @
            on_path ''/config/test'' [(POST, ''admin'', ''test_admin_config'')] @
            on_path ''/config/backup'' [(POST, ''admin'', ''backup_admin_config'')] @
            on_path ''/config/backups'' [(GET, ''admin'', ''list_config_backups'')] @
            on_path ''/config/restore'' [(POST, ''admin'', ''restore_admin_config'')])))"

definition public_routes :: "route list" where
  "public_routes =
     route_layer LimitPublic
       (on_path ''/{public_key}'' [(GET, ''images'', ''public_get'')] @
        on_path ''/thumb/{image_id}'' [(GET, ''images'', ''public_get_thumb'')] @
        on_path ''/webp/{image_id}'' [(GET, ''images'', ''public_get_webp'')])"

definition thumb_alias_routes :: "route list" where
  "thumb_alias_routes =
     route_layer LimitPublic (on_path ''/{public_key}'' [(GET, ''images'', ''public_get_thumb_by_key'')])"

definition build_router :: "route list" where
  "build_router =
     nest ''/api/v1/auth'' auth_routes @
     nest ''/api/v1/images'' upload_routes @
     nest ''/api/v1/images'' image_routes @
     nest ''/api/v1/users'' user_routes @
     nest ''/api/v1/categories'' category_routes @
     nest ''/api/v1/admin'' admin_routes @
     nest ''/u'' public_routes @
     nest ''/t'' thumb_alias_routes @
     on_path ''/api/health'' [(GET, ''health'', ''health_check'')] @
     on_path ''/metrics'' [(GET, ''app'', ''metrics_handler'')]"

section \<open>Finding the route\<close>

text \<open>A pattern segment in braces matches one segment that is not empty, any other itself.\<close>

definition is_param :: "string \<Rightarrow> bool" where
  "is_param s \<longleftrightarrow> starts_with s ''{'' \<and> ends_with s ''}''"

definition segments :: "string \<Rightarrow> string list" where
  "segments p = split_on (CHR ''/'') p"

definition segment_matches :: "string \<Rightarrow> string \<Rightarrow> bool" where
  "segment_matches q s \<longleftrightarrow> (if is_param q then s \<noteq> [] else s = q)"

definition path_matches :: "string \<Rightarrow> string \<Rightarrow> bool" where
  "path_matches q p \<longleftrightarrow> list_all2 segment_matches (segments q) (segments p)"

definition static_pattern :: "string \<Rightarrow> bool" where
  "static_pattern q \<longleftrightarrow> \<not> list_ex is_param (segments q)"

text \<open>
  What the code relies on of the matcher: it selects a registered pattern that matches the path, it
  selects one when there is one, and a static pattern comes before patterns with parameters.
\<close>

type_synonym path_matcher = "string list \<Rightarrow> string \<Rightarrow> string option"

definition matcher_laws :: "path_matcher \<Rightarrow> bool" where
  "matcher_laws mt \<longleftrightarrow>
     (\<forall>pats p.
        (case mt pats p of
           Some q \<Rightarrow> q \<in> set pats \<and> path_matches q p
         | None \<Rightarrow> \<not> list_ex (\<lambda>q. path_matches q p) pats) \<and>
        (\<forall>q \<in> set pats. static_pattern q \<and> path_matches q p \<longrightarrow> mt pats p = Some q))"

datatype found = NoRoute | NoMethod | Found route

text \<open>A handler for GET answers HEAD.\<close>

definition method_accepts :: "http_method \<Rightarrow> http_method \<Rightarrow> bool" where
  "method_accepts rm m \<longleftrightarrow> m = rm \<or> m = HEAD \<and> rm = GET"

definition dispatch :: "path_matcher \<Rightarrow> route list \<Rightarrow> http_method \<Rightarrow> string \<Rightarrow> found" where
  "dispatch mt rs m p =
     (case mt (map rt_path rs) p of
        None \<Rightarrow> NoRoute
      | Some q \<Rightarrow>
          (case filter (\<lambda>r. rt_path r = q \<and> method_accepts (rt_method r) m) rs of
             [] \<Rightarrow> NoMethod
           | r # _ \<Rightarrow> Found r))"

section \<open>Facts\<close>

lemma dispatch_Found:
  assumes "dispatch mt rs m p = Found r"
  shows "r \<in> set rs" and "method_accepts (rt_method r) m"
proof -
  obtain q rest where "filter (\<lambda>r. rt_path r = q \<and> method_accepts (rt_method r) m) rs = r # rest"
    using assms by (auto simp: dispatch_def split: option.splits list.splits)
  then have "r \<in> set (filter (\<lambda>r. rt_path r = q \<and> method_accepts (rt_method r) m) rs)" by simp
  then show "r \<in> set rs" "method_accepts (rt_method r) m" by auto
qed

text \<open>Two patterns that some path matches agree in every segment where neither has a parameter.\<close>

definition overlap :: "string \<Rightarrow> string \<Rightarrow> bool" where
  "overlap q1 q2 \<longleftrightarrow> list_all2 (\<lambda>a b. is_param a \<or> is_param b \<or> a = b) (segments q1) (segments q2)"

lemma path_matches_overlap:
  assumes "path_matches q1 p" and "path_matches q2 p"
  shows "overlap q1 q2"
proof -
  have step: "is_param a \<or> is_param b \<or> a = b" if "segment_matches a c" "segment_matches b c" for a b c
    using that by (auto simp: segment_matches_def split: if_splits)
  then show ?thesis
    using assms unfolding path_matches_def overlap_def list_all2_conv_all_nth by metis
qed

text \<open>The concrete matcher that looks for a static pattern first.\<close>

definition static_first :: path_matcher where
  "static_first pats p =
     (case filter (\<lambda>q. static_pattern q \<and> path_matches q p) pats of
        q # _ \<Rightarrow> Some q
      | [] \<Rightarrow> (case filter (\<lambda>q. path_matches q p) pats of q # _ \<Rightarrow> Some q | [] \<Rightarrow> None))"

lemma static_match_eq:
  assumes "static_pattern q" and "path_matches q p"
  shows "q = p"
proof -
  have "xs = ys" if "list_all2 segment_matches xs ys" "\<not> list_ex is_param xs" for xs ys
    using that by (induction rule: list_all2_induct) (auto simp: segment_matches_def)
  then have "segments q = segments p" using assms by (simp add: path_matches_def static_pattern_def)
  then show ?thesis unfolding segments_def by (metis join_with_split_on)
qed

lemma static_first_laws: "matcher_laws static_first"
proof -
  have hit: "q \<in> set xs \<and> P q" if "filter P xs = q # rest" for P q rest and xs :: "string list"
  proof -
    have "q \<in> set (filter P xs)" using that by simp
    then show ?thesis by simp
  qed
  have "case static_first pats p of Some q \<Rightarrow> q \<in> set pats \<and> path_matches q p
      | None \<Rightarrow> \<not> list_ex (\<lambda>q. path_matches q p) pats" for pats p
    by (auto simp: static_first_def list_ex_iff filter_empty_conv dest: hit split: option.splits list.splits)
  moreover have "static_first pats p = Some q"
    if m: "q \<in> set pats" "static_pattern q" "path_matches q p" for pats p q
  proof -
    obtain q' rest where f: "filter (\<lambda>q. static_pattern q \<and> path_matches q p) pats = q' # rest"
      using m by (cases "filter (\<lambda>q. static_pattern q \<and> path_matches q p) pats") (auto simp: filter_empty_conv)
    then have "q' \<in> set (filter (\<lambda>q. static_pattern q \<and> path_matches q p) pats)" by simp
    then have "q' = q" using static_match_eq m by auto
    with f show ?thesis by (simp add: static_first_def)
  qed
  ultimately show ?thesis unfolding matcher_laws_def by blast
qed

end
