(* ===== verification/App.thy ===== *)
theory App
  imports Routes Auth Storage Redis_Queue Lite_Queue
begin

text \<open>
  The API server as a whole: \<open>pichost-api/src/app.rs\<close> (the state it builds for either mode, the
  application with its guards, headers and static files), \<open>middleware/metrics.rs\<close> and
  \<open>routes/health.rs\<close>. A request is its method, its path and its headers, with lower-case names; what
  a handler answers is another component's. The Redis server, the payload codec and the path matcher
  are parameters.
\<close>

section \<open>The state\<close>

definition init_storage_backends :: "app_config \<Rightarrow> router" where
  "init_storage_backends config =
     (let local_st = LocalB \<lparr>ls_base_path = st_local_base_path (cf_storage config),
                         ls_base_url = sv_public_url (cf_server config)\<rparr>;
          backends = [(''local'', local_st)] @
            (case st_rustfs (cf_storage config) of
               Some rc \<Rightarrow> [(''rustfs'', RustfsB (rustfs_new rc))]
             | None \<Rightarrow> [])
      in \<lparr>ro_backends = backends, ro_default = st_default_backend (cf_storage config)\<rparr>)"

record ('q, 'b, 'l, 'i, 'c) state_components =
  cmp_queue :: "'q queue_ops"
  cmp_blacklist :: "'b blacklist_ops"
  cmp_rate_limiter :: "'l limiter_ops"
  cmp_invites :: "'i invite_ops"
  cmp_cache :: "('c, string) cache_ops"

text \<open>The standard mode: every component on Redis, the queue on a pool of its own.\<close>

definition build_state_components ::
  "'r redis_exec \<Rightarrow> 'r redis_exec \<Rightarrow> queue_codec \<Rightarrow> (uuid \<Rightarrow> string) \<Rightarrow> (string \<Rightarrow> uuid option) \<Rightarrow>
   (int \<Rightarrow> nat option) \<Rightarrow> ('r, 'r, 'r, 'r, 'r) state_components" where
  "build_state_components cache_pool queue_pool qc us pu u64_of =
     \<lparr>cmp_queue = redis_queue_ops queue_pool qc, cmp_blacklist = redis_blacklist_ops cache_pool,
      cmp_rate_limiter = redis_limiter_ops cache_pool u64_of, cmp_invites = redis_invite_ops cache_pool us pu,
      cmp_cache = redis_cache_ops cache_pool\<rparr>"

text \<open>The lite mode: the tables of the SQLite pool, without driver failures, and the no-op cache.\<close>

definition lite_queue_ops ::
  "(nat \<Rightarrow> string) \<Rightarrow> (uuid \<Rightarrow> string) \<Rightarrow> (task_payload \<Rightarrow> 'j) \<Rightarrow> ('j \<Rightarrow> task_payload option) \<Rightarrow>
   'j pending_table queue_ops" where
  "lite_queue_ops mf us enc dec =
     \<lparr>qo_enqueue = sq_enqueue mf us enc False, qo_dequeue = sq_dequeue mf dec False,
      qo_ack = (\<lambda>s t. sq_ack us False s), qo_nack = sq_nack mf us False\<rparr>"

text \<open>The callers pass a window of 60 seconds; with 0 the code would panic.\<close>

definition lite_limiter_ops :: "rate_table limiter_ops" where
  "lite_limiter_ops =
     \<lparr>lo_check = (\<lambda>s t policy key limit window.
        case sqlite_rate_check False s t policy key limit window of
          Some r \<Rightarrow> r
        | None \<Rightarrow> (Inl (LOther ''attempt to divide by zero''), s))\<rparr>"

definition noop_cache_ops :: "(unit, string) cache_ops" where
  "noop_cache_ops =
     \<lparr>co_get = (\<lambda>s t k. noop_get k), co_set_ex = (\<lambda>s t k v ttl. (noop_set_ex k v ttl, s)),
      co_del = (\<lambda>s t k. (Inr (), s)), co_incr = (\<lambda>s t k ttl. (noop_incr k ttl, s)),
      co_get_bytes = (\<lambda>s t k. Inr None), co_set_ex_bytes = (\<lambda>s t k v ttl. (Inr (), s))\<rparr>"

definition build_lite_state_components ::
  "(nat \<Rightarrow> string) \<Rightarrow> (uuid \<Rightarrow> string) \<Rightarrow> (string \<Rightarrow> uuid option) \<Rightarrow> (string \<Rightarrow> nat option) \<Rightarrow>
   (task_payload \<Rightarrow> 'j) \<Rightarrow> ('j \<Rightarrow> task_payload option) \<Rightarrow>
   ('j pending_table, blacklist_table, rate_table, invite_table, unit) state_components" where
  "build_lite_state_components mf us up dt enc dec =
     \<lparr>cmp_queue = lite_queue_ops mf us enc dec, cmp_blacklist = lite_blacklist_ops mf,
      cmp_rate_limiter = lite_limiter_ops, cmp_invites = lite_invite_ops mf us up dt,
      cmp_cache = noop_cache_ops\<rparr>"

record ('q, 'b, 'l, 'i, 'c) app_state =
  sta_components :: "('q, 'b, 'l, 'i, 'c) state_components"
  sta_config :: app_config
  sta_router :: router

text \<open>The state that \<open>run_with\<close> serves in the standard mode.\<close>

definition build_app_state ::
  "'r redis_exec \<Rightarrow> 'r redis_exec \<Rightarrow> queue_codec \<Rightarrow> (uuid \<Rightarrow> string) \<Rightarrow> (string \<Rightarrow> uuid option) \<Rightarrow>
   (int \<Rightarrow> nat option) \<Rightarrow> app_config \<Rightarrow> ('r, 'r, 'r, 'r, 'r) app_state" where
  "build_app_state cache_pool queue_pool qc us pu u64_of config =
     \<lparr>sta_components = build_state_components cache_pool queue_pool qc us pu u64_of, sta_config = config,
      sta_router = init_storage_backends config\<rparr>"

text \<open>The lite mode requeues first what a crash left in processing; a failing reclaim is logged.\<close>

definition build_lite_app_state ::
  "(nat \<Rightarrow> string) \<Rightarrow> (uuid \<Rightarrow> string) \<Rightarrow> (string \<Rightarrow> uuid option) \<Rightarrow> (string \<Rightarrow> nat option) \<Rightarrow>
   (task_payload \<Rightarrow> 'j) \<Rightarrow> ('j \<Rightarrow> task_payload option) \<Rightarrow> bool \<Rightarrow> instant \<Rightarrow> app_config \<Rightarrow> 'j pending_table \<Rightarrow>
   ('j pending_table, blacklist_table, rate_table, invite_table, unit) app_state \<times> 'j pending_table" where
  "build_lite_app_state mf us up dt enc dec fail now config tbl =
     (\<lparr>sta_components = build_lite_state_components mf us up dt enc dec, sta_config = config,
       sta_router = init_storage_backends config\<rparr>,
      snd (sq_reclaim_stale mf fail tbl now))"

section \<open>Guards\<close>

record request =
  rq_method :: http_method
  rq_path :: string
  rq_headers :: "(string \<times> string) list"

record ('b, 'l) server =
  sr_auth :: auth_env
  sr_blacklist :: "'b blacklist_ops"
  sr_limiter :: "'l limiter_ops"
  sr_config :: app_config
  sr_i18n :: i18n
  sr_match :: path_matcher

definition header :: "request \<Rightarrow> string \<Rightarrow> string option" where
  "header req name = map_of (rq_headers req) name"

text \<open>
  One guard: the \<open>AuthUser\<close> that an earlier one put into the request, and the state of the limiter.
  \<open>fail\<close> is the fault of the one statement the guards run.
\<close>

definition run_guard ::
  "('b, 'l) server \<Rightarrow> bool \<Rightarrow> instant \<Rightarrow> db \<Rightarrow> 'b \<Rightarrow> request \<Rightarrow> guard \<Rightarrow> auth_user option \<Rightarrow> 'l \<Rightarrow>
   (api_error + auth_user option) \<times> 'l" where
  "run_guard sr fail now d b req gd ext l =
     (let al = header req ''accept-language'';
          loc = locale_from_header al (i_language (sr_i18n sr));
          cfg = sr_config sr;
          rl = cf_rate_limit cfg;
          us = ae_uuid_str (sr_auth sr);
          user = map_option au_id ext;
          limited = (\<lambda>(r, l'). (rbind r (\<lambda>_. Inr ext), l'))
      in case gd of
           RequireAuth \<Rightarrow>
             (map_sum id Some (require_auth (sr_auth sr) (sr_blacklist sr) (cf_auth cfg) (sr_i18n sr) fail now d b al
                (header req ''authorization'')), l)
         | RequireAdmin \<Rightarrow> (rbind (require_admin (sr_i18n sr) al ext) (\<lambda>_. Inr ext), l)
         | LimitAuth \<Rightarrow> limited (rate_limit_auth (sr_limiter sr) rl (sr_i18n sr) loc l now (rq_headers req))
         | LimitPublic \<Rightarrow> limited (rate_limit_public (sr_limiter sr) rl (sr_i18n sr) loc l now (rq_headers req))
         | LimitUpload \<Rightarrow>
             limited (rate_limit_upload (sr_limiter sr) us rl (sr_i18n sr) loc l now user (rq_headers req))
         | LimitGeneral \<Rightarrow>
             limited (rate_limit_general (sr_limiter sr) us rl (sr_i18n sr) loc l now user (rq_headers req)))"

fun run_guards ::
  "('b, 'l) server \<Rightarrow> bool \<Rightarrow> instant \<Rightarrow> db \<Rightarrow> 'b \<Rightarrow> request \<Rightarrow> guard list \<Rightarrow> auth_user option \<Rightarrow> 'l \<Rightarrow>
   (api_error + auth_user option) \<times> 'l" where
  "run_guards sr fail now d b req [] ext l = (Inr ext, l)"
| "run_guards sr fail now d b req (gd # gds) ext l =
     (case run_guard sr fail now d b req gd ext l of
        (Inl e, l') \<Rightarrow> (Inl e, l')
      | (Inr ext', l') \<Rightarrow> run_guards sr fail now d b req gds ext' l')"

text \<open>
  What becomes of a request before its handler runs. A request that no route takes goes to the fallback;
  one with a method no route has is refused by axum (its way through the guards is not modelled).
\<close>

datatype outcome = Reached handler "auth_user option" | Denied api_error | WrongMethod | Unrouted

definition serve ::
  "('b, 'l) server \<Rightarrow> bool \<Rightarrow> instant \<Rightarrow> db \<Rightarrow> 'b \<Rightarrow> request \<Rightarrow> 'l \<Rightarrow> outcome \<times> 'l" where
  "serve sr fail now d b req l =
     (case dispatch (sr_match sr) build_router (rq_method req) (rq_path req) of
        NoRoute \<Rightarrow> (Unrouted, l)
      | NoMethod \<Rightarrow> (WrongMethod, l)
      | Found r \<Rightarrow>
          (case run_guards sr fail now d b req (rt_guards r) None l of
             (Inl e, l') \<Rightarrow> (Denied e, l')
           | (Inr ext, l') \<Rightarrow> (Reached (rt_handler r) ext, l')))"

section \<open>The application around the routes\<close>

definition body_limit :: nat where "body_limit = 52428800"

definition body_refused :: "nat \<Rightarrow> bool" where "body_refused body_length \<longleftrightarrow> body_limit < body_length"

definition resolve_static_dir :: "app_config \<Rightarrow> string" where
  "resolve_static_dir config = opt_unwrap_or (cf_static_dir config) ''./dist''"

definition mount_static_fallback :: "(string \<Rightarrow> bool) \<Rightarrow> string \<Rightarrow> string option" where
  "mount_static_fallback is_dir dir = (if is_dir dir then Some dir else None)"

definition security_headers :: "(string \<times> string) list" where
  "security_headers =
     [(''x-content-type-options'', ''nosniff''),
      (''x-frame-options'', ''DENY''),
      (''content-security-policy'', ''default-src 'none'; img-src 'self'; style-src 'unsafe-inline'; sandbox''),
      (''strict-transport-security'', ''max-age=31536000; includeSubDomains; preload''),
      (''referrer-policy'', ''strict-origin-when-cross-origin'')]"

definition setup_security_headers :: "(string \<times> string) list \<Rightarrow> (string \<times> string) list" where
  "setup_security_headers hs = fold (\<lambda>(k, v). AList.update k v) security_headers hs"

text \<open>
  \<open>configure_app\<close>: a layer covers the routes and the fallback that exist when it is added, and the
  static files are mounted after the headers.
\<close>

definition configure_app :: "(string \<Rightarrow> bool) \<Rightarrow> app_config \<Rightarrow> outcome \<Rightarrow> (string \<times> string) list \<Rightarrow> (string \<times> string) list" where
  "configure_app is_dir config oc hs =
     (if oc = Unrouted \<and> mount_static_fallback is_dir (resolve_static_dir config) \<noteq> None then hs
      else setup_security_headers hs)"

section \<open>Metrics and health\<close>

type_synonym request_metrics = "((http_method \<times> string \<times> nat) \<times> nat) list"

text \<open>The labels are the method, the path of the request as it was sent, and the status.\<close>

definition track_metrics :: "request \<Rightarrow> nat \<Rightarrow> request_metrics \<Rightarrow> request_metrics" where
  "track_metrics req status ms =
     (let k = (rq_method req, rq_path req, status)
      in AList.update k (opt_unwrap_or (map_of ms k) 0 + 1) ms)"

definition component_status :: "bool \<Rightarrow> json" where
  "component_status b = JObj [(''status'', JStr (if b then ''ok'' else ''error''))]"

definition health_check :: "bool \<Rightarrow> ('c, string) cache_ops \<Rightarrow> 'c \<Rightarrow> instant \<Rightarrow> router \<Rightarrow> nat \<times> json" where
  "health_check fail cache c now ro =
     (let pg_ok = (\<not> fail);
          redis_ok = is_ok (co_get cache c now ''health:ping'');
          ok = (pg_ok \<and> redis_ok)
      in ((if ok then 200 else 503),
          JObj [(''status'', JStr (if ok then ''healthy'' else ''degraded'')),
                (''components'',
                 JObj [(''postgres'', component_status pg_ok), (''redis'', component_status redis_ok),
                       (''storage'',
                        JObj [(''status'', JStr ''ok''),
                              (''detail'',
                               JStr (''default_backend='' @ ro_default ro @ '', registered='' @
                                     nat_str (length (ro_backends ro))))])])]))"

end
