(* ===== verification/App_Props.thy ===== *)
theory App_Props
  imports App Auth_Props
begin

text \<open>
  Facts on the application: which handlers a request reaches with which credentials, that every route
  is found under its paths, and what the limit on sign-ins holds and does not hold.
\<close>

section \<open>The table\<close>

text \<open>The handlers that no token is needed for.\<close>

definition open_handlers :: "handler list" where
  "open_handlers =
     [(''auth'', ''register''), (''auth'', ''login''), (''auth'', ''refresh''), (''auth'', ''logout''),
      (''oauth'', ''github_redirect''), (''oauth'', ''github_callback''),
      (''oauth'', ''google_redirect''), (''oauth'', ''google_callback''),
      (''images'', ''public_get''), (''images'', ''public_get_thumb''), (''images'', ''public_get_webp''),
      (''images'', ''public_get_thumb_by_key''),
      (''health'', ''health_check''), (''app'', ''metrics_handler'')]"

definition sign_in_handlers :: "handler list" where "sign_in_handlers = map rt_handler auth_routes"

lemma table_guards:
  "list_all (\<lambda>r. rt_handler r \<in> set open_handlers \<or>
     rt_guards r \<noteq> [] \<and> hd (rt_guards r) = RequireAuth \<and> RequireAuth \<notin> set (tl (rt_guards r))) build_router"
  by code_simp

lemma table_admin:
  "list_all (\<lambda>r. fst (rt_handler r) = ''admin'' \<longrightarrow> RequireAdmin \<in> set (rt_guards r)) build_router"
  by code_simp

lemma table_sign_in:
  "list_all (\<lambda>r. if rt_handler r \<in> set sign_in_handlers then rt_guards r = [LimitAuth]
     else LimitAuth \<notin> set (rt_guards r)) build_router"
  by code_simp

lemma table_distinct: "distinct (map (\<lambda>r. (rt_path r, rt_method r)) build_router)"
  by code_simp

lemma table_overlaps:
  "list_all (\<lambda>q1. list_all (\<lambda>q2. overlap q1 q2 \<longrightarrow> q1 = q2) (filter (\<lambda>q. \<not> static_pattern q) (map rt_path build_router)))
     (filter (\<lambda>q. \<not> static_pattern q) (map rt_path build_router))"
  by code_simp

lemma table_methods: "list_all (\<lambda>r. rt_method r \<noteq> HEAD) build_router"
  by code_simp

section \<open>Who reaches a handler\<close>

lemma run_guard_keeps:
  assumes "run_guard sr fail now d b req gd ext l = (Inr ext', l')" and "gd \<noteq> RequireAuth"
  shows "ext' = ext \<and> (gd = RequireAdmin \<longrightarrow> (\<exists>u. ext = Some u \<and> au_is_admin u))"
  using assms
  by (cases gd) (auto simp: run_guard_def Let_def rbind_eq_Inr require_admin_def ok_or_def
      split: prod.splits option.splits if_splits)

lemma run_guards_keep:
  assumes "run_guards sr fail now d b req gds ext l = (Inr ext', l')" and "RequireAuth \<notin> set gds"
  shows "ext' = ext \<and> (RequireAdmin \<in> set gds \<longrightarrow> (\<exists>u. ext = Some u \<and> au_is_admin u))"
  using assms
proof (induction gds arbitrary: ext l)
  case (Cons gd gds)
  then obtain ext1 l1 where "run_guard sr fail now d b req gd ext l = (Inr ext1, l1)"
    "run_guards sr fail now d b req gds ext1 l1 = (Inr ext', l')"
    by (auto split: prod.splits sum.splits)
  with Cons run_guard_keeps [of sr fail now d b req gd ext l] show ?case by auto
qed simp

lemma serve_Reached:
  assumes "serve sr fail now d b req l = (Reached h ext, l')"
  obtains r where "dispatch (sr_match sr) build_router (rq_method req) (rq_path req) = Found r"
    "r \<in> set build_router" "rt_handler r = h"
    "run_guards sr fail now d b req (rt_guards r) None l = (Inr ext, l')"
proof -
  obtain r where f: "dispatch (sr_match sr) build_router (rq_method req) (rq_path req) = Found r"
    and g: "rt_handler r = h" "run_guards sr fail now d b req (rt_guards r) None l = (Inr ext, l')"
    using assms by (auto simp: serve_def split: found.splits prod.splits sum.splits)
  from f dispatch_Found(1) [OF f] g show thesis by (rule that)
qed

lemma serve_authenticated:
  assumes "serve sr fail now d b req l = (Reached h ext, l')" and "h \<notin> set open_handlers"
  shows "\<exists>u. ext = Some u \<and>
    require_auth (sr_auth sr) (sr_blacklist sr) (cf_auth (sr_config sr)) (sr_i18n sr) fail now d b
      (header req ''accept-language'') (header req ''authorization'') = Inr u \<and>
    (fst h = ''admin'' \<longrightarrow> au_is_admin u)"
proof -
  obtain r where r: "r \<in> set build_router" "rt_handler r = h"
    and run: "run_guards sr fail now d b req (rt_guards r) None l = (Inr ext, l')"
    using serve_Reached [OF assms(1)] by metis
  obtain gds where gds: "rt_guards r = RequireAuth # gds" "RequireAuth \<notin> set gds"
    using table_guards r assms(2) by (cases "rt_guards r") (auto simp: list_all_iff)
  have adm: "fst h = ''admin'' \<Longrightarrow> RequireAdmin \<in> set gds"
    using table_admin r gds(1) by (auto simp: list_all_iff)
  obtain ext1 l1 where g1: "run_guard sr fail now d b req RequireAuth None l = (Inr ext1, l1)"
    and g2: "run_guards sr fail now d b req gds ext1 l1 = (Inr ext, l')"
    using run unfolding gds(1) by (auto split: prod.splits sum.splits)
  obtain u where u: "ext1 = Some u"
    "require_auth (sr_auth sr) (sr_blacklist sr) (cf_auth (sr_config sr)) (sr_i18n sr) fail now d b
      (header req ''accept-language'') (header req ''authorization'') = Inr u"
    using g1 by (auto simp: run_guard_def Let_def map_sum_def split: sum.splits)
  from run_guards_keep [OF g2 gds(2)] u adm show ?thesis by auto
qed

lemma require_auth_Inr:
  assumes "require_auth env bl cfg g fail now d b al az = Inr u"
  shows "\<exists>tok c. az = Some (bearer tok) \<and>
    jw_decode_access (ae_jwt env) (ac_jwt_secret cfg) True now tok = Some c \<and>
    \<not> refused bl b now (acl_jti c) \<and> ae_uuid_parse env (acl_sub c) = Some (au_id u) \<and>
    au_is_admin u = acl_is_admin c"
proof -
  have bearer: "h = bearer tok" if "strip_prefix h ''Bearer '' = Some tok" for h tok
    using that by (auto simp: strip_prefix_def starts_with_iff bearer_def split: if_splits)
  show ?thesis
    using assms
    by (auto simp: require_auth_def Let_def rbind_eq_Inr extract_bearer_token_def decode_and_validate_jwt_def
        check_blacklist_and_quota_def ok_or_def refused_def dest!: bearer split: option.splits if_splits)
qed

text \<open>
  Property C37. The doors of the server. Whatever a client sends, a handler that is not one of the fourteen
  public ones (the four of auth, the four redirects and callbacks of OAuth, the four public images,
  health and metrics) runs only for a request with a bearer token that decodes under the server's
  secret, has not expired and is not revoked, and it is given the user of that token; a handler of the
  administration runs only when that token is an administrator's.
\<close>

theorem handlers_need_token:
  assumes "serve sr fail now d b req l = (Reached h ext, l')" and "h \<notin> set open_handlers"
  shows "\<exists>tok c u. header req ''authorization'' = Some (bearer tok) \<and>
    jw_decode_access (ae_jwt (sr_auth sr)) (ac_jwt_secret (cf_auth (sr_config sr))) True now tok = Some c \<and>
    \<not> refused (sr_blacklist sr) b now (acl_jti c) \<and>
    ext = Some u \<and> ae_uuid_parse (sr_auth sr) (acl_sub c) = Some (au_id u) \<and>
    (fst h = ''admin'' \<longrightarrow> acl_is_admin c)"
proof -
  from serve_authenticated [OF assms] obtain u where u: "ext = Some u" "fst h = ''admin'' \<longrightarrow> au_is_admin u"
    and auth: "require_auth (sr_auth sr) (sr_blacklist sr) (cf_auth (sr_config sr)) (sr_i18n sr) fail now d b
      (header req ''accept-language'') (header req ''authorization'') = Inr u" by blast
  from require_auth_Inr [OF auth] u show ?thesis by auto
qed

section \<open>Every route is found\<close>

lemma pattern_unique:
  assumes "matcher_laws mt" and "r \<in> set build_router" and "path_matches (rt_path r) p"
    and "static_pattern (rt_path r) \<or> p \<notin> set (map rt_path build_router)"
  shows "mt (map rt_path build_router) p = Some (rt_path r)"
proof (cases "static_pattern (rt_path r)")
  case True
  then show ?thesis using assms(1-3) by (auto simp: matcher_laws_def)
next
  case False
  let ?pats = "map rt_path build_router"
  have law: "case mt ?pats p of Some q \<Rightarrow> q \<in> set ?pats \<and> path_matches q p
      | None \<Rightarrow> \<not> list_ex (\<lambda>q. path_matches q p) ?pats"
    using assms(1) unfolding matcher_laws_def by blast
  moreover have "list_ex (\<lambda>q. path_matches q p) ?pats" using assms(2,3) by (auto simp: list_ex_iff)
  ultimately obtain q where q: "mt ?pats p = Some q" "q \<in> set ?pats" "path_matches q p"
    by (auto split: option.splits)
  have "\<not> static_pattern q" using static_match_eq [of q p] q(2,3) assms(4) False by auto
  moreover have "overlap q (rt_path r)" using q(3) assms(3) by (rule path_matches_overlap)
  ultimately have "q = rt_path r"
    using table_overlaps q(2) False assms(2) by (simp add: list_all_iff)
  with q(1) show ?thesis by simp
qed

lemma route_dispatch:
  assumes "matcher_laws mt" and "r \<in> set build_router" and "path_matches (rt_path r) p"
    and "static_pattern (rt_path r) \<or> p \<notin> set (map rt_path build_router)"
    and "method_accepts (rt_method r) m"
  shows "dispatch mt build_router m p = Found r"
proof -
  have one: "r' = r" if "r' \<in> set build_router" "rt_path r' = rt_path r" "method_accepts (rt_method r') m" for r'
  proof -
    have "rt_method r' = rt_method r"
      using that assms(2,5) table_methods by (auto simp: method_accepts_def list_all_iff)
    then show ?thesis using table_distinct that(1,2) assms(2) by (auto simp: distinct_map dest: inj_onD)
  qed
  let ?hits = "filter (\<lambda>r'. rt_path r' = rt_path r \<and> method_accepts (rt_method r') m) build_router"
  have "r \<in> set ?hits" using assms(2,5) by simp
  then obtain r' rest where hits: "?hits = r' # rest" by (cases ?hits) auto
  then have "r' \<in> set ?hits" by simp
  then have "r' = r" using one by auto
  with hits show ?thesis by (simp add: dispatch_def pattern_unique [OF assms(1-4)])
qed

text \<open>
  Property C38. No route is hidden by another: a request whose path matches the pattern of a route, with
  the method of that route (or HEAD for GET), finds this route and no other, unless the pattern has a
  parameter and the path is literally another pattern of the table, such as
  \<open>/api/v1/images/batch-delete\<close> for an image id.
\<close>

theorem routes_found:
  assumes "matcher_laws mt" and "r \<in> set build_router" and "path_matches (rt_path r) p"
    and "static_pattern (rt_path r) \<or> p \<notin> set (map rt_path build_router)"
    and "method_accepts (rt_method r) m"
  shows "dispatch mt build_router m p = Found r"
  using assms by (rule route_dispatch)

text \<open>Witnesses: ann, an administrator, lists the users with her token; a request for one image.\<close>

definition demo_server :: "(blacklist_table, rate_table) server" where
  "demo_server = \<lparr>sr_auth = demo_env, sr_blacklist = lite_blacklist_ops (pad_nat 17), sr_limiter = lite_limiter_ops,
     sr_config = default_app_config, sr_i18n = demo_i18n, sr_match = static_first\<rparr>"

lemma demo_server_sel [simp]:
  "sr_auth demo_server = demo_env" "sr_blacklist demo_server = lite_blacklist_ops (pad_nat 17)"
  "sr_limiter demo_server = lite_limiter_ops" "sr_config demo_server = default_app_config"
  "sr_i18n demo_server = demo_i18n" "sr_match demo_server = static_first"
  by (simp_all add: demo_server_def)

lemma demo_rate_limit [simp]: "cf_rate_limit default_app_config = default_rate_limit"
  by (simp add: default_app_config_def)

definition list_users_request :: "string \<Rightarrow> request" where
  "list_users_request tok =
     \<lparr>rq_method = GET, rq_path = ''/api/v1/admin/users'', rq_headers = [(''authorization'', bearer tok)]\<rparr>"

definition links_path :: string where "links_path = ''/api/v1/images/0b/links''"

lemma links_route:
  "\<lparr>rt_method = GET, rt_path = ''/api/v1/images/{id}/links'', rt_guards = [RequireAuth, LimitGeneral],
    rt_handler = (''images'', ''get_image_links'')\<rparr> \<in> set build_router"
  by code_simp

theorem routes_found_witness:
  "dispatch static_first build_router HEAD links_path =
     Found \<lparr>rt_method = GET, rt_path = ''/api/v1/images/{id}/links'', rt_guards = [RequireAuth, LimitGeneral],
       rt_handler = (''images'', ''get_image_links'')\<rparr> \<and>
   dispatch static_first build_router GET ''/api/v1/images/batch-move'' = NoMethod"
proof -
  let ?r = "\<lparr>rt_method = GET, rt_path = ''/api/v1/images/{id}/links'', rt_guards = [RequireAuth, LimitGeneral],
    rt_handler = (''images'', ''get_image_links'')\<rparr>"
  have m: "path_matches (rt_path ?r) links_path" by code_simp
  have p: "static_pattern (rt_path ?r) \<or> links_path \<notin> set (map rt_path build_router)" by code_simp
  have h: "method_accepts (rt_method ?r) HEAD" by (simp add: method_accepts_def)
  have no: "dispatch static_first build_router GET ''/api/v1/images/batch-move'' = NoMethod" by code_simp
  from routes_found [OF static_first_laws links_route m p h] no show ?thesis by blast
qed

lemma list_users_dispatch:
  "dispatch static_first build_router GET ''/api/v1/admin/users'' =
     Found \<lparr>rt_method = GET, rt_path = ''/api/v1/admin/users'', rt_guards = [RequireAuth, RequireAdmin, LimitGeneral],
       rt_handler = (''admin'', ''list_users'')\<rparr>"
  by code_simp

definition ann_token :: string where "ann_token = the (demo_encode_access [] demo_claims)"

lemma ann_authenticated:
  "require_auth demo_env (lite_blacklist_ops (pad_nat 17)) (cf_auth default_app_config) demo_i18n False 0
     demo_db [] None (Some (bearer ann_token)) =
   Inr \<lparr>au_id = 9, au_is_admin = True, au_storage_quota = None, au_watermark = None\<rparr>"
proof -
  have dec: "jw_decode_access (ae_jwt demo_env) (ac_jwt_secret (cf_auth default_app_config)) True 0
      ann_token = Some demo_claims"
    unfolding ann_token_def demo_default_sel access_token_decodes [OF demo_env_laws demo_claims_token]
    by (simp add: token_expired_def timestamp_def)
  from deleted_user_keeps_access [OF dec, of "lite_blacklist_ops (pad_nat 17)" "[]" 9 demo_db demo_i18n None]
  show ?thesis
    by (simp add: lite_blacklist_ops_def sqlite_blacklist_check_def user_by_id_def)
qed

lemma list_users_served:
  "\<exists>l'. serve demo_server False 0 demo_db [] (list_users_request ann_token) [] =
     (Reached (''admin'', ''list_users'')
        (Some \<lparr>au_id = 9, au_is_admin = True, au_storage_quota = None, au_watermark = None\<rparr>), l')"
  by (simp add: serve_def list_users_request_def list_users_dispatch run_guard_def header_def ann_authenticated
      require_admin_def Let_def rate_limit_general_def limit_with_def limiter_check_def lite_limiter_ops_def
      sqlite_rate_check_def rate_limit_window_secs_def sqlite_rate_count_def default_rate_limit_def ok_or_def)

theorem handlers_need_token_witness:
  "\<exists>tok c u. header (list_users_request ann_token) ''authorization'' = Some (bearer tok) \<and>
    jw_decode_access (ae_jwt demo_env) [] True 0 tok = Some c \<and> acl_is_admin c \<and>
    (\<exists>l'. serve demo_server False 0 demo_db [] (list_users_request ann_token) [] =
       (Reached (''admin'', ''list_users'') (Some u), l')) \<and>
    ae_uuid_parse demo_env (acl_sub c) = Some (au_id u)"
proof -
  obtain l' where run: "serve demo_server False 0 demo_db [] (list_users_request ann_token) [] =
     (Reached (''admin'', ''list_users'')
        (Some \<lparr>au_id = 9, au_is_admin = True, au_storage_quota = None, au_watermark = None\<rparr>), l')"
    using list_users_served by blast
  have closed: "(''admin'', ''list_users'') \<notin> set open_handlers" by code_simp
  from handlers_need_token [OF run closed] run show ?thesis by fastforce
qed

section \<open>The limit on sign-ins\<close>

text \<open>A request that arrives, with what its guards find in the database and the blacklist.\<close>

record 'b arrival =
  av_now :: instant
  av_fail :: bool
  av_db :: db
  av_blacklist :: 'b
  av_request :: request

primrec serve_all :: "('b, 'l) server \<Rightarrow> 'b arrival list \<Rightarrow> 'l \<Rightarrow> outcome list \<times> 'l" where
  "serve_all sr [] l = ([], l)"
| "serve_all sr (x # xs) l =
     (let (oc, l') = serve sr (av_fail x) (av_now x) (av_db x) (av_blacklist x) (av_request x) l;
          (ocs, l'') = serve_all sr xs l'
      in (oc # ocs, l''))"

abbreviation (input) sign_in_key :: "string \<Rightarrow> nat \<Rightarrow> string \<times> string \<times> nat" where
  "sign_in_key ip w \<equiv> (''auth'', ip, w)"

text \<open>The request is of the address and the minute, and a handler of the sign-in group runs for it.\<close>

definition signs_in :: "string \<Rightarrow> nat \<Rightarrow> 'b arrival \<Rightarrow> outcome \<Rightarrow> bool" where
  "signs_in ip w x oc \<longleftrightarrow>
     extract_client_ip (rq_headers (av_request x)) = ip \<and> timestamp (av_now x) div 60 = w \<and>
     (case oc of Reached h ext \<Rightarrow> h \<in> set sign_in_handlers | _ \<Rightarrow> False)"

lemma lite_limited:
  "limit_with lite_limiter_ops g loc tbl t policy key m =
     (let k = (policy, key, timestamp t div 60); n = sqlite_rate_count tbl k + 1
      in (if n \<le> m then Inr () else Inl (too_many_response g loc 60), AList.update k n tbl))"
  by (simp add: limit_with_def limiter_check_def lite_limiter_ops_def sqlite_rate_check_def rate_limit_window_secs_def
      Let_def)

lemma rate_count_update [simp]:
  "sqlite_rate_count (AList.update k n tbl) k' = (if k' = k then n else sqlite_rate_count tbl k')"
  by (simp add: sqlite_rate_count_def update_conv')

lemma other_guard_count:
  assumes "sr_limiter sr = lite_limiter_ops" and "gd \<noteq> LimitAuth"
  shows "sqlite_rate_count (snd (run_guard sr fail now d b req gd ext tbl)) (sign_in_key ip w) =
    sqlite_rate_count tbl (sign_in_key ip w)"
  using assms by (cases gd) (auto simp: run_guard_def Let_def rate_limit_public_def rate_limit_upload_def
      rate_limit_general_def lite_limited)

lemma other_guards_count:
  assumes "sr_limiter sr = lite_limiter_ops" and "LimitAuth \<notin> set gds"
  shows "sqlite_rate_count (snd (run_guards sr fail now d b req gds ext tbl)) (sign_in_key ip w) =
    sqlite_rate_count tbl (sign_in_key ip w)"
  using assms(2)
proof (induction gds arbitrary: ext tbl)
  case (Cons gd gds)
  obtain r l' where g: "run_guard sr fail now d b req gd ext tbl = (r, l')" by fastforce
  then have "sqlite_rate_count l' (sign_in_key ip w) = sqlite_rate_count tbl (sign_in_key ip w)"
    using other_guard_count [OF assms(1), of gd fail now d b req ext tbl ip w] Cons.prems by auto
  with g Cons show ?case by (cases r) simp_all
qed simp

lemma auth_guard_run:
  assumes "sr_limiter sr = lite_limiter_ops"
  shows "run_guards sr fail now d b req [LimitAuth] None tbl =
    (let k = sign_in_key (extract_client_ip (rq_headers req)) (timestamp now div 60); n = sqlite_rate_count tbl k + 1
     in (if n \<le> rl_auth_max (cf_rate_limit (sr_config sr)) then Inr None
         else Inl (too_many_response (sr_i18n sr)
           (locale_from_header (header req ''accept-language'') (i_language (sr_i18n sr))) 60),
         AList.update k n tbl))"
  by (simp add: run_guard_def rate_limit_auth_def lite_limited assms Let_def)

text \<open>One request: what the count of an address can do, and that passing costs one.\<close>

lemma serve_count:
  fixes sr :: "('b, rate_table) server" and x :: "'b arrival"
  assumes "sr_limiter sr = lite_limiter_ops"
    and "serve sr (av_fail x) (av_now x) (av_db x) (av_blacklist x) (av_request x) tbl = (oc, tbl')"
  shows "sqlite_rate_count tbl (sign_in_key ip w) \<le> sqlite_rate_count tbl' (sign_in_key ip w) \<and>
    (signs_in ip w x oc \<longrightarrow>
       sqlite_rate_count tbl' (sign_in_key ip w) = Suc (sqlite_rate_count tbl (sign_in_key ip w)) \<and>
       sqlite_rate_count tbl' (sign_in_key ip w) \<le> rl_auth_max (cf_rate_limit (sr_config sr)))"
proof (cases "dispatch (sr_match sr) build_router (rq_method (av_request x)) (rq_path (av_request x))")
  case (Found r)
  from dispatch_Found(1) [OF Found] have r: "r \<in> set build_router" .
  show ?thesis
  proof (cases "rt_handler r \<in> set sign_in_handlers")
    case True
    with r table_sign_in have gs: "rt_guards r = [LimitAuth]" by (auto simp: list_all_iff)
    show ?thesis
      using assms(2) Found True unfolding serve_def
      by (auto simp: gs auth_guard_run [OF assms(1)] Let_def signs_in_def simp del: run_guards.simps split: if_splits)
  next
    case False
    with r table_sign_in have gs: "LimitAuth \<notin> set (rt_guards r)" by (auto simp: list_all_iff)
    obtain res l' where run: "run_guards sr (av_fail x) (av_now x) (av_db x) (av_blacklist x) (av_request x)
        (rt_guards r) None tbl = (res, l')" by fastforce
    then have "sqlite_rate_count l' (sign_in_key ip w) = sqlite_rate_count tbl (sign_in_key ip w)"
      using other_guards_count [OF assms(1) gs, of "av_fail x" "av_now x" "av_db x" "av_blacklist x" "av_request x" None tbl ip w]
      by simp
    then show ?thesis
      using assms(2) Found False run unfolding serve_def
      by (auto simp: signs_in_def simp del: run_guards.simps split: sum.splits)
  qed
qed (use assms(2) in \<open>auto simp: serve_def signs_in_def\<close>)


definition login_request :: "string \<Rightarrow> request" where
  "login_request ip = \<lparr>rq_method = POST, rq_path = ''/api/v1/auth/login'', rq_headers = [(''x-forwarded-for'', ip)]\<rparr>"

lemma login_route:
  "\<lparr>rt_method = POST, rt_path = ''/api/v1/auth/login'', rt_guards = [LimitAuth], rt_handler = (''auth'', ''login'')\<rparr>
     \<in> set build_router"
  by code_simp

lemma login_path: "path_matches ''/api/v1/auth/login'' ''/api/v1/auth/login''" "static_pattern ''/api/v1/auth/login''"
  by (code_simp, code_simp)

lemma login_dispatch:
  assumes "matcher_laws mt"
  shows "dispatch mt build_router POST ''/api/v1/auth/login'' =
    Found \<lparr>rt_method = POST, rt_path = ''/api/v1/auth/login'', rt_guards = [LimitAuth], rt_handler = (''auth'', ''login'')\<rparr>"
  using route_dispatch [OF assms login_route, of "''/api/v1/auth/login''" POST] login_path
  by (simp add: method_accepts_def)

lemma login_served:
  assumes "sr_limiter sr = lite_limiter_ops" and "matcher_laws (sr_match sr)"
    and "rq_method req = POST" and "rq_path req = ''/api/v1/auth/login''"
    and "k = sign_in_key (extract_client_ip (rq_headers req)) (timestamp now div 60)"
    and "sqlite_rate_count tbl k < rl_auth_max (cf_rate_limit (sr_config sr))"
  shows "serve sr fail now d b req tbl =
    (Reached (''auth'', ''login'') None, AList.update k (Suc (sqlite_rate_count tbl k)) tbl)"
  using assms(5,6) auth_guard_run [OF assms(1), of fail now d b req tbl]
  by (simp add: serve_def assms(3,4) login_dispatch [OF assms(2)] Let_def del: run_guards.simps)

definition login_from :: "string \<Rightarrow> blacklist_table arrival" where
  "login_from ip = \<lparr>av_now = 0, av_fail = False, av_db = demo_db, av_blacklist = [], av_request = login_request ip\<rparr>"




section \<open>Start-up and headers\<close>

text \<open>
  The storage router always has a default backend: the one named, when it is \<open>local\<close> or a configured
  \<open>rustfs\<close>, and some other otherwise, without a word.
\<close>

theorem storage_has_default:
  "\<exists>bk. default_backend (init_storage_backends config) = Some bk \<and>
     (if st_default_backend (cf_storage config) = ''rustfs'' \<and> st_rustfs (cf_storage config) \<noteq> None
      then bk = RustfsB (rustfs_new (the (st_rustfs (cf_storage config))))
      else bk = LocalB \<lparr>ls_base_path = st_local_base_path (cf_storage config),
                       ls_base_url = sv_public_url (cf_server config)\<rparr>)"
  by (auto simp: init_storage_backends_def default_backend_def Let_def split: option.splits)

text \<open>
  A lite server starts with no task in processing: what a crash left there is claimable again, and
  what was dead stays dead.
\<close>

theorem lite_start_requeues:
  "(\<forall>r \<in> set (snd (build_lite_app_state mf us up dt enc dec False now config tbl)). pt_status r \<noteq> ''processing'') \<and>
   filter (\<lambda>r. pt_status r = ''dead'') (snd (build_lite_app_state mf us up dt enc dec False now config tbl)) =
     filter (\<lambda>r. pt_status r = ''dead'') tbl"
  by (simp add: build_lite_app_state_def reclaim_dead reclaim_none_processing del: Ball_def)

theorem lite_start_requeues_witness:
  "snd (build_lite_app_state (pad_nat 17) nat_str (\<lambda>_. None) (\<lambda>_. None) id Some False 0 default_app_config
     [(sample_row 7 ''9'')\<lparr>pt_status := ''processing''\<rparr>]) \<noteq> []"
  using lite_start_requeues [of "pad_nat 17" nat_str "\<lambda>_. None" "\<lambda>_. None" id Some 0 default_app_config
    "[(sample_row 7 ''9'')\<lparr>pt_status := ''processing''\<rparr>]"]
  by (simp add: build_lite_app_state_def sq_reclaim_stale_def)

text \<open>
  Every answer of a route carries the five security headers, whatever the handler set; the files of the
  frontend, mounted after the headers, are sent without any of them.
\<close>

theorem routed_answers_have_headers:
  "(oc \<noteq> Unrouted \<longrightarrow> map (\<lambda>(k, v). map_of (configure_app is_dir config oc hs) k) security_headers =
      map (\<lambda>(k, v). Some v) security_headers) \<and>
   (is_dir (resolve_static_dir config) \<longrightarrow> configure_app is_dir config Unrouted hs = hs)"
  by (simp add: configure_app_def setup_security_headers_def security_headers_def mount_static_fallback_def update_conv')

theorem routed_answers_have_headers_witness:
  "configure_app (\<lambda>_. True) default_app_config Unrouted [(''server'', ''axum'')] = [(''server'', ''axum'')]"
  using routed_answers_have_headers [of Unrouted "\<lambda>_. True" default_app_config "[(''server'', ''axum'')]"] by simp

end
