(* ===== verification/Schema.thy ===== *)
theory Schema
  imports Setup_Props Images_Props Worker_Props Categories_Props Storage_Configs_Props Users_Props Admin_Props
    Oauth_Props
begin

text \<open>
  The tables under everything that writes them. One step is one request to a handler that writes the
  database, one task or one dead letter of the worker, or the first start, with any parameters, times,
  draws and faults; the invariant joins what the components keep: the unique columns, the forest of
  categories, images in categories of their owners, and rows that belong to users that exist.
\<close>

section \<open>The invariant\<close>

definition rows_of_users :: "db \<Rightarrow> bool" where
  "rows_of_users d \<longleftrightarrow>
     set (map im_user_id (t_images d)) \<subseteq> set (map u_id (t_users d)) \<and>
     set (map cat_user_id (t_categories d)) \<subseteq> set (map u_id (t_users d)) \<and>
     set (map sc_user_id (t_configs d)) \<subseteq> set (map u_id (t_users d)) \<and>
     set (map oa_user_id (t_oauth d)) \<subseteq> set (map u_id (t_users d))"

definition schema_ok :: "db \<Rightarrow> bool" where
  "schema_ok d \<longleftrightarrow> users_unique (t_users d) \<and> images_unique (t_images d) \<and> forest_ok (t_categories d) \<and>
     categories_used d \<and> oauth_unique (t_oauth d) \<and> rows_of_users d"

section \<open>The steps\<close>

text \<open>The parameters of an installation: its libraries, services and configuration.\<close>

record ('i, 'q, 'h, 's, 'c, 'v, 'm, 'o) plant =
  pl_config :: app_config
  pl_auth :: auth_env
  pl_invites :: "'i invite_ops"
  pl_upload :: "('q, 'h, 's) upload_env"
  pl_cache :: "('c, 'v) cache_ops"
  pl_worker :: "('m, 'h, 's) worker_env"
  pl_oauth :: "'o oauth_lib"
  pl_crypto :: crypto_lib
  pl_setup :: setup_env

inductive db_step :: "('i, 'q, 'h, 's, 'c, 'v, 'm, 'o) plant \<Rightarrow> db \<Rightarrow> db \<Rightarrow> bool"
  for pl :: "('i, 'q, 'h, 's, 'c, 'v, 'm, 'o) plant" where
  first_start: "maybe_run (pl_setup pl) fail fails now cfg forced tty rs st = (rw, st') \<Longrightarrow>
    db_step pl (su_db st) (su_db st')"
| registered: "register (pl_auth pl) (pl_invites pl) (pl_config pl) g loc fails now dr p d ivs = (rr, d', ivs') \<Longrightarrow>
    db_step pl d d'"
| profile: "update_my_profile (pl_auth pl) wm_json mode ro g loc fails now user up d = (rp, d') \<Longrightarrow> db_step pl d d'"
| password: "change_my_password (pl_auth pl) g loc fails now salt user cp d = (rc, d') \<Longrightarrow> db_step pl d d'"
| uploaded: "process_upload (pl_upload pl) (pl_config pl) g loc fails bfails swap now drs cu bytes name ids app =
    Some (ru, app') \<Longrightarrow> db_step pl (ap_db app) (ap_db app')"
| image_deleted: "delete_image (ue_storage (pl_upload pl)) (pl_cache pl) us g loc fails now cu i s = Some (rj, s') \<Longrightarrow>
    db_step pl (site_db (s :: ('q, 'h, 's, 'c) site)) (site_db s')"
| images_deleted: "batch_delete (ue_storage (pl_upload pl)) (pl_cache pl) us g loc fails now cu is s = Some (rj, s') \<Longrightarrow>
    db_step pl (site_db (s :: ('q, 'h, 's, 'c) site)) (site_db s')"
| image_renamed: "db_step pl (site_db (s :: ('q, 'h, 's, 'c) site)) (site_db (snd (rename_image (pl_cache pl) us g loc fails now user i name s)))"
| image_moved: "db_step pl (site_db (s :: ('q, 'h, 's, 'c) site)) (site_db (snd (move_image (pl_cache pl) us g loc fails now user i c s)))"
| images_moved: "db_step pl (site_db (s :: ('q, 'h, 's, 'c) site)) (site_db (snd (batch_move_images (pl_cache pl) us g loc fails now user is k s)))"
| categories: "category_step d d' \<Longrightarrow> db_step pl d d'"
| configs: "config_step (pl_crypto pl) (pl_config pl) d d' \<Longrightarrow> db_step pl d d'"
| user_updated: "update_user (pl_auth pl) mode g loc fails salt cu user body d = (ri, d') \<Longrightarrow> db_step pl d d'"
| user_deleted: "delete_user (ue_storage (pl_upload pl)) g loc fails cu user (app :: ('q, 'h, 's) app) = Some (rd, app') \<Longrightarrow>
    db_step pl (ap_db app) (ap_db app')"
| linked: "oauth_link (pl_oauth pl) mode (pl_config pl) g loc fail cu provider code d h = Some (rj, d', h') \<Longrightarrow>
    db_step pl d d'"
| processed: "process_task (pl_worker pl) (pl_config pl) fails now task n w = (rt, n', w') \<Longrightarrow>
    db_step pl (wk_db w) (wk_db w')"
| dead_letter: "db_step pl d (handle_dead_letter fails now img_id retries max_ret err d)"

inductive db_reachable :: "('i, 'q, 'h, 's, 'c, 'v, 'm, 'o) plant \<Rightarrow> db \<Rightarrow> bool"
  for pl :: "('i, 'q, 'h, 's, 'c, 'v, 'm, 'o) plant" where
  created_empty: "db_reachable pl empty_db"
| one_more: "db_reachable pl d \<Longrightarrow> db_step pl d d' \<Longrightarrow> db_reachable pl d'"

section \<open>Users\<close>

definition fresh_user :: "db \<Rightarrow> user_row \<Rightarrow> bool" where
  "fresh_user d u \<longleftrightarrow> u_id u \<notin> set (map u_id (t_users d)) \<and> u_username u \<notin> set (map u_username (t_users d)) \<and>
     (u_email u = None \<or> u_email u \<notin> set (map u_email (t_users d)))"

lemma schema_add_user:
  assumes "schema_ok d" and "fresh_user d u" and "d' = d\<lparr>t_users := t_users d @ [u]\<rparr>"
  shows "schema_ok d'"
proof -
  have "users_unique (t_users d @ [u])"
    using assms(1,2) by (auto simp: schema_ok_def fresh_user_def users_unique_def List.map_filter_def image_iff
        split: option.splits)
  then show ?thesis
    using assms(1) unfolding assms(3)
    by (auto simp: schema_ok_def categories_used_def rows_of_users_def)
qed

lemma schema_set_user:
  assumes "schema_ok d" and "\<And>u. u_id (f u) = u_id u" and "users_unique (t_users (set_user f i d))"
  shows "schema_ok (set_user f i d)"
proof -
  have "map u_id (t_users (set_user f i d)) = map u_id (t_users d)"
    using assms(2) by (simp add: set_user_def)
  then show ?thesis
    using assms(1,3) unfolding schema_ok_def rows_of_users_def
    by (simp add: set_user_def categories_used_def)
qed

lemma insert_user_cases:
  assumes "insert_user fail uid now name email hash adm quota (t_users d) = (r, us)"
  shows "(\<exists>e. r = Inl e) \<and> us = t_users d \<or>
    r = Inr uid \<and> (\<exists>u. us = t_users d @ [u] \<and> u_id u = uid \<and> fresh_user d u)"
  using assms by (auto simp: insert_user_def fresh_user_def split: if_splits)

lemma prefix_of_new:
  assumes "fresh_user d u"
  shows "set_storage_prefix (u_id u) pf (d\<lparr>t_users := t_users d @ [u]\<rparr>) =
      d\<lparr>t_users := t_users d @ [u\<lparr>u_storage_prefix := pf\<rparr>]\<rparr>" and "fresh_user d (u\<lparr>u_storage_prefix := pf\<rparr>)"
  using assms set_prefix_others [of "u_id u" "t_users d" pf] by (auto simp: set_storage_prefix_def fresh_user_def)

lemma register_db:
  assumes "register env io cfg g loc fails now dr p d ivs = (r, d', ivs')"
  shows "d' = d \<or> (\<exists>u. d' = d\<lparr>t_users := t_users d @ [u]\<rparr> \<and> fresh_user d u)"
proof -
  have create: "d' = d \<or> (\<exists>u. d' = d\<lparr>t_users := t_users d @ [u]\<rparr> \<and> fresh_user d u)"
    if c: "create_user_and_tokens env io cfg g loc fails now dr p adm d ivs = (r, d', ivs')" for adm r d' ivs'
  proof (cases "ae_hash env (dr_salt dr) (rg_password p)")
    case None
    then show ?thesis using c by (simp add: create_user_and_tokens_def)
  next
    case (Some hash)
    let ?q = "if 0 < up_storage_quota_default (cf_upload cfg)
      then Some (as_i64 (int (up_storage_quota_default (cf_upload cfg)))) else None"
    obtain x d1 where i: "insert_user_row g loc (fails 1) (dr_user dr) now (rg_username p) (rg_email p) hash adm ?q d = (x, d1)"
      by fastforce
    show ?thesis
    proof (cases x)
      case (Inl e)
      then show ?thesis using c Some i insert_user_row_Inl [of g loc "fails 1"] by (simp add: create_user_and_tokens_def Let_def)
    next
      case (Inr k)
      from insert_user_row_Inr [OF i [unfolded Inr]] obtain u where
        u: "d1 = d\<lparr>t_users := t_users d @ [u]\<rparr>" "u_id u = k" "fresh_user d u" "k = dr_user dr"
        by (auto simp: fresh_user_def)
      have "d' = d1 \<or> (\<exists>pf. d' = set_storage_prefix k pf d1)"
        using c Some i Inr by (auto simp: create_user_and_tokens_def Let_def split: option.splits if_splits prod.splits)
      then show ?thesis using u prefix_of_new [OF u(3)] by auto
    qed
  qed
  then show ?thesis
    using assms by (auto simp: register_def Let_def split: sum.splits prod.splits)
qed

lemma admin_attempt_db:
  assumes "admin_attempt env cfg fails now draw rs d = Created d'"
  shows "\<exists>u. d' = d\<lparr>t_users := t_users d @ [u]\<rparr> \<and> fresh_user d u"
proof -
  obtain name email hash quota i us where
    ins: "insert_user (fails 0) (fst draw) now name email hash True quota (t_users d) = (Inr i, us)"
    and d': "d' = (if fails 1 then d\<lparr>t_users := us\<rparr>
        else set_storage_prefix i (''users/'' @ ae_uuid_str env i) (d\<lparr>t_users := us\<rparr>))"
    using assms unfolding admin_attempt_def
    by (auto simp: Let_def split: option.splits prod.splits if_splits sum.splits)
  from insert_user_cases [OF ins] obtain u where u: "us = t_users d @ [u]" "u_id u = i" "fresh_user d u" by auto
  show ?thesis using d' u prefix_of_new [OF u(3)] by auto
qed

lemma admin_loop_db:
  "admin_loop env cfg fails now draws n rs d = Inr d' \<Longrightarrow> \<exists>u. d' = d\<lparr>t_users := t_users d @ [u]\<rparr> \<and> fresh_user d u"
proof (induction env cfg fails now draws n rs d rule: admin_loop.induct)
  case (1 env cfg fails now draws n rs d)
  then show ?case
    by (cases "admin_attempt env cfg (\<lambda>k. fails (2 * n + k)) now (draws n) rs d")
      (auto simp: admin_loop.simps [of env cfg fails now draws n] dest: admin_attempt_db)
qed

lemma update_user_db:
  assumes "update_user env mode g loc fails salt cu user body d = (r, d')"
  shows "d' = d \<or> (\<exists>f. d' = set_user f user d \<and> (\<forall>u. u_id (f u) = u_id u) \<and>
    \<not> list_ex (\<lambda>u. user_conflicts (f u) (filter (\<lambda>u. u_id u \<noteq> user) (t_users d))) (filter (\<lambda>u. u_id u = user) (t_users d)))"
proof -
  have x: "d' = d \<or> (\<exists>f. d' = set_user f user d \<and> (\<forall>u. u_id (f u) = u_id u) \<and>
      \<not> list_ex (\<lambda>u. user_conflicts (f u) (filter (\<lambda>u. u_id u \<noteq> user) (t_users d))) (filter (\<lambda>u. u_id u = user) (t_users d)))"
    if "execute_user_update mode g loc fail user n h d = (y, d')" for fail n h y d'
    using that unfolding execute_user_update_def Let_def by (auto split: if_splits intro!: exI [of _ "assign_user_fields n h"])
  show ?thesis
    using assms x unfolding update_user_def by (auto split: if_splits sum.splits prod.splits)
qed

lemma schema_user_changed:
  assumes "schema_ok d" and "d' = set_user f user d" and "\<forall>u. u_id (f u) = u_id u"
    and "\<not> list_ex (\<lambda>u. user_conflicts (f u) (filter (\<lambda>u. u_id u \<noteq> user) (t_users d))) (filter (\<lambda>u. u_id u = user) (t_users d))"
  shows "schema_ok d'"
proof -
  have "users_unique (t_users (set_user f user d))"
    using assms(1,3,4) users_unique_set [of "t_users d" f user] by (simp add: schema_ok_def set_user_def)
  then show ?thesis unfolding assms(2) using assms(1,3) by (intro schema_set_user) simp_all
qed

lemma schema_profile:
  assumes "schema_ok d" and "update_my_profile env wm_json mode ro g loc fails now user p d = (r, d')"
  shows "schema_ok d'"
  using assms(2)
proof (cases rule: update_profile_cases)
  case (2 w)
  from apply_update_cases [OF 2(2)] assms(1) show ?thesis
    by (auto intro: schema_user_changed simp del: patch_user_sel(2-))
qed (use assms(1) in simp)

lemma schema_password:
  assumes "schema_ok d" and "change_my_password env g loc fails now salt user p d = (r, d')"
  shows "schema_ok d'"
proof -
  have "users_unique (t_users (set_user (\<lambda>u. u\<lparr>u_password_hash := h, u_updated_at := now\<rparr>) user d))" for h
  proof -
    let ?f = "\<lambda>u. if u_id u = user then u\<lparr>u_password_hash := h, u_updated_at := now\<rparr> else u"
    have same: "map u_id (map ?f us) = map u_id us" "map u_username (map ?f us) = map u_username us"
      "List.map_filter u_email (map ?f us) = List.map_filter u_email us" for us
      by (induction us) (simp_all add: List.map_filter_def)
    have "users_unique (map ?f (t_users d))"
      using assms(1) unfolding users_unique_def same schema_ok_def by blast
    then show ?thesis by (simp add: set_user_def)
  qed
  with password_changed [OF assms(2)] assms(1) show ?thesis by (auto intro: schema_set_user)
qed

section \<open>Images\<close>

text \<open>The columns of an image that the indexes and the owner go by.\<close>

definition image_keys :: "image_row \<Rightarrow> uuid \<times> string \<times> uuid \<times> string" where
  "image_keys x = (im_id x, im_public_key x, im_user_id x, im_sha256 x)"

lemma image_columns:
  assumes "map image_keys xs = map image_keys ys"
  shows "map im_id xs = map im_id ys" "map im_user_id xs = map im_user_id ys" "images_unique xs = images_unique ys"
proof -
  have col: "map (h \<circ> image_keys) xs = map (h \<circ> image_keys) ys" for h :: "uuid \<times> string \<times> uuid \<times> string \<Rightarrow> 'z"
    using assms by (metis map_map)
  from col [of fst] show "map im_id xs = map im_id ys" by (simp add: image_keys_def comp_def)
  moreover from col [of "\<lambda>k. fst (snd (snd k))"] show "map im_user_id xs = map im_user_id ys"
    by (simp add: image_keys_def comp_def)
  moreover from col [of "\<lambda>k. fst (snd k)"] have "map im_public_key xs = map im_public_key ys"
    by (simp add: image_keys_def comp_def)
  moreover from col [of "\<lambda>k. snd (snd k)"] have
    "map (\<lambda>i. (im_user_id i, im_sha256 i)) xs = map (\<lambda>i. (im_user_id i, im_sha256 i)) ys"
    by (simp add: image_keys_def comp_def)
  ultimately show "images_unique xs = images_unique ys" by (simp add: images_unique_def)
qed

text \<open>A change of images that keeps these columns and the owner of the category.\<close>

lemma schema_map_images:
  assumes "schema_ok d" and "\<And>x. image_keys (f x) = image_keys x" and "d' = d\<lparr>t_images := map f (t_images d)\<rparr>"
    and "categories_used d'"
  shows "schema_ok d'"
proof -
  have "map image_keys (t_images d') = map image_keys (t_images d)" using assms(2,3) by simp
  note c = image_columns [OF this]
  have rest: "t_users d' = t_users d" "t_categories d' = t_categories d" "t_configs d' = t_configs d" "t_oauth d' = t_oauth d"
    by (simp_all add: assms(3))
  show ?thesis
    using assms(1,4) unfolding schema_ok_def rows_of_users_def rest c by blast
qed

lemma used_map_images:
  assumes "categories_used d" and "\<And>x. im_category_id (f x) = im_category_id x \<and> im_user_id (f x) = im_user_id x"
  shows "categories_used (d\<lparr>t_images := map f (t_images d)\<rparr>)"
  using assms by (auto simp: categories_used_def)

lemma categories_owned_used: "categories_owned d = categories_used d"
  by (fastforce simp: categories_owned_def categories_used_def owned_category_def list_all_iff list_ex_iff
      split: option.splits)

lemma schema_set_category:
  assumes "schema_ok d" and "owned_category (t_categories d) c user"
  shows "schema_ok (set_category c user ids d)"
proof (rule schema_map_images [OF assms(1) _ set_category_def])
  show "categories_used (set_category c user ids d)"
    using set_category_owned [of d c user ids] assms by (simp add: categories_owned_used schema_ok_def)
qed (simp add: image_keys_def)

lemma schema_renamed: "schema_ok d \<Longrightarrow> schema_ok (renamed user i name d)"
  by (rule schema_map_images [OF _ _ renamed_def])
    (auto simp: renamed_def schema_ok_def image_keys_def intro!: used_map_images)

lemma schema_published: "schema_ok d \<Longrightarrow> schema_ok (published i width height tk tu wk wu d)"
  by (rule schema_map_images [OF _ _ published_def])
    (auto simp: published_def schema_ok_def image_keys_def set_variants_def intro!: used_map_images)

lemma schema_tasks: "schema_ok (d\<lparr>t_upload_tasks := ts\<rparr>) = schema_ok d"
  by (simp add: schema_ok_def categories_used_def rows_of_users_def)

lemma schema_dead_letter:
  assumes "schema_ok d"
  shows "schema_ok (handle_dead_letter fails now i rc mr err d)"
proof -
  have "schema_ok (d\<lparr>t_images := map (\<lambda>x. if im_id x = i then x\<lparr>im_status := ''failed''\<rparr> else x) (t_images d)\<rparr>)"
    if "schema_ok d" for d
    by (rule schema_map_images [OF that _ refl])
      (use that in \<open>auto simp: schema_ok_def image_keys_def intro!: used_map_images\<close>)
  with assms show ?thesis by (simp add: handle_dead_letter_def Let_def schema_tasks)
qed

lemma schema_add_image:
  assumes "schema_ok d" and "images_accept mode d x" and "im_category_id x = None"
  shows "schema_ok (d\<lparr>t_images := t_images d @ [x]\<rparr>)"
  using assms
  by (auto simp: schema_ok_def images_accept_def images_unique_def categories_used_def rows_of_users_def)

lemma schema_delete_rows:
  assumes "schema_ok d"
  shows "schema_ok (delete_rows ids d)"
proof -
  have "images_unique (filter P (t_images d))" for P
    using assms by (simp add: schema_ok_def images_unique_def distinct_map_filter)
  with assms show ?thesis
    by (auto simp: schema_ok_def delete_rows_def categories_used_def rows_of_users_def)
qed

lemma schema_upload:
  assumes "schema_ok (ap_db app)"
    and "process_upload env cfg g loc fails bfails swap now drs user bytes name ids app = Some (r, app')"
  shows "schema_ok (ap_db app')"
proof -
  from process_upload_cases [OF assms(2)] run_uploads_rows have "ap_db app' = ap_db app \<or>
    (\<exists>row cid. adds_image (dc_mode (cf_database cfg)) (ap_db app) (ap_db app') row (au_id user) (ue_sha256 env bytes)
      (as_i64 (int (length bytes))) cid)" by metis
  then show ?thesis using assms(1) by (auto simp: adds_image_def intro: schema_add_image)
qed

lemma delete_image_db:
  assumes "delete_image env co us g loc fails now user i s = Some (r, s')"
  shows "site_db s' = site_db s \<or> site_db s' = delete_rows [i] (site_db s)"
  using assms unfolding delete_image_def by (auto split: sum.splits option.splits if_splits)

lemma batch_delete_db:
  assumes "batch_delete env co us g loc fails now user ids s = Some (r, s')"
  shows "site_db s' = site_db s \<or> site_db s' = delete_rows ids (site_db s)"
  using assms unfolding batch_delete_def by (auto simp: Let_def split: sum.splits option.splits if_splits)

section \<open>Categories, configurations and links\<close>

lemma drop_categories_keys: "map image_keys (t_images (drop_categories ids d)) = map image_keys (t_images d)"
  by (simp add: drop_categories_def image_keys_def split: option.split)

lemma category_step_rest:
  assumes "category_step d d'"
  shows "t_users d' = t_users d \<and> t_configs d' = t_configs d \<and> t_oauth d' = t_oauth d \<and>
    map image_keys (t_images d') = map image_keys (t_images d) \<and>
    set (map cat_user_id (t_categories d')) \<subseteq> set (map cat_user_id (t_categories d)) \<union> set (map u_id (t_users d))"
  using assms
proof (cases rule: category_step.cases)
  case (created mode g loc fails now new_id user name parent)
  obtain r d1 where c: "create_category mode g loc fails now new_id user name parent d = (r, d1)" by fastforce
  from create_cases [OF c] show ?thesis unfolding created c by (auto simp: categories_accept_def)
next
  case (renamed mode g loc fails user i name)
  then show ?thesis by (auto simp: update_category_def Let_def split: sum.splits)
next
  case (deleted g loc fails user i)
  obtain r d1 where c: "delete_category g loc fails user i d = (r, d1)" by fastforce
  have "t_users (drop_categories ids d) = t_users d" "t_configs (drop_categories ids d) = t_configs d"
    "t_oauth (drop_categories ids d) = t_oauth d" "set (t_categories (drop_categories ids d)) \<subseteq> set (t_categories d)" for ids
    by (auto simp: drop_categories_def)
  with delete_cases [OF c] drop_categories_keys show ?thesis unfolding deleted c by fastforce
qed

lemma schema_category_step:
  assumes "schema_ok d" and "category_step d d'"
  shows "schema_ok d'"
proof -
  note rest = category_step_rest [OF assms(2)]
  then have eq: "t_users d' = t_users d" "t_configs d' = t_configs d" "t_oauth d' = t_oauth d" by blast+
  from rest have "map image_keys (t_images d') = map image_keys (t_images d)" by blast
  note c = image_columns [OF this]
  show ?thesis
    using assms(1) category_step_keeps [OF assms(2)] rest unfolding schema_ok_def rows_of_users_def eq c by blast
qed

text \<open>Only the configurations change, and those of existing owners or users.\<close>

definition configs_frame :: "db \<Rightarrow> db \<Rightarrow> bool" where
  "configs_frame d d' \<longleftrightarrow> (\<exists>cs. d' = d\<lparr>t_configs := cs\<rparr> \<and>
     sc_user_id ` set cs \<subseteq> sc_user_id ` set (t_configs d) \<union> u_id ` set (t_users d))"

lemma frame_refl: "configs_frame d d"
  unfolding configs_frame_def by (rule exI [of _ "t_configs d"]) simp

lemma frame_trans:
  assumes "configs_frame d d'" and "configs_frame d' e"
  shows "configs_frame d e"
proof -
  obtain cs where cs: "d' = d\<lparr>t_configs := cs\<rparr>" "sc_user_id ` set cs \<subseteq> sc_user_id ` set (t_configs d) \<union> u_id ` set (t_users d)"
    using assms(1) unfolding configs_frame_def by blast
  obtain es where "e = d'\<lparr>t_configs := es\<rparr>" "sc_user_id ` set es \<subseteq> sc_user_id ` set (t_configs d') \<union> u_id ` set (t_users d')"
    using assms(2) unfolding configs_frame_def by blast
  with cs have "e = d\<lparr>t_configs := es\<rparr> \<and> sc_user_id ` set es \<subseteq> sc_user_id ` set (t_configs d) \<union> u_id ` set (t_users d)"
    by (simp add: subset_iff) blast
  then show ?thesis unfolding configs_frame_def by blast
qed

lemma frame_clear: "configs_frame d (clear_defaults user d)"
  unfolding configs_frame_def clear_defaults_def by (rule exI, rule conjI [OF refl]) auto

lemma frame_set: "(\<And>c. sc_user_id (f c) = sc_user_id c) \<Longrightarrow> configs_frame d (set_config f i user d)"
  unfolding configs_frame_def set_config_def by (rule exI, rule conjI [OF refl]) auto

lemma frame_add: "sc_user_id c \<in> u_id ` set (t_users d) \<Longrightarrow> configs_frame d (d\<lparr>t_configs := t_configs d @ [c]\<rparr>)"
  unfolding configs_frame_def by (rule exI, rule conjI [OF refl]) auto

lemma frame_insert:
  assumes "insert_config mode g loc fail c d = (r, d')"
  shows "configs_frame d d'"
proof -
  have "d' = d \<or> sc_user_id c \<in> u_id ` set (t_users d) \<and> d' = d\<lparr>t_configs := t_configs d @ [c]\<rparr>"
    using assms by (auto simp: insert_config_def configs_accept_def split: if_splits)
  then show ?thesis by (elim disjE conjE) (simp_all add: frame_refl frame_add)
qed

lemma frame_unset: "unset_other_defaults g loc fail user d = (r, d') \<Longrightarrow> configs_frame d d'"
  by (auto simp: unset_other_defaults_def frame_refl frame_clear split: if_splits)

lemma frame_create:
  assumes "create_config http cl cfg g loc fails now new_id nonce user req d h = (r, d', h')"
  shows "configs_frame d d'"
proof -
  obtain x h1 where p: "prepare_config http cl cfg g loc fails nonce user req d h = (x, h1)" by fastforce
  show ?thesis
  proof (cases x)
    case (Inl e)
    then show ?thesis using assms p by (simp add: create_config_def frame_refl)
  next
    case (Inr enc)
    let ?c = "config_from_request now new_id user req enc"
    obtain y d1 where u: "(if sc_is_default ?c then unset_other_defaults g loc (fails 2) user d else (Inr (), d)) = (y, d1)"
      by fastforce
    then have f1: "configs_frame d d1" by (auto simp: frame_refl dest: frame_unset split: if_splits)
    obtain z d2 where i: "insert_config (dc_mode (cf_database cfg)) g loc (fails 3) ?c d1 = (z, d2)" by fastforce
    have "d' = d1 \<or> d' = d2"
      using assms unfolding create_config_def p Inr Let_def prod.case sum.case u i by (auto split: sum.splits)
    with f1 frame_trans [OF f1 frame_insert [OF i]] show ?thesis by blast
  qed
qed

lemma schema_configs:
  assumes "schema_ok d" and "configs_frame d d'"
  shows "schema_ok d'"
proof -
  obtain cs where cs: "d' = d\<lparr>t_configs := cs\<rparr>" "sc_user_id ` set cs \<subseteq> sc_user_id ` set (t_configs d) \<union> u_id ` set (t_users d)"
    using assms(2) unfolding configs_frame_def by blast
  have "rows_of_users d" using assms(1) by (simp add: schema_ok_def)
  then have "sc_user_id ` set (t_configs d) \<subseteq> u_id ` set (t_users d)" by (simp add: rows_of_users_def)
  from subset_trans [OF cs(2) Un_least [OF this subset_refl]]
  have "set (map sc_user_id cs) \<subseteq> set (map u_id (t_users d))" by simp
  with \<open>rows_of_users d\<close> have "rows_of_users d'" unfolding rows_of_users_def cs(1) by simp
  then show ?thesis using assms(1) by (simp add: schema_ok_def categories_used_def cs(1))
qed

lemma schema_config_step:
  assumes "schema_ok d" and "config_step cl cfg d d'"
  shows "schema_ok d'"
proof -
  have "configs_frame d d'"
    using assms(2)
  proof (cases rule: config_step.cases)
    case (created nonce req http g loc fails now new_id user h r h')
    from created(3) show ?thesis by (rule frame_create)
  next
    case updated
    then show ?thesis
      by (auto simp: update_config_def Let_def frame_refl frame_set split: sum.splits option.splits if_splits)
  next
    case deleted
    have "configs_frame d (d\<lparr>t_configs := filter P (t_configs d)\<rparr>)" for P
      unfolding configs_frame_def by (rule exI, rule conjI [OF refl]) auto
    with deleted show ?thesis by (auto simp: delete_config_def frame_refl split: sum.splits if_splits)
  next
    case (defaulted g loc fails now user i ru)
    show ?thesis
    proof (cases "fetch_user_config g loc (fails 0) d i user")
      case (Inr c)
      obtain x d1 where u: "unset_other_defaults g loc (fails 1) user d = (x, d1)" by fastforce
      have "d' = d1 \<or> (\<exists>f. d' = set_config f i user d1 \<and> (\<forall>c. sc_user_id (f c) = sc_user_id c))"
        using defaulted Inr u
        by (auto simp: set_default_def Let_def split: sum.splits if_splits
            intro!: exI [of _ "\<lambda>c. c\<lparr>sc_is_default := True, sc_updated_at := now\<rparr>"])
      with frame_unset [OF u] show ?thesis by (metis frame_trans frame_set)
    qed (use defaulted in \<open>simp add: set_default_def frame_refl\<close>)
  qed
  then show ?thesis using schema_configs [OF assms(1)] by blast
qed

lemma schema_link:
  assumes "schema_ok d" and "oauth_link lib mode cfg g loc fail user provider code d h = Some (r, d', h')"
  shows "schema_ok d'"
proof -
  have "oauth_unique (t_oauth d')" using oauth_first_link_stays [OF assms(2)] assms(1) by (simp add: schema_ok_def)
  moreover have "t_users d' = t_users d \<and> t_images d' = t_images d \<and> t_categories d' = t_categories d \<and>
      t_configs d' = t_configs d \<and> (t_oauth d' = t_oauth d \<or> user_by_id d (au_id user) \<noteq> None \<and>
        (\<exists>a. t_oauth d' = t_oauth d @ [a] \<and> oa_user_id a = au_id user))"
    using assms(2) by (auto simp: oauth_link_def insert_oauth_account_def split: option.splits sum.splits if_splits)
  moreover have "user_by_id d i \<noteq> None \<Longrightarrow> i \<in> u_id ` set (t_users d)" for i
    by (auto simp: user_by_id_def dest: find_SomeD)
  ultimately have eq: "t_users d' = t_users d" "t_images d' = t_images d" "t_categories d' = t_categories d"
    "t_configs d' = t_configs d" "oauth_unique (t_oauth d')"
    and sub: "set (map oa_user_id (t_oauth d')) \<subseteq> set (map oa_user_id (t_oauth d)) \<union> set (map u_id (t_users d))"
    by (fastforce simp: user_by_id_def dest: find_SomeD)+
  have "set (map oa_user_id (t_oauth d)) \<subseteq> set (map u_id (t_users d))"
    using assms(1) by (simp add: schema_ok_def rows_of_users_def)
  note accounts = subset_trans [OF sub Un_least [OF this subset_refl]]
  have "categories_used d'" using assms(1) by (simp add: schema_ok_def categories_used_def eq(2,3))
  then show ?thesis
    using assms(1) accounts eq(5) unfolding schema_ok_def rows_of_users_def eq(1-4) by fast
qed

section \<open>Deleted users\<close>

lemma delete_user_db:
  assumes "delete_user env g loc fails cu user app = Some (r, app')"
  shows "ap_db app' \<in> {ap_db app, delete_rows (map im_id (images_of (ap_db app) user)) (ap_db app)} \<or>
    delete_user_row user (delete_rows (map im_id (images_of (ap_db app) user)) (ap_db app)) = Some (ap_db app')"
proof -
  have x: "d = ap_db app \<or> d = delete_rows (map im_id (images_of (ap_db app) user)) (ap_db app) \<or>
      delete_user_row user (delete_rows (map im_id (images_of (ap_db app) user)) (ap_db app)) = Some d"
    if "delete_user_from_db g loc fs user (ap_db app) = (y, d)" for fs y d
    using that by (auto simp: delete_user_from_db_def Let_def split: if_splits option.splits)
  from assms show ?thesis
    by (auto simp: delete_user_def dest!: x split: if_splits sum.splits option.splits prod.splits)
qed

text \<open>The tables without a user and everything that is the user's.\<close>

definition without_user :: "uuid \<Rightarrow> db \<Rightarrow> db" where
  "without_user i d = d\<lparr>t_users := filter (\<lambda>u. u_id u \<noteq> i) (t_users d),
     t_images := filter (\<lambda>x. im_user_id x \<noteq> i) (t_images d),
     t_categories := filter (\<lambda>c. cat_user_id c \<noteq> i) (t_categories d),
     t_configs := filter (\<lambda>c. sc_user_id c \<noteq> i) (t_configs d),
     t_oauth := filter (\<lambda>a. oa_user_id a \<noteq> i) (t_oauth d)\<rparr>"

lemma map_filter_distinct: "distinct (List.map_filter f us) \<Longrightarrow> distinct (List.map_filter f (filter P us))"
  unfolding List.map_filter_def using distinct_map_filter [of "the \<circ> f" "filter (\<lambda>x. f x \<noteq> None) us" P]
  by (simp add: conj_commute)

lemma users_unique_filter: "users_unique us \<Longrightarrow> users_unique (filter P us)"
  by (simp add: users_unique_def distinct_map_filter map_filter_distinct)

lemma forest_filter:
  assumes "forest_ok cats"
  shows "forest_ok (filter (\<lambda>c. cat_user_id c \<noteq> i) cats)"
  using assms unfolding forest_ok_iff by (auto simp: distinct_map_filter) metis

lemma schema_without_user:
  assumes "schema_ok d"
  shows "schema_ok (without_user i d)"
proof -
  have "images_unique (filter P (t_images d))" "users_unique (filter Q (t_users d))" "oauth_unique (filter R (t_oauth d))"
    "forest_ok (filter (\<lambda>c. cat_user_id c \<noteq> i) (t_categories d))" for P Q R
    using assms by (auto simp: schema_ok_def images_unique_def oauth_unique_def distinct_map_filter forest_filter
        users_unique_filter)
  moreover have "categories_used (without_user i d)"
    using assms by (fastforce simp: schema_ok_def categories_used_def without_user_def)
  moreover have "rows_of_users (without_user i d)"
    using assms by (auto simp: schema_ok_def rows_of_users_def without_user_def)
  ultimately show ?thesis by (simp add: schema_ok_def without_user_def)
qed

lemma deleted_user_row:
  assumes "schema_ok d" and "delete_user_row i (delete_rows (map im_id (images_of d i)) d) = Some d'"
  shows "schema_ok d'"
proof -
  let ?e = "(delete_rows (map im_id (images_of d i)) d)\<lparr>t_users := filter (\<lambda>u. u_id u \<noteq> i) (t_users d),
    t_configs := filter (\<lambda>c. sc_user_id c \<noteq> i) (t_configs d), t_oauth := filter (\<lambda>a. oa_user_id a \<noteq> i) (t_oauth d)\<rparr>"
  have ims: "t_images ?e = filter (\<lambda>x. im_user_id x \<noteq> i) (t_images d)"
    using images_without_owner [of "t_images d" i] assms(1) by (simp add: delete_rows_def images_of_def schema_ok_def images_unique_def)
  have "d' = drop_categories (cascade (t_categories d) (map cat_id (filter (\<lambda>c. cat_user_id c = i) (t_categories d)))) ?e"
    using assms(2) unfolding delete_user_row_def Let_def by (auto simp: delete_rows_def split: if_splits)
  also have "\<dots> = ?e\<lparr>t_categories := filter (\<lambda>c. cat_user_id c \<noteq> i) (t_categories d)\<rparr>"
    using assms(1) ims by (intro drop_categories_of_owner) (auto simp: delete_rows_def schema_ok_def)
  finally have "d' = (without_user i d)\<lparr>t_upload_tasks := t_upload_tasks d'\<rparr>"
    using ims by (simp add: delete_rows_def without_user_def)
  with schema_without_user [OF assms(1)] schema_tasks show ?thesis by metis
qed

section \<open>Every step keeps the tables\<close>

lemma schema_delete_user:
  assumes "schema_ok (ap_db app)" and "delete_user env g loc fails cu user app = Some (r, app')"
  shows "schema_ok (ap_db app')"
  using delete_user_db [OF assms(2)] assms(1) deleted_user_row [OF assms(1)] schema_delete_rows by auto

lemma schema_first_start:
  assumes "schema_ok (su_db st)" and "maybe_run se fail fails now cfg forced tty rs st = (r, st')"
  shows "schema_ok (su_db st')"
  using maybe_run_db [OF assms(2)] assms(1) by (auto dest!: admin_loop_db intro: schema_add_user)

lemma schema_register:
  assumes "schema_ok d" and "register env io cfg g loc fails now dr p d ivs = (r, d', ivs')"
  shows "schema_ok d'"
  using register_db [OF assms(2)] assms(1) by (auto intro: schema_add_user)

lemma schema_update_user:
  assumes "schema_ok d" and "update_user env mode g loc fails salt cu user body d = (r, d')"
  shows "schema_ok d'"
  using update_user_db [OF assms(2)] assms(1) schema_user_changed by blast

lemma schema_moves:
  assumes "schema_ok (site_db s)"
  shows "schema_ok (site_db (snd (rename_image co us g loc fails now user i name s)))"
    and "schema_ok (site_db (snd (move_image co us g loc fails now user i c s)))"
    and "schema_ok (site_db (snd (batch_move_images co us g loc fails now user ids k s)))"
proof -
  show "schema_ok (site_db (snd (rename_image co us g loc fails now user i name s)))"
    using rename_cases [of co us g loc fails now user i name s] assms schema_renamed [OF assms] by auto
  show "schema_ok (site_db (snd (move_image co us g loc fails now user i c s)))"
    using move_cases [of co us g loc fails now user i c s] assms schema_set_category [OF assms] by auto
  show "schema_ok (site_db (snd (batch_move_images co us g loc fails now user ids k s)))"
    using batch_move_cases [of co us g loc fails now user ids k s] assms schema_set_category [OF assms] by auto
qed

lemma schema_processed:
  assumes "schema_ok (wk_db w)" and "process_task env cfg fails now task n w = (r, n', w')"
  shows "schema_ok (wk_db w')"
  using process_task_db [OF assms(2)] assms(1) schema_published by auto

lemma schema_step:
  assumes "db_step pl d d'" and "schema_ok d"
  shows "schema_ok d'"
  using assms
proof cases
  case image_deleted
  then show ?thesis using assms(2) delete_image_db [OF image_deleted(3)] schema_delete_rows by auto
next
  case images_deleted
  then show ?thesis using assms(2) batch_delete_db [OF images_deleted(3)] schema_delete_rows by auto
qed (use assms(2) in \<open>auto intro: schema_first_start schema_register schema_profile schema_password schema_upload
    schema_moves schema_category_step schema_config_step schema_update_user schema_delete_user schema_link
    schema_processed schema_dead_letter\<close>)

text \<open>
  Property C1. Whatever requests, worker tasks and first starts follow each other on an empty database,
  with any faults, the tables keep their keys: no two users share an id, a name or an email, no two
  images an id, a key or a (user, hash) pair, no two links a provider account; categories form a forest
  of depth two within their owner, an image lies only in a category of its owner, and every image,
  category, configuration and link belongs to a user that exists.
\<close>

theorem tables_stay_consistent:
  assumes "db_reachable pl d"
  shows "schema_ok d"
  using assms
proof induction
  case created_empty
  show ?case
    by (simp add: schema_ok_def empty_db_def users_unique_def images_unique_def forest_ok_def categories_used_def
        oauth_unique_def rows_of_users_def List.map_filter_def)
next
  case (one_more d d')
  then show ?case by (blast intro: schema_step)
qed

text \<open>The first start makes ann, who then makes a category.\<close>

definition demo_plant where
  "demo_plant = \<lparr>pl_config = default_app_config, pl_auth = demo_env, pl_invites = demo_invite_ops,
     pl_upload = demo_upload_env, pl_cache = demo_cache, pl_worker = demo_worker_env,
     pl_oauth = demo_oauth (JObj []), pl_crypto = demo_crypto, pl_setup = demo_setup\<rparr>"

theorem tables_stay_consistent_witness:
  "\<exists>d. db_reachable demo_plant d \<and> t_users d = [ann_row] \<and> length (t_categories d) = 1 \<and> schema_ok d"
proof -
  let ?a = "empty_db\<lparr>t_users := [ann_row]\<rparr>"
  let ?d = "snd (create_category SqliteMode demo_i18n En no_faults 0 5 1 ''cats'' None ?a)"
  obtain st' where "maybe_run demo_setup False no_faults 0 default_app_config False True ann_replies fresh_start =
     (Inr (Some default_app_config), st')" and db: "su_db st' = ?a" using demo_first_start by blast
  then have "db_step demo_plant (su_db fresh_start) (su_db st')"
    by (intro db_step.first_start) (auto simp: demo_plant_def)
  moreover have "su_db fresh_start = empty_db" by (simp add: fresh_start_def)
  ultimately have "db_reachable demo_plant ?a" using db by (metis created_empty one_more)
  then have reach: "db_reachable demo_plant ?d"
    by (blast intro: one_more db_step.categories category_step.created)
  have "t_users ?d = [ann_row]" "length (t_categories ?d) = 1" by code_simp+
  with reach tables_stay_consistent [OF reach] show ?thesis by blast
qed

end
