(* ===== verification/Spec2Isabelle.thy ===== *)
theory Spec2Isabelle
  imports Lite_Queue Auth_Props Images_Props Worker_Turns Categories_Props Upload_Url Users_Props Storage_Configs_Props Admin_Props Oauth_Props System_Config_Props Setup_Props App_Props Schema
begin

text \<open>
  A verification development of the image host \<open>pichost\<close>: the API server (\<open>pichost-api/src\<close>), the worker
  (\<open>pichost-worker/src\<close>) and the crate they share (\<open>pichost-core/src\<close>), both in the standard mode
  (PostgreSQL, Redis, separate workers) and in the lite mode (SQLite, worker in the server process).

  The program and how its parts meet. A request goes through the routing table and its guards (\<open>app.rs\<close>,
  \<open>middleware/\<close>) to a handler of \<open>routes/\<close>. Uploads are checked against type, size and quota, deduplicated,
  put into a storage backend (local directory, S3, a git repository of the user's) and recorded in
  \<open>images\<close>; a task is queued. The worker takes the task from the queue, reads the file, makes the
  thumbnail and the WebP variant, draws the watermark and updates the row; tasks that fail are tried again
  and end as dead letters. Tokens, invites, rate limits and caches live behind traits (\<open>state/mod.rs\<close>)
  with a Redis and a SQLite implementation each.

  Theories, by the code they model.

  \<^item> \<open>Prelude\<close>: identifiers, results, Rust's string operations and casts, lists of rows. \<open>Clock\<close>: instants and the
    two texts that the lite mode writes for them. \<open>Errors\<close>: \<open>error.rs\<close>, the kinds of database errors, JSON,
    error bodies. \<open>I18n\<close>: \<open>i18n.rs\<close>, \<open>i18n_ext.rs\<close>. \<open>App_Config\<close>: \<open>config.rs\<close>. \<open>Tables\<close>: \<open>models.rs\<close> and
    \<open>migrations/\<close>; one record per row, the state \<open>db\<close> is one list of rows per table.
  \<^item> \<open>State_Traits\<close>: the traits of \<open>state/mod.rs\<close> as records of operations, and the contracts their callers
    rely on as locales (\<open>token_blacklist\<close>, \<open>rate_limiter\<close>, \<open>invite_store\<close>, \<open>task_queue\<close>). \<open>Lite_State\<close> and
    \<open>Lite_Queue\<close>: \<open>state/sqlite_*.rs\<close> and the embedded worker of \<open>app.rs\<close>. \<open>Redis\<close>: the commands of the
    server that the code sends, with their documented effect. \<open>Redis_State\<close>, \<open>Redis_Props\<close>: \<open>cache/mod.rs\<close>,
    \<open>middleware/rate_limit.rs\<close>, the Redis part of \<open>middleware/auth.rs\<close>. \<open>Redis_Queue\<close>, \<open>Redis_Queue_Props\<close>: \<open>queue.rs\<close>.
    Each locale is interpreted on these definitions, and the properties rest on the interpretations.
  \<^item> \<open>Auth\<close>, \<open>Auth_Props\<close>: \<open>routes/auth.rs\<close>, \<open>middleware/auth.rs\<close>, \<open>services/user_ops.rs\<close>. \<open>Token_Codec\<close>: an encoding of
    tokens that satisfies the laws asked of the JWT library, used by the witnesses. \<open>Crypto\<close>: \<open>crypto.rs\<close>.
  \<^item> \<open>Storage\<close>, \<open>Storage_Props\<close>: \<open>storage/\<close>; the local backend interprets the locale \<open>object_store\<close>.
  \<^item> \<open>Upload\<close>, \<open>Upload_Props\<close>: \<open>services/upload.rs\<close>. \<open>Upload_Url\<close>: \<open>services/upload_url.rs\<close>. \<open>Images\<close>,
    \<open>Images_Props\<close>: \<open>routes/images.rs\<close>. \<open>Categories\<close>, \<open>Categories_Props\<close>: \<open>routes/categories.rs\<close>.
  \<^item> \<open>Floats\<close>: rounding of \<open>f32\<close> and \<open>f64\<close> on rationals. \<open>Watermark\<close>, \<open>Watermark_Props\<close>: \<open>watermark.rs\<close>, \<open>fonts.rs\<close>.
    \<open>Worker\<close>, \<open>Worker_Props\<close>, \<open>Worker_Turns\<close>: \<open>processor.rs\<close>, \<open>pipeline.rs\<close>, \<open>main.rs\<close> of the worker.
  \<^item> \<open>Users\<close>, \<open>Storage_Configs\<close>, \<open>Admin\<close>, \<open>Oauth\<close> with their \<open>_Props\<close>: the files of \<open>routes/\<close> of these names.
    \<open>System_Config\<close>: \<open>services/config.rs\<close> and the administration routes on \<open>config.toml\<close>.
  \<^item> \<open>Setup\<close>, \<open>Setup_Props\<close>: \<open>cli.rs\<close> and \<open>setup/\<close>, the first start.
  \<^item> \<open>Routes\<close>, \<open>App\<close>, \<open>App_Props\<close>: \<open>app.rs\<close>, \<open>routes/health.rs\<close>, \<open>middleware/metrics.rs\<close>.
  \<^item> \<open>Schema\<close>: every operation of the other theories that writes the database, as one step relation.

  How the code is read. A handler is a function of the state it works on, of the time and of what it draws
  at random, and returns its answer (\<open>Inl\<close> an error with status and body, \<open>Inr\<close> the answer) and the state. SQL
  is embedded code and modelled: a statement maps lists of rows to lists of rows, with the constraints and
  ON DELETE actions of the migrations. A Rust \<open>String\<close> is its UTF-8 bytes; UUIDs are numbers; machine
  integers are integers with the casts of the code written out (\<open>as_i64\<close>, \<open>as_i32\<close>, \<open>as_u32\<close>); an instant is in
  nanoseconds. Failures of the database, of files and of servers are an argument \<open>fails\<close>, indexed by the
  statements of a call in their order, so the theorems hold for every combination of faults that
  they do not exclude. Libraries and services (JWT, argon2, AES-GCM, the S3 and HTTP clients, the imaging
  and font libraries, the OAuth client, TOML, axum's path matcher, the Redis server) are records of
  functions; what is relied on is a definition named \<open>..._laws\<close>, each with an instance that satisfies it.

  What the lemmas show. \<open>Upload_Props\<close>: quota, deduplication, who owns the new row. \<open>Storage_Props\<close>: a backend is
  a map of its keys, git requests go to the hosts of the provider. \<open>Auth_Props\<close>: what an issued token
  is good for and until when, rotation, the invite gate, failure of the blacklist. \<open>Lite_*\<close>, \<open>Redis_*\<close>: no
  task is lost but by an ack, order of delivery, single use of invites, limits. \<open>Images_Props\<close>: pages
  partition the gallery, who may change which rows, the caches. \<open>Worker_*\<close>: one update per task, all
  or nothing; which variants exist; retries end; sizes stay in their bounds. \<open>Categories_Props\<close>: the forest
  invariant. \<open>Storage_Configs_Props\<close>, \<open>Users_Props\<close>, \<open>Admin_Props\<close>, \<open>Oauth_Props\<close>, \<open>System_Config_Props\<close>: the exact
  effect of each route on the tables and files, and what it leaves alone. \<open>Setup_Props\<close>: the environment
  file and the first administrator. \<open>App_Props\<close>: credentials before handlers, routing, limits.
  \<open>Schema\<close>: an invariant of all tables over all sequences of requests, worker tasks and first starts.

  Several properties (their kind is \<open>error\<close>) state behaviour that the code hardly means to have: other users'
  rows deleted by a batch, two administrators who demote each other, tasks of the lite mode retried for
  ever, a limit that a forged header evades. They are theorems on the definitions as the others are.

  Bounds and termination. Loops are structural recursions or functions with a proof of termination; the
  tiling of a watermark may run for ever and is \<open>partial_function\<close>, with the theorem that says exactly when it
  ends. There is no fuel. Theorems about retries quantify over every number of turns of the worker.
  The floating-point model rounds to nearest, ties to even, for the finite positive values that the code
  meets.

  Not modelled: merging the configuration from file and environment (figment); main functions, sockets, logging,
  spawning, migrations as such and the Windows service, which only call the parts above; the text format
  of the metrics; CORS; two listing functions of \<open>services/upload.rs\<close> that no route calls; interleavings within
  one handler, but for those that the theorems on invites, queues and administrators name; the web
  front end, installers and scripts.
\<close>

end
